(* ===== verification/Ghost_Prelude.thy ===== *)
theory Ghost_Prelude
  imports Main "HOL-Library.Word" "HOL-Library.Finite_Map"
    "HOL-Library.Sublist"
begin

text \<open>
  The shared vocabulary of the development: names for Rust's machine integers and byte vectors,
  \<open>Result\<close> as a sum (\<open>Inl\<close> is \<open>Err\<close>, \<open>Inr\<close> is \<open>Ok\<close>), big-endian byte encodings with their
  round trips, sizes of finite maps (\<open>HashMap\<close> is a finite map, \<open>HashSet\<close> a finite set), a stable
  sort by comparator, and the interfaces that several components implement:
  \<^item> \<open>event_machine\<close>: a step function that keeps an invariant, hence every run keeps it;
  \<^item> \<open>bounded_store\<close>: a container whose operations never exceed a fixed capacity;
  \<^item> \<open>monotone_guard\<close>: an operation that hands out or admits strictly increasing counters;
  \<^item> \<open>framed_channel\<close>: a sender and a receiver that stay synchronised, hence deliver whole
    streams in order;
  \<^item> \<open>once_guard\<close>: an operation that accepts each identifier at most once;
  \<^item> \<open>total_comparator\<close>: a comparator that is a total preorder, hence sorts.
  Durations and clock readings are natural numbers of nanoseconds; the readings of
  \<open>Instant::now()\<close> and \<open>SystemTime::now()\<close> are arguments of the operations that take them.
\<close>

subsection \<open>Names for the types of the program\<close>

type_synonym u8 = "8 word"
type_synonym u16 = "16 word"
type_synonym u32 = "32 word"
type_synonym u64 = "64 word"
type_synonym bytes = "u8 list"
type_synonym duration = nat
type_synonym instant = nat
type_synonym system_time = nat

abbreviation Ok :: "'a \<Rightarrow> 'e + 'a" where "Ok \<equiv> Inr"
abbreviation Err :: "'e \<Rightarrow> 'e + 'a" where "Err \<equiv> Inl"

definition U64_MAX :: nat where "U64_MAX = 2 ^ 64 - 1"
definition from_secs :: "nat \<Rightarrow> duration" where "from_secs s = s * 1000000000"
definition from_millis :: "nat \<Rightarrow> duration" where "from_millis s = s * 1000000"
definition as_millis :: "duration \<Rightarrow> nat" where "as_millis d = d div 1000000"

text \<open>\<open>SystemTime::duration_since\<close>: an error when the argument is later than the receiver.\<close>

definition duration_since :: "system_time \<Rightarrow> system_time \<Rightarrow> duration option" where
  "duration_since now t = (if t \<le> now then Some (now - t) else None)"

text \<open>\<open>u64::checked_add(1)\<close>.\<close>

definition checked_succ :: "u64 \<Rightarrow> u64 option" where
  "checked_succ w = (if w = - 1 then None else Some (w + 1))"

definition saturating_add_u64 :: "u64 \<Rightarrow> u64 \<Rightarrow> u64" where
  "saturating_add_u64 a b = (if unat a + unat b \<le> U64_MAX then a + b else - 1)"

text \<open>
  The collections of rewrite rules: \<open>frame_simps\<close> holds the facts that say which fields an
  operation leaves alone, \<open>sem_simps\<close> the unfolded behaviour of small operations.
\<close>

named_theorems frame_simps
named_theorems sem_simps

definition is_ok :: "'e + 'a \<Rightarrow> bool" where
  "is_ok r = (case r of Inl _ \<Rightarrow> False | Inr _ \<Rightarrow> True)"

definition map_err :: "('e \<Rightarrow> 'f) \<Rightarrow> 'e + 'a \<Rightarrow> 'f + 'a" where
  "map_err f r = (case r of Inl e \<Rightarrow> Inl (f e) | Inr x \<Rightarrow> Inr x)"

lemma is_ok_simps [simp]: "is_ok (Inr x)" "\<not> is_ok (Inl e)"
  by (simp_all add: is_ok_def)

lemma map_err_simps [simp]: "map_err f (Inr x) = Inr x" "map_err f (Inl e) = Inl (f e)"
  by (simp_all add: map_err_def)

lemma map_err_eq_Inr [simp]: "map_err f r = Inr x \<longleftrightarrow> r = Inr x"
  by (cases r) auto

lemma unat_u64_succ: "(w :: u64) \<noteq> - 1 \<Longrightarrow> unat (w + 1) = Suc (unat w)"
proof -
  assume "w \<noteq> - 1"
  then have "unat w \<noteq> unat (- 1 :: u64)"
    by (simp only: word_unat_eq_iff [symmetric] not_False_eq_True)
  moreover have "unat w < 2 ^ 64"
    using unsigned_less [of w, where ?'a = nat] by simp
  moreover have "unat (- 1 :: u64) = 2 ^ 64 - 1"
    by (simp add: unsigned_minus_1_eq_mask mask_eq_exp_minus_1)
  ultimately have "unat w + 1 < 2 ^ 64"
    by simp
  then show ?thesis
    by (simp add: unat_word_ariths)
qed

lemma checked_succ_Some: "checked_succ w = Some v \<Longrightarrow> unat v = Suc (unat w)"
  by (auto simp: checked_succ_def unat_u64_succ split: if_splits)

lemma checked_succ_SomeD: "checked_succ w = Some v \<Longrightarrow> v = w + 1 \<and> w < v \<and> w \<noteq> - 1"
  by (auto simp: checked_succ_def word_less_nat_alt unat_u64_succ split: if_splits)

subsection \<open>Big-endian encodings\<close>

text \<open>\<open>be_bytes n x\<close> is the \<open>n\<close>-byte big-endian encoding of \<open>x\<close>; \<open>be_value\<close> reads one back.\<close>

fun be_bytes :: "nat \<Rightarrow> nat \<Rightarrow> bytes" where
  "be_bytes 0 x = []"
| "be_bytes (Suc n) x = be_bytes n (x div 256) @ [of_nat (x mod 256)]"

fun be_value_acc :: "nat \<Rightarrow> bytes \<Rightarrow> nat" where
  "be_value_acc a [] = a"
| "be_value_acc a (b # bs) = be_value_acc (a * 256 + unat b) bs"

definition be_value :: "bytes \<Rightarrow> nat" where
  "be_value bs = be_value_acc 0 bs"

lemma length_be_bytes [simp]: "length (be_bytes n x) = n"
  by (induction n arbitrary: x) auto

lemma be_value_acc_append:
  "be_value_acc a (xs @ ys) = be_value_acc (be_value_acc a xs) ys"
  by (induction xs arbitrary: a) auto

lemma unat_u8_of_nat_mod [simp]: "unat (of_nat (x mod 256) :: u8) = x mod 256"
  by (simp add: unat_of_nat)

lemma be_value_be_bytes: "x < 256 ^ n \<Longrightarrow> be_value (be_bytes n x) = x"
proof (induction n arbitrary: x)
  case 0
  then show ?case by (simp add: be_value_def)
next
  case (Suc n)
  then have "x div 256 < 256 ^ n"
    by (simp add: less_mult_imp_div_less mult.commute)
  then show ?case
    using Suc.IH by (simp add: be_value_def be_value_acc_append)
qed

lemma be_value_snoc: "be_value (bs @ [b]) = be_value bs * 256 + unat b"
  by (simp add: be_value_def be_value_acc_append)

lemma be_value_less: "be_value bs < 256 ^ length bs"
proof (induction bs rule: rev_induct)
  case Nil
  then show ?case by (simp add: be_value_def)
next
  case (snoc b bs)
  have "unat b < 256"
    using unsigned_less [of b, where ?'a = nat] by simp
  with snoc show ?case
    by (simp add: be_value_snoc)
qed

lemma be_bytes_be_value: "be_bytes (length bs) (be_value bs) = bs"
proof (induction bs rule: rev_induct)
  case Nil
  then show ?case by simp
next
  case (snoc b bs)
  have "unat b < 256"
    using unsigned_less [of b, where ?'a = nat] by simp
  with snoc show ?case
    by (simp add: be_value_snoc unat_u8_of_nat_mod)
qed

definition u32_to_be_bytes :: "u32 \<Rightarrow> bytes" where
  "u32_to_be_bytes w = be_bytes 4 (unat w)"
definition u32_from_be_bytes :: "bytes \<Rightarrow> u32" where
  "u32_from_be_bytes bs = of_nat (be_value bs)"
definition u64_to_be_bytes :: "u64 \<Rightarrow> bytes" where
  "u64_to_be_bytes w = be_bytes 8 (unat w)"
definition u64_from_be_bytes :: "bytes \<Rightarrow> u64" where
  "u64_from_be_bytes bs = of_nat (be_value bs)"
definition u16_from_be_bytes :: "u8 \<Rightarrow> u8 \<Rightarrow> u16" where
  "u16_from_be_bytes hi lo = of_nat (be_value [hi, lo])"

lemma length_u32_to_be_bytes [simp]: "length (u32_to_be_bytes w) = 4"
  by (simp add: u32_to_be_bytes_def)

lemma length_u64_to_be_bytes [simp]: "length (u64_to_be_bytes w) = 8"
  by (simp add: u64_to_be_bytes_def)

lemma u32_be_roundtrip [simp]: "u32_from_be_bytes (u32_to_be_bytes w) = w"
proof -
  have "unat w < 256 ^ 4"
    using unsigned_less [of w, where ?'a = nat] by simp
  then show ?thesis
    by (simp add: u32_from_be_bytes_def u32_to_be_bytes_def be_value_be_bytes del: be_bytes.simps)
qed

lemma u64_be_roundtrip [simp]: "u64_from_be_bytes (u64_to_be_bytes w) = w"
proof -
  have "unat w < 256 ^ 8"
    using unsigned_less [of w, where ?'a = nat] by simp
  then show ?thesis
    by (simp add: u64_from_be_bytes_def u64_to_be_bytes_def be_value_be_bytes del: be_bytes.simps)
qed

lemma u64_to_be_bytes_inj: "u64_to_be_bytes v = u64_to_be_bytes w \<longleftrightarrow> v = w"
  by (metis u64_be_roundtrip)

subsection \<open>Sizes of finite maps and retained entries\<close>

text \<open>\<open>HashMap::len\<close> and \<open>HashMap::retain\<close>.\<close>

definition fm_size :: "('k, 'v) fmap \<Rightarrow> nat" where
  "fm_size m = fcard (fmdom m)"

definition fm_retain :: "('k \<Rightarrow> 'v \<Rightarrow> bool) \<Rightarrow> ('k, 'v) fmap \<Rightarrow> ('k, 'v) fmap" where
  "fm_retain P m = fmfilter (\<lambda>k. case fmlookup m k of None \<Rightarrow> False | Some v \<Rightarrow> P k v) m"

definition fm_contains :: "('k, 'v) fmap \<Rightarrow> 'k \<Rightarrow> bool" where
  "fm_contains m k = (fmlookup m k \<noteq> None)"

lemma fm_size_empty [simp]: "fm_size fmempty = 0"
  by (simp add: fm_size_def)

lemma fm_size_upd [simp]:
  "fm_size (fmupd k v m) = (if fmlookup m k = None then Suc (fm_size m) else fm_size m)"
  by (auto simp: fm_size_def fcard_finsert_if fmlookup_dom_iff)

lemma fm_size_mono: "fmdom m |\<subseteq>| fmdom n \<Longrightarrow> fm_size m \<le> fm_size n"
  by (simp add: fm_size_def fcard_mono)

lemma fm_size_drop_le [simp]: "fm_size (fmdrop k m) \<le> fm_size m"
  by (rule fm_size_mono) auto

lemma fm_size_filter_le [simp]: "fm_size (fmfilter P m) \<le> fm_size m"
  by (rule fm_size_mono) auto

lemma fm_size_retain_le [simp]: "fm_size (fm_retain P m) \<le> fm_size m"
  by (simp add: fm_retain_def)

lemma fmlookup_retain [simp]:
  "fmlookup (fm_retain P m) k =
     (case fmlookup m k of None \<Rightarrow> None | Some v \<Rightarrow> if P k v then Some v else None)"
  by (simp add: fm_retain_def split: option.splits)

lemma fm_retain_empty [simp]: "fm_retain P fmempty = fmempty"
  by (simp add: fm_retain_def)

lemma fm_retain_id: "(\<And>k v. fmlookup m k = Some v \<Longrightarrow> P k v) \<Longrightarrow> fm_retain P m = m"
  by (rule fmap_ext) (auto split: option.splits)

lemma fm_contains_lookup: "fm_contains m k \<longleftrightarrow> (\<exists>v. fmlookup m k = Some v)"
  by (auto simp: fm_contains_def)

lemma fm_contains_simps [simp]:
  "\<not> fm_contains fmempty k"
  "fm_contains (fmupd k v m) k' \<longleftrightarrow> k = k' \<or> fm_contains m k'"
  "fm_contains (fmdrop k m) k' \<longleftrightarrow> k \<noteq> k' \<and> fm_contains m k'"
  by (auto simp: fm_contains_def)

subsection \<open>Stable sorting by a comparator\<close>

datatype ordering = Less | Equal | Greater

definition cmp_nat :: "nat \<Rightarrow> nat \<Rightarrow> ordering" where
  "cmp_nat a b = (if a < b then Less else if a = b then Equal else Greater)"

definition then_with :: "ordering \<Rightarrow> ordering \<Rightarrow> ordering" where
  "then_with a b = (if a = Equal then b else a)"

fun insert_by :: "('a \<Rightarrow> 'a \<Rightarrow> ordering) \<Rightarrow> 'a \<Rightarrow> 'a list \<Rightarrow> 'a list" where
  "insert_by c x [] = [x]"
| "insert_by c x (y # ys) = (if c x y = Greater then y # insert_by c x ys else x # y # ys)"

text \<open>\<open>slice::sort_by\<close> is a stable sort: equal elements keep their order.\<close>

fun sort_by :: "('a \<Rightarrow> 'a \<Rightarrow> ordering) \<Rightarrow> 'a list \<Rightarrow> 'a list" where
  "sort_by c [] = []"
| "sort_by c (x # xs) = insert_by c x (sort_by c xs)"

lemma set_insert_by [simp]: "set (insert_by c x ys) = insert x (set ys)"
  by (induction ys) auto

lemma set_sort_by [simp]: "set (sort_by c xs) = set xs"
  by (induction xs) auto

lemma length_insert_by [simp]: "length (insert_by c x ys) = Suc (length ys)"
  by (induction ys) auto

lemma length_sort_by [simp]: "length (sort_by c xs) = length xs"
  by (induction xs) auto

lemma count_insert_by: "count_list (insert_by c x ys) z = count_list (x # ys) z"
  by (induction ys) auto

lemma count_sort_by: "count_list (sort_by c xs) z = count_list xs z"
  by (induction xs) (auto simp: count_insert_by)

locale total_comparator =
  fixes cmp :: "'a \<Rightarrow> 'a \<Rightarrow> ordering"
  assumes cmp_flip: "cmp x y = Greater \<longleftrightarrow> cmp y x = Less"
    and cmp_trans: "cmp x y \<noteq> Greater \<Longrightarrow> cmp y z \<noteq> Greater \<Longrightarrow> cmp x z \<noteq> Greater"
begin

lemma insert_by_sorted:
  "sorted_wrt (\<lambda>x y. cmp x y \<noteq> Greater) ys \<Longrightarrow>
   sorted_wrt (\<lambda>x y. cmp x y \<noteq> Greater) (insert_by cmp x ys)"
proof (induction ys)
  case Nil
  then show ?case by simp
next
  case (Cons y ys)
  show ?case
  proof (cases "cmp x y = Greater")
    case True
    then have "cmp y x \<noteq> Greater"
      using cmp_flip [of x y] by auto
    with Cons True show ?thesis by auto
  next
    case False
    with Cons.prems show ?thesis
      using cmp_trans by auto
  qed
qed

lemma sort_by_sorted: "sorted_wrt (\<lambda>x y. cmp x y \<noteq> Greater) (sort_by cmp xs)"
  by (induction xs) (auto intro: insert_by_sorted)

lemma sort_by_head_least: "x \<in> set xs \<Longrightarrow> cmp (hd (sort_by cmp xs)) x \<noteq> Greater"
proof -
  assume x: "x \<in> set xs"
  then obtain y ys where ys: "sort_by cmp xs = y # ys"
    by (cases "sort_by cmp xs") (auto dest: arg_cong [where f = set])
  have refl: "cmp y y \<noteq> Greater"
    using cmp_flip [of y y] by auto
  have "x \<in> set (y # ys)"
    using x by (simp flip: ys)
  then show ?thesis
    using sort_by_sorted [of xs] refl by (auto simp: ys)
qed

end

text \<open>Comparators by a numeric key, by two comparators in turn, and on strings.\<close>

lemma comparator_key: "total_comparator (\<lambda>x y. cmp_nat (f x) (f y))"
  by standard (auto simp: cmp_nat_def split: if_splits)

lemma comparator_flip: "total_comparator c \<Longrightarrow> total_comparator (\<lambda>x y. c y x)"
  unfolding total_comparator_def by metis

lemma comparator_equal:
  assumes "total_comparator c"
  shows "c x y = Equal \<longleftrightarrow> c x y \<noteq> Greater \<and> c y x \<noteq> Greater"
  using assms unfolding total_comparator_def by (metis ordering.distinct(3) ordering.distinct(5) ordering.exhaust)

lemma comparator_then_with:
  assumes a: "total_comparator a" and b: "total_comparator b"
  shows "total_comparator (\<lambda>x y. then_with (a x y) (b x y))"
proof
  have eq: "a x y = Equal \<longleftrightarrow> a y x = Equal" for x y
    using comparator_equal [OF a] by blast
  show "then_with (a x y) (b x y) = Greater \<longleftrightarrow> then_with (a y x) (b y x) = Less" for x y
    using eq [of x y] total_comparator.cmp_flip [OF a, of x y] total_comparator.cmp_flip [OF b, of x y]
    by (auto simp: then_with_def)
  show "then_with (a x z) (b x z) \<noteq> Greater"
    if "then_with (a x y) (b x y) \<noteq> Greater" "then_with (a y z) (b y z) \<noteq> Greater" for x y z
  proof -
    have ng: "a x y \<noteq> Greater" "a y z \<noteq> Greater"
      using that by (auto simp: then_with_def split: if_splits)
    then have xz: "a x z \<noteq> Greater" using total_comparator.cmp_trans [OF a] by blast
    show ?thesis
    proof (cases "a x z = Equal")
      case True
      then have "a z x \<noteq> Greater" using eq [of x z] by simp
      then have "a y x \<noteq> Greater" "a z y \<noteq> Greater"
        using ng total_comparator.cmp_trans [OF a] by blast+
      then have "a x y = Equal" "a y z = Equal" using comparator_equal [OF a] ng by blast+
      with that True show ?thesis
        using total_comparator.cmp_trans [OF b, of x y z] by (simp add: then_with_def)
    next
      case False
      with xz show ?thesis by (simp add: then_with_def)
    qed
  qed
qed

fun cmp_string :: "string \<Rightarrow> string \<Rightarrow> ordering" where
  "cmp_string [] [] = Equal"
| "cmp_string [] (_ # _) = Less"
| "cmp_string (_ # _) [] = Greater"
| "cmp_string (a # as) (b # bs) = then_with (cmp_nat (of_char a) (of_char b)) (cmp_string as bs)"

lemma cmp_nat_flip: "cmp_nat a b = Greater \<longleftrightarrow> cmp_nat b a = Less" "cmp_nat a b = Equal \<longleftrightarrow> cmp_nat b a = Equal"
  by (auto simp: cmp_nat_def split: if_splits)

lemma cmp_string_flip: "cmp_string a b = Greater \<longleftrightarrow> cmp_string b a = Less"
  by (induction a b rule: cmp_string.induct) (auto simp: then_with_def cmp_nat_def split: if_splits)

lemma cmp_string_trans:
  "cmp_string a b \<noteq> Greater \<Longrightarrow> cmp_string b c \<noteq> Greater \<Longrightarrow> cmp_string a c \<noteq> Greater"
proof (induction a b arbitrary: c rule: cmp_string.induct)
  case (4 a as b bs)
  then show ?case
    by (cases c) (auto simp: then_with_def cmp_nat_def split: if_splits)
next
  case (2 b bs)
  then show ?case by (cases c) auto
qed auto

lemma comparator_string: "total_comparator (\<lambda>x y. cmp_string (f x) (f y))"
  by standard (rule cmp_string_flip, rule cmp_string_trans)

subsection \<open>Runs of a step function and invariants\<close>

locale event_machine =
  fixes step :: "'s \<Rightarrow> 'e \<Rightarrow> 's"
    and inv :: "'s \<Rightarrow> bool"
  assumes step_inv: "inv s \<Longrightarrow> inv (step s e)"
begin

lemma run_inv: "inv s \<Longrightarrow> inv (foldl step s es)"
  by (induction es arbitrary: s) (auto intro: step_inv)

end

locale bounded_store =
  fixes step :: "'s \<Rightarrow> 'e \<Rightarrow> 's"
    and size_of :: "'s \<Rightarrow> nat"
    and capacity :: "'s \<Rightarrow> nat"
  assumes step_capacity: "capacity (step s e) = capacity s"
    and step_bounded: "size_of s \<le> capacity s \<Longrightarrow> size_of (step s e) \<le> capacity s"
begin

lemma run_capacity: "capacity (foldl step s es) = capacity s"
  by (induction es arbitrary: s) (auto simp: step_capacity)

end

sublocale bounded_store \<subseteq> bounded: event_machine step "\<lambda>s. size_of s \<le> capacity s"
  by unfold_locales (simp add: step_capacity step_bounded)

context bounded_store
begin

lemma run_bounded: "size_of s \<le> capacity s \<Longrightarrow> size_of (foldl step s es) \<le> capacity s"
  using bounded.run_inv [of s es] by (simp add: run_capacity)

end

subsection \<open>Strictly increasing counters\<close>

text \<open>
  \<open>accepted\<close> runs an operation over a list of inputs and collects the counters of the inputs it
  accepted; a refused input contributes nothing.
\<close>

fun accepted :: "('s \<Rightarrow> 'm \<Rightarrow> 'n option \<times> 's) \<Rightarrow> 's \<Rightarrow> 'm list \<Rightarrow> 'n list" where
  "accepted op s [] = []"
| "accepted op s (m # ms) =
     (case op s m of
        (None, s') \<Rightarrow> accepted op s' ms
      | (Some n, s') \<Rightarrow> n # accepted op s' ms)"

locale monotone_guard =
  fixes op :: "'s \<Rightarrow> 'm \<Rightarrow> 'n::linorder option \<times> 's"
    and last_of :: "'s \<Rightarrow> 'n option"
  assumes op_accept: "op s m = (Some n, s') \<Longrightarrow>
      (\<forall>l. last_of s = Some l \<longrightarrow> l < n) \<and> last_of s' = Some n"
    and op_refuse: "op s m = (None, s') \<Longrightarrow> last_of s = Some l \<Longrightarrow> \<exists>l'. last_of s' = Some l' \<and> l \<le> l'"
begin

lemma accepted_above:
  "last_of s = Some l \<Longrightarrow> n \<in> set (accepted op s ms) \<Longrightarrow> l < n"
proof (induction ms arbitrary: s l)
  case Nil
  then show ?case by simp
next
  case (Cons m ms)
  obtain r s' where eq: "op s m = (r, s')" by (cases "op s m")
  show ?case
  proof (cases r)
    case None
    with eq obtain l' where "last_of s' = Some l'" and "l \<le> l'"
      using op_refuse Cons.prems(1) by metis
    with Cons eq None show ?thesis by (auto dest: le_less_trans)
  next
    case (Some k)
    then have "l < k" and "last_of s' = Some k"
      using op_accept eq Cons.prems(1) by auto
    then show ?thesis
      using Cons eq Some by (auto dest: less_trans)
  qed
qed

lemma accepted_increasing: "sorted_wrt (<) (accepted op s ms)"
proof (induction ms arbitrary: s)
  case Nil
  then show ?case by simp
next
  case (Cons m ms)
  obtain r s' where eq: "op s m = (r, s')" by (cases "op s m")
  show ?case
  proof (cases r)
    case None
    then show ?thesis using Cons eq by simp
  next
    case (Some k)
    then have "last_of s' = Some k"
      using op_accept eq by blast
    then show ?thesis
      using Cons eq Some accepted_above by auto
  qed
qed

lemma accepted_distinct: "distinct (accepted op s ms)"
  using accepted_increasing strict_sorted_iff by blast

end

text \<open>An operation that accepts each identifier at most once.\<close>

locale once_guard =
  fixes op :: "'s \<Rightarrow> 'm \<Rightarrow> 'n option \<times> 's"
    and seen_of :: "'s \<Rightarrow> 'n set"
  assumes once_accept: "op s m = (Some n, s') \<Longrightarrow> n \<notin> seen_of s \<and> seen_of s' = insert n (seen_of s)"
    and once_refuse: "op s m = (None, s') \<Longrightarrow> seen_of s \<subseteq> seen_of s'"
begin

lemma accepted_fresh: "n \<in> set (accepted op s ms) \<Longrightarrow> n \<notin> seen_of s"
proof (induction ms arbitrary: s)
  case Nil
  then show ?case by simp
next
  case (Cons m ms)
  obtain r s' where eq: "op s m = (r, s')" by (cases "op s m")
  show ?case
  proof (cases r)
    case None
    then show ?thesis
      using Cons eq once_refuse by fastforce
  next
    case (Some k)
    then have "k \<notin> seen_of s" and "seen_of s' = insert k (seen_of s)"
      using once_accept eq by auto
    then show ?thesis
      using Cons eq Some by auto
  qed
qed

lemma accepted_once: "distinct (accepted op s ms)"
proof (induction ms arbitrary: s)
  case Nil
  then show ?case by simp
next
  case (Cons m ms)
  obtain r s' where eq: "op s m = (r, s')" by (cases "op s m")
  show ?case
  proof (cases r)
    case None
    then show ?thesis using Cons eq by simp
  next
    case (Some k)
    then have "k \<in> seen_of s'"
      using once_accept eq by blast
    then have "k \<notin> set (accepted op s' ms)"
      using accepted_fresh by blast
    then show ?thesis
      using Cons eq Some by simp
  qed
qed

end

subsection \<open>Synchronised senders and receivers\<close>

text \<open>
  \<open>send_all\<close> sends a list of messages and returns those that were sent, each with its frame;
  \<open>recv_all\<close> receives a list of frames and stops at the first error.
\<close>

fun send_all ::
  "('s \<Rightarrow> 'm \<Rightarrow> ('e + 'f) \<times> 's) \<Rightarrow> 's \<Rightarrow> 'm list \<Rightarrow> ('m \<times> 'f) list \<times> 's" where
  "send_all snd_op s [] = ([], s)"
| "send_all snd_op s (m # ms) =
     (case snd_op s m of
        (Inl e, s') \<Rightarrow> send_all snd_op s' ms
      | (Inr f, s') \<Rightarrow> (case send_all snd_op s' ms of (mfs, s'') \<Rightarrow> ((m, f) # mfs, s'')))"

fun recv_all ::
  "('r \<Rightarrow> 'f \<Rightarrow> ('e + 'm) \<times> 'r) \<Rightarrow> 'r \<Rightarrow> 'f list \<Rightarrow> ('e + 'm list) \<times> 'r" where
  "recv_all rcv_op r [] = (Inr [], r)"
| "recv_all rcv_op r (f # fs) =
     (case rcv_op r f of
        (Inl e, r') \<Rightarrow> (Inl e, r')
      | (Inr m, r') \<Rightarrow>
          (case recv_all rcv_op r' fs of
             (Inl e, r'') \<Rightarrow> (Inl e, r'')
           | (Inr ms, r'') \<Rightarrow> (Inr (m # ms), r'')))"

locale framed_channel =
  fixes snd_op :: "'s \<Rightarrow> 'm \<Rightarrow> ('e + 'f) \<times> 's"
    and rcv_op :: "'r \<Rightarrow> 'f \<Rightarrow> ('d + 'm) \<times> 'r"
    and synced :: "'s \<Rightarrow> 'r \<Rightarrow> bool"
    and sendable :: "'m \<Rightarrow> bool"
  assumes sent_received: "synced s r \<Longrightarrow> snd_op s m = (Inr f, s') \<Longrightarrow>
      \<exists>r'. rcv_op r f = (Inr m, r') \<and> synced s' r'"
    and refused_synced: "synced s r \<Longrightarrow> sendable m \<Longrightarrow> snd_op s m = (Inl e, s') \<Longrightarrow> synced s' r"
begin

lemma stream_delivered:
  "synced s r \<Longrightarrow> list_all sendable ms \<Longrightarrow> send_all snd_op s ms = (mfs, s') \<Longrightarrow>
   \<exists>r'. recv_all rcv_op r (map snd mfs) = (Inr (map fst mfs), r') \<and> synced s' r'"
proof (induction ms arbitrary: s r mfs)
  case Nil
  then show ?case by auto
next
  case (Cons m ms)
  obtain x s1 where eq: "snd_op s m = (x, s1)" by (cases "snd_op s m")
  show ?case
  proof (cases x)
    case (Inl e)
    with eq have "synced s1 r"
      using refused_synced Cons.prems(1,2) by auto
    moreover have "list_all sendable ms"
      using Cons.prems(2) by simp
    moreover have "send_all snd_op s1 ms = (mfs, s')"
      using Cons.prems(3) eq Inl by simp
    ultimately show ?thesis by (rule Cons.IH)
  next
    case (Inr f)
    obtain r1 where r1: "rcv_op r f = (Inr m, r1)" "synced s1 r1"
      using sent_received Cons.prems(1) eq Inr by blast
    obtain mfs1 where mfs1: "send_all snd_op s1 ms = (mfs1, s')" "mfs = (m, f) # mfs1"
      using Cons.prems(3) eq Inr by (auto split: prod.splits)
    from Cons.IH [OF r1(2) _ mfs1(1)] Cons.prems(2) obtain r2 where
      "recv_all rcv_op r1 (map snd mfs1) = (Inr (map fst mfs1), r2)" "synced s' r2"
      by auto
    then show ?thesis
      by (simp add: mfs1(2) r1(1))
  qed
qed

end

text \<open>
  Where a receiver also tolerates loss, every subsequence of the frames sent is received as the
  corresponding subsequence of the messages.
\<close>

locale lossy_channel = framed_channel snd_op rcv_op synced sendable
  for snd_op :: "'s \<Rightarrow> 'm \<Rightarrow> ('e + 'f) \<times> 's"
    and rcv_op :: "'r \<Rightarrow> 'f \<Rightarrow> ('d + 'm) \<times> 'r"
    and synced :: "'s \<Rightarrow> 'r \<Rightarrow> bool"
    and sendable :: "'m \<Rightarrow> bool" +
  assumes lost_synced: "synced s r \<Longrightarrow> snd_op s m = (Inr f, s') \<Longrightarrow> synced s' r"
begin

lemma subsequence_delivered:
  "synced s r \<Longrightarrow> list_all sendable ms \<Longrightarrow> send_all snd_op s ms = (mfs, s') \<Longrightarrow> subseq kept mfs \<Longrightarrow>
   \<exists>r'. recv_all rcv_op r (map snd kept) = (Inr (map fst kept), r') \<and> synced s' r'"
proof (induction ms arbitrary: s r mfs kept)
  case Nil
  then show ?case by (cases kept) auto
next
  case (Cons m ms)
  obtain x s1 where eq: "snd_op s m = (x, s1)" by (cases "snd_op s m")
  show ?case
  proof (cases x)
    case (Inl e)
    with eq have "synced s1 r"
      using refused_synced Cons.prems(1,2) by auto
    moreover have "list_all sendable ms"
      using Cons.prems(2) by simp
    moreover have "send_all snd_op s1 ms = (mfs, s')"
      using Cons.prems(3) eq Inl by simp
    ultimately show ?thesis using Cons.prems(4) by (rule Cons.IH)
  next
    case (Inr f)
    obtain mfs1 where mfs1: "send_all snd_op s1 ms = (mfs1, s')" "mfs = (m, f) # mfs1"
      using Cons.prems(3) eq Inr by (auto split: prod.splits)
    have lost: "synced s1 r"
      using lost_synced Cons.prems(1) eq Inr by blast
    show ?thesis
    proof (cases "subseq kept mfs1")
      case True
      with Cons.prems(2) show ?thesis by (intro Cons.IH [OF lost _ mfs1(1)]) simp_all
    next
      case False
      then obtain kept1 where kept1: "kept = (m, f) # kept1" "subseq kept1 mfs1"
        using Cons.prems(4) mfs1(2) by (cases kept) (auto split: if_splits)
      obtain r1 where r1: "rcv_op r f = (Inr m, r1)" "synced s1 r1"
        using sent_received Cons.prems(1) eq Inr by blast
      from Cons.IH [OF r1(2) _ mfs1(1) kept1(2)] Cons.prems(2) show ?thesis
        by (auto simp: kept1(1) r1(1))
    qed
  qed
qed

end

end
