(* ===== verification/Net_Types.thy ===== *)
theory Net_Types
  imports Ghost_Prelude
begin

text \<open>
  Identifiers and addresses shared by all components: \<open>SessionId\<close> (sixteen bytes), libp2p's
  \<open>PeerId\<close> (an opaque identity with decidable equality, carried as its bytes), and the standard
  library's IP and socket addresses with the predicates the sources call. An IPv4 address is a
  32-bit word and an IPv6 address a 128-bit word, both in network order, so that \<open>octets()\<close> is
  the big-endian encoding. \<open>SocketAddr\<close> carries the derived order of the standard library.
\<close>

unbundle bit_operations_syntax

datatype SessionId = SessionId bytes

datatype PeerId = PeerId bytes

subsection \<open>IP addresses\<close>

datatype IpAddr = V4 "32 word" | V6 "128 word"

fun is_ipv4 :: "IpAddr \<Rightarrow> bool" where
  "is_ipv4 (V4 _) = True"
| "is_ipv4 (V6 _) = False"

definition v4_octets :: "32 word \<Rightarrow> bytes" where
  "v4_octets a = be_bytes 4 (unat a)"
definition v4_from_octets :: "bytes \<Rightarrow> 32 word" where
  "v4_from_octets bs = of_nat (be_value bs)"
definition v6_octets :: "128 word \<Rightarrow> bytes" where
  "v6_octets a = be_bytes 16 (unat a)"
definition v6_from_octets :: "bytes \<Rightarrow> 128 word" where
  "v6_from_octets bs = of_nat (be_value bs)"

text \<open>\<open>Ipv6Addr::segments()[0]\<close>: the sixteen most significant bits.\<close>

definition v6_segment0 :: "128 word \<Rightarrow> u16" where
  "v6_segment0 a = ucast (drop_bit 112 a)"

text \<open>The \<open>index\<close>-th octet of an IPv4 address, the most significant first.\<close>

definition v4_octet :: "nat \<Rightarrow> 32 word \<Rightarrow> u8" where
  "v4_octet i a = ucast (drop_bit (24 - 8 * i) a)"

definition v4_is_loopback :: "32 word \<Rightarrow> bool" where
  "v4_is_loopback a = (v4_octet 0 a = 127)"
definition v4_is_private :: "32 word \<Rightarrow> bool" where
  "v4_is_private a =
     (v4_octet 0 a = 10
      \<or> v4_octet 0 a = 172 \<and> 16 \<le> v4_octet 1 a \<and> v4_octet 1 a \<le> 31
      \<or> v4_octet 0 a = 192 \<and> v4_octet 1 a = 168)"
definition v4_is_link_local :: "32 word \<Rightarrow> bool" where
  "v4_is_link_local a = (v4_octet 0 a = 169 \<and> v4_octet 1 a = 254)"
definition v4_is_multicast :: "32 word \<Rightarrow> bool" where
  "v4_is_multicast a = (224 \<le> v4_octet 0 a \<and> v4_octet 0 a \<le> 239)"
definition v4_broadcast :: "32 word" where
  "v4_broadcast = - 1"
definition v4_is_unspecified :: "32 word \<Rightarrow> bool" where
  "v4_is_unspecified a = (a = 0)"
definition v6_is_loopback :: "128 word \<Rightarrow> bool" where
  "v6_is_loopback a = (a = 1)"
definition v6_is_multicast :: "128 word \<Rightarrow> bool" where
  "v6_is_multicast a = ((v6_segment0 a AND 0xff00) = 0xff00)"
definition v6_is_unspecified :: "128 word \<Rightarrow> bool" where
  "v6_is_unspecified a = (a = 0)"

fun ip_is_unspecified :: "IpAddr \<Rightarrow> bool" where
  "ip_is_unspecified (V4 a) = v4_is_unspecified a"
| "ip_is_unspecified (V6 a) = v6_is_unspecified a"

fun ip_is_multicast :: "IpAddr \<Rightarrow> bool" where
  "ip_is_multicast (V4 a) = v4_is_multicast a"
| "ip_is_multicast (V6 a) = v6_is_multicast a"

lemma length_v4_octets [simp]: "length (v4_octets a) = 4"
  by (simp add: v4_octets_def)

lemma length_v6_octets [simp]: "length (v6_octets a) = 16"
  by (simp add: v6_octets_def)

lemma v4_octets_roundtrip [simp]: "v4_from_octets (v4_octets a) = a"
proof -
  have "unat a < 256 ^ 4"
    using unsigned_less [of a, where ?'a = nat] by simp
  then show ?thesis
    by (simp add: v4_from_octets_def v4_octets_def be_value_be_bytes del: be_bytes.simps)
qed

lemma v6_octets_roundtrip [simp]: "v6_from_octets (v6_octets a) = a"
proof -
  have "unat a < 256 ^ 16"
    using unsigned_less [of a, where ?'a = nat] by simp
  then show ?thesis
    by (simp add: v6_from_octets_def v6_octets_def be_value_be_bytes del: be_bytes.simps)
qed

lemma v6_from_octets_inverse: "length bs = 16 \<Longrightarrow> v6_octets (v6_from_octets bs) = bs"
proof -
  assume len: "length bs = 16"
  have "be_value bs < 256 ^ 16"
    using be_value_less [of bs] len by simp
  then have "unat (of_nat (be_value bs) :: 128 word) = be_value bs"
    by (simp add: unat_of_nat)
  then show ?thesis
    using be_bytes_be_value [of bs] len by (simp add: v6_from_octets_def v6_octets_def del: be_bytes.simps)
qed

lemma v4_from_octets_inverse: "length bs = 4 \<Longrightarrow> v4_octets (v4_from_octets bs) = bs"
proof -
  assume len: "length bs = 4"
  have "be_value bs < 256 ^ 4"
    using be_value_less [of bs] len by simp
  then have "unat (of_nat (be_value bs) :: 32 word) = be_value bs"
    by (simp add: unat_of_nat)
  then show ?thesis
    using be_bytes_be_value [of bs] len by (simp add: v4_from_octets_def v4_octets_def del: be_bytes.simps)
qed

subsection \<open>Socket addresses and their order\<close>

datatype SocketAddr =
    SocketV4 "32 word" u16
  | SocketV6 "128 word" u16 (flowinfo: u32) (scope_id: u32)

fun sock_ip :: "SocketAddr \<Rightarrow> IpAddr" where
  "sock_ip (SocketV4 a p) = V4 a"
| "sock_ip (SocketV6 a p f s) = V6 a"

fun sock_port :: "SocketAddr \<Rightarrow> u16" where
  "sock_port (SocketV4 a p) = p"
| "sock_port (SocketV6 a p f s) = p"

text \<open>\<open>SocketAddr::new(ip, port)\<close>: flow information and scope are zero.\<close>

fun sock_new :: "IpAddr \<Rightarrow> u16 \<Rightarrow> SocketAddr" where
  "sock_new (V4 a) p = SocketV4 a p"
| "sock_new (V6 a) p = SocketV6 a p 0 0"

definition sock_is_ipv4 :: "SocketAddr \<Rightarrow> bool" where
  "sock_is_ipv4 s = is_ipv4 (sock_ip s)"

lemma sock_new_port [simp]: "sock_port (sock_new ip p) = p"
  by (cases ip) auto

lemma sock_new_ip [simp]: "sock_ip (sock_new ip p) = ip"
  by (cases ip) auto

lemma sock_new_inject [simp]: "sock_new ip p = sock_new ip' p' \<longleftrightarrow> ip = ip' \<and> p = p'"
  by (cases ip; cases ip') auto

text \<open>
  The derived order: every IPv4 address is below every IPv6 address; within a family the fields
  are compared in order.
\<close>

fun sock_key :: "SocketAddr \<Rightarrow> nat \<times> nat \<times> nat \<times> nat \<times> nat" where
  "sock_key (SocketV4 a p) = (0, unat a, unat p, 0, 0)"
| "sock_key (SocketV6 a p f s) = (1, unat a, unat p, unat f, unat s)"

fun lex5_less :: "nat \<times> nat \<times> nat \<times> nat \<times> nat \<Rightarrow> nat \<times> nat \<times> nat \<times> nat \<times> nat \<Rightarrow> bool" where
  "lex5_less (a, b, c, d, e) (a', b', c', d', e') =
     (a < a' \<or> a = a' \<and> (b < b' \<or> b = b' \<and> (c < c' \<or> c = c' \<and> (d < d' \<or> d = d' \<and> e < e'))))"

lemma sock_key_inj: "sock_key x = sock_key y \<Longrightarrow> x = y"
  by (cases x; cases y) (auto simp: word_unat_eq_iff)

lemma lex5_irrefl: "\<not> lex5_less x x"
  by (cases x) auto

lemma lex5_trans: "lex5_less x y \<Longrightarrow> lex5_less y z \<Longrightarrow> lex5_less x z"
  by (cases x; cases y; cases z) auto

lemma lex5_total: "lex5_less x y \<or> x = y \<or> lex5_less y x"
  by (cases x; cases y) auto

instantiation SocketAddr :: linorder
begin

definition less_SocketAddr :: "SocketAddr \<Rightarrow> SocketAddr \<Rightarrow> bool" where
  "less_SocketAddr x y = lex5_less (sock_key x) (sock_key y)"

definition less_eq_SocketAddr :: "SocketAddr \<Rightarrow> SocketAddr \<Rightarrow> bool" where
  "less_eq_SocketAddr x y = (x = y \<or> lex5_less (sock_key x) (sock_key y))"

instance
proof
  fix x y z :: SocketAddr
  show "x < y \<longleftrightarrow> x \<le> y \<and> \<not> y \<le> x"
    unfolding less_SocketAddr_def less_eq_SocketAddr_def by (metis lex5_irrefl lex5_trans)
  show "x \<le> x"
    by (simp add: less_eq_SocketAddr_def)
  show "x \<le> y \<Longrightarrow> y \<le> z \<Longrightarrow> x \<le> z"
    unfolding less_eq_SocketAddr_def by (metis lex5_trans)
  show "x \<le> y \<Longrightarrow> y \<le> x \<Longrightarrow> x = y"
    unfolding less_eq_SocketAddr_def by (metis lex5_irrefl lex5_trans)
  show "x \<le> y \<or> y \<le> x"
    unfolding less_eq_SocketAddr_def by (metis lex5_total sock_key_inj)
qed

end

end
