(* ===== verification/Session.thy ===== *)
theory Session
  imports Net_Types
begin

text \<open>
  \<open>network/src/session.rs\<close>: the authenticated key exchange between two peers and the encrypted
  session it yields. The cryptography, libp2p's identities and serde's JSON are not part of the
  repository: they are the fields of \<open>SessionLib\<close>, an argument of every operation that calls them,
  and \<open>session_lib_ok\<close> states the documented laws the operations rely on. Random values
  (session identifiers, ephemeral secrets) are arguments of the operations that draw them.
\<close>

subsection \<open>The libraries the session layer calls\<close>

datatype Keypair = Keypair bytes
datatype PublicKey = PublicKey bytes

datatype RouteBinding =
    OneHop (rb_relay: PeerId)
  | TwoHop (rb_entry: PeerId) (rb_exit: PeerId) (rb_exit_address: string)

datatype WireRouteBinding =
    Wire_OneHop string
  | Wire_TwoHop string string string

record SessionLib =
  keypair_public :: "Keypair \<Rightarrow> PublicKey"
  keypair_sign :: "Keypair \<Rightarrow> bytes \<Rightarrow> bytes"
  pk_encode_protobuf :: "PublicKey \<Rightarrow> bytes"
  pk_try_decode_protobuf :: "bytes \<Rightarrow> PublicKey option"
  pk_to_peer_id :: "PublicKey \<Rightarrow> PeerId"
  pk_verify :: "PublicKey \<Rightarrow> bytes \<Rightarrow> bytes \<Rightarrow> bool"
  peer_to_string :: "PeerId \<Rightarrow> string"
  peer_parse :: "string \<Rightarrow> PeerId option"
  x25519_public :: "bytes \<Rightarrow> bytes"
  diffie_hellman :: "bytes \<Rightarrow> bytes \<Rightarrow> bytes"
  sha256 :: "bytes \<Rightarrow> bytes"
  hkdf_expand :: "bytes \<Rightarrow> bytes \<Rightarrow> bytes \<Rightarrow> nat \<Rightarrow> bytes"
  aead_encrypt :: "bytes \<Rightarrow> bytes \<Rightarrow> bytes \<Rightarrow> bytes \<Rightarrow> bytes option"
  aead_decrypt :: "bytes \<Rightarrow> bytes \<Rightarrow> bytes \<Rightarrow> bytes \<Rightarrow> bytes option"
  wire_route_json :: "WireRouteBinding \<Rightarrow> bytes"

text \<open>
  The laws: signatures made with a key verify under its public half, encodings decode to what was
  encoded, X25519 key agreement is symmetric, and the AEAD decrypts exactly what it encrypted
  under the same key, nonce and associated data.
\<close>

definition identity_ok :: "SessionLib \<Rightarrow> bool" where
  "identity_ok L \<longleftrightarrow>
     (\<forall>kp m. pk_verify L (keypair_public L kp) m (keypair_sign L kp m)) \<and>
     (\<forall>pk. pk_try_decode_protobuf L (pk_encode_protobuf L pk) = Some pk) \<and>
     (\<forall>p. peer_parse L (peer_to_string L p) = Some p)"

definition dh_ok :: "SessionLib \<Rightarrow> bool" where
  "dh_ok L \<longleftrightarrow>
     (\<forall>a b. diffie_hellman L a (x25519_public L b) = diffie_hellman L b (x25519_public L a))"

definition aead_ok :: "SessionLib \<Rightarrow> bool" where
  "aead_ok L \<longleftrightarrow>
     (\<forall>k n m a c. aead_encrypt L k n m a = Some c \<longrightarrow> aead_decrypt L k n c a = Some m)"

definition session_lib_ok :: "SessionLib \<Rightarrow> bool" where
  "session_lib_ok L \<longleftrightarrow> identity_ok L \<and> dh_ok L \<and> aead_ok L"

text \<open>A Rust string slice as bytes.\<close>

definition str_bytes :: "string \<Rightarrow> bytes" where
  "str_bytes s = map of_char s"

subsection \<open>State and messages\<close>

datatype SessionRole = Initiator | Responder

datatype SessionState =
  Session_Negotiating | Session_Established | Session_Failed | Session_Closed

datatype SessionError =
    UnsupportedProtocol string string
  | InvalidIdentity string
  | IdentityMismatch string string
  | InvalidRoute string
  | InvalidKeyMaterial
  | Session_AuthenticationFailed
  | DuplicateSession
  | SessionIdMismatch
  | Session_InvalidState SessionState string
  | Session_EncryptionFailed
  | Session_DecryptionFailed

record HandshakeInit =
  hi_kind :: string
  hi_protocol_version :: string
  hi_session_id :: SessionId
  hi_initiator_identity :: string
  hi_responder_identity :: string
  hi_initiator_public_key :: bytes
  hi_ephemeral_public_key :: bytes
  hi_route_context :: RouteBinding
  hi_authentication :: bytes

record HandshakeResponse =
  hr_kind :: string
  hr_protocol_version :: string
  hr_session_id :: SessionId
  hr_initiator_identity :: string
  hr_responder_identity :: string
  hr_responder_public_key :: bytes
  hr_ephemeral_public_key :: bytes
  hr_route_context :: RouteBinding
  hr_authentication :: bytes

record SessionInitiator =
  si_identity :: Keypair
  si_expected_peer :: PeerId
  si_route :: RouteBinding
  si_protocol_version :: string
  si_session_id :: SessionId
  si_secret :: bytes
  si_state :: SessionState

record SessionResponder =
  sr_identity :: Keypair
  sr_seen_sessions :: "SessionId fset"

record SecureSession =
  ss_session_id :: SessionId
  ss_peer_id :: PeerId
  ss_route :: RouteBinding
  ss_role :: SessionRole
  ss_state :: SessionState
  ss_send_key :: bytes
  ss_receive_key :: bytes
  ss_send_nonce :: u64
  ss_last_received_nonce :: "u64 option"

subsection \<open>Routes\<close>

fun route_serialize :: "SessionLib \<Rightarrow> RouteBinding \<Rightarrow> WireRouteBinding" where
  "route_serialize L (OneHop relay) = Wire_OneHop (peer_to_string L relay)"
| "route_serialize L (TwoHop entry exit address) =
     Wire_TwoHop (peer_to_string L entry) (peer_to_string L exit) address"

fun route_deserialize :: "SessionLib \<Rightarrow> WireRouteBinding \<Rightarrow> RouteBinding option" where
  "route_deserialize L (Wire_OneHop relay) = map_option OneHop (peer_parse L relay)"
| "route_deserialize L (Wire_TwoHop entry exit address) =
     (case peer_parse L entry of
        None \<Rightarrow> None
      | Some en \<Rightarrow> (case peer_parse L exit of None \<Rightarrow> None | Some ex \<Rightarrow> Some (TwoHop en ex address)))"

definition route_json :: "SessionLib \<Rightarrow> RouteBinding \<Rightarrow> bytes" where
  "route_json L r = wire_route_json L (route_serialize L r)"

fun route_peers :: "RouteBinding \<Rightarrow> PeerId list" where
  "route_peers (OneHop relay) = [relay]"
| "route_peers (TwoHop entry exit _) = [entry, exit]"

definition route_contains :: "RouteBinding \<Rightarrow> PeerId \<Rightarrow> bool" where
  "route_contains r p = (p \<in> set (route_peers r))"

fun route_validate :: "RouteBinding \<Rightarrow> SessionError + unit" where
  "route_validate (TwoHop entry exit _) =
     (if entry = exit then Err (InvalidRoute ''entry and exit must differ'') else Ok ())"
| "route_validate (OneHop _) = Ok ()"

subsection \<open>Transcripts and key derivation\<close>

definition SESSION_PROTOCOL :: bytes where
  "SESSION_PROTOCOL = str_bytes ''ghost-layer/session/1''"

fun session_id_bytes :: "SessionId \<Rightarrow> bytes" where
  "session_id_bytes (SessionId b) = b"

definition transcript ::
  "SessionLib \<Rightarrow> string \<Rightarrow> SessionId \<Rightarrow> RouteBinding \<Rightarrow> bytes \<Rightarrow> bytes \<Rightarrow> bytes" where
  "transcript L protocol sid route public_key ephemeral =
     SESSION_PROTOCOL @ str_bytes protocol @ session_id_bytes sid @ route_json L route
       @ public_key @ ephemeral"

definition derive_session ::
  "SessionLib \<Rightarrow> SessionId \<Rightarrow> PeerId \<Rightarrow> RouteBinding \<Rightarrow> SessionRole \<Rightarrow> bytes \<Rightarrow> string \<Rightarrow> SecureSession" where
  "derive_session L sid peer route role shared protocol =
     (let salt = sha256 L (SESSION_PROTOCOL @ str_bytes protocol @ route_json L route
                             @ session_id_bytes sid);
          okm = hkdf_expand L salt shared (str_bytes ''ghost-layer directional session keys'') 64;
          first = take 32 okm;
          second = drop 32 okm
      in \<lparr>ss_session_id = sid, ss_peer_id = peer, ss_route = route, ss_role = role,
          ss_state = Session_Established,
          ss_send_key = (if role = Initiator then first else second),
          ss_receive_key = (if role = Initiator then second else first),
          ss_send_nonce = 0, ss_last_received_nonce = None\<rparr>)"

definition nonce_from_counter :: "u64 \<Rightarrow> bytes" where
  "nonce_from_counter c = replicate 4 0 @ u64_to_be_bytes c"

definition all_zero :: "bytes \<Rightarrow> bool" where
  "all_zero bs = list_all (\<lambda>b. b = 0) bs"

subsection \<open>The initiator\<close>

definition initiator_new ::
  "Keypair \<Rightarrow> PeerId \<Rightarrow> RouteBinding \<Rightarrow> string \<Rightarrow> SessionId \<Rightarrow> bytes \<Rightarrow> SessionError + SessionInitiator" where
  "initiator_new identity expected route protocol sid secret =
     (case route_validate route of
        Inl e \<Rightarrow> Err e
      | Inr _ \<Rightarrow>
          if \<not> route_contains route expected then
            Err (InvalidRoute ''expected peer is not in route'')
          else Ok \<lparr>si_identity = identity, si_expected_peer = expected, si_route = route,
                   si_protocol_version = protocol, si_session_id = sid, si_secret = secret,
                   si_state = Session_Negotiating\<rparr>)"

definition build_init :: "SessionLib \<Rightarrow> SessionInitiator \<Rightarrow> SessionError + HandshakeInit" where
  "build_init L i =
     (if si_state i \<noteq> Session_Negotiating then
        Err (Session_InvalidState (si_state i) ''build_init'')
      else
        let public = keypair_public L (si_identity i);
            public_bytes = pk_encode_protobuf L public;
            ephemeral = x25519_public L (si_secret i);
            authentication = keypair_sign L (si_identity i)
              (transcript L (si_protocol_version i) (si_session_id i) (si_route i) public_bytes ephemeral)
        in Ok \<lparr>hi_kind = ''secure_session_init'',
               hi_protocol_version = si_protocol_version i,
               hi_session_id = si_session_id i,
               hi_initiator_identity = peer_to_string L (pk_to_peer_id L public),
               hi_responder_identity = peer_to_string L (si_expected_peer i),
               hi_initiator_public_key = public_bytes,
               hi_ephemeral_public_key = ephemeral,
               hi_route_context = si_route i,
               hi_authentication = authentication\<rparr>)"

definition validate_response ::
  "SessionLib \<Rightarrow> HandshakeResponse \<Rightarrow> SessionId \<Rightarrow> PeerId \<Rightarrow> PeerId \<Rightarrow> RouteBinding \<Rightarrow> string
     \<Rightarrow> SessionError + unit" where
  "validate_response L r sid initiator_peer expected_peer route protocol =
     (if hr_protocol_version r \<noteq> protocol then
        Err (UnsupportedProtocol protocol (hr_protocol_version r))
      else if hr_session_id r \<noteq> sid then Err SessionIdMismatch
      else if hr_route_context r \<noteq> route then Err (InvalidRoute ''route context mismatch'')
      else case pk_try_decode_protobuf L (hr_responder_public_key r) of
          None \<Rightarrow> Err InvalidKeyMaterial
        | Some public \<Rightarrow>
            let actual = pk_to_peer_id L public in
            if actual \<noteq> expected_peer then
              Err (IdentityMismatch (peer_to_string L expected_peer) (peer_to_string L actual))
            else case peer_parse L (hr_initiator_identity r) of
                None \<Rightarrow> Err (InvalidIdentity (hr_initiator_identity r))
              | Some p \<Rightarrow>
                  if p \<noteq> initiator_peer then
                    Err (IdentityMismatch (peer_to_string L initiator_peer) (peer_to_string L p))
                  else if \<not> pk_verify L public
                      (transcript L protocol sid route (hr_responder_public_key r)
                         (hr_ephemeral_public_key r))
                      (hr_authentication r)
                  then Err Session_AuthenticationFailed
                  else Ok ())"

definition initiator_complete ::
  "SessionLib \<Rightarrow> SessionInitiator \<Rightarrow> HandshakeResponse \<Rightarrow> SessionError + SecureSession" where
  "initiator_complete L i r =
     (if si_state i \<noteq> Session_Negotiating then
        Err (Session_InvalidState (si_state i) ''complete'')
      else case validate_response L r (si_session_id i)
             (pk_to_peer_id L (keypair_public L (si_identity i))) (si_expected_peer i)
             (si_route i) (si_protocol_version i) of
          Inl e \<Rightarrow> Err e
        | Inr _ \<Rightarrow>
            let shared = diffie_hellman L (si_secret i) (hr_ephemeral_public_key r) in
            if all_zero shared then Err InvalidKeyMaterial
            else Ok (derive_session L (si_session_id i) (si_expected_peer i) (si_route i)
                       Initiator shared (si_protocol_version i)))"

subsection \<open>The responder\<close>

definition responder_new :: "Keypair \<Rightarrow> SessionResponder" where
  "responder_new identity = \<lparr>sr_identity = identity, sr_seen_sessions = {||}\<rparr>"

definition validate_init ::
  "SessionLib \<Rightarrow> HandshakeInit \<Rightarrow> PeerId \<Rightarrow> PeerId \<Rightarrow> RouteBinding \<Rightarrow> string \<Rightarrow> SessionError + unit" where
  "validate_init L m transport_peer responder_peer expected_route protocol =
     (case route_validate expected_route of
        Inl e \<Rightarrow> Err e
      | Inr _ \<Rightarrow>
        if hi_protocol_version m \<noteq> protocol then
          Err (UnsupportedProtocol protocol (hi_protocol_version m))
        else case peer_parse L (hi_responder_identity m) of
          None \<Rightarrow> Err (InvalidIdentity (hi_responder_identity m))
        | Some rp \<Rightarrow>
          if rp \<noteq> responder_peer then
            Err (IdentityMismatch (peer_to_string L responder_peer) (peer_to_string L rp))
          else if hi_route_context m \<noteq> expected_route then
            Err (InvalidRoute ''route context mismatch'')
          else case pk_try_decode_protobuf L (hi_initiator_public_key m) of
            None \<Rightarrow> Err InvalidKeyMaterial
          | Some public \<Rightarrow>
            let actual = pk_to_peer_id L public in
            case peer_parse L (hi_initiator_identity m) of
              None \<Rightarrow> Err (InvalidIdentity (hi_initiator_identity m))
            | Some ip \<Rightarrow>
              if ip \<noteq> actual then
                Err (IdentityMismatch (peer_to_string L actual) (peer_to_string L actual))
              else if actual \<noteq> transport_peer then
                Err (IdentityMismatch (peer_to_string L transport_peer) (peer_to_string L actual))
              else if \<not> pk_verify L public
                  (transcript L protocol (hi_session_id m) expected_route
                     (hi_initiator_public_key m) (hi_ephemeral_public_key m))
                  (hi_authentication m)
              then Err Session_AuthenticationFailed
              else Ok ())"

definition accept_init ::
  "SessionLib \<Rightarrow> SessionResponder \<Rightarrow> HandshakeInit \<Rightarrow> PeerId \<Rightarrow> string \<Rightarrow> bytes
     \<Rightarrow> (SessionError + (HandshakeResponse \<times> SecureSession)) \<times> SessionResponder" where
  "accept_init L r m transport_peer protocol secret =
     (let own = pk_to_peer_id L (keypair_public L (sr_identity r));
          expected_route = hi_route_context m in
      if hi_session_id m |\<in>| sr_seen_sessions r then (Err DuplicateSession, r)
      else case validate_init L m transport_peer own expected_route protocol of
        Inl e \<Rightarrow> (Err e, r)
      | Inr _ \<Rightarrow>
          if \<not> route_contains expected_route own then
            (Err (InvalidRoute ''route does not include responder''), r)
          else
            let r' = r\<lparr>sr_seen_sessions := finsert (hi_session_id m) (sr_seen_sessions r)\<rparr>;
                public = keypair_public L (sr_identity r);
                public_bytes = pk_encode_protobuf L public;
                ephemeral = x25519_public L secret;
                authentication = keypair_sign L (sr_identity r)
                  (transcript L protocol (hi_session_id m) expected_route public_bytes ephemeral);
                response = \<lparr>hr_kind = ''secure_session_response'',
                  hr_protocol_version = protocol,
                  hr_session_id = hi_session_id m,
                  hr_initiator_identity = hi_initiator_identity m,
                  hr_responder_identity = peer_to_string L (pk_to_peer_id L public),
                  hr_responder_public_key = public_bytes,
                  hr_ephemeral_public_key = ephemeral,
                  hr_route_context = expected_route,
                  hr_authentication = authentication\<rparr>;
                shared = diffie_hellman L secret (hi_ephemeral_public_key m)
            in if all_zero shared then (Err InvalidKeyMaterial, r')
               else (Ok (response, derive_session L (hi_session_id m) transport_peer expected_route
                                     Responder shared protocol), r'))"

subsection \<open>The established session\<close>

definition session_close :: "SecureSession \<Rightarrow> (SessionError + unit) \<times> SecureSession" where
  "session_close s =
     (if ss_state s \<noteq> Session_Established then
        (Err (Session_InvalidState (ss_state s) ''close''), s)
      else (Ok (), s\<lparr>ss_state := Session_Closed\<rparr>))"

definition session_encrypt ::
  "SessionLib \<Rightarrow> SecureSession \<Rightarrow> bytes \<Rightarrow> bytes \<Rightarrow> (SessionError + bytes) \<times> SecureSession" where
  "session_encrypt L s plaintext aad =
     (if ss_state s \<noteq> Session_Established then
        (Err (Session_InvalidState (ss_state s) ''encrypt''), s)
      else case checked_succ (ss_send_nonce s) of
          None \<Rightarrow> (Err Session_EncryptionFailed, s)
        | Some next \<Rightarrow>
            let s' = s\<lparr>ss_send_nonce := next\<rparr> in
            case aead_encrypt L (ss_send_key s) (nonce_from_counter (ss_send_nonce s)) plaintext aad of
              None \<Rightarrow> (Err Session_EncryptionFailed, s')
            | Some c \<Rightarrow> (Ok (u64_to_be_bytes (ss_send_nonce s) @ c), s'))"

definition session_decrypt ::
  "SessionLib \<Rightarrow> SecureSession \<Rightarrow> bytes \<Rightarrow> bytes \<Rightarrow> (SessionError + bytes) \<times> SecureSession" where
  "session_decrypt L s ciphertext aad =
     (if ss_state s \<noteq> Session_Established then
        (Err (Session_InvalidState (ss_state s) ''decrypt''), s)
      else if length ciphertext < 8 then (Err Session_DecryptionFailed, s)
      else
        let counter = u64_from_be_bytes (take 8 ciphertext) in
        if (case ss_last_received_nonce s of None \<Rightarrow> False | Some l \<Rightarrow> counter \<le> l)
        then (Err Session_DecryptionFailed, s)
        else case aead_decrypt L (ss_receive_key s) (nonce_from_counter counter)
                    (drop 8 ciphertext) aad of
            None \<Rightarrow> (Err Session_DecryptionFailed, s)
          | Some plaintext \<Rightarrow> (Ok plaintext, s\<lparr>ss_last_received_nonce := Some counter\<rparr>))"

text \<open>\<open>Drop\<close>: the keys are zeroised.\<close>

definition session_drop :: "SecureSession \<Rightarrow> SecureSession" where
  "session_drop s = s\<lparr>ss_send_key := replicate 32 0, ss_receive_key := replicate 32 0\<rparr>"

text \<open>\<open>Display\<close> of a session identifier: two lower-case hexadecimal digits per byte.\<close>

definition hex_digit :: "nat \<Rightarrow> char" where
  "hex_digit n = ''0123456789abcdef'' ! n"

definition hex :: "bytes \<Rightarrow> string" where
  "hex bs = concat (map (\<lambda>b. [hex_digit (unat b div 16), hex_digit (unat b mod 16)]) bs)"

definition session_id_to_string :: "SessionId \<Rightarrow> string" where
  "session_id_to_string sid = hex (session_id_bytes sid)"

subsection \<open>Facts about the operations\<close>

lemma session_lib_okD:
  assumes "session_lib_ok L"
  shows "pk_verify L (keypair_public L kp) m (keypair_sign L kp m)"
    and "pk_try_decode_protobuf L (pk_encode_protobuf L pk) = Some pk"
    and "peer_parse L (peer_to_string L p) = Some p"
    and "diffie_hellman L a (x25519_public L b) = diffie_hellman L b (x25519_public L a)"
  using assms by (auto simp: session_lib_ok_def identity_ok_def dh_ok_def)

lemma derive_session_sel [sem_simps]:
  "ss_session_id (derive_session L sid p rt ro sh pr) = sid"
  "ss_peer_id (derive_session L sid p rt ro sh pr) = p"
  "ss_route (derive_session L sid p rt ro sh pr) = rt"
  "ss_role (derive_session L sid p rt ro sh pr) = ro"
  "ss_state (derive_session L sid p rt ro sh pr) = Session_Established"
  "ss_send_nonce (derive_session L sid p rt ro sh pr) = 0"
  "ss_last_received_nonce (derive_session L sid p rt ro sh pr) = None"
  by (simp_all add: derive_session_def Let_def)

lemma initiator_new_Ok:
  "initiator_new kp expected rt pr sid sec = Ok i \<longleftrightarrow>
     route_validate rt = Ok () \<and> route_contains rt expected \<and>
     i = \<lparr>si_identity = kp, si_expected_peer = expected, si_route = rt, si_protocol_version = pr,
          si_session_id = sid, si_secret = sec, si_state = Session_Negotiating\<rparr>"
  by (auto simp: initiator_new_def split: sum.splits)

lemma validate_response_Ok:
  "validate_response L r sid ip ep rt pr = Ok () \<longleftrightarrow>
     hr_protocol_version r = pr \<and> hr_session_id r = sid \<and> hr_route_context r = rt \<and>
     peer_parse L (hr_initiator_identity r) = Some ip \<and>
     (\<exists>public. pk_try_decode_protobuf L (hr_responder_public_key r) = Some public \<and>
        pk_to_peer_id L public = ep \<and>
        pk_verify L public
          (transcript L pr sid rt (hr_responder_public_key r) (hr_ephemeral_public_key r))
          (hr_authentication r))"
  by (auto simp: validate_response_def Let_def split: option.splits if_splits)

lemma validate_init_Ok:
  "validate_init L m tp rp rt pr = Ok () \<longleftrightarrow>
     route_validate rt = Ok () \<and> hi_protocol_version m = pr \<and>
     peer_parse L (hi_responder_identity m) = Some rp \<and> hi_route_context m = rt \<and>
     peer_parse L (hi_initiator_identity m) = Some tp \<and>
     (\<exists>public. pk_try_decode_protobuf L (hi_initiator_public_key m) = Some public \<and>
        pk_to_peer_id L public = tp \<and>
        pk_verify L public
          (transcript L pr (hi_session_id m) rt (hi_initiator_public_key m) (hi_ephemeral_public_key m))
          (hi_authentication m))"
  by (auto simp: validate_init_def Let_def split: option.splits if_splits sum.splits)

lemma initiator_complete_Ok:
  "initiator_complete L i r = Ok s \<longleftrightarrow>
     si_state i = Session_Negotiating \<and>
     validate_response L r (si_session_id i) (pk_to_peer_id L (keypair_public L (si_identity i)))
       (si_expected_peer i) (si_route i) (si_protocol_version i) = Ok () \<and>
     \<not> all_zero (diffie_hellman L (si_secret i) (hr_ephemeral_public_key r)) \<and>
     s = derive_session L (si_session_id i) (si_expected_peer i) (si_route i) Initiator
           (diffie_hellman L (si_secret i) (hr_ephemeral_public_key r)) (si_protocol_version i)"
  by (auto simp: initiator_complete_def Let_def split: sum.splits)

text \<open>
  A sender and a receiver are paired when the receiver's key is the sender's and the receiver has
  accepted no nonce the sender has still to use.
\<close>

definition nonce_behind :: "u64 option \<Rightarrow> u64 \<Rightarrow> bool" where
  "nonce_behind l n \<longleftrightarrow> (\<forall>k. l = Some k \<longrightarrow> k < n)"

definition session_paired :: "SecureSession \<Rightarrow> SecureSession \<Rightarrow> bool" where
  "session_paired s r \<longleftrightarrow>
     ss_receive_key r = ss_send_key s \<and> nonce_behind (ss_last_received_nonce r) (ss_send_nonce s)"

lemma nonce_behind_None [simp]: "nonce_behind None n"
  by (simp add: nonce_behind_def)

lemma derive_session_paired:
  "session_paired (derive_session L sid p rt Initiator sh pr) (derive_session L sid q rt Responder sh pr)"
  "session_paired (derive_session L sid q rt Responder sh pr) (derive_session L sid p rt Initiator sh pr)"
  by (simp_all add: session_paired_def derive_session_def Let_def)

text \<open>The response an honest responder sends.\<close>

definition response_of ::
  "SessionLib \<Rightarrow> SessionResponder \<Rightarrow> HandshakeInit \<Rightarrow> string \<Rightarrow> bytes \<Rightarrow> HandshakeResponse" where
  "response_of L r m protocol secret =
     (let public = keypair_public L (sr_identity r); public_bytes = pk_encode_protobuf L public;
          ephemeral = x25519_public L secret
      in \<lparr>hr_kind = ''secure_session_response'', hr_protocol_version = protocol,
          hr_session_id = hi_session_id m, hr_initiator_identity = hi_initiator_identity m,
          hr_responder_identity = peer_to_string L (pk_to_peer_id L public),
          hr_responder_public_key = public_bytes, hr_ephemeral_public_key = ephemeral,
          hr_route_context = hi_route_context m,
          hr_authentication = keypair_sign L (sr_identity r)
            (transcript L protocol (hi_session_id m) (hi_route_context m) public_bytes ephemeral)\<rparr>)"

lemma accept_init_Ok:
  "accept_init L r m tp pr sec = (Ok (resp, s), r') \<longleftrightarrow>
     hi_session_id m |\<notin>| sr_seen_sessions r \<and>
     validate_init L m tp (pk_to_peer_id L (keypair_public L (sr_identity r))) (hi_route_context m) pr = Ok () \<and>
     route_contains (hi_route_context m) (pk_to_peer_id L (keypair_public L (sr_identity r))) \<and>
     \<not> all_zero (diffie_hellman L sec (hi_ephemeral_public_key m)) \<and>
     resp = response_of L r m pr sec \<and>
     s = derive_session L (hi_session_id m) tp (hi_route_context m) Responder
           (diffie_hellman L sec (hi_ephemeral_public_key m)) pr \<and>
     r' = r\<lparr>sr_seen_sessions := finsert (hi_session_id m) (sr_seen_sessions r)\<rparr>"
  by (auto simp: accept_init_def response_of_def Let_def split: sum.splits if_splits)

lemma accept_init_Err:
  "accept_init L r m tp pr sec = (Err e, r') \<Longrightarrow>
     sr_seen_sessions r |\<subseteq>| sr_seen_sessions r' \<and> sr_identity r' = sr_identity r"
  by (auto simp: accept_init_def Let_def split: sum.splits if_splits)


text \<open>
  C2: what the responder accepts is authenticated. The identifier was not used before and is
  recorded; the route is valid, names the responder and is the one that was signed; the message
  carries a public key whose identity is the transport peer's and the claimed one, and the
  signature verifies under that key for the protocol version, the identifier, the route and the
  ephemeral key; the session is bound to that peer.
\<close>

theorem accept_init_authenticates:
  assumes "accept_init L r m tp pr sec = (Ok (resp, s), r')"
  shows "hi_session_id m |\<notin>| sr_seen_sessions r \<and>
     sr_seen_sessions r' = finsert (hi_session_id m) (sr_seen_sessions r) \<and>
     hi_protocol_version m = pr \<and>
     route_validate (hi_route_context m) = Ok () \<and>
     route_contains (hi_route_context m) (pk_to_peer_id L (keypair_public L (sr_identity r))) \<and>
     peer_parse L (hi_responder_identity m) = Some (pk_to_peer_id L (keypair_public L (sr_identity r))) \<and>
     peer_parse L (hi_initiator_identity m) = Some tp \<and>
     (\<exists>public. pk_try_decode_protobuf L (hi_initiator_public_key m) = Some public \<and>
        pk_to_peer_id L public = tp \<and>
        pk_verify L public
          (transcript L pr (hi_session_id m) (hi_route_context m) (hi_initiator_public_key m)
             (hi_ephemeral_public_key m))
          (hi_authentication m)) \<and>
     ss_peer_id s = tp \<and> ss_session_id s = hi_session_id m \<and> ss_route s = hi_route_context m \<and>
     ss_role s = Responder \<and> ss_state s = Session_Established"
  using assms unfolding accept_init_Ok validate_init_Ok by (simp add: sem_simps)

text \<open>
  C3: what the initiator completes with is authenticated. The response repeats the initiator's
  protocol version, session identifier, route and identity, carries a public key whose identity is
  the peer the initiator expected, and is signed by that key over exactly those values; the
  session is bound to the expected peer.
\<close>

theorem complete_authenticates:
  assumes "initiator_complete L i resp = Ok s"
  shows "hr_protocol_version resp = si_protocol_version i \<and> hr_session_id resp = si_session_id i \<and>
     hr_route_context resp = si_route i \<and>
     peer_parse L (hr_initiator_identity resp) = Some (pk_to_peer_id L (keypair_public L (si_identity i))) \<and>
     (\<exists>public. pk_try_decode_protobuf L (hr_responder_public_key resp) = Some public \<and>
        pk_to_peer_id L public = si_expected_peer i \<and>
        pk_verify L public
          (transcript L (si_protocol_version i) (si_session_id i) (si_route i)
             (hr_responder_public_key resp) (hr_ephemeral_public_key resp))
          (hr_authentication resp)) \<and>
     ss_peer_id s = si_expected_peer i \<and> ss_session_id s = si_session_id i \<and>
     ss_role s = Initiator \<and> ss_state s = Session_Established"
  using assms unfolding initiator_complete_Ok validate_response_Ok by (simp add: sem_simps)

subsection \<open>No session identifier is accepted twice\<close>

text \<open>One delivery of a handshake message: what a responder records of it.\<close>

type_synonym init_delivery = "HandshakeInit \<times> PeerId \<times> string \<times> bytes"

fun accept_init_id ::
  "SessionLib \<Rightarrow> SessionResponder \<Rightarrow> init_delivery \<Rightarrow> SessionId option \<times> SessionResponder" where
  "accept_init_id L r (m, tp, pr, sec) =
     (case accept_init L r m tp pr sec of
        (Inl e, r') \<Rightarrow> (None, r')
      | (Inr (resp, s), r') \<Rightarrow> (Some (ss_session_id s), r'))"

interpretation responder_guard: once_guard "accept_init_id L" "\<lambda>r. fset (sr_seen_sessions r)" for L
proof (standard, goal_cases)
  case (1 s d n s')
  then show ?case
    by (cases d) (auto simp: accept_init_Ok sem_simps split: sum.splits prod.splits)
next
  case (2 s d s')
  then show ?case
    by (cases d) (auto dest: accept_init_Err split: sum.splits prod.splits)
qed

text \<open>
  Whatever handshake messages reach a responder, in any order and with any repetition, the
  sessions it establishes have pairwise distinct identifiers: a replayed handshake is refused.
\<close>

theorem accepted_sessions_distinct: "distinct (accepted (accept_init_id L) r deliveries)"
  by (rule responder_guard.accepted_once)

subsection \<open>Nonces\<close>

definition encrypt_nonce ::
  "SessionLib \<Rightarrow> SecureSession \<Rightarrow> bytes \<times> bytes \<Rightarrow> u64 option \<times> SecureSession" where
  "encrypt_nonce L s m =
     (case session_encrypt L s (fst m) (snd m) of
        (Inl e, s') \<Rightarrow> (None, s')
      | (Inr c, s') \<Rightarrow> (Some (u64_from_be_bytes (take 8 c)), s'))"

definition decrypt_nonce ::
  "SessionLib \<Rightarrow> SecureSession \<Rightarrow> bytes \<times> bytes \<Rightarrow> u64 option \<times> SecureSession" where
  "decrypt_nonce L s m =
     (case session_decrypt L s (fst m) (snd m) of
        (Inl e, s') \<Rightarrow> (None, s')
      | (Inr p, s') \<Rightarrow> (Some (u64_from_be_bytes (take 8 (fst m))), s'))"

definition last_sent_nonce :: "SecureSession \<Rightarrow> u64 option" where
  "last_sent_nonce s = (if ss_send_nonce s = 0 then None else Some (ss_send_nonce s - 1))"

lemma u64_to_be_bytes_prefix [simp]: "take 8 (u64_to_be_bytes n @ c) = u64_to_be_bytes n"
  by simp

lemma session_encrypt_Ok:
  "session_encrypt L s p a = (Ok c, s') \<longleftrightarrow>
     ss_state s = Session_Established \<and>
     (\<exists>n ct. checked_succ (ss_send_nonce s) = Some n \<and> s' = s\<lparr>ss_send_nonce := n\<rparr> \<and>
        aead_encrypt L (ss_send_key s) (nonce_from_counter (ss_send_nonce s)) p a = Some ct \<and>
        c = u64_to_be_bytes (ss_send_nonce s) @ ct)"
  by (auto simp: session_encrypt_def Let_def split: option.splits if_splits)

lemma session_encrypt_Err:
  "session_encrypt L s p a = (Err e, s') \<Longrightarrow>
     s' = s \<or> (ss_state s = Session_Established \<and>
       (\<exists>n. checked_succ (ss_send_nonce s) = Some n \<and> s' = s\<lparr>ss_send_nonce := n\<rparr>))"
  by (auto simp: session_encrypt_def Let_def split: option.splits if_splits)

lemma session_decrypt_Ok:
  "session_decrypt L s c a = (Ok p, s') \<longleftrightarrow>
     ss_state s = Session_Established \<and> 8 \<le> length c \<and>
     (\<forall>l. ss_last_received_nonce s = Some l \<longrightarrow> l < u64_from_be_bytes (take 8 c)) \<and>
     aead_decrypt L (ss_receive_key s) (nonce_from_counter (u64_from_be_bytes (take 8 c))) (drop 8 c) a = Some p \<and>
     s' = s\<lparr>ss_last_received_nonce := Some (u64_from_be_bytes (take 8 c))\<rparr>"
  by (auto simp: session_decrypt_def Let_def not_less not_le split: option.splits if_splits)

lemma session_decrypt_Err: "session_decrypt L s c a = (Err e, s') \<Longrightarrow> s' = s"
  by (auto simp: session_decrypt_def Let_def split: option.splits if_splits)

lemma checked_succ_last_sent:
  "checked_succ (ss_send_nonce s) = Some n \<Longrightarrow>
     last_sent_nonce (s\<lparr>ss_send_nonce := n\<rparr>) = Some (ss_send_nonce s)"
  by (drule checked_succ_SomeD) (auto simp: last_sent_nonce_def)

lemma last_sent_nonce_less: "last_sent_nonce s = Some l \<Longrightarrow> l < ss_send_nonce s"
  by (auto simp: last_sent_nonce_def word_less_nat_alt unat_minus_one unat_gt_0 split: if_splits)

interpretation encrypt_guard: monotone_guard "encrypt_nonce L" last_sent_nonce for L
proof (standard, goal_cases)
  case (1 s m n s')
  then show ?case
    by (auto simp: encrypt_nonce_def session_encrypt_Ok checked_succ_last_sent
        dest: last_sent_nonce_less split: sum.splits prod.splits)
next
  case (2 s m s' l)
  then show ?case
    by (auto simp: encrypt_nonce_def checked_succ_last_sent
        dest!: session_encrypt_Err dest: last_sent_nonce_less split: sum.splits prod.splits)
qed

interpretation decrypt_guard: monotone_guard "decrypt_nonce L" ss_last_received_nonce for L
proof (standard, goal_cases)
  case (1 s m n s')
  then show ?case
    by (auto simp: decrypt_nonce_def session_decrypt_Ok split: sum.splits prod.splits)
next
  case (2 s m s' l)
  then show ?case
    by (auto simp: decrypt_nonce_def dest!: session_decrypt_Err split: sum.splits prod.splits)
qed


text \<open>
  The nonces of the ciphertexts a session accepts are strictly increasing: whatever is
  delivered to \<open>decrypt\<close>, a ciphertext is accepted at most once and never after a later one.
\<close>

theorem decrypt_nonces_increasing: "sorted_wrt (<) (accepted (decrypt_nonce L) s cs)"
  by (rule decrypt_guard.accepted_increasing)

subsection \<open>Paired sessions\<close>

lemma nonce_behind_succ:
  "checked_succ w = Some v \<Longrightarrow> nonce_behind (Some w) v"
  "checked_succ w = Some v \<Longrightarrow> nonce_behind l w \<Longrightarrow> nonce_behind l v"
  by (auto simp: nonce_behind_def dest!: checked_succ_SomeD dest: less_trans)

lemma encrypt_then_decrypt:
  assumes "aead_ok L" and "session_paired s r" and "ss_state r = Session_Established"
    and "session_encrypt L s p a = (Ok c, s')"
  shows "\<exists>r'. session_decrypt L r c a = (Ok p, r') \<and> session_paired s' r' \<and>
           r' = r\<lparr>ss_last_received_nonce := Some (ss_send_nonce s)\<rparr>"
  using assms
  by (auto simp: session_encrypt_Ok session_decrypt_Ok session_paired_def aead_ok_def
      nonce_behind_def dest: checked_succ_SomeD)

lemma encrypt_paired:
  "session_paired s r \<Longrightarrow> session_encrypt L s p a = (x, s') \<Longrightarrow> session_paired s' r"
  by (cases x)
     (auto simp: session_paired_def nonce_behind_succ session_encrypt_Ok dest!: session_encrypt_Err)

lemma encrypt_keeps:
  "session_encrypt L s p a = (x, s') \<Longrightarrow>
     ss_state s' = ss_state s \<and> ss_send_key s' = ss_send_key s \<and> ss_receive_key s' = ss_receive_key s \<and>
     ss_last_received_nonce s' = ss_last_received_nonce s \<and> ss_session_id s' = ss_session_id s \<and>
     ss_peer_id s' = ss_peer_id s \<and> ss_route s' = ss_route s \<and> ss_role s' = ss_role s"
  by (auto simp: session_encrypt_def Let_def split: option.splits if_splits)

lemma decrypt_keeps:
  "session_decrypt L s p a = (x, s') \<Longrightarrow>
     ss_state s' = ss_state s \<and> ss_send_key s' = ss_send_key s \<and> ss_receive_key s' = ss_receive_key s \<and>
     ss_send_nonce s' = ss_send_nonce s \<and> ss_session_id s' = ss_session_id s \<and>
     ss_peer_id s' = ss_peer_id s \<and> ss_route s' = ss_route s \<and> ss_role s' = ss_role s"
  by (auto simp: session_decrypt_def Let_def split: option.splits if_splits)

text \<open>Messages and frames carry the associated data both ends compute.\<close>

definition session_seal ::
  "SessionLib \<Rightarrow> SecureSession \<Rightarrow> bytes \<times> bytes \<Rightarrow> (SessionError + bytes \<times> bytes) \<times> SecureSession" where
  "session_seal L s m =
     (case session_encrypt L s (fst m) (snd m) of (x, s') \<Rightarrow> (map_sum id (\<lambda>c. (c, snd m)) x, s'))"

definition session_open ::
  "SessionLib \<Rightarrow> SecureSession \<Rightarrow> bytes \<times> bytes \<Rightarrow> (SessionError + bytes \<times> bytes) \<times> SecureSession" where
  "session_open L s f =
     (case session_decrypt L s (fst f) (snd f) of (x, s') \<Rightarrow> (map_sum id (\<lambda>p. (p, snd f)) x, s'))"

definition session_synced :: "SessionLib \<Rightarrow> SecureSession \<Rightarrow> SecureSession \<Rightarrow> bool" where
  "session_synced L s r \<longleftrightarrow> aead_ok L \<and> session_paired s r \<and> ss_state r = Session_Established"

lemma session_seal_Ok:
  "session_seal L s m = (Inr f, s') \<longleftrightarrow>
     session_encrypt L s (fst m) (snd m) = (Inr (fst f), s') \<and> snd f = snd m"
  by (cases "fst (session_encrypt L s (fst m) (snd m))")
     (auto simp: session_seal_def prod_eq_iff split: prod.splits)

lemma session_seal_Err:
  "session_seal L s m = (Inl e, s') \<longleftrightarrow> session_encrypt L s (fst m) (snd m) = (Inl e, s')"
  by (cases "fst (session_encrypt L s (fst m) (snd m))")
     (auto simp: session_seal_def split: prod.splits)

interpretation session_channel: lossy_channel "session_seal L" "session_open L" "session_synced L" "\<lambda>_. True"
  for L
proof (standard, goal_cases)
  case (1 s r m f s')
  then have "aead_ok L" "session_paired s r" "ss_state r = Session_Established"
    "session_encrypt L s (fst m) (snd m) = (Inr (fst f), s')" "snd f = snd m"
    by (simp_all add: session_seal_Ok session_synced_def)
  from encrypt_then_decrypt [OF this(1-4)] \<open>snd f = snd m\<close> \<open>aead_ok L\<close>
    \<open>ss_state r = Session_Established\<close>
  show ?case
    by (auto simp: session_open_def session_synced_def)
next
  case (2 s r m e s')
  then show ?case
    by (auto simp: session_seal_Err session_synced_def intro: encrypt_paired)
next
  case (3 s r m f s')
  then show ?case
    by (auto simp: session_seal_Ok session_synced_def intro: encrypt_paired)
qed

text \<open>
  What one end of a paired session encrypts the other end decrypts: for every sequence of
  messages and every subsequence of the resulting ciphertexts, that is whatever the network loses,
  the receiver accepts all of them and reads exactly the messages they were made from, in order.
\<close>

theorem session_delivers:
  assumes "aead_ok L" and "session_paired s r" and "ss_state r = Session_Established"
    and "send_all (session_seal L) s ms = (mfs, s')" and "subseq kept mfs"
  shows "\<exists>r'. recv_all (session_open L) r (map snd kept) = (Ok (map fst kept), r') \<and> session_paired s' r'"
  using session_channel.subsequence_delivered [of L s r ms mfs s' kept] assms
  by (auto simp: session_synced_def list_all_iff)

text \<open>
  An error of \<open>decrypt\<close> leaves the session untouched, an error of \<open>encrypt\<close> may only have
  used up a nonce, and once a session is not established every operation is refused and changes
  nothing.
\<close>

theorem session_errors:
  "(\<forall>e s'. session_decrypt L s c a = (Err e, s') \<longrightarrow> s' = s) \<and>
   (\<forall>e s'. session_encrypt L s p a = (Err e, s') \<longrightarrow>
      s' = s \<or> s' = s\<lparr>ss_send_nonce := ss_send_nonce s + 1\<rparr>) \<and>
   (ss_state s \<noteq> Session_Established \<longrightarrow>
      session_encrypt L s p a = (Err (Session_InvalidState (ss_state s) ''encrypt''), s) \<and>
      session_decrypt L s c a = (Err (Session_InvalidState (ss_state s) ''decrypt''), s) \<and>
      session_close s = (Err (Session_InvalidState (ss_state s) ''close''), s))"
  by (auto simp: session_close_def dest!: session_decrypt_Err session_encrypt_Err checked_succ_SomeD)
     (auto simp: session_encrypt_def session_decrypt_def)

text \<open>
  The wire form of a route binding reads back as the route binding, and session identifiers
  print injectively.
\<close>

theorem route_roundtrip:
  assumes "identity_ok L"
  shows "route_deserialize L (route_serialize L rt) = Some rt"
  using assms by (cases rt) (auto simp: identity_ok_def)

subsection \<open>A concrete library\<close>

text \<open>
  A toy instance of the libraries, on which the laws hold by computation: the witnesses apply the
  theorems to it.
\<close>

definition demo_lib :: SessionLib where
  "demo_lib = \<lparr>
     keypair_public = (\<lambda>kp. case kp of Keypair b \<Rightarrow> PublicKey b),
     keypair_sign = (\<lambda>kp m. case kp of Keypair b \<Rightarrow> b @ m),
     pk_encode_protobuf = (\<lambda>pk. case pk of PublicKey b \<Rightarrow> 8 # b),
     pk_try_decode_protobuf = (\<lambda>b. case b of x # xs \<Rightarrow> if x = 8 then Some (PublicKey xs) else None | [] \<Rightarrow> None),
     pk_to_peer_id = (\<lambda>pk. case pk of PublicKey b \<Rightarrow> PeerId b),
     pk_verify = (\<lambda>pk m sig. case pk of PublicKey b \<Rightarrow> sig = b @ m),
     peer_to_string = (\<lambda>p. case p of PeerId b \<Rightarrow> map (\<lambda>w. char_of (unat w)) b),
     peer_parse = (\<lambda>s. Some (PeerId (map (\<lambda>c. of_nat (of_char c)) s))),
     x25519_public = (\<lambda>s. s),
     diffie_hellman = (\<lambda>a b. map2 (+) a b),
     sha256 = (\<lambda>b. b),
     hkdf_expand = (\<lambda>salt ikm info n. take n (ikm @ replicate n 7)),
     aead_encrypt = (\<lambda>k n m a. Some (m @ k @ n @ a)),
     aead_decrypt = (\<lambda>k n c a.
        let t = k @ n @ a; m = take (length c - length t) c in
        if length t \<le> length c \<and> drop (length c - length t) c = t then Some m else None),
     wire_route_json = (\<lambda>w. case w of
        Wire_OneHop r \<Rightarrow> 1 # str_bytes r
      | Wire_TwoHop a b c \<Rightarrow> 2 # str_bytes a @ str_bytes b @ str_bytes c)\<rparr>"

lemma map2_add_commute: "map2 (+) a b = map2 (+) b (a :: 'a::ab_semigroup_add list)"
  by (induction a b rule: list_induct2') (simp_all add: add.commute)

lemma unat_mod_256: "unat (w :: u8) mod 256 = unat w"
  using unsigned_less [of w, where ?'a = nat] by simp

lemma demo_identity_ok: "identity_ok demo_lib"
proof -
  have "map (\<lambda>c. of_nat (of_char c)) (map (\<lambda>w. char_of (unat w)) b) = b" for b :: bytes
    by (induction b) (simp_all add: of_char_of unat_mod_256)
  then show ?thesis
    by (auto simp: identity_ok_def demo_lib_def split: Keypair.splits PublicKey.splits PeerId.splits)
qed

lemma demo_aead_ok: "aead_ok demo_lib"
  by (auto simp: aead_ok_def demo_lib_def Let_def)

lemma demo_lib_ok: "session_lib_ok demo_lib"
  unfolding session_lib_ok_def
  by (simp add: demo_identity_ok demo_aead_ok) (simp add: dh_ok_def demo_lib_def map2_add_commute)

subsection \<open>Witnesses\<close>

definition demo_route :: RouteBinding where
  "demo_route = TwoHop (PeerId [2]) (PeerId [3]) ''exit''"

definition demo_initiator :: SessionInitiator where
  "demo_initiator = \<lparr>si_identity = Keypair [1], si_expected_peer = PeerId [2], si_route = demo_route,
     si_protocol_version = ''1.0'', si_session_id = SessionId [9], si_secret = [5],
     si_state = Session_Negotiating\<rparr>"

definition demo_responder :: SessionResponder where
  "demo_responder = responder_new (Keypair [2])"

definition demo_init :: HandshakeInit where
  "demo_init = (case build_init demo_lib demo_initiator of Inr m \<Rightarrow> m)"

lemmas demo_defs = demo_initiator_def demo_responder_def responder_new_def demo_route_def

lemma demo_new:
  "initiator_new (Keypair [1]) (PeerId [2]) demo_route ''1.0'' (SessionId [9]) [5] = Ok demo_initiator"
  by (simp add: initiator_new_Ok demo_defs route_contains_def)


definition demo_response :: HandshakeResponse where
  "demo_response = response_of demo_lib demo_responder demo_init ''1.0'' [6]"

definition demo_session_i :: SecureSession where
  "demo_session_i = derive_session demo_lib (SessionId [9]) (PeerId [2]) demo_route Initiator [11] ''1.0''"

definition demo_session_r :: SecureSession where
  "demo_session_r = derive_session demo_lib (SessionId [9]) (PeerId [1]) demo_route Responder [11] ''1.0''"

lemma demo_accept:
  "accept_init demo_lib demo_responder demo_init (PeerId [1]) ''1.0'' [6] =
     (Ok (demo_response, demo_session_r), demo_responder\<lparr>sr_seen_sessions := {|SessionId [9]|}\<rparr>)"
  unfolding accept_init_Ok validate_init_Ok
  by (simp add: demo_init_def build_init_def demo_defs demo_lib_def all_zero_def
      route_contains_def Let_def of_char_of demo_response_def demo_session_r_def)

lemma demo_complete: "initiator_complete demo_lib demo_initiator demo_response = Ok demo_session_i"
  unfolding initiator_complete_Ok validate_response_Ok
  by (simp add: demo_init_def build_init_def demo_defs demo_lib_def all_zero_def demo_response_def
      response_of_def Let_def of_char_of demo_session_i_def)

lemma demo_paired: "session_paired demo_session_i demo_session_r"
  "ss_state demo_session_r = Session_Established"
  by (simp_all add: demo_session_i_def demo_session_r_def derive_session_paired sem_simps)

theorem accept_init_authenticates_witness:
  "hi_session_id demo_init |\<notin>| sr_seen_sessions demo_responder \<and> ss_peer_id demo_session_r = PeerId [1]"
  using accept_init_authenticates [OF demo_accept] by blast

theorem complete_authenticates_witness:
  "hr_session_id demo_response = SessionId [9] \<and> ss_peer_id demo_session_i = PeerId [2]"
  using complete_authenticates [OF demo_complete] by (simp add: demo_initiator_def)

theorem session_delivers_witness:
  "\<exists>mfs s' r'. send_all (session_seal demo_lib) demo_session_i [([1], [7]), ([2], [8])] = (mfs, s') \<and>
     length mfs = 2 \<and>
     recv_all (session_open demo_lib) demo_session_r (map snd (drop 1 mfs)) = (Ok (map fst (drop 1 mfs)), r')"
proof -
  obtain mfs s' where sent:
    "send_all (session_seal demo_lib) demo_session_i [([1], [7]), ([2], [8])] = (mfs, s')"
    by (cases "send_all (session_seal demo_lib) demo_session_i [([1], [7]), ([2], [8])]")
  then have "length mfs = 2"
    by (auto simp: session_seal_def session_encrypt_def demo_session_i_def sem_simps Let_def
        checked_succ_def demo_lib_def)
  moreover have "subseq (drop 1 mfs) mfs"
    by (intro suffix_imp_subseq suffix_drop)
  ultimately show ?thesis
    using session_delivers [OF demo_aead_ok demo_paired sent] sent by blast
qed

theorem session_errors_witness:
  "session_encrypt demo_lib (demo_session_i\<lparr>ss_state := Session_Closed\<rparr>) [1] [2] =
     (Err (Session_InvalidState Session_Closed ''encrypt''), demo_session_i\<lparr>ss_state := Session_Closed\<rparr>)"
  using session_errors [of demo_lib "demo_session_i\<lparr>ss_state := Session_Closed\<rparr>" "[]" "[2]" "[1]"] by simp

theorem route_roundtrip_witness:
  "route_deserialize demo_lib (route_serialize demo_lib demo_route) = Some demo_route"
  by (rule route_roundtrip [OF demo_identity_ok])

end
