(* ===== verification/Channel.thy ===== *)
theory Channel
  imports Session
begin

text \<open>
  \<open>network/src/channel.rs\<close>: framed, sequenced, encrypted messages over a session. serde's JSON is
  a parameter (\<open>ChannelJson\<close>) with the law that what it writes reads back. The theorems: a
  sequence of sent frames is received completely and in order, replayed and reordered frames are
  refused, the queue of pending frames is bounded, and a channel that has left the established
  state never sends or receives again.
\<close>

subsection \<open>Messages, frames and state\<close>

definition CHANNEL_PROTOCOL_VERSION :: string where
  "CHANNEL_PROTOCOL_VERSION = ''1.0''"

definition FRAME_OVERHEAD_LIMIT :: nat where
  "FRAME_OVERHEAD_LIMIT = 64"

datatype ChannelMessage = Ping | Pong | SessionData bytes | DataPlane bytes | Close

record ChannelEnvelope =
  ce_kind :: string
  ce_session_id :: SessionId
  ce_frame :: bytes

datatype ChannelState =
  Channel_Opening | Channel_Established | Channel_Closing | Channel_Closed | Channel_Failed

datatype MessageType = Mt_Ping | Mt_Pong | Mt_SessionData | Mt_DataPlane | Mt_Close

record FrameHeader =
  fh_protocol_version :: string
  fh_session_id :: SessionId
  fh_message_type :: MessageType
  fh_sequence_number :: u64
  fh_ciphertext_length :: u32

fun message_type_from :: "ChannelMessage \<Rightarrow> MessageType" where
  "message_type_from Ping = Mt_Ping"
| "message_type_from Pong = Mt_Pong"
| "message_type_from (SessionData _) = Mt_SessionData"
| "message_type_from (DataPlane _) = Mt_DataPlane"
| "message_type_from Close = Mt_Close"

datatype ChannelError =
    Channel_InvalidFrame
  | FrameTooLarge
  | Channel_InvalidSession
  | Channel_InvalidPeer
  | UnsupportedVersion
  | InvalidMessageType
  | ReplayDetected
  | InvalidSequence
  | Channel_AuthenticationFailed
  | Channel_EncryptionFailed
  | Channel_DecryptionFailed
  | ChannelClosed
  | Channel_Backpressure
  | SessionInvalid

fun channel_error_from :: "SessionError \<Rightarrow> ChannelError" where
  "channel_error_from (Session_InvalidState _ _) = SessionInvalid"
| "channel_error_from Session_DecryptionFailed = Channel_DecryptionFailed"
| "channel_error_from Session_EncryptionFailed = Channel_EncryptionFailed"
| "channel_error_from _ = Channel_AuthenticationFailed"

record EncryptedChannel =
  ec_session :: SecureSession
  ec_state :: ChannelState
  ec_protocol_version :: string
  ec_maximum_frame_size :: nat
  ec_maximum_pending_messages :: nat
  ec_pending_outbound :: "bytes list"
  ec_send_sequence :: u64
  ec_receive_sequence :: u64

text \<open>\<open>serde_json::to_vec\<close> and \<open>serde_json::from_slice\<close> on the two types the channel encodes.\<close>

record ChannelJson =
  message_to_json :: "ChannelMessage \<Rightarrow> bytes option"
  message_from_json :: "bytes \<Rightarrow> ChannelMessage option"
  header_to_json :: "FrameHeader \<Rightarrow> bytes option"
  header_from_json :: "bytes \<Rightarrow> FrameHeader option"

definition channel_json_ok :: "ChannelJson \<Rightarrow> bool" where
  "channel_json_ok J \<longleftrightarrow>
     (\<forall>m. \<exists>b. message_to_json J m = Some b \<and> message_from_json J b = Some m) \<and>
     (\<forall>h. \<exists>b. header_to_json J h = Some b \<and> b \<noteq> [] \<and> header_from_json J b = Some h)"

text \<open>The AEAD fails to encrypt only beyond its documented message length.\<close>

definition AEAD_P_MAX :: nat where "AEAD_P_MAX = 274877906880"

definition aead_limit_ok :: "SessionLib \<Rightarrow> bool" where
  "aead_limit_ok L \<longleftrightarrow> (\<forall>k n m a. length m \<le> AEAD_P_MAX \<longrightarrow> aead_encrypt L k n m a \<noteq> None)"

subsection \<open>Operations\<close>

definition channel_open ::
  "SecureSession \<Rightarrow> string \<Rightarrow> nat \<Rightarrow> nat \<Rightarrow> ChannelError + EncryptedChannel" where
  "channel_open session protocol max_frame max_pending =
     (if ss_state session \<noteq> Session_Established \<or> max_frame \<le> FRAME_OVERHEAD_LIMIT \<or> max_pending = 0
      then Err SessionInvalid
      else Ok \<lparr>ec_session = session, ec_state = Channel_Established, ec_protocol_version = protocol,
               ec_maximum_frame_size = max_frame, ec_maximum_pending_messages = max_pending,
               ec_pending_outbound = [], ec_send_sequence = 0, ec_receive_sequence = 0\<rparr>)"

definition channel_session_id :: "EncryptedChannel \<Rightarrow> SessionId" where
  "channel_session_id c = ss_session_id (ec_session c)"

definition channel_peer_id :: "EncryptedChannel \<Rightarrow> PeerId" where
  "channel_peer_id c = ss_peer_id (ec_session c)"

definition channel_route :: "EncryptedChannel \<Rightarrow> RouteBinding" where
  "channel_route c = ss_route (ec_session c)"

definition channel_ensure_established :: "EncryptedChannel \<Rightarrow> ChannelError + unit" where
  "channel_ensure_established c =
     (if ec_state c = Channel_Established then Ok () else Err ChannelClosed)"

text \<open>
  \<open>send\<close>. The sequence number is taken first; a failure of the encoding or of the encryption does
  not give it back, the checks of size and queue length do.
\<close>

definition channel_send ::
  "ChannelJson \<Rightarrow> SessionLib \<Rightarrow> EncryptedChannel \<Rightarrow> ChannelMessage
     \<Rightarrow> (ChannelError + bytes) \<times> EncryptedChannel" where
  "channel_send J L c message =
     (case channel_ensure_established c of
        Inl e \<Rightarrow> (Err e, c)
      | Inr _ \<Rightarrow>
        let sequence = ec_send_sequence c in
        case checked_succ sequence of
          None \<Rightarrow> (Err InvalidSequence, c)
        | Some next \<Rightarrow>
          let c1 = c\<lparr>ec_send_sequence := next\<rparr>;
              message_type = message_type_from message in
          case message_to_json J message of
            None \<Rightarrow> (Err InvalidMessageType, c1)
          | Some plaintext \<Rightarrow>
            let header = \<lparr>fh_protocol_version = ec_protocol_version c,
                  fh_session_id = channel_session_id c, fh_message_type = message_type,
                  fh_sequence_number = sequence, fh_ciphertext_length = 0\<rparr> in
            case header_to_json J header of
              None \<Rightarrow> (Err Channel_InvalidFrame, c1)
            | Some associated_data \<Rightarrow>
              case session_encrypt L (ec_session c1) plaintext associated_data of
                (Inl e, s) \<Rightarrow> (Err (channel_error_from e), c1\<lparr>ec_session := s\<rparr>)
              | (Inr ciphertext, s) \<Rightarrow>
                let c2 = c1\<lparr>ec_session := s\<rparr> in
                case header_to_json J
                       (header\<lparr>fh_ciphertext_length := of_nat (length ciphertext)\<rparr>) of
                  None \<Rightarrow> (Err Channel_InvalidFrame, c2)
                | Some header_bytes \<Rightarrow>
                  let frame = u32_to_be_bytes (of_nat (length header_bytes)) @ header_bytes @ ciphertext in
                  if length frame > ec_maximum_frame_size c then
                    (Err FrameTooLarge, c2\<lparr>ec_send_sequence := sequence\<rparr>)
                  else if length (ec_pending_outbound c) \<ge> ec_maximum_pending_messages c then
                    (Err Channel_Backpressure, c2\<lparr>ec_send_sequence := sequence\<rparr>)
                  else
                    let c3 = c2\<lparr>ec_pending_outbound := ec_pending_outbound c @ [frame]\<rparr> in
                    (Ok frame,
                     if message_type = Mt_Close then c3\<lparr>ec_state := Channel_Closing\<rparr> else c3))"

definition channel_take_pending :: "EncryptedChannel \<Rightarrow> bytes option \<times> EncryptedChannel" where
  "channel_take_pending c =
     (case ec_pending_outbound c of
        [] \<Rightarrow> (None, c)
      | f # fs \<Rightarrow> (Some f, c\<lparr>ec_pending_outbound := fs\<rparr>))"

definition channel_receive ::
  "ChannelJson \<Rightarrow> SessionLib \<Rightarrow> EncryptedChannel \<Rightarrow> bytes
     \<Rightarrow> (ChannelError + ChannelMessage) \<times> EncryptedChannel" where
  "channel_receive J L c frame =
     (case channel_ensure_established c of
        Inl e \<Rightarrow> (Err e, c)
      | Inr _ \<Rightarrow>
        if length frame > ec_maximum_frame_size c \<or> length frame < 4 then (Err FrameTooLarge, c)
        else
          let header_len = unat (u32_from_be_bytes (take 4 frame)) in
          if header_len = 0 \<or> header_len > ec_maximum_frame_size c \<or> length frame < 4 + header_len
          then (Err Channel_InvalidFrame, c)
          else case header_from_json J (take header_len (drop 4 frame)) of
            None \<Rightarrow> (Err Channel_InvalidFrame, c)
          | Some header \<Rightarrow>
            if fh_protocol_version header \<noteq> ec_protocol_version c then (Err UnsupportedVersion, c)
            else if fh_session_id header \<noteq> channel_session_id c then (Err Channel_InvalidSession, c)
            else if fh_sequence_number header < ec_receive_sequence c then (Err ReplayDetected, c)
            else if fh_sequence_number header \<noteq> ec_receive_sequence c then (Err InvalidSequence, c)
            else
              let ciphertext = drop (4 + header_len) frame in
              if length ciphertext \<noteq> unat (fh_ciphertext_length header)
              then (Err Channel_InvalidFrame, c)
              else case header_to_json J (header\<lparr>fh_ciphertext_length := 0\<rparr>) of
                None \<Rightarrow> (Err Channel_InvalidFrame, c)
              | Some associated_data \<Rightarrow>
                case session_decrypt L (ec_session c) ciphertext associated_data of
                  (Inl e, s) \<Rightarrow> (Err (channel_error_from e), c\<lparr>ec_session := s\<rparr>)
                | (Inr plaintext, s) \<Rightarrow>
                  let c1 = c\<lparr>ec_session := s\<rparr> in
                  case message_from_json J plaintext of
                    None \<Rightarrow> (Err InvalidMessageType, c1)
                  | Some message \<Rightarrow>
                    if message_type_from message \<noteq> fh_message_type header
                    then (Err InvalidMessageType, c1)
                    else case checked_succ (ec_receive_sequence c) of
                      None \<Rightarrow> (Err InvalidSequence, c1)
                    | Some next \<Rightarrow>
                      let c2 = c1\<lparr>ec_receive_sequence := next\<rparr> in
                      (Ok message,
                       if message = Close then c2\<lparr>ec_state := Channel_Closing\<rparr> else c2))"

definition channel_close :: "EncryptedChannel \<Rightarrow> (ChannelError + unit) \<times> EncryptedChannel" where
  "channel_close c =
     (case ec_state c of
        Channel_Established \<Rightarrow>
          (case session_close (ec_session c) of
             (r, s) \<Rightarrow> (map_err channel_error_from r, c\<lparr>ec_state := Channel_Closed, ec_session := s\<rparr>))
      | Channel_Closing \<Rightarrow>
          (case session_close (ec_session c) of
             (r, s) \<Rightarrow> (map_err channel_error_from r, c\<lparr>ec_state := Channel_Closed, ec_session := s\<rparr>))
      | Channel_Closed \<Rightarrow> (Err ChannelClosed, c)
      | Channel_Failed \<Rightarrow> (Err ChannelClosed, c)
      | Channel_Opening \<Rightarrow> (Err SessionInvalid, c))"

definition channel_mark_remote_closed :: "EncryptedChannel \<Rightarrow> EncryptedChannel" where
  "channel_mark_remote_closed c = c\<lparr>ec_state := Channel_Closed\<rparr>"

subsection \<open>What the operations do\<close>

definition send_header :: "EncryptedChannel \<Rightarrow> ChannelMessage \<Rightarrow> FrameHeader" where
  "send_header c m = \<lparr>fh_protocol_version = ec_protocol_version c,
     fh_session_id = channel_session_id c, fh_message_type = message_type_from m,
     fh_sequence_number = ec_send_sequence c, fh_ciphertext_length = 0\<rparr>"

lemma channel_session_id_upd [simp]:
  "channel_session_id (c\<lparr>ec_send_sequence := n\<rparr>) = channel_session_id c"
  "channel_session_id (c\<lparr>ec_state := st\<rparr>) = channel_session_id c"
  "channel_session_id (c\<lparr>ec_receive_sequence := n\<rparr>) = channel_session_id c"
  "channel_session_id (c\<lparr>ec_pending_outbound := q\<rparr>) = channel_session_id c"
  "channel_session_id (c\<lparr>ec_session := s\<rparr>) = ss_session_id s"
  by (simp_all add: channel_session_id_def)

lemma channel_send_Ok:
  assumes "channel_send J L c m = (Ok f, c')"
  shows "\<exists>n p ad ct s hb. ec_state c = Channel_Established \<and>
     checked_succ (ec_send_sequence c) = Some n \<and> message_to_json J m = Some p \<and>
     header_to_json J (send_header c m) = Some ad \<and>
     session_encrypt L (ec_session c) p ad = (Ok ct, s) \<and>
     header_to_json J (send_header c m\<lparr>fh_ciphertext_length := of_nat (length ct)\<rparr>) = Some hb \<and>
     f = u32_to_be_bytes (of_nat (length hb)) @ hb @ ct \<and> length f \<le> ec_maximum_frame_size c \<and>
     length (ec_pending_outbound c) < ec_maximum_pending_messages c \<and>
     c' = c\<lparr>ec_send_sequence := n, ec_session := s, ec_pending_outbound := ec_pending_outbound c @ [f],
            ec_state := (if m = Close then Channel_Closing else Channel_Established)\<rparr>"
  using assms
  by (auto simp: channel_send_def channel_ensure_established_def send_header_def Let_def not_le not_less
      split: if_splits option.splits prod.splits sum.splits)
     (cases m; auto)+

definition channel_static_eq :: "EncryptedChannel \<Rightarrow> EncryptedChannel \<Rightarrow> bool" where
  "channel_static_eq c c' \<longleftrightarrow>
     ec_protocol_version c' = ec_protocol_version c \<and>
     ec_maximum_frame_size c' = ec_maximum_frame_size c \<and>
     ec_maximum_pending_messages c' = ec_maximum_pending_messages c"

lemma channel_send_Err:
  assumes "channel_send J L c m = (Err e, c')"
  shows "channel_static_eq c c' \<and> ec_state c' = ec_state c \<and>
     ec_pending_outbound c' = ec_pending_outbound c \<and> ec_receive_sequence c' = ec_receive_sequence c \<and>
     (ec_session c' = ec_session c \<or> (\<exists>p a x. session_encrypt L (ec_session c) p a = (x, ec_session c')))"
  using assms
  by (auto simp: channel_send_def channel_ensure_established_def Let_def channel_static_eq_def
      split: if_splits option.splits prod.splits sum.splits)

lemma channel_receive_Ok:
  "channel_receive J L c f = (Ok m, c') \<longleftrightarrow>
   (\<exists>h ad p s n. let hl = unat (u32_from_be_bytes (take 4 f)) in
     ec_state c = Channel_Established \<and> length f \<le> ec_maximum_frame_size c \<and>
     0 < hl \<and> 4 + hl \<le> length f \<and>
     header_from_json J (take hl (drop 4 f)) = Some h \<and>
     fh_protocol_version h = ec_protocol_version c \<and> fh_session_id h = channel_session_id c \<and>
     fh_sequence_number h = ec_receive_sequence c \<and>
     length f - (4 + hl) = unat (fh_ciphertext_length h) \<and>
     header_to_json J (h\<lparr>fh_ciphertext_length := 0\<rparr>) = Some ad \<and>
     session_decrypt L (ec_session c) (drop (4 + hl) f) ad = (Ok p, s) \<and>
     message_from_json J p = Some m \<and> message_type_from m = fh_message_type h \<and>
     checked_succ (ec_receive_sequence c) = Some n \<and>
     c' = c\<lparr>ec_session := s, ec_receive_sequence := n,
            ec_state := (if m = Close then Channel_Closing else Channel_Established)\<rparr>)"
  by (auto simp: channel_receive_def channel_ensure_established_def Let_def not_le not_less
      split: if_splits option.splits prod.splits sum.splits)

lemma channel_receive_Err:
  assumes "channel_receive J L c f = (Err e, c')"
  shows "channel_static_eq c c' \<and> ec_state c' = ec_state c \<and>
     ec_pending_outbound c' = ec_pending_outbound c \<and> ec_receive_sequence c' = ec_receive_sequence c \<and>
     ec_send_sequence c' = ec_send_sequence c \<and>
     (ec_session c' = ec_session c \<or> (\<exists>p a x. session_decrypt L (ec_session c) p a = (x, ec_session c')))"
  using assms
  by (auto simp: channel_receive_def channel_ensure_established_def Let_def channel_static_eq_def
      split: if_splits option.splits prod.splits sum.splits)

subsection \<open>Invariant of a channel\<close>

text \<open>The operations of a channel as events.\<close>

datatype channel_event =
    Ev_Send ChannelMessage
  | Ev_Receive bytes
  | Ev_TakePending
  | Ev_Close
  | Ev_RemoteClosed

fun channel_step :: "ChannelJson \<Rightarrow> SessionLib \<Rightarrow> EncryptedChannel \<Rightarrow> channel_event \<Rightarrow> EncryptedChannel" where
  "channel_step J L c (Ev_Send m) = snd (channel_send J L c m)"
| "channel_step J L c (Ev_Receive f) = snd (channel_receive J L c f)"
| "channel_step J L c Ev_TakePending = snd (channel_take_pending c)"
| "channel_step J L c Ev_Close = snd (channel_close c)"
| "channel_step J L c Ev_RemoteClosed = channel_mark_remote_closed c"

text \<open>
  The pending queue is bounded, an opened channel is established, closing or closed, and its
  session is usable as long as the channel is not closed.
\<close>

definition channel_inv :: "EncryptedChannel \<Rightarrow> bool" where
  "channel_inv c \<longleftrightarrow>
     length (ec_pending_outbound c) \<le> ec_maximum_pending_messages c \<and>
     ec_state c \<in> {Channel_Established, Channel_Closing, Channel_Closed} \<and>
     (ec_state c \<noteq> Channel_Closed \<longrightarrow> ss_state (ec_session c) = Session_Established)"

lemma channel_send_inv: "channel_send J L c m = (x, c') \<Longrightarrow> channel_inv c \<Longrightarrow> channel_inv c'"
  by (cases x)
     (auto simp: channel_inv_def channel_static_eq_def split: if_splits
      dest!: channel_send_Err channel_send_Ok encrypt_keeps)

lemma channel_receive_inv: "channel_receive J L c f = (x, c') \<Longrightarrow> channel_inv c \<Longrightarrow> channel_inv c'"
  by (cases x)
     (auto simp: channel_receive_Ok channel_inv_def channel_static_eq_def Let_def split: if_splits
      dest!: channel_receive_Err decrypt_keeps)

lemma channel_close_inv: "channel_inv c \<Longrightarrow> channel_inv (snd (channel_close c))"
  by (auto simp: channel_inv_def channel_close_def session_close_def split: ChannelState.splits)

interpretation channel_machine: event_machine "channel_step J L" channel_inv for J L
proof (standard, goal_cases)
  case (1 c ev)
  show ?case
  proof (cases ev)
    case (Ev_Send m)
    with 1 show ?thesis by (cases "channel_send J L c m") (auto intro: channel_send_inv)
  next
    case (Ev_Receive f)
    with 1 show ?thesis by (cases "channel_receive J L c f") (auto intro: channel_receive_inv)
  next
    case Ev_TakePending
    with 1 show ?thesis by (auto simp: channel_take_pending_def channel_inv_def split: list.splits)
  next
    case Ev_Close
    with 1 show ?thesis by (simp add: channel_close_inv)
  next
    case Ev_RemoteClosed
    with 1 show ?thesis by (simp add: channel_mark_remote_closed_def channel_inv_def)
  qed
qed

text \<open>What no operation changes, and the receive sequence, which never decreases.\<close>

definition channel_past ::
  "string \<Rightarrow> SessionId \<Rightarrow> nat \<Rightarrow> u64 \<Rightarrow> EncryptedChannel \<Rightarrow> bool" where
  "channel_past v sid mf q c \<longleftrightarrow>
     ec_protocol_version c = v \<and> channel_session_id c = sid \<and> ec_maximum_frame_size c = mf \<and>
     q < ec_receive_sequence c"

lemma channel_send_past:
  "channel_send J L c m = (x, c') \<Longrightarrow> channel_past v sid mf q c \<Longrightarrow> channel_past v sid mf q c'"
  by (cases x)
     (auto simp: channel_past_def channel_static_eq_def channel_session_id_def
      dest!: channel_send_Err channel_send_Ok encrypt_keeps)

lemma channel_receive_past:
  "channel_receive J L c f = (x, c') \<Longrightarrow> channel_past v sid mf q c \<Longrightarrow> channel_past v sid mf q c'"
  by (cases x)
     (auto simp: channel_receive_Ok channel_past_def channel_static_eq_def channel_session_id_def Let_def
      dest!: channel_receive_Err decrypt_keeps checked_succ_SomeD intro: less_trans)

interpretation channel_history: event_machine "channel_step J L" "channel_past v sid mf q" for J L v sid mf q
proof (standard, goal_cases)
  case (1 c ev)
  show ?case
  proof (cases ev)
    case (Ev_Send m)
    with 1 show ?thesis by (cases "channel_send J L c m") (auto intro: channel_send_past)
  next
    case (Ev_Receive f)
    with 1 show ?thesis by (cases "channel_receive J L c f") (auto intro: channel_receive_past)
  next
    case Ev_TakePending
    with 1 show ?thesis by (auto simp: channel_take_pending_def channel_past_def split: list.splits)
  next
    case Ev_Close
    with 1 show ?thesis
      by (auto simp: channel_close_def session_close_def channel_past_def channel_session_id_def
          split: ChannelState.splits)
  next
    case Ev_RemoteClosed
    with 1 show ?thesis by (simp add: channel_mark_remote_closed_def channel_past_def)
  qed
qed

interpretation channel_ended: event_machine "channel_step J L" "\<lambda>c. ec_state c \<noteq> Channel_Established" for J L
proof (standard, goal_cases)
  case (1 c ev)
  then show ?case
    by (cases ev)
       (auto simp: channel_send_def channel_receive_def channel_ensure_established_def
          channel_take_pending_def channel_close_def session_close_def channel_mark_remote_closed_def
          split: list.splits ChannelState.splits)
qed

text \<open>
  C29: from a channel that was opened, no sequence of sends, receives, dequeues and closes makes the
  queue of pending frames longer than its configured maximum, and as long as the channel is not
  closed its session is established.
\<close>

theorem channel_reachable_bounded:
  assumes "channel_open session v mf mp = Ok c" and "c' = foldl (channel_step J L) c evs"
  shows "length (ec_pending_outbound c') \<le> ec_maximum_pending_messages c' \<and>
     ec_state c' \<in> {Channel_Established, Channel_Closing, Channel_Closed} \<and>
     (ec_state c' \<noteq> Channel_Closed \<longrightarrow> ss_state (ec_session c') = Session_Established)"
proof -
  have "channel_inv c"
    using assms(1) by (auto simp: channel_open_def channel_inv_def split: if_splits)
  then have "channel_inv c'"
    unfolding assms(2) by (rule channel_machine.run_inv)
  then show ?thesis by (simp add: channel_inv_def)
qed


text \<open>
  The end of a channel is final: once it has left the established state, then after any further
  operations \<open>send\<close> and \<open>receive\<close> return \<open>ChannelClosed\<close> and change nothing.
\<close>

theorem channel_end_final:
  assumes "ec_state c \<noteq> Channel_Established" and "c' = foldl (channel_step J L) c evs"
  shows "channel_send J L c' m = (Err ChannelClosed, c') \<and> channel_receive J L c' f = (Err ChannelClosed, c')"
  using channel_ended.run_inv [OF assms(1), of J L evs] assms(2)
  by (simp add: channel_send_def channel_receive_def channel_ensure_established_def)

subsection \<open>Delivery\<close>

definition channel_laws :: "ChannelJson \<Rightarrow> SessionLib \<Rightarrow> bool" where
  "channel_laws J L \<longleftrightarrow> channel_json_ok J \<and> aead_ok L \<and> aead_limit_ok L"

text \<open>
  Two ends are synchronised when they agree on version, session and sizes, their sessions are
  paired, and the receiver expects the sender's next sequence number (unless the sender's nonces
  are used up, when it sends nothing any more).
\<close>

definition channel_synced ::
  "ChannelJson \<Rightarrow> SessionLib \<Rightarrow> EncryptedChannel \<Rightarrow> EncryptedChannel \<Rightarrow> bool" where
  "channel_synced J L s r \<longleftrightarrow> channel_laws J L \<and>
     ec_protocol_version r = ec_protocol_version s \<and> channel_session_id r = channel_session_id s \<and>
     ec_maximum_frame_size s \<le> ec_maximum_frame_size r \<and> ec_maximum_frame_size s < 2 ^ 32 \<and>
     session_paired (ec_session s) (ec_session r) \<and>
     ss_state (ec_session s) = Session_Established \<and> ss_state (ec_session r) = Session_Established \<and>
     (ec_state s = Channel_Established \<longrightarrow> ec_state r = Channel_Established) \<and>
     (ec_receive_sequence r = ec_send_sequence s \<or> ss_send_nonce (ec_session s) = - 1)"

definition channel_sendable :: "ChannelJson \<Rightarrow> ChannelMessage \<Rightarrow> bool" where
  "channel_sendable J m \<longleftrightarrow>
     (case message_to_json J m of None \<Rightarrow> True | Some b \<Rightarrow> length b \<le> AEAD_P_MAX)"

lemma channel_send_refused_sequence:
  assumes "channel_laws J L" and "channel_sendable J m"
    and "ss_state (ec_session c) = Session_Established"
    and "channel_send J L c m = (Err e, c')"
  shows "ec_send_sequence c' = ec_send_sequence c \<or> ss_send_nonce (ec_session c') = - 1"
proof -
  obtain b where b: "message_to_json J m = Some b" "length b \<le> AEAD_P_MAX"
    using assms(1,2) unfolding channel_laws_def channel_json_ok_def channel_sendable_def
    by (metis option.case(2))
  have total: "aead_encrypt L k n b a \<noteq> None" for k n a
    using assms(1) b(2) by (simp add: channel_laws_def aead_limit_ok_def)
  have enc: "ss_send_nonce s = - 1"
    if "session_encrypt L (ec_session c) b a = (Err e', s)" for a e' s
    using that assms(3)
    by (auto simp: total session_encrypt_def Let_def checked_succ_def split: option.splits if_splits)
  have headers: "header_to_json J h \<noteq> None" for h
    using assms(1) unfolding channel_laws_def channel_json_ok_def by (metis option.distinct(1))
  show ?thesis
    using assms(4) b(1) enc
    by (auto simp: headers channel_send_def channel_ensure_established_def Let_def
        split: if_splits option.splits prod.splits sum.splits)
qed

lemma channel_json_okD:
  assumes "channel_json_ok J"
  shows "message_to_json J m = Some b \<Longrightarrow> message_from_json J b = Some m"
    and "header_to_json J h = Some b \<Longrightarrow> b \<noteq> [] \<and> header_from_json J b = Some h"
  using assms by (auto simp: channel_json_ok_def) (metis option.inject)+

lemma channel_sent_received:
  assumes sync: "channel_synced J L s r" and sent: "channel_send J L s m = (Ok f, s')"
  shows "\<exists>r'. channel_receive J L r f = (Ok m, r') \<and> channel_synced J L s' r'"
proof -
  from channel_send_Ok [OF sent] obtain n p ad ct s1 hb where o:
    "ec_state s = Channel_Established" "checked_succ (ec_send_sequence s) = Some n"
    "message_to_json J m = Some p" "header_to_json J (send_header s m) = Some ad"
    "session_encrypt L (ec_session s) p ad = (Ok ct, s1)"
    "header_to_json J (send_header s m\<lparr>fh_ciphertext_length := of_nat (length ct)\<rparr>) = Some hb"
    "f = u32_to_be_bytes (of_nat (length hb)) @ hb @ ct" "length f \<le> ec_maximum_frame_size s"
    "s' = s\<lparr>ec_send_sequence := n, ec_session := s1, ec_pending_outbound := ec_pending_outbound s @ [f],
            ec_state := (if m = Close then Channel_Closing else Channel_Established)\<rparr>"
    by blast
  note sync' = sync [unfolded channel_synced_def channel_laws_def]
  have json: "message_from_json J p = Some m" "hb \<noteq> []"
    "header_from_json J hb = Some (send_header s m\<lparr>fh_ciphertext_length := of_nat (length ct)\<rparr>)"
    using sync' o(3,6) channel_json_okD by blast+
  have seq: "ec_receive_sequence r = ec_send_sequence s"
    using sync' o(5) by (auto simp: session_encrypt_Ok checked_succ_def split: if_splits)
  have len: "unat (of_nat (length hb) :: u32) = length hb" "unat (of_nat (length ct) :: u32) = length ct"
    using o(7,8) sync' by (auto simp: unat_of_nat take_bit_eq_mod)
  obtain r1 where dec: "session_decrypt L (ec_session r) ct ad = (Ok p, r1)"
    and paired: "session_paired s1 r1"
    using encrypt_then_decrypt [OF _ _ _ o(5)] sync' by blast
  have "channel_receive J L r f = (Ok m, r\<lparr>ec_session := r1, ec_receive_sequence := n,
      ec_state := (if m = Close then Channel_Closing else Channel_Established)\<rparr>)"
    unfolding channel_receive_Ok
    using o sync' json seq len dec by (simp add: Let_def send_header_def)
  moreover have "channel_synced J L s' (r\<lparr>ec_session := r1, ec_receive_sequence := n,
      ec_state := (if m = Close then Channel_Closing else Channel_Established)\<rparr>)"
    using sync' paired encrypt_keeps [OF o(5)] decrypt_keeps [OF dec]
    by (simp add: channel_synced_def channel_laws_def o(9) channel_session_id_def)
  ultimately show ?thesis by blast
qed

lemma channel_refused_synced:
  assumes sync: "channel_synced J L s r" and "channel_sendable J m"
    and sent: "channel_send J L s m = (Err e, s')"
  shows "channel_synced J L s' r"
proof -
  note sync' = sync [unfolded channel_synced_def channel_laws_def]
  note err = channel_send_Err [OF sent]
  have "session_paired (ec_session s') (ec_session r)"
  proof (cases "ec_session s' = ec_session s")
    case False
    then obtain p a x where enc: "session_encrypt L (ec_session s) p a = (x, ec_session s')"
      using err by blast
    then show ?thesis
      using sync' encrypt_paired by blast
  qed (use sync' in simp)
  moreover have "ec_send_sequence s' = ec_send_sequence s \<or> ss_send_nonce (ec_session s') = - 1"
    using channel_send_refused_sequence assms(2) sent sync' channel_laws_def by blast
  moreover have "ss_send_nonce (ec_session s) = - 1 \<Longrightarrow> ss_send_nonce (ec_session s') = - 1"
    using err by (auto simp: session_encrypt_def checked_succ_def split: if_splits)
  ultimately show ?thesis
    using sync' err
    by (auto simp: channel_synced_def channel_laws_def channel_static_eq_def channel_session_id_def
        dest!: encrypt_keeps)
qed

interpretation encrypted_channel: framed_channel "channel_send J L" "channel_receive J L"
  "channel_synced J L" "channel_sendable J" for J L
  by standard (blast intro: channel_sent_received channel_refused_synced)+

text \<open>
  C4: a synchronised pair of channels delivers: whatever is sent, the frames of the sends that
  succeeded are received without an error as exactly the messages that were sent, in order; sends
  that were refused (too large, queue full, closed) do not disturb the stream. Channels opened on
  the two sessions of one handshake are synchronised.
\<close>

theorem channel_delivers:
  assumes "channel_synced J L s r" and "list_all (channel_sendable J) ms"
    and "send_all (channel_send J L) s ms = (mfs, s')"
  shows "\<exists>r'. recv_all (channel_receive J L) r (map snd mfs) = (Ok (map fst mfs), r') \<and>
     channel_synced J L s' r'"
  using assms by (rule encrypted_channel.stream_delivered)

lemma opened_channels_synced:
  assumes "channel_laws J L" and "session_paired si sr" and "ss_session_id si = ss_session_id sr"
    and "channel_open si v mf mp = Ok s" and "channel_open sr v mf' mp' = Ok r"
    and "mf \<le> mf'" and "mf < 2 ^ 32"
  shows "channel_synced J L s r"
  using assms
  by (auto simp: channel_open_def channel_synced_def channel_session_id_def split: if_splits)

text \<open>
  \<open>send\<close> refuses with \<open>Backpressure\<close> exactly when the queue is full and the frame would fit;
  the sequence number is given back and the queue is unchanged, and dequeuing one frame makes room
  for the next.
\<close>

theorem channel_backpressure:
  assumes "channel_send J L c m = (Err Channel_Backpressure, c')"
  shows "ec_maximum_pending_messages c \<le> length (ec_pending_outbound c) \<and>
     ec_send_sequence c' = ec_send_sequence c \<and> ec_pending_outbound c' = ec_pending_outbound c \<and>
     (channel_inv c \<longrightarrow> 0 < ec_maximum_pending_messages c \<longrightarrow>
        length (ec_pending_outbound (snd (channel_take_pending c'))) < ec_maximum_pending_messages c')"
proof -
  have not_bp: "channel_error_from e \<noteq> Channel_Backpressure" for e
    by (cases e) simp_all
  have "ec_maximum_pending_messages c \<le> length (ec_pending_outbound c) \<and>
     ec_send_sequence c' = ec_send_sequence c"
    using assms
    by (auto simp: not_bp channel_send_def channel_ensure_established_def Let_def
        split: if_splits option.splits prod.splits sum.splits)
  then show ?thesis
    using channel_send_Err [OF assms]
    by (auto simp: channel_inv_def channel_static_eq_def channel_take_pending_def split: list.splits)
qed

subsection \<open>Witnesses\<close>

text \<open>A toy JSON: unambiguous encodings of the two types.\<close>

definition mt_byte :: "MessageType \<Rightarrow> u8" where
  "mt_byte t = (case t of Mt_Ping \<Rightarrow> 0 | Mt_Pong \<Rightarrow> 1 | Mt_SessionData \<Rightarrow> 2 | Mt_DataPlane \<Rightarrow> 3 | Mt_Close \<Rightarrow> 4)"

definition mt_of_byte :: "u8 \<Rightarrow> MessageType" where
  "mt_of_byte b = (if b = 0 then Mt_Ping else if b = 1 then Mt_Pong else if b = 2 then Mt_SessionData
     else if b = 3 then Mt_DataPlane else Mt_Close)"

fun demo_message_to :: "ChannelMessage \<Rightarrow> bytes" where
  "demo_message_to Ping = [0]"
| "demo_message_to Pong = [1]"
| "demo_message_to (SessionData b) = 2 # b"
| "demo_message_to (DataPlane b) = 3 # b"
| "demo_message_to Close = [4]"

fun demo_message_from :: "bytes \<Rightarrow> ChannelMessage option" where
  "demo_message_from [] = None"
| "demo_message_from (x # b) =
     (if x = 0 then Some Ping else if x = 1 then Some Pong else if x = 2 then Some (SessionData b)
      else if x = 3 then Some (DataPlane b) else Some Close)"

definition demo_char_bytes :: "string \<Rightarrow> bytes" where
  "demo_char_bytes s = map (\<lambda>c. of_nat (of_char c)) s"

definition demo_char_string :: "bytes \<Rightarrow> string" where
  "demo_char_string b = map (\<lambda>w. char_of (unat w)) b"

lemma demo_char_roundtrip [simp]: "demo_char_string (demo_char_bytes s) = s"
proof -
  have "unat (of_nat (of_char c) :: u8) = (of_char c :: nat)" for c :: char
    using of_char_mod_256 [of c, where ?'a = nat] by (simp add: unat_of_nat take_bit_eq_mod)
  then show ?thesis
    by (induction s) (simp_all add: demo_char_bytes_def demo_char_string_def)
qed

text \<open>Unary lengths keep the toy encoding of strings self-delimiting.\<close>

definition demo_header_to :: "FrameHeader \<Rightarrow> bytes" where
  "demo_header_to h =
     u32_to_be_bytes (fh_ciphertext_length h) @ u64_to_be_bytes (fh_sequence_number h) @
     [mt_byte (fh_message_type h)] @ replicate (length (fh_protocol_version h)) 1 @ [0] @
     demo_char_bytes (fh_protocol_version h) @ session_id_bytes (fh_session_id h)"

definition demo_header_from :: "bytes \<Rightarrow> FrameHeader" where
  "demo_header_from b =
     (let rest = drop 13 b; n = length (takeWhile (\<lambda>x. x = 1) rest); body = drop (Suc n) rest in
      \<lparr>fh_protocol_version = demo_char_string (take n body), fh_session_id = SessionId (drop n body),
       fh_message_type = mt_of_byte (b ! 12), fh_sequence_number = u64_from_be_bytes (take 8 (drop 4 b)),
       fh_ciphertext_length = u32_from_be_bytes (take 4 b)\<rparr>)"

definition demo_json :: ChannelJson where
  "demo_json = \<lparr>message_to_json = (\<lambda>m. Some (demo_message_to m)), message_from_json = demo_message_from,
     header_to_json = (\<lambda>h. Some (demo_header_to h)), header_from_json = (\<lambda>b. Some (demo_header_from b))\<rparr>"

lemma demo_json_ok: "channel_json_ok demo_json"
proof -
  have m: "demo_message_from (demo_message_to m) = Some m" for m
    by (cases m) simp_all
  have t: "mt_of_byte (mt_byte t) = t" for t
    by (cases t) (simp_all add: mt_of_byte_def mt_byte_def)
  have l: "length (demo_char_bytes s) = length s" for s
    by (simp add: demo_char_bytes_def)
  have s: "SessionId (session_id_bytes i) = i" for i
    by (cases i) simp
  have w: "takeWhile (\<lambda>x. x = 1) (replicate n 1 @ 0 # xs) = replicate n 1" for n and xs :: bytes
    by (induction n) simp_all
  have "demo_header_from (demo_header_to h) = h" for h
    by (simp add: demo_header_from_def demo_header_to_def Let_def nth_append t l s w)
  moreover have "demo_header_to h \<noteq> []" for h
    by (simp add: demo_header_to_def)
  ultimately show ?thesis
    by (simp add: channel_json_ok_def demo_json_def m)
qed

definition demo_chan_s :: EncryptedChannel where
  "demo_chan_s = \<lparr>ec_session = demo_session_i, ec_state = Channel_Established, ec_protocol_version = ''1'',
     ec_maximum_frame_size = 4096, ec_maximum_pending_messages = 1, ec_pending_outbound = [],
     ec_send_sequence = 0, ec_receive_sequence = 0\<rparr>"

definition demo_chan_r :: EncryptedChannel where
  "demo_chan_r = demo_chan_s\<lparr>ec_session := demo_session_r\<rparr>"

lemma demo_aead_limit_ok: "aead_limit_ok demo_lib"
  by (simp add: aead_limit_ok_def demo_lib_def)

lemma demo_open:
  "channel_open demo_session_i ''1'' 4096 1 = Ok demo_chan_s"
  "channel_open demo_session_r ''1'' 4096 1 = Ok demo_chan_r"
  by (simp_all add: channel_open_def FRAME_OVERHEAD_LIMIT_def demo_chan_s_def demo_chan_r_def
      demo_session_i_def demo_session_r_def sem_simps)

lemma demo_synced: "channel_synced demo_json demo_lib demo_chan_s demo_chan_r"
  by (rule opened_channels_synced [OF _ demo_paired(1) _ demo_open])
     (simp_all add: channel_laws_def demo_json_ok demo_aead_ok demo_aead_limit_ok
       demo_session_i_def demo_session_r_def sem_simps)

definition demo_sent :: "(ChannelError + bytes) \<times> EncryptedChannel" where
  "demo_sent = channel_send demo_json demo_lib demo_chan_s (DataPlane [7])"

lemma demo_sent_Ok: "\<exists>f c. demo_sent = (Ok f, c) \<and> ec_state c = Channel_Established \<and> length (ec_pending_outbound c) = 1"
  by (simp add: demo_sent_def channel_send_def channel_ensure_established_def demo_chan_s_def Let_def
      checked_succ_def demo_json_def demo_session_i_def session_encrypt_def sem_simps demo_lib_def
      demo_header_to_def demo_char_bytes_def channel_session_id_def derive_session_def nonce_from_counter_def)

theorem channel_delivers_witness:
  "\<exists>mfs s' r'. send_all (channel_send demo_json demo_lib) demo_chan_s [DataPlane [7], Ping] = (mfs, s') \<and>
     recv_all (channel_receive demo_json demo_lib) demo_chan_r (map snd mfs) = (Ok (map fst mfs), r')"
proof -
  obtain mfs s' where sent:
    "send_all (channel_send demo_json demo_lib) demo_chan_s [DataPlane [7], Ping] = (mfs, s')"
    by (cases "send_all (channel_send demo_json demo_lib) demo_chan_s [DataPlane [7], Ping]")
  have "list_all (channel_sendable demo_json) [DataPlane [7], Ping]"
    by (simp add: channel_sendable_def demo_json_def AEAD_P_MAX_def)
  from channel_delivers [OF demo_synced this sent] sent show ?thesis by blast
qed

theorem channel_reachable_bounded_witness:
  "length (ec_pending_outbound (foldl (channel_step demo_json demo_lib) demo_chan_s [Ev_Send Ping, Ev_Send Pong])) \<le> 1"
proof -
  define c' where "c' = foldl (channel_step demo_json demo_lib) demo_chan_s [Ev_Send Ping, Ev_Send Pong]"
  have "ec_maximum_pending_messages c' = 1"
    by (simp add: c'_def channel_send_def channel_ensure_established_def demo_chan_s_def Let_def
      checked_succ_def demo_json_def demo_session_i_def session_encrypt_def sem_simps demo_lib_def
      demo_header_to_def demo_char_bytes_def channel_session_id_def derive_session_def nonce_from_counter_def)
  with channel_reachable_bounded [OF demo_open(1) c'_def] show ?thesis
    unfolding c'_def by simp
qed


theorem channel_end_final_witness:
  "channel_send demo_json demo_lib (channel_mark_remote_closed demo_chan_s) Ping =
     (Err ChannelClosed, channel_mark_remote_closed demo_chan_s)"
  using channel_end_final [of "channel_mark_remote_closed demo_chan_s" _ demo_json demo_lib "[]" Ping "[]"]
  by (simp add: channel_mark_remote_closed_def)

theorem channel_backpressure_witness:
  "\<exists>c'. channel_send demo_json demo_lib (demo_chan_s\<lparr>ec_pending_outbound := [[1]]\<rparr>) Ping =
     (Err Channel_Backpressure, c') \<and> ec_send_sequence c' = 0"
proof -
  have "\<exists>c'. channel_send demo_json demo_lib (demo_chan_s\<lparr>ec_pending_outbound := [[1]]\<rparr>) Ping =
     (Err Channel_Backpressure, c')"
    by (simp add: channel_send_def channel_ensure_established_def demo_chan_s_def Let_def
      checked_succ_def demo_json_def demo_session_i_def session_encrypt_def sem_simps demo_lib_def
      demo_header_to_def demo_char_bytes_def channel_session_id_def derive_session_def nonce_from_counter_def)
  with channel_backpressure show ?thesis by (fastforce simp: demo_chan_s_def)
qed

end
