(* ===== verification/Packet_Routing.thy ===== *)
theory Packet_Routing
  imports Net_Types
begin

text \<open>
  \<open>network/src/packet.rs\<close>, \<open>mtu.rs\<close> and \<open>routing.rs\<close>: construction of validated IP packets, the
  MTU policy, and the classification of a packet's destination that decides whether it may enter
  the tunnel. An out-of-range index is a panic in Rust: \<open>classify_destination\<close> returns \<open>None\<close>
  there, and the lemmas below show that no packet built by \<open>NetworkPacket::new\<close> reaches it.
\<close>

unbundle bit_operations_syntax

subsection \<open>Packets\<close>

datatype PacketType = Ipv4 | Ipv6

record NetworkPacket =
  np_bytes :: bytes
  np_packet_type :: PacketType

datatype PacketError =
    Packet_Empty
  | Packet_Oversized nat nat
  | Packet_ExceedsMtu nat nat
  | Packet_Malformed
  | Packet_UnsupportedType u8
  | Packet_InvalidLimit

definition IPV4_VERSION :: u8 where "IPV4_VERSION = 4"
definition IPV6_VERSION :: u8 where "IPV6_VERSION = 6"

text \<open>\<open>usize::from(byte & 0x0f) * 4\<close>: the length of an IPv4 header from its first byte.\<close>

definition ihl_bytes :: "u8 \<Rightarrow> nat" where
  "ihl_bytes b = unat (b AND 0x0f) * 4"

definition network_packet_new :: "bytes \<Rightarrow> nat \<Rightarrow> nat \<Rightarrow> PacketError + NetworkPacket" where
  "network_packet_new bs maximum_size mtu =
     (if maximum_size = 0 \<or> mtu = 0 then Err Packet_InvalidLimit
      else let size = length bs in
        case bs of
          [] \<Rightarrow> Err Packet_Empty
        | b0 # _ \<Rightarrow>
            if size > maximum_size then Err (Packet_Oversized size maximum_size)
            else if size > mtu then Err (Packet_ExceedsMtu size mtu)
            else let version = drop_bit 4 b0 in
              if version = IPV4_VERSION then
                (if ihl_bytes b0 < 20 \<or> size < ihl_bytes b0 then Err Packet_Malformed
                 else Ok \<lparr>np_bytes = bs, np_packet_type = Ipv4\<rparr>)
              else if version = IPV6_VERSION then
                (if size < 40 then Err Packet_Malformed
                 else Ok \<lparr>np_bytes = bs, np_packet_type = Ipv6\<rparr>)
              else Err (Packet_UnsupportedType version))"

definition packet_len :: "NetworkPacket \<Rightarrow> nat" where
  "packet_len p = length (np_bytes p)"

text \<open>The invariant the private fields of a packet keep: only \<open>new\<close> builds one.\<close>

definition packet_wf :: "NetworkPacket \<Rightarrow> bool" where
  "packet_wf p =
     (case np_bytes p of
        [] \<Rightarrow> False
      | b0 # _ \<Rightarrow>
          (case np_packet_type p of
             Ipv4 \<Rightarrow> drop_bit 4 b0 = IPV4_VERSION \<and> 20 \<le> ihl_bytes b0 \<and> ihl_bytes b0 \<le> length (np_bytes p)
           | Ipv6 \<Rightarrow> drop_bit 4 b0 = IPV6_VERSION \<and> 40 \<le> length (np_bytes p)))"

lemma network_packet_new_Ok:
  assumes "network_packet_new bs mx mtu = Ok p"
  shows "np_bytes p = bs \<and> packet_wf p \<and> packet_len p \<le> mx \<and> packet_len p \<le> mtu \<and> 20 \<le> packet_len p"
  using assms
  by (auto simp: network_packet_new_def packet_wf_def packet_len_def Let_def
      split: if_splits list.splits)

text \<open>A packet that is already well formed is accepted again unless a limit refuses it.\<close>

lemma network_packet_new_wf:
  assumes "packet_wf p" and "packet_len p \<le> mx" and "packet_len p \<le> mtu"
  shows "network_packet_new (np_bytes p) mx mtu = Ok p"
proof -
  obtain b0 rest where b: "np_bytes p = b0 # rest"
    using assms(1) by (auto simp: packet_wf_def split: list.splits)
  have lim: "mx \<noteq> 0" "mtu \<noteq> 0"
    using assms(2,3) b by (auto simp: packet_len_def)
  show ?thesis
    using assms b lim
    by (cases p) (auto simp: network_packet_new_def packet_wf_def packet_len_def Let_def
        IPV4_VERSION_def IPV6_VERSION_def split: PacketType.splits)
qed

subsection \<open>The MTU policy\<close>

record MtuPolicy =
  tunnel_mtu :: nat
  mtu_maximum_packet_size :: nat

datatype MtuError = Mtu_InvalidConfiguration | Mtu_Packet PacketError

definition mtu_policy_new :: "nat \<Rightarrow> nat \<Rightarrow> MtuError + MtuPolicy" where
  "mtu_policy_new mtu mx =
     (if mtu = 0 \<or> mx = 0 \<or> mx > mtu then Err Mtu_InvalidConfiguration
      else Ok \<lparr>tunnel_mtu = mtu, mtu_maximum_packet_size = mx\<rparr>)"

definition mtu_validate :: "MtuPolicy \<Rightarrow> bytes \<Rightarrow> MtuError + NetworkPacket" where
  "mtu_validate pol bs =
     map_err Mtu_Packet (network_packet_new bs (mtu_maximum_packet_size pol) (tunnel_mtu pol))"

subsection \<open>Destination classes\<close>

datatype DestinationClass =
  Loopback | Private | LinkLocal | Multicast | Broadcast | Public | Unsupported_Destination

datatype RoutingDecision = ThroughGhostLayer | LocalSystem | Drop | Unsupported_Route

datatype RoutingError = MalformedPacket | UnsupportedPacket

fun classify_address :: "IpAddr \<Rightarrow> DestinationClass" where
  "classify_address (V4 a) =
     (if v4_is_loopback a then Loopback
      else if v4_is_private a then Private
      else if v4_is_link_local a then LinkLocal
      else if v4_is_multicast a then Multicast
      else if a = v4_broadcast then Broadcast
      else if v4_is_unspecified a then Unsupported_Destination
      else Public)"
| "classify_address (V6 a) =
     (if v6_is_loopback a then Loopback
      else if (v6_segment0 a AND 0xfe00) = 0xfc00 then Private
      else if (v6_segment0 a AND 0xffc0) = 0xfe80 then LinkLocal
      else if v6_is_multicast a then Multicast
      else if v6_is_unspecified a then Unsupported_Destination
      else Public)"

text \<open>The destination field of a packet; \<open>None\<close> is the panic of \<open>bytes[0]\<close> on an empty vector.\<close>

definition destination_address :: "NetworkPacket \<Rightarrow> (RoutingError + IpAddr) option" where
  "destination_address p =
     (let bs = np_bytes p in
      case np_packet_type p of
        Ipv4 \<Rightarrow>
          (case bs of
             [] \<Rightarrow> None
           | b0 # _ \<Rightarrow>
               Some (if length bs < 20 \<or> ihl_bytes b0 > length bs then Err MalformedPacket
                     else Ok (V4 (v4_from_octets (take 4 (drop 16 bs))))))
      | Ipv6 \<Rightarrow>
          Some (if length bs < 40 then Err MalformedPacket
                else Ok (V6 (v6_from_octets (take 16 (drop 24 bs))))))"

definition classify_destination :: "NetworkPacket \<Rightarrow> (RoutingError + DestinationClass) option" where
  "classify_destination p =
     (case destination_address p of
        None \<Rightarrow> None
      | Some (Inl e) \<Rightarrow> Some (Err e)
      | Some (Inr a) \<Rightarrow> Some (Ok (classify_address a)))"

fun decide :: "DestinationClass \<Rightarrow> RoutingDecision" where
  "decide Public = ThroughGhostLayer"
| "decide Loopback = LocalSystem"
| "decide Private = LocalSystem"
| "decide LinkLocal = LocalSystem"
| "decide Multicast = Drop"
| "decide Broadcast = Drop"
| "decide Unsupported_Destination = Unsupported_Route"

subsection \<open>Classification is total on packets\<close>

lemma destination_address_wf: "packet_wf p \<Longrightarrow> \<exists>a. destination_address p = Some (Ok a)"
  by (auto simp: packet_wf_def destination_address_def Let_def
      split: list.splits PacketType.splits)

lemma classify_destination_wf:
  "packet_wf p \<Longrightarrow>
   \<exists>a. destination_address p = Some (Ok a) \<and> classify_destination p = Some (Ok (classify_address a))"
  using destination_address_wf [of p] by (auto simp: classify_destination_def)

lemma decide_through: "decide c = ThroughGhostLayer \<longleftrightarrow> c = Public"
  by (cases c) auto

subsection \<open>The classes as address ranges\<close>

lemma unat_v4_octet0: "unat (v4_octet 0 a) = unat a div 2 ^ 16 div 256"
proof -
  have "unat a < 2 ^ 32"
    using unsigned_less [of a, where ?'a = nat] by simp
  then have "unat a div 2 ^ 24 < 256"
    by (simp add: less_mult_imp_div_less)
  moreover have "unat a div 2 ^ 16 div 256 = unat a div 2 ^ 24"
    by (simp flip: div_mult2_eq)
  ultimately show ?thesis
    by (simp add: v4_octet_def unsigned_ucast_eq take_bit_nat_eq_self unat_drop_bit_eq
        drop_bit_eq_div [where 'a = nat] del: drop_bit_eq_div)
qed

lemma unat_v4_octet1: "unat (v4_octet 1 a) = unat a div 2 ^ 16 mod 256"
  by (simp add: v4_octet_def unsigned_ucast_eq take_bit_eq_mod unat_drop_bit_eq
      drop_bit_eq_div [where 'a = nat])

lemma v4_octet_eq_iff: "v4_octet i a = b \<longleftrightarrow> unat (v4_octet i a) = unat b"
  by (simp add: word_unat_eq_iff)

text \<open>An IPv4 address in the closed numeric range from \<open>lo\<close> to \<open>hi\<close>.\<close>

definition v4_in :: "nat \<Rightarrow> nat \<Rightarrow> 32 word \<Rightarrow> bool" where
  "v4_in lo hi a = (lo \<le> unat a \<and> unat a \<le> hi)"

lemma div_range_iff:
  fixes x :: nat
  assumes "0 < d"
  shows "q \<le> x div d \<and> x div d \<le> r \<longleftrightarrow> q * d \<le> x \<and> x < Suc r * d"
proof -
  have "q \<le> x div d \<longleftrightarrow> q * d \<le> x"
    using assms by (simp add: less_eq_div_iff_mult_less_eq)
  moreover have "x div d \<le> r \<longleftrightarrow> x < Suc r * d"
    using assms div_less_iff_less_mult [of d x "Suc r"] by (simp only: less_Suc_eq_le)
  ultimately show ?thesis by simp
qed

lemma octets_range_iff:
  fixes y :: nat
  assumes "hi < 256"
  shows "y div 256 = q \<and> lo \<le> y mod 256 \<and> y mod 256 \<le> hi \<longleftrightarrow> q * 256 + lo \<le> y \<and> y \<le> q * 256 + hi"
proof -
  define d m where "d = y div 256" and "m = y mod 256"
  have y: "y = d * 256 + m" and m: "m < 256"
    by (simp_all add: d_def m_def)
  have "q * 256 + lo \<le> d * 256 + m \<Longrightarrow> d * 256 + m \<le> q * 256 + hi \<Longrightarrow> d = q"
    using m assms by linarith
  then have "d = q \<and> lo \<le> m \<and> m \<le> hi \<longleftrightarrow> q * 256 + lo \<le> d * 256 + m \<and> d * 256 + m \<le> q * 256 + hi"
    by auto
  then show ?thesis
    unfolding y [symmetric] by (simp only: d_def m_def)
qed

lemma v4_block_iff:
  assumes "hi < 256"
  shows "unat (v4_octet 0 a) = q \<and> lo \<le> unat (v4_octet 1 a) \<and> unat (v4_octet 1 a) \<le> hi \<longleftrightarrow>
    v4_in ((q * 256 + lo) * 65536) ((q * 256 + hi) * 65536 + 65535) a"
proof -
  define y where "y = unat a div 65536"
  have "unat (v4_octet 0 a) = y div 256" and "unat (v4_octet 1 a) = y mod 256"
    by (simp_all only: unat_v4_octet0 unat_v4_octet1 y_def) simp_all
  then have "?thesis \<longleftrightarrow> (q * 256 + lo \<le> y \<and> y \<le> q * 256 + hi \<longleftrightarrow>
      v4_in ((q * 256 + lo) * 65536) ((q * 256 + hi) * 65536 + 65535) a)"
    by (simp only: octets_range_iff [OF assms])
  also have "\<dots>"
    using div_range_iff [of 65536 "q * 256 + lo" "unat a" "q * 256 + hi"]
    unfolding y_def v4_in_def by (simp only: less_Suc_eq_le mult_Suc) auto
  finally show ?thesis by blast
qed

lemma v4_octet1_bound: "unat (v4_octet 1 a) \<le> 255"
  using unsigned_less [of "v4_octet 1 a", where ?'a = nat] by simp

lemma v4_loopback_range: "v4_is_loopback a \<longleftrightarrow> v4_in 0x7f000000 0x7fffffff a"
  using v4_block_iff [of 255 a 127 0] v4_octet1_bound [of a]
  by (simp add: v4_is_loopback_def v4_octet_eq_iff)

lemma v4_private_range:
  "v4_is_private a \<longleftrightarrow>
     v4_in 0x0a000000 0x0affffff a \<or> v4_in 0xac100000 0xac1fffff a \<or> v4_in 0xc0a80000 0xc0a8ffff a"
  using v4_block_iff [of 255 a 10 0] v4_block_iff [of 31 a 172 16] v4_block_iff [of 168 a 192 168]
    v4_octet1_bound [of a]
  by (auto simp: v4_is_private_def v4_octet_eq_iff word_le_nat_alt)

lemma v4_link_local_range: "v4_is_link_local a \<longleftrightarrow> v4_in 0xa9fe0000 0xa9feffff a"
  using v4_block_iff [of 254 a 169 254]
  by (auto simp: v4_is_link_local_def v4_octet_eq_iff)

lemma v4_multicast_range: "v4_is_multicast a \<longleftrightarrow> v4_in 0xe0000000 0xefffffff a"
  using div_range_iff [of "16777216" 224 "unat a" 239]
  by (simp add: v4_is_multicast_def v4_in_def word_le_nat_alt unat_v4_octet0 flip: div_mult2_eq) auto

subsection \<open>What may enter the tunnel\<close>

text \<open>
  Every packet that \<open>NetworkPacket::new\<close> builds is classified without an error or a panic. An
  IPv4 packet is routed through the tunnel exactly when bytes 16 to 19 hold an address outside
  127/8, 10/8, 172.16/12, 192.168/16, 169.254/16 and 224/4 that is neither 255.255.255.255 nor
  0.0.0.0.
\<close>

theorem ipv4_through_tunnel:
  assumes "network_packet_new bs mx mtu = Ok p" and "np_packet_type p = Ipv4"
  shows "\<exists>a c. destination_address p = Some (Ok (V4 a)) \<and> v4_octets a = take 4 (drop 16 bs) \<and>
     classify_destination p = Some (Ok c) \<and>
     (decide c = ThroughGhostLayer \<longleftrightarrow>
        \<not> (v4_in 0x7f000000 0x7fffffff a \<or> v4_in 0x0a000000 0x0affffff a \<or>
           v4_in 0xac100000 0xac1fffff a \<or> v4_in 0xc0a80000 0xc0a8ffff a \<or>
           v4_in 0xa9fe0000 0xa9feffff a \<or> v4_in 0xe0000000 0xefffffff a \<or>
           unat a = 0xffffffff \<or> unat a = 0))"
proof -
  have wf: "packet_wf p" and bytes: "np_bytes p = bs" "20 \<le> length bs"
    using network_packet_new_Ok [OF assms(1)] by (auto simp: packet_len_def)
  define a where "a = v4_from_octets (take 4 (drop 16 bs))"
  have dest: "destination_address p = Some (Ok (V4 a))"
    using wf assms(2) bytes
    by (auto simp: packet_wf_def destination_address_def a_def Let_def split: list.splits)
  moreover have "v4_octets a = take 4 (drop 16 bs)"
    using bytes(2) by (simp add: a_def v4_from_octets_inverse)
  moreover have "a = v4_broadcast \<longleftrightarrow> unat a = 0xffffffff" "v4_is_unspecified a \<longleftrightarrow> unat a = 0"
    by (simp_all add: v4_broadcast_def v4_is_unspecified_def word_unat_eq_iff
        unsigned_minus_1_eq_mask mask_eq_exp_minus_1)
  ultimately show ?thesis
    by (auto simp: classify_destination_def decide_through v4_loopback_range v4_private_range
        v4_link_local_range v4_multicast_range)
qed

definition demo_v4_packet :: bytes where
  "demo_v4_packet = [0x45, 0, 0, 20, 0, 0, 0, 0, 64, 17, 0, 0, 10, 0, 0, 2, 198, 51, 100, 1]"

theorem ipv4_through_tunnel_witness:
  "\<exists>p c. network_packet_new demo_v4_packet 1500 1500 = Ok p \<and> classify_destination p = Some (Ok c) \<and>
     decide c = ThroughGhostLayer"
proof -
  define p where "p = \<lparr>np_bytes = demo_v4_packet, np_packet_type = Ipv4\<rparr>"
  have new: "network_packet_new demo_v4_packet 1500 1500 = Ok p"
    by (simp add: network_packet_new_def p_def demo_v4_packet_def ihl_bytes_def IPV4_VERSION_def)
  from ipv4_through_tunnel [OF new] obtain a c where
    a: "v4_octets a = take 4 (drop 16 demo_v4_packet)" "classify_destination p = Some (Ok c)"
      "decide c = ThroughGhostLayer \<longleftrightarrow>
        \<not> (v4_in 0x7f000000 0x7fffffff a \<or> v4_in 0x0a000000 0x0affffff a \<or>
           v4_in 0xac100000 0xac1fffff a \<or> v4_in 0xc0a80000 0xc0a8ffff a \<or>
           v4_in 0xa9fe0000 0xa9feffff a \<or> v4_in 0xe0000000 0xefffffff a \<or>
           unat a = 0xffffffff \<or> unat a = 0)"
    by (auto simp: p_def)
  have "a = v4_from_octets [198, 51, 100, 1]"
    using a(1) v4_octets_roundtrip [of a] by (simp add: demo_v4_packet_def)
  then have "unat a = 0xc6336401"
    by (simp add: v4_from_octets_def be_value_def)
  with a new show ?thesis by (auto simp: v4_in_def)
qed

end
