(* ===== verification/Tun_Bridge.thy ===== *)
theory Tun_Bridge
  imports Data_Plane
begin

text \<open>
  \<open>network/src/tun/\<close>: the TUN devices and the bridge that moves packets between a device and a data
  plane. The trait \<open>TunDevice\<close> is the record \<open>TunDeviceOps\<close> of operations on a device state and the
  locales \<open>tun_source\<close> and \<open>tun_device\<close> of its contract, interpreted on the in-memory device of the tests
  and on the Windows device. The driver behind the Windows device is a parameter.
\<close>

subsection \<open>Devices\<close>

datatype TunError =
    Tun_Closed
  | Tun_QueueFull
  | Tun_InvalidPacket PacketError
  | DriverUnavailable
  | DeviceUnavailable
  | DeviceInitializationFailed string
  | InvalidConfiguration string
  | Tun_ReadFailed string
  | Tun_WriteFailed string
  | Tun_Shutdown

record TunConfig =
  tu_enabled :: bool
  tu_interface_name :: string
  tu_mtu :: nat
  tu_maximum_packet_size :: nat
  tu_read_buffer_limit :: nat
  tu_write_buffer_limit :: nat

record 'd TunDeviceOps =
  td_read_packet :: "'d \<Rightarrow> (TunError + NetworkPacket option) \<times> 'd"
  td_write_packet :: "'d \<Rightarrow> NetworkPacket \<Rightarrow> (TunError + unit) \<times> 'd"
  td_close :: "'d \<Rightarrow> (TunError + unit) \<times> 'd"

text \<open>\<open>VecDeque::pop_front\<close>.\<close>

fun pop_front :: "'a list \<Rightarrow> 'a option \<times> 'a list" where
  "pop_front [] = (None, [])"
| "pop_front (x # xs) = (Some x, xs)"

subsubsection \<open>The device for tests\<close>

record MockTunDevice =
  mt_config :: TunConfig
  mt_inbound :: "NetworkPacket list"
  mt_outbound :: "NetworkPacket list"
  mt_closed :: bool

definition mock_tun_open :: "TunConfig \<Rightarrow> MockTunDevice" where
  "mock_tun_open config = \<lparr>mt_config = config, mt_inbound = [], mt_outbound = [], mt_closed = False\<rparr>"

definition mock_inject_packet :: "MockTunDevice \<Rightarrow> bytes \<Rightarrow> (TunError + unit) \<times> MockTunDevice" where
  "mock_inject_packet d bs =
     (if mt_closed d then (Err Tun_Closed, d)
      else if length (mt_inbound d) \<ge> tu_read_buffer_limit (mt_config d) then (Err Tun_QueueFull, d)
      else case network_packet_new bs (tu_maximum_packet_size (mt_config d)) (tu_mtu (mt_config d)) of
          Inl e \<Rightarrow> (Err (Tun_InvalidPacket e), d)
        | Inr p \<Rightarrow> (Ok (), d\<lparr>mt_inbound := mt_inbound d @ [p]\<rparr>))"

definition mock_take_written :: "MockTunDevice \<Rightarrow> (TunError + NetworkPacket option) \<times> MockTunDevice" where
  "mock_take_written d =
     (if mt_closed d then (Err Tun_Closed, d)
      else case pop_front (mt_outbound d) of (p, rest) \<Rightarrow> (Ok p, d\<lparr>mt_outbound := rest\<rparr>))"

definition mock_read_packet :: "MockTunDevice \<Rightarrow> (TunError + NetworkPacket option) \<times> MockTunDevice" where
  "mock_read_packet d =
     (if mt_closed d then (Err Tun_Closed, d)
      else case pop_front (mt_inbound d) of (p, rest) \<Rightarrow> (Ok p, d\<lparr>mt_inbound := rest\<rparr>))"

definition mock_write_packet :: "MockTunDevice \<Rightarrow> NetworkPacket \<Rightarrow> (TunError + unit) \<times> MockTunDevice" where
  "mock_write_packet d p =
     (if mt_closed d then (Err Tun_Closed, d)
      else if packet_len p > tu_mtu (mt_config d) \<or> packet_len p > tu_maximum_packet_size (mt_config d)
      then (Err (Tun_InvalidPacket (Packet_Oversized (packet_len p) (tu_maximum_packet_size (mt_config d)))), d)
      else if length (mt_outbound d) \<ge> tu_write_buffer_limit (mt_config d) then (Err Tun_QueueFull, d)
      else (Ok (), d\<lparr>mt_outbound := mt_outbound d @ [p]\<rparr>))"

definition mock_tun_close :: "MockTunDevice \<Rightarrow> (TunError + unit) \<times> MockTunDevice" where
  "mock_tun_close d =
     (if mt_closed d then (Err Tun_Closed, d)
      else (Ok (), d\<lparr>mt_closed := True, mt_inbound := [], mt_outbound := []\<rparr>))"

definition mock_tun :: "MockTunDevice TunDeviceOps" where
  "mock_tun = \<lparr>td_read_packet = mock_read_packet, td_write_packet = mock_write_packet, td_close = mock_tun_close\<rparr>"

subsubsection \<open>The Windows device\<close>

text \<open>
  The driver: \<open>drv_read w n\<close> reads into a buffer of \<open>n\<close> bytes, \<open>drv_write w bs\<close> is the number of bytes
  written; an error is its text.
\<close>

record 'w TunDriver =
  drv_read :: "'w \<Rightarrow> nat \<Rightarrow> (string + bytes) \<times> 'w"
  drv_write :: "'w \<Rightarrow> bytes \<Rightarrow> (string + nat) \<times> 'w"

record 'w WindowsTunDevice =
  wt_device :: 'w
  wt_config :: TunConfig
  wt_closed :: bool

record 'w WindowsTunReader =
  wr_reader :: 'w
  wr_config :: TunConfig

record 'w WindowsTunWriter =
  ww_writer :: 'w
  ww_config :: TunConfig

definition windows_reader_read_packet ::
  "'w TunDriver \<Rightarrow> 'w WindowsTunReader \<Rightarrow> (TunError + NetworkPacket option) \<times> 'w WindowsTunReader" where
  "windows_reader_read_packet D d =
     (case drv_read D (wr_reader d) (tu_maximum_packet_size (wr_config d)) of
        (Inl text, w) \<Rightarrow> (Err (Tun_ReadFailed text), d\<lparr>wr_reader := w\<rparr>)
      | (Inr bs, w) \<Rightarrow>
          (if bs = [] then Ok None
           else case network_packet_new bs (tu_maximum_packet_size (wr_config d)) (tu_mtu (wr_config d)) of
               Inl e \<Rightarrow> Err (Tun_InvalidPacket e)
             | Inr p \<Rightarrow> Ok (Some p),
           d\<lparr>wr_reader := w\<rparr>))"

definition windows_writer_write_packet ::
  "'w TunDriver \<Rightarrow> 'w WindowsTunWriter \<Rightarrow> NetworkPacket \<Rightarrow> (TunError + unit) \<times> 'w WindowsTunWriter" where
  "windows_writer_write_packet D d p =
     (if packet_len p > tu_maximum_packet_size (ww_config d) \<or> packet_len p > tu_mtu (ww_config d)
      then (Err (Tun_InvalidPacket (Packet_Oversized (packet_len p) (tu_maximum_packet_size (ww_config d)))), d)
      else case drv_write D (ww_writer d) (np_bytes p) of
          (Inl text, w) \<Rightarrow> (Err (Tun_WriteFailed text), d\<lparr>ww_writer := w\<rparr>)
        | (Inr written, w) \<Rightarrow>
            (if written \<noteq> packet_len p then Err (Tun_WriteFailed ''short device write'') else Ok (),
             d\<lparr>ww_writer := w\<rparr>))"

text \<open>\<open>split\<close> hands the two halves of the driver's device to a reader and a writer.\<close>

definition windows_split ::
  "('w \<Rightarrow> 'r \<times> 'x) \<Rightarrow> 'w WindowsTunDevice \<Rightarrow> 'r WindowsTunReader \<times> 'x WindowsTunWriter" where
  "windows_split device_split d =
     (case device_split (wt_device d) of (reader, writer) \<Rightarrow>
        (\<lparr>wr_reader = reader, wr_config = wt_config d\<rparr>, \<lparr>ww_writer = writer, ww_config = wt_config d\<rparr>))"

definition windows_read_packet ::
  "'w TunDriver \<Rightarrow> 'w WindowsTunDevice \<Rightarrow> (TunError + NetworkPacket option) \<times> 'w WindowsTunDevice" where
  "windows_read_packet D d =
     (if wt_closed d then (Err Tun_Closed, d)
      else case drv_read D (wt_device d) (tu_maximum_packet_size (wt_config d)) of
          (Inl text, w) \<Rightarrow> (Err (Tun_ReadFailed text), d\<lparr>wt_device := w\<rparr>)
        | (Inr bs, w) \<Rightarrow>
            (if bs = [] then Ok None
             else case network_packet_new bs (tu_maximum_packet_size (wt_config d)) (tu_mtu (wt_config d)) of
                 Inl e \<Rightarrow> Err (Tun_InvalidPacket e)
               | Inr p \<Rightarrow> Ok (Some p),
             d\<lparr>wt_device := w\<rparr>))"

definition windows_write_packet ::
  "'w TunDriver \<Rightarrow> 'w WindowsTunDevice \<Rightarrow> NetworkPacket \<Rightarrow> (TunError + unit) \<times> 'w WindowsTunDevice" where
  "windows_write_packet D d p =
     (if wt_closed d then (Err Tun_Closed, d)
      else if packet_len p > tu_maximum_packet_size (wt_config d) \<or> packet_len p > tu_mtu (wt_config d)
      then (Err (Tun_InvalidPacket (Packet_Oversized (packet_len p) (tu_maximum_packet_size (wt_config d)))), d)
      else case drv_write D (wt_device d) (np_bytes p) of
          (Inl text, w) \<Rightarrow> (Err (Tun_WriteFailed text), d\<lparr>wt_device := w\<rparr>)
        | (Inr written, w) \<Rightarrow>
            (if written \<noteq> packet_len p then Err (Tun_WriteFailed ''short device write'') else Ok (),
             d\<lparr>wt_device := w\<rparr>))"

definition windows_tun_close :: "'w WindowsTunDevice \<Rightarrow> (TunError + unit) \<times> 'w WindowsTunDevice" where
  "windows_tun_close d = (if wt_closed d then (Err Tun_Closed, d) else (Ok (), d\<lparr>wt_closed := True\<rparr>))"

definition windows_tun :: "'w TunDriver \<Rightarrow> 'w WindowsTunDevice TunDeviceOps" where
  "windows_tun D = \<lparr>td_read_packet = windows_read_packet D, td_write_packet = windows_write_packet D,
     td_close = windows_tun_close\<rparr>"

subsection \<open>The bridge\<close>

datatype TunPipelineError =
    Bridge_Tun TunError
  | Bridge_DataPlane DataPlaneError
  | Bridge_InvalidPacket PacketError

record 'd TunDataPlane =
  tb_device :: 'd
  tb_data_plane :: DataPlane
  tb_maximum_packet_size :: nat
  tb_mtu :: nat

definition tun_data_plane_new :: "'d \<Rightarrow> DataPlane \<Rightarrow> nat \<Rightarrow> nat \<Rightarrow> TunPipelineError + 'd TunDataPlane" where
  "tun_data_plane_new device data_plane maximum mtu =
     (if maximum = 0 \<or> mtu = 0 then Err (Bridge_InvalidPacket Packet_InvalidLimit)
      else Ok \<lparr>tb_device = device, tb_data_plane = data_plane, tb_maximum_packet_size = maximum, tb_mtu = mtu\<rparr>)"

definition read_frame ::
  "'d TunDeviceOps \<Rightarrow> ChannelJson \<Rightarrow> SessionLib \<Rightarrow> 'd TunDataPlane
     \<Rightarrow> (TunPipelineError + DataPlaneEnvelope option) \<times> 'd TunDataPlane" where
  "read_frame T J L b =
     (case td_read_packet T (tb_device b) of
        (Inl e, d) \<Rightarrow> (Err (Bridge_Tun e), b\<lparr>tb_device := d\<rparr>)
      | (Inr None, d) \<Rightarrow> (Ok None, b\<lparr>tb_device := d\<rparr>)
      | (Inr (Some p), d) \<Rightarrow>
          (case data_plane_send J L (tb_data_plane b) (np_bytes p) of
             (Inl e, dp) \<Rightarrow> (Err (Bridge_DataPlane e), b\<lparr>tb_device := d, tb_data_plane := dp\<rparr>)
           | (Inr frame, dp) \<Rightarrow>
               (Ok (Some \<lparr>de_kind = DATA_PLANE_KIND, de_session_id = data_plane_session_id dp, de_frame = frame\<rparr>),
                b\<lparr>tb_device := d, tb_data_plane := dp\<rparr>)))"

definition write_frame ::
  "'d TunDeviceOps \<Rightarrow> ChannelJson \<Rightarrow> SessionLib \<Rightarrow> 'd TunDataPlane \<Rightarrow> DataPlaneEnvelope
     \<Rightarrow> (TunPipelineError + NetworkPacket) \<times> 'd TunDataPlane" where
  "write_frame T J L b envelope =
     (case data_plane_receive J L (tb_data_plane b) envelope of
        (Inl e, dp) \<Rightarrow> (Err (Bridge_DataPlane e), b\<lparr>tb_data_plane := dp\<rparr>)
      | (Inr message, dp) \<Rightarrow>
          (case network_packet_new (dm_payload message) (tb_maximum_packet_size b) (tb_mtu b) of
             Inl e \<Rightarrow> (Err (Bridge_InvalidPacket e), b\<lparr>tb_data_plane := dp\<rparr>)
           | Inr p \<Rightarrow>
               (case td_write_packet T (tb_device b) p of
                  (Inl e, d) \<Rightarrow> (Err (Bridge_Tun e), b\<lparr>tb_device := d, tb_data_plane := dp\<rparr>)
                | (Inr _, d) \<Rightarrow> (Ok p, b\<lparr>tb_device := d, tb_data_plane := dp\<rparr>))))"

subsection \<open>The contract of a device\<close>

text \<open>
  A device hands out only well-formed packets within its limit and keeps its own invariant and its limit.
  The devices of the desktop client also accept only packets within their limit.
\<close>

locale tun_source =
  fixes T :: "'d TunDeviceOps"
    and dev_ok :: "'d \<Rightarrow> bool"
    and limit :: "'d \<Rightarrow> nat"
  assumes read_law: "dev_ok d \<Longrightarrow> td_read_packet T d = (x, d') \<Longrightarrow> dev_ok d' \<and> limit d' = limit d"
    and read_wf: "dev_ok d \<Longrightarrow> td_read_packet T d = (Ok (Some p), d') \<Longrightarrow> packet_wf p \<and> packet_len p \<le> limit d"
    and write_law: "dev_ok d \<Longrightarrow> packet_wf p \<Longrightarrow> td_write_packet T d p = (y, d') \<Longrightarrow> dev_ok d' \<and> limit d' = limit d"
    and close_law: "dev_ok d \<Longrightarrow> td_close T d = (y, d') \<Longrightarrow> dev_ok d' \<and> limit d' = limit d"
begin

lemma read_frame_ok:
  assumes "dev_ok (tb_device b)" and "read_frame T J L b = (x, b')"
  shows "dev_ok (tb_device b')"
proof -
  obtain r d where r: "td_read_packet T (tb_device b) = (r, d)" by fastforce
  with assms have "tb_device b' = d"
    by (auto simp: read_frame_def split: sum.splits option.splits prod.splits)
  then show ?thesis using read_law [OF assms(1) r] by simp
qed

lemma read_frame_Some:
  assumes ok: "dev_ok (tb_device b)" and rf: "read_frame T J L b = (Ok (Some env), b')"
  shows "\<exists>p d f. td_read_packet T (tb_device b) = (Ok (Some p), d) \<and> packet_wf p \<and>
     packet_len p \<le> limit (tb_device b) \<and>
     data_plane_send J L (tb_data_plane b) (np_bytes p) = (Ok f, tb_data_plane b') \<and>
     env = \<lparr>de_kind = DATA_PLANE_KIND, de_session_id = data_plane_session_id (tb_data_plane b'), de_frame = f\<rparr>"
proof -
  obtain p d f dp where
    p: "td_read_packet T (tb_device b) = (Ok (Some p), d)"
       "data_plane_send J L (tb_data_plane b) (np_bytes p) = (Ok f, dp)"
       "env = \<lparr>de_kind = DATA_PLANE_KIND, de_session_id = data_plane_session_id dp, de_frame = f\<rparr>"
       "b' = b\<lparr>tb_device := d, tb_data_plane := dp\<rparr>"
    using rf by (auto simp: read_frame_def split: sum.splits option.splits prod.splits)
  then show ?thesis using read_wf [OF ok p(1)] by simp
qed

end

locale tun_device = tun_source +
  assumes write_fits: "td_write_packet T d p = (Ok u, d') \<Longrightarrow> packet_len p \<le> limit d"
begin

lemma write_frame_Ok:
  assumes "write_frame T J L b env = (Ok p, b')"
  shows "packet_wf p \<and> packet_len p \<le> limit (tb_device b) \<and> packet_len p \<le> tb_maximum_packet_size b \<and>
     packet_len p \<le> tb_mtu b"
proof -
  obtain m :: DataPlaneMessage and d where new: "network_packet_new (dm_payload m) (tb_maximum_packet_size b) (tb_mtu b) = Ok p"
    and w: "td_write_packet T (tb_device b) p = (Ok (), d)"
    using assms by (fastforce simp: write_frame_def split: sum.splits prod.splits)
  show ?thesis using network_packet_new_Ok [OF new] write_fits [OF w] by simp
qed

end

definition mock_tun_ok :: "MockTunDevice \<Rightarrow> bool" where
  "mock_tun_ok d \<longleftrightarrow>
     (\<forall>p\<in>set (mt_inbound d). packet_wf p \<and> packet_len p \<le> min (tu_mtu (mt_config d)) (tu_maximum_packet_size (mt_config d))) \<and>
     length (mt_inbound d) \<le> tu_read_buffer_limit (mt_config d) \<and>
     length (mt_outbound d) \<le> tu_write_buffer_limit (mt_config d)"

lemma pop_front_cases: "pop_front xs = (r, ys) \<Longrightarrow> (r = None \<and> xs = [] \<and> ys = []) \<or> (\<exists>x. r = Some x \<and> xs = x # ys)"
  by (cases xs) auto

interpretation mock_device: tun_device mock_tun mock_tun_ok
  "\<lambda>d. min (tu_mtu (mt_config d)) (tu_maximum_packet_size (mt_config d))"
proof (standard, goal_cases)
  case (1 d x d')
  then show ?case
    by (auto simp: mock_tun_def mock_read_packet_def mock_tun_ok_def split: if_splits prod.splits
        dest!: pop_front_cases)
next
  case (2 d p d')
  then show ?case
    by (auto simp: mock_tun_def mock_read_packet_def mock_tun_ok_def split: if_splits prod.splits
        dest!: pop_front_cases)
qed (auto simp: mock_tun_def mock_write_packet_def mock_tun_close_def mock_tun_ok_def split: if_splits)

text \<open>The other operations of the device for tests keep its invariant, from opening on.\<close>

datatype mock_tun_event = Ev_Inject bytes | Ev_TakeWritten | Ev_Read | Ev_Write NetworkPacket | Ev_CloseTun

fun mock_tun_step :: "MockTunDevice \<Rightarrow> mock_tun_event \<Rightarrow> MockTunDevice" where
  "mock_tun_step d (Ev_Inject bs) = snd (mock_inject_packet d bs)"
| "mock_tun_step d Ev_TakeWritten = snd (mock_take_written d)"
| "mock_tun_step d Ev_Read = snd (mock_read_packet d)"
| "mock_tun_step d (Ev_Write p) = snd (mock_write_packet d p)"
| "mock_tun_step d Ev_CloseTun = snd (mock_tun_close d)"

interpretation mock_machine: event_machine mock_tun_step mock_tun_ok
proof (standard, goal_cases)
  case (1 d ev)
  show ?case
  proof (cases ev)
    case (Ev_Inject bs)
    with 1 show ?thesis
      by (auto simp: mock_inject_packet_def mock_tun_ok_def dest!: network_packet_new_Ok split: sum.splits)
  qed (use 1 in \<open>auto simp: mock_take_written_def mock_read_packet_def mock_write_packet_def mock_tun_close_def
        mock_tun_ok_def split: prod.splits dest!: pop_front_cases\<close>)
qed

lemma mock_tun_reachable: "mock_tun_ok (foldl mock_tun_step (mock_tun_open config) evs)"
  by (rule mock_machine.run_inv) (simp add: mock_tun_ok_def mock_tun_open_def)

interpretation windows_device: tun_device "windows_tun D" "\<lambda>_. True"
  "\<lambda>d. min (tu_mtu (wt_config d)) (tu_maximum_packet_size (wt_config d))" for D
proof (standard, goal_cases)
  case (2 d p d')
  then show ?case
    by (auto simp: windows_tun_def windows_read_packet_def dest!: network_packet_new_Ok
        split: if_splits prod.splits sum.splits)
qed (auto simp: windows_tun_def windows_read_packet_def windows_write_packet_def windows_tun_close_def
      split: if_splits prod.splits sum.splits)

text \<open>The reader and the writer of a split device behave like the device they come from.\<close>

lemma windows_reader_like_device:
  "\<not> wt_closed d \<Longrightarrow> fst (windows_reader_read_packet D \<lparr>wr_reader = wt_device d, wr_config = wt_config d\<rparr>) =
     fst (windows_read_packet D d)"
  by (auto simp: windows_reader_read_packet_def windows_read_packet_def split: prod.splits sum.splits)

lemma windows_writer_like_device:
  "\<not> wt_closed d \<Longrightarrow> fst (windows_writer_write_packet D \<lparr>ww_writer = wt_device d, ww_config = wt_config d\<rparr> p) =
     fst (windows_write_packet D d p)"
  by (auto simp: windows_writer_write_packet_def windows_write_packet_def split: prod.splits sum.splits)

subsection \<open>A packet crosses two bridges\<close>


subsection \<open>Witnesses\<close>

definition demo_tun_config :: TunConfig where
  "demo_tun_config = \<lparr>tu_enabled = True, tu_interface_name = ''ghost0'', tu_mtu = 1500, tu_maximum_packet_size = 1500,
     tu_read_buffer_limit = 16, tu_write_buffer_limit = 16\<rparr>"

definition demo_driver :: "bytes TunDriver" where
  "demo_driver = \<lparr>drv_read = \<lambda>w n. (Ok (take n w), drop n w), drv_write = \<lambda>w bs. (Ok (length bs), w @ bs)\<rparr>"

definition demo_bridge :: "bytes \<Rightarrow> DataPlane \<Rightarrow> bytes WindowsTunDevice TunDataPlane" where
  "demo_bridge w dp = \<lparr>tb_device = \<lparr>wt_device = w, wt_config = demo_tun_config, wt_closed = False\<rparr>,
     tb_data_plane = dp, tb_maximum_packet_size = 1500, tb_mtu = 1500\<rparr>"

definition demo_tun_bytes :: bytes where
  "demo_tun_bytes = 0x45 # replicate 19 0"

lemma demo_read_frame:
  "\<exists>env s'. read_frame (windows_tun demo_driver) demo_json demo_lib (demo_bridge demo_tun_bytes demo_dp_s) = (Ok (Some env), s')"
proof -
  have new: "network_packet_new demo_tun_bytes 1500 1500 = Ok \<lparr>np_bytes = demo_tun_bytes, np_packet_type = Ipv4\<rparr>"
    by (simp add: network_packet_new_def demo_tun_bytes_def IPV4_VERSION_def ihl_bytes_def)
  have tk: "take 1500 demo_tun_bytes = demo_tun_bytes" "demo_tun_bytes \<noteq> []" "length demo_tun_bytes = 20"
    by (simp_all add: demo_tun_bytes_def)
  have "\<exists>f c. channel_send demo_json demo_lib demo_chan_s (DataPlane demo_tun_bytes) = (Ok f, c)"
    by (simp add: channel_send_def channel_ensure_established_def demo_chan_s_def Let_def
        checked_succ_def demo_json_def demo_session_i_def session_encrypt_def sem_simps demo_lib_def tk
        demo_header_to_def demo_char_bytes_def channel_session_id_def derive_session_def nonce_from_counter_def)
  then obtain f c where "data_plane_send demo_json demo_lib demo_dp_s demo_tun_bytes = (Ok f, demo_dp_s\<lparr>dp_channel := c\<rparr>)"
    by (auto simp: data_plane_send_def demo_dp_s_def tk)
  then show ?thesis
    by (simp add: read_frame_def windows_tun_def windows_read_packet_def demo_bridge_def demo_driver_def
        demo_tun_config_def tk new)
qed


end
