(* ===== verification/Nat_Table.thy ===== *)
theory Nat_Table
  imports Net_Types
begin

text \<open>
  \<open>network/src/nat.rs\<close>: the address translation of an exit. Two hash maps, from flows to mappings
  and from translated addresses back to flows, have to stay inverse to each other. Every operation
  takes the clock readings it draws as arguments. The loop that looks for a free port tries each of
  the 25536 ports from 40000 to 65535 once.
\<close>

subsection \<open>State\<close>

record FlowKey =
  fk_flow_id :: SessionId
  fk_source :: SocketAddr
  fk_destination :: SocketAddr
  fk_session_id :: SessionId
  fk_source_identity :: PeerId
  fk_entry_peer :: PeerId
  fk_exit_peer :: PeerId
  fk_protocol :: u8

record NatMapping =
  nm_flow_id :: SessionId
  nm_source :: SocketAddr
  nm_destination :: SocketAddr
  nm_translated :: SocketAddr
  nm_session_id :: SessionId
  nm_source_identity :: PeerId
  nm_entry_peer :: PeerId
  nm_exit_peer :: PeerId
  nm_protocol :: u8
  nm_expires_at :: instant

datatype NatError =
    Nat_Capacity
  | Nat_Duplicate
  | UnknownMapping
  | Nat_BindingMismatch
  | PortExhausted
  | Nat_InvalidLifetime

record NatTable =
  nt_mappings :: "(FlowKey, NatMapping) fmap"
  nt_reverse :: "(SocketAddr, FlowKey) fmap"
  nt_maximum_mappings :: nat
  nt_lifetime :: duration
  nt_next_port :: u16
  nt_translated_address :: IpAddr

subsection \<open>Operations\<close>

definition nat_new :: "IpAddr \<Rightarrow> nat \<Rightarrow> duration \<Rightarrow> NatError + NatTable" where
  "nat_new translated_address maximum_mappings lifetime =
     (if maximum_mappings = 0 \<or> lifetime = 0 then Err Nat_InvalidLifetime
      else Ok \<lparr>nt_mappings = fmempty, nt_reverse = fmempty, nt_maximum_mappings = maximum_mappings,
               nt_lifetime = lifetime, nt_next_port = 40000,
               nt_translated_address = translated_address\<rparr>)"

definition nat_cleanup :: "instant \<Rightarrow> NatTable \<Rightarrow> NatTable" where
  "nat_cleanup now t =
     t\<lparr>nt_mappings := fm_retain (\<lambda>_ m. \<not> nm_expires_at m \<le> now) (nt_mappings t),
       nt_reverse := fmfilter
         (\<lambda>a. \<not> fBex (fmran (nt_mappings t)) (\<lambda>m. nm_expires_at m \<le> now \<and> nm_translated m = a))
         (nt_reverse t)\<rparr>"

definition advance_port :: "u16 \<Rightarrow> u16" where
  "advance_port p = (if p = - 1 then 40000 else p + 1)"

function allocate_port_loop :: "nat \<Rightarrow> NatTable \<Rightarrow> (NatError + SocketAddr) \<times> NatTable" where
  "allocate_port_loop n t =
     (if n = 0 then (Err PortExhausted, t)
      else
        let port = nt_next_port t;
            t' = t\<lparr>nt_next_port := advance_port port\<rparr>;
            candidate = sock_new (nt_translated_address t) port
        in if \<not> fm_contains (nt_reverse t) candidate then (Ok candidate, t')
           else allocate_port_loop (n - 1) t')"
  by pat_completeness auto
termination
  by (relation "measure fst") auto

declare allocate_port_loop.simps [simp del]

definition allocate_port :: "NatTable \<Rightarrow> (NatError + SocketAddr) \<times> NatTable" where
  "allocate_port t = allocate_port_loop 25536 t"

definition nat_create ::
  "instant \<Rightarrow> instant \<Rightarrow> NatTable \<Rightarrow> FlowKey \<Rightarrow> (NatError + NatMapping) \<times> NatTable" where
  "nat_create now now' t key =
     (let t1 = nat_cleanup now t in
      if fm_contains (nt_mappings t1) key then (Err Nat_Duplicate, t1)
      else if fm_size (nt_mappings t1) \<ge> nt_maximum_mappings t1 then (Err Nat_Capacity, t1)
      else case allocate_port t1 of
          (Inl e, t2) \<Rightarrow> (Err e, t2)
        | (Inr translated, t2) \<Rightarrow>
            let mapping = \<lparr>nm_flow_id = fk_flow_id key, nm_source = fk_source key,
                  nm_destination = fk_destination key, nm_translated = translated,
                  nm_session_id = fk_session_id key, nm_source_identity = fk_source_identity key,
                  nm_entry_peer = fk_entry_peer key, nm_exit_peer = fk_exit_peer key,
                  nm_protocol = fk_protocol key, nm_expires_at = now' + nt_lifetime t2\<rparr>
            in (Ok mapping,
                t2\<lparr>nt_mappings := fmupd key mapping (nt_mappings t2),
                   nt_reverse := fmupd translated key (nt_reverse t2)\<rparr>))"

definition lookup_forward ::
  "instant \<Rightarrow> NatTable \<Rightarrow> FlowKey \<Rightarrow> NatMapping option \<times> NatTable" where
  "lookup_forward now t key =
     (let t1 = nat_cleanup now t in (fmlookup (nt_mappings t1) key, t1))"

definition lookup_reverse ::
  "instant \<Rightarrow> NatTable \<Rightarrow> SocketAddr \<Rightarrow> FlowKey \<Rightarrow> (NatError + NatMapping) \<times> NatTable" where
  "lookup_reverse now t translated expected =
     (let t1 = nat_cleanup now t in
      case fmlookup (nt_reverse t1) translated of
        None \<Rightarrow> (Err UnknownMapping, t1)
      | Some key \<Rightarrow>
          if key \<noteq> expected then (Err Nat_BindingMismatch, t1)
          else case fmlookup (nt_mappings t1) key of
              None \<Rightarrow> (Err UnknownMapping, t1)
            | Some m \<Rightarrow> (Ok m, t1))"

definition nat_remove_session :: "NatTable \<Rightarrow> SessionId \<Rightarrow> NatTable" where
  "nat_remove_session t sid =
     t\<lparr>nt_mappings := fmfilter (\<lambda>k. fk_session_id k \<noteq> sid) (nt_mappings t),
       nt_reverse := fmfilter
         (\<lambda>a. \<not> fBex (fmdom (nt_mappings t))
            (\<lambda>k. fk_session_id k = sid \<and>
                 (case fmlookup (nt_mappings t) k of None \<Rightarrow> False | Some m \<Rightarrow> nm_translated m = a)))
         (nt_reverse t)\<rparr>"

definition nat_len :: "NatTable \<Rightarrow> nat" where
  "nat_len t = fm_size (nt_mappings t)"

subsection \<open>The search for a port\<close>

lemma unat_advance_port:
  "unat (advance_port p) = (if unat p = 65535 then 40000 else Suc (unat p))"
proof (cases "p = - 1")
  case True
  then show ?thesis
    by (simp add: advance_port_def unsigned_minus_1_eq_mask mask_eq_exp_minus_1)
next
  case False
  then have "unat p \<noteq> unat (- 1 :: u16)"
    by (simp only: word_unat_eq_iff [symmetric] not_False_eq_True)
  then have "unat p \<noteq> 65535"
    by (simp add: unsigned_minus_1_eq_mask mask_eq_exp_minus_1)
  moreover have "unat p < 2 ^ 16"
    using unsigned_less [of p, where ?'a = nat] by simp
  ultimately have "unat p + 1 < 2 ^ 16" by simp
  then show ?thesis
    using False \<open>unat p \<noteq> 65535\<close> by (simp add: advance_port_def unat_word_ariths)
qed

text \<open>The port tried in round \<open>i\<close>.\<close>

definition port_at :: "u16 \<Rightarrow> nat \<Rightarrow> u16" where
  "port_at p i = (advance_port ^^ i) p"

lemma unat_port_at:
  assumes "40000 \<le> unat p"
  shows "unat (port_at p i) = 40000 + (unat p - 40000 + i) mod 25536"
proof (induction i)
  case 0
  have "unat p < 2 ^ 16"
    using unsigned_less [of p, where ?'a = nat] by simp
  then show ?case using assms by (simp add: port_at_def)
next
  case (Suc i)
  define q where "q = unat p - 40000 + i"
  have eq: "unat (port_at p i) = 40000 + q mod 25536"
    using Suc by (simp add: q_def)
  have "unat (port_at p (Suc i)) = (if q mod 25536 = 25535 then 40000 else Suc (40000 + q mod 25536))"
    by (simp add: port_at_def unat_advance_port) (simp add: eq flip: port_at_def)
  also have "\<dots> = 40000 + Suc q mod 25536"
    by (auto simp: mod_Suc)
  finally show ?case by (simp add: q_def)
qed

lemma port_at_surj:
  assumes "40000 \<le> unat p" and "40000 \<le> unat q"
  shows "\<exists>i < 25536. port_at p i = q"
proof -
  have lt: "unat p < 65536" "unat q < 65536"
    using unsigned_less [of p, where ?'a = nat] unsigned_less [of q, where ?'a = nat] by simp_all
  define i where "i = (unat q + 25536 - unat p) mod 25536"
  have "i < 25536" by (simp add: i_def)
  moreover have "unat (port_at p i) = unat q"
  proof -
    have "unat p - 40000 + (unat q + 25536 - unat p) = unat q - 40000 + 25536"
      using assms lt by simp
    then have "(unat p - 40000 + i) mod 25536 = (unat q - 40000) mod 25536"
      unfolding i_def by (simp add: mod_add_right_eq)
    then show ?thesis
      using assms lt by (simp add: unat_port_at)
  qed
  ultimately show ?thesis by (auto simp: word_unat_eq_iff)
qed

lemma port_at_Suc: "port_at (advance_port p) i = port_at p (Suc i)"
  by (simp add: port_at_def funpow_swap1)

lemma allocate_port_loop_Ok:
  "allocate_port_loop n t = (Ok a, t') \<Longrightarrow>
     \<exists>i < n. a = sock_new (nt_translated_address t) (port_at (nt_next_port t) i) \<and>
       \<not> fm_contains (nt_reverse t) a \<and> t' = t\<lparr>nt_next_port := port_at (nt_next_port t) (Suc i)\<rparr>"
proof (induction n t rule: allocate_port_loop.induct)
  case (1 n t)
  let ?c = "sock_new (nt_translated_address t) (nt_next_port t)"
  have n: "n \<noteq> 0"
    using "1.prems" by (subst (asm) allocate_port_loop.simps) (auto split: if_splits)
  show ?case
  proof (cases "fm_contains (nt_reverse t) ?c")
    case False
    with n "1.prems" have "a = ?c \<and> t' = t\<lparr>nt_next_port := advance_port (nt_next_port t)\<rparr>"
      by (subst (asm) allocate_port_loop.simps) (simp add: Let_def)
    with False n show ?thesis
      by (intro exI [of _ 0]) (simp add: port_at_def)
  next
    case True
    with n "1.prems" have "allocate_port_loop (n - 1) (t\<lparr>nt_next_port := advance_port (nt_next_port t)\<rparr>) = (Ok a, t')"
      by (subst (asm) allocate_port_loop.simps) (simp add: Let_def)
    from "1.IH" [OF n refl refl refl _ this] True obtain i where
      "i < n - 1" "a = sock_new (nt_translated_address t) (port_at (nt_next_port t) (Suc i))"
      "\<not> fm_contains (nt_reverse t) a" "t' = t\<lparr>nt_next_port := port_at (nt_next_port t) (Suc (Suc i))\<rparr>"
      by (auto simp: port_at_Suc)
    then show ?thesis by (intro exI [of _ "Suc i"]) auto
  qed
qed

lemma allocate_port_loop_Err:
  "allocate_port_loop n t = (Err e, t') \<Longrightarrow>
     e = PortExhausted \<and> t' = t\<lparr>nt_next_port := port_at (nt_next_port t) n\<rparr> \<and>
     (\<forall>i < n. fm_contains (nt_reverse t) (sock_new (nt_translated_address t) (port_at (nt_next_port t) i)))"
proof (induction n t rule: allocate_port_loop.induct)
  case (1 n t)
  let ?c = "sock_new (nt_translated_address t) (nt_next_port t)"
  let ?t = "t\<lparr>nt_next_port := advance_port (nt_next_port t)\<rparr>"
  show ?case
  proof (cases "n = 0")
    case True
    with "1.prems" show ?thesis
      by (subst (asm) allocate_port_loop.simps) (simp add: port_at_def)
  next
    case n: False
    with "1.prems" have c: "fm_contains (nt_reverse t) ?c" and "allocate_port_loop (n - 1) ?t = (Err e, t')"
      by (subst (asm) allocate_port_loop.simps; simp add: Let_def split: if_splits)+
    from "1.IH" [OF n refl refl refl _ this(2)] c n have ih: "e = PortExhausted"
      "t' = t\<lparr>nt_next_port := port_at (nt_next_port t) n\<rparr>"
      "\<forall>i < n - 1. fm_contains (nt_reverse t) (sock_new (nt_translated_address t) (port_at (nt_next_port t) (Suc i)))"
      by (auto simp: port_at_Suc)
    have "fm_contains (nt_reverse t) (sock_new (nt_translated_address t) (port_at (nt_next_port t) i))" if "i < n" for i
      using that ih(3) c n by (cases i) (auto simp: port_at_def)
    with ih show ?thesis by blast
  qed
qed

subsection \<open>The two maps are inverse\<close>

definition nat_inv :: "NatTable \<Rightarrow> bool" where
  "nat_inv t \<longleftrightarrow>
     (\<forall>k m. fmlookup (nt_mappings t) k = Some m \<longrightarrow> fmlookup (nt_reverse t) (nm_translated m) = Some k) \<and>
     (\<forall>a k. fmlookup (nt_reverse t) a = Some k \<longrightarrow>
        (\<exists>m. fmlookup (nt_mappings t) k = Some m \<and> nm_translated m = a)) \<and>
     fm_size (nt_mappings t) \<le> nt_maximum_mappings t \<and> 40000 \<le> unat (nt_next_port t)"

definition mapping_of_key :: "FlowKey \<Rightarrow> NatMapping \<Rightarrow> bool" where
  "mapping_of_key k m \<longleftrightarrow>
     nm_flow_id m = fk_flow_id k \<and> nm_source m = fk_source k \<and> nm_destination m = fk_destination k \<and>
     nm_session_id m = fk_session_id k \<and> nm_source_identity m = fk_source_identity k \<and>
     nm_entry_peer m = fk_entry_peer k \<and> nm_exit_peer m = fk_exit_peer k \<and> nm_protocol m = fk_protocol k"

lemma nat_cleanup_static [frame_simps]:
  "nt_maximum_mappings (nat_cleanup now t) = nt_maximum_mappings t"
  "nt_lifetime (nat_cleanup now t) = nt_lifetime t"
  "nt_next_port (nat_cleanup now t) = nt_next_port t"
  "nt_translated_address (nat_cleanup now t) = nt_translated_address t"
  by (simp_all add: nat_cleanup_def)

lemma nat_cleanup_mappings:
  "fmlookup (nt_mappings (nat_cleanup now t)) k = Some m \<longleftrightarrow>
     fmlookup (nt_mappings t) k = Some m \<and> now < nm_expires_at m"
  by (auto simp: nat_cleanup_def split: option.splits)

lemma nat_cleanup_reverse:
  "fmlookup (nt_reverse (nat_cleanup now t)) a = Some k \<longleftrightarrow>
     fmlookup (nt_reverse t) a = Some k \<and>
     (\<forall>k' m. fmlookup (nt_mappings t) k' = Some m \<longrightarrow> nm_translated m = a \<longrightarrow> now < nm_expires_at m)"
proof -
  have "fBex (fmran (nt_mappings t)) (\<lambda>m. nm_expires_at m \<le> now \<and> nm_translated m = a) \<longleftrightarrow>
      (\<exists>k m. fmlookup (nt_mappings t) k = Some m \<and> nm_translated m = a \<and> \<not> now < nm_expires_at m)"
    unfolding not_less by (blast intro: fmranI elim: fmranE)
  then show ?thesis
    by (auto simp: nat_cleanup_def)
qed

lemma nat_cleanup_size: "fm_size (nt_mappings (nat_cleanup now t)) \<le> fm_size (nt_mappings t)"
  by (simp add: nat_cleanup_def)

lemma nat_inv_unique:
  "nat_inv t \<Longrightarrow> fmlookup (nt_mappings t) k = Some m \<Longrightarrow> fmlookup (nt_mappings t) k' = Some m' \<Longrightarrow>
   nm_translated m = nm_translated m' \<Longrightarrow> k = k'"
  unfolding nat_inv_def by (metis option.inject)

lemma nat_cleanup_inv: "nat_inv t \<Longrightarrow> nat_inv (nat_cleanup now t)"
proof -
  assume inv: "nat_inv t"
  then have "fmlookup (nt_reverse (nat_cleanup now t)) (nm_translated m) = Some k"
    if "fmlookup (nt_mappings (nat_cleanup now t)) k = Some m" for k m
    using that nat_inv_unique [OF inv]
    unfolding nat_cleanup_mappings nat_cleanup_reverse
    by (metis nat_inv_def option.inject)
  moreover have "\<exists>m. fmlookup (nt_mappings (nat_cleanup now t)) k = Some m \<and> nm_translated m = a"
    if "fmlookup (nt_reverse (nat_cleanup now t)) a = Some k" for a k
    using that inv unfolding nat_cleanup_mappings nat_cleanup_reverse by (metis nat_inv_def)
  ultimately show ?thesis
    using inv nat_cleanup_size [of now t]
    by (auto simp: nat_inv_def frame_simps)
qed

lemma nat_create_Ok:
  assumes "nat_create now now' t k = (Ok m, t')" and "40000 \<le> unat (nt_next_port t)"
  shows "\<exists>p q. let t1 = nat_cleanup now t in
     fmlookup (nt_mappings t1) k = None \<and> fm_size (nt_mappings t1) < nt_maximum_mappings t \<and>
     nm_translated m = sock_new (nt_translated_address t) p \<and> 40000 \<le> unat p \<and>
     fmlookup (nt_reverse t1) (nm_translated m) = None \<and> mapping_of_key k m \<and>
     nm_expires_at m = now' + nt_lifetime t \<and> 40000 \<le> unat q \<and>
     t' = t1\<lparr>nt_next_port := q, nt_mappings := fmupd k m (nt_mappings t1),
             nt_reverse := fmupd (nm_translated m) k (nt_reverse t1)\<rparr>"
proof -
  define t1 where "t1 = nat_cleanup now t"
  from assms(1) obtain a t2 where k: "fmlookup (nt_mappings t1) k = None"
      "fm_size (nt_mappings t1) < nt_maximum_mappings t"
    and alloc: "allocate_port_loop 25536 t1 = (Ok a, t2)"
    and m: "nm_translated m = a" "mapping_of_key k m" "nm_expires_at m = now' + nt_lifetime t2"
      "t' = t2\<lparr>nt_mappings := fmupd k m (nt_mappings t2), nt_reverse := fmupd a k (nt_reverse t2)\<rparr>"
    by (auto simp: nat_create_def t1_def fm_contains_def allocate_port_def mapping_of_key_def frame_simps Let_def
        split: if_splits prod.splits sum.splits)
  from allocate_port_loop_Ok [OF alloc] obtain i where i:
    "a = sock_new (nt_translated_address t1) (port_at (nt_next_port t1) i)"
    "\<not> fm_contains (nt_reverse t1) a" "t2 = t1\<lparr>nt_next_port := port_at (nt_next_port t1) (Suc i)\<rparr>"
    by blast
  have "nt_next_port t1 = nt_next_port t" "nt_translated_address t1 = nt_translated_address t"
    "nt_lifetime t1 = nt_lifetime t"
    by (simp_all add: t1_def frame_simps)
  then show ?thesis
    unfolding Let_def t1_def [symmetric] using i k m assms(2) unat_port_at [OF assms(2)]
    by (intro exI [of _ "port_at (nt_next_port t) i"] exI [of _ "port_at (nt_next_port t) (Suc i)"])
       (simp add: fm_contains_def)
qed

lemma nat_create_Err:
  assumes "nat_create now now' t k = (Err e, t')"
  shows "(\<exists>q. t' = (nat_cleanup now t)\<lparr>nt_next_port := q\<rparr> \<and> (40000 \<le> unat (nt_next_port t) \<longrightarrow> 40000 \<le> unat q)) \<and>
     (e = PortExhausted \<longrightarrow> 40000 \<le> unat (nt_next_port t) \<longrightarrow>
        (\<forall>p. 40000 \<le> unat p \<longrightarrow>
           fm_contains (nt_reverse (nat_cleanup now t)) (sock_new (nt_translated_address t) p)))"
proof -
  define t1 where "t1 = nat_cleanup now t"
  have st: "nt_next_port t1 = nt_next_port t" "nt_translated_address t1 = nt_translated_address t"
    by (simp_all add: t1_def frame_simps)
  have id: "t1 = t1\<lparr>nt_next_port := nt_next_port t\<rparr>"
    using st(1) by (metis NatTable.surjective NatTable.update_convs(5))
  consider "t' = t1" "e \<noteq> PortExhausted" | "allocate_port_loop 25536 t1 = (Err e, t')"
    using assms
    by (auto simp: nat_create_def t1_def allocate_port_def Let_def split: if_splits prod.splits sum.splits)
  then show ?thesis
  proof cases
    case 1
    then show ?thesis
      unfolding t1_def [symmetric] using id by blast
  next
    case 2
    note err = allocate_port_loop_Err [OF 2]
    have "fm_contains (nt_reverse t1) (sock_new (nt_translated_address t) p)"
      if "40000 \<le> unat (nt_next_port t)" "40000 \<le> unat p" for p
      using port_at_surj [OF that] err st by auto
    then show ?thesis
      unfolding t1_def [symmetric]
      using err unat_port_at [of "nt_next_port t" 25536] by (auto simp: st)
  qed
qed

lemma nat_create_inv: "nat_create now now' t k = (x, t') \<Longrightarrow> nat_inv t \<Longrightarrow> nat_inv t'"
proof (cases x)
  case (Inl e)
  assume "nat_create now now' t k = (x, t')" "nat_inv t"
  with Inl nat_create_Err [of now now' t k e t'] nat_cleanup_inv [of t now] show ?thesis
    by (auto simp: nat_inv_def)
next
  case (Inr m)
  assume cr: "nat_create now now' t k = (x, t')" and "nat_inv t"
  then have inv: "nat_inv (nat_cleanup now t)" and p: "40000 \<le> unat (nt_next_port t)"
    using nat_cleanup_inv by (blast, simp add: nat_inv_def)
  from nat_create_Ok [OF cr [unfolded Inr] p] inv show ?thesis
    by (fastforce simp: nat_inv_def Let_def frame_simps)
qed

lemma nat_remove_session_inv: "nat_inv t \<Longrightarrow> nat_inv (nat_remove_session t sid)"
proof -
  assume inv: "nat_inv t"
  let ?t = "nat_remove_session t sid"
  have maps: "fmlookup (nt_mappings ?t) k = Some m \<longleftrightarrow>
      fmlookup (nt_mappings t) k = Some m \<and> fk_session_id k \<noteq> sid" for k m
    by (auto simp: nat_remove_session_def)
  have rev: "fmlookup (nt_reverse ?t) a = Some k \<longleftrightarrow>
      fmlookup (nt_reverse t) a = Some k \<and> fk_session_id k \<noteq> sid" for a k
  proof -
    have "fBex (fmdom (nt_mappings t)) (\<lambda>k'. fk_session_id k' = sid \<and>
        (case fmlookup (nt_mappings t) k' of None \<Rightarrow> False | Some m \<Rightarrow> nm_translated m = a)) \<longleftrightarrow>
        (\<exists>k' m. fmlookup (nt_mappings t) k' = Some m \<and> fk_session_id k' = sid \<and> nm_translated m = a)"
      (is "?l \<longleftrightarrow> ?r")
    proof
      show "?l \<Longrightarrow> ?r" by (auto simp: fmlookup_dom_iff) blast
      show "?r \<Longrightarrow> ?l" by (force intro: fmdomI)
    qed
    then show ?thesis
      using inv unfolding nat_inv_def by (auto simp: nat_remove_session_def) (metis option.inject)+
  qed
  show ?thesis
    using inv unfolding nat_inv_def maps rev
    by (auto simp: nat_remove_session_def intro: le_trans [OF fm_size_filter_le])
qed

text \<open>The operations of a table as events, with the clock readings they draw.\<close>

datatype nat_event =
    Ev_Create instant instant FlowKey
  | Ev_Forward instant FlowKey
  | Ev_Reverse instant SocketAddr FlowKey
  | Ev_RemoveSession SessionId
  | Ev_Cleanup instant

fun nat_step :: "NatTable \<Rightarrow> nat_event \<Rightarrow> NatTable" where
  "nat_step t (Ev_Create now now' k) = snd (nat_create now now' t k)"
| "nat_step t (Ev_Forward now k) = snd (lookup_forward now t k)"
| "nat_step t (Ev_Reverse now a k) = snd (lookup_reverse now t a k)"
| "nat_step t (Ev_RemoveSession sid) = nat_remove_session t sid"
| "nat_step t (Ev_Cleanup now) = nat_cleanup now t"

lemma lookup_reverse_state: "snd (lookup_reverse now t a k) = nat_cleanup now t"
  by (simp add: lookup_reverse_def Let_def split: option.splits)

lemma lookup_forward_state: "snd (lookup_forward now t k) = nat_cleanup now t"
  by (simp add: lookup_forward_def Let_def)

interpretation nat_machine: event_machine nat_step nat_inv
proof (standard, goal_cases)
  case (1 t ev)
  show ?case
  proof (cases ev)
    case (Ev_Create now now' k)
    with 1 show ?thesis by (cases "nat_create now now' t k") (auto intro: nat_create_inv)
  qed (use 1 in \<open>simp_all add: lookup_reverse_state lookup_forward_state nat_cleanup_inv nat_remove_session_inv\<close>)
qed

lemma nat_new_inv: "nat_new a mx l = Ok t \<Longrightarrow> nat_inv t"
  by (auto simp: nat_new_def nat_inv_def split: if_splits)

text \<open>
  C25: in every state a NAT table can reach, forward and reverse map are inverse to each other, two
  different flows never share a translated address, and the number of mappings is at most the
  configured maximum.
\<close>

theorem nat_reachable_bijective:
  assumes "nat_new addr mx lifetime = Ok t0" and "t = foldl nat_step t0 evs"
  shows "(\<forall>k m. fmlookup (nt_mappings t) k = Some m \<longrightarrow> fmlookup (nt_reverse t) (nm_translated m) = Some k) \<and>
     (\<forall>a k. fmlookup (nt_reverse t) a = Some k \<longrightarrow>
        (\<exists>m. fmlookup (nt_mappings t) k = Some m \<and> nm_translated m = a)) \<and>
     (\<forall>k k' m m'. fmlookup (nt_mappings t) k = Some m \<longrightarrow> fmlookup (nt_mappings t) k' = Some m' \<longrightarrow>
        nm_translated m = nm_translated m' \<longrightarrow> k = k') \<and>
     nat_len t \<le> nt_maximum_mappings t"
proof -
  have "nat_inv t"
    unfolding assms(2) by (rule nat_machine.run_inv) (rule nat_new_inv [OF assms(1)])
  then show ?thesis
    using nat_inv_unique [of t] by (auto simp: nat_inv_def nat_len_def)
qed

text \<open>
  C26: creating a mapping on a consistent table gives it an unused translated address on the table's
  own address with a port from 40000 on, copies the flow's identity into it, and leaves every
  unexpired mapping of another flow in place; until it expires, the reverse lookup of that address
  returns it to the flow that created it and refuses every other flow.
\<close>

theorem nat_create_then_lookup:
  assumes inv: "nat_inv t" and cr: "nat_create now now' t k = (Ok m, t')"
    and later: "now'' < now' + nt_lifetime t"
  shows "mapping_of_key k m \<and>
     (\<exists>p. nm_translated m = sock_new (nt_translated_address t) p \<and> 40000 \<le> unat p) \<and>
     fst (lookup_reverse now'' t' (nm_translated m) k) = Ok m \<and>
     fst (lookup_forward now'' t' k) = Some m \<and>
     (\<forall>k'. k' \<noteq> k \<longrightarrow> fst (lookup_reverse now'' t' (nm_translated m) k') = Err Nat_BindingMismatch) \<and>
     (\<forall>k' m'. k' \<noteq> k \<longrightarrow> now < nm_expires_at m' \<longrightarrow>
        fmlookup (nt_mappings t) k' = Some m' \<longrightarrow>
        fmlookup (nt_mappings t') k' = Some m' \<and> nm_translated m' \<noteq> nm_translated m)"
proof -
  have p: "40000 \<le> unat (nt_next_port t)" using inv by (simp add: nat_inv_def)
  define t1 where "t1 = nat_cleanup now t"
  from nat_create_Ok [OF cr p] obtain p q where o:
    "nm_translated m = sock_new (nt_translated_address t) p" "40000 \<le> unat p"
    "fmlookup (nt_reverse t1) (nm_translated m) = None" "mapping_of_key k m"
    "nm_expires_at m = now' + nt_lifetime t"
    "t' = t1\<lparr>nt_next_port := q, nt_mappings := fmupd k m (nt_mappings t1),
             nt_reverse := fmupd (nm_translated m) k (nt_reverse t1)\<rparr>"
    unfolding Let_def t1_def by blast
  have inv': "nat_inv t'" by (rule nat_create_inv [OF cr inv])
  have map_k: "fmlookup (nt_mappings t') k = Some m"
    using o(6) by simp
  then have clean: "fmlookup (nt_mappings (nat_cleanup now'' t')) k = Some m"
    using later o(5) by (simp add: nat_cleanup_mappings)
  then have rev: "fmlookup (nt_reverse (nat_cleanup now'' t')) (nm_translated m) = Some k"
    using nat_cleanup_inv [OF inv'] by (simp add: nat_inv_def)
  have others: "fmlookup (nt_mappings t') k' = Some m' \<and> nm_translated m' \<noteq> nm_translated m"
    if "k' \<noteq> k" "now < nm_expires_at m'" "fmlookup (nt_mappings t) k' = Some m'" for k' m'
  proof -
    have "fmlookup (nt_mappings t') k' = Some m'"
      using that o(6) by (simp add: t1_def nat_cleanup_mappings)
    then show ?thesis
      using nat_inv_unique [OF inv' map_k] that(1) by metis
  qed
  have "fst (lookup_reverse now'' t' (nm_translated m) k') = (if k' = k then Ok m else Err Nat_BindingMismatch)"
    and "fst (lookup_forward now'' t' k) = Some m" for k'
    using clean rev by (simp_all add: lookup_reverse_def lookup_forward_def Let_def)
  with o(1,2,4) others show ?thesis by simp
qed

lemma nat_create_exhausted:
  assumes "\<not> fm_contains (nt_mappings (nat_cleanup now t)) k"
    and "fm_size (nt_mappings (nat_cleanup now t)) < nt_maximum_mappings t"
  shows "fst (nat_create now now' t k) = Err PortExhausted \<longleftrightarrow>
     \<not> is_ok (fst (allocate_port (nat_cleanup now t)))"
proof -
  obtain x t2 where x: "allocate_port (nat_cleanup now t) = (x, t2)"
    by (cases "allocate_port (nat_cleanup now t)")
  have "e = PortExhausted" if "x = Inl e" for e
    using x that by (auto simp: allocate_port_def dest: allocate_port_loop_Err)
  with assms x show ?thesis
    by (cases x) (auto simp: nat_create_def frame_simps Let_def not_le [symmetric])
qed

text \<open>
  On a consistent table, creating a mapping fails with \<open>PortExhausted\<close> exactly when the flow has
  no unexpired mapping, the capacity is not reached, and every port from 40000 to 65535 of the
  translated address is in use by an unexpired mapping.
\<close>

theorem nat_port_exhausted:
  assumes inv: "nat_inv t"
  shows "fst (nat_create now now' t k) = Err PortExhausted \<longleftrightarrow>
     \<not> fm_contains (nt_mappings (nat_cleanup now t)) k \<and>
     nat_len (nat_cleanup now t) < nt_maximum_mappings t \<and>
     (\<forall>p. 40000 \<le> unat p \<longrightarrow> (\<exists>k' m. fmlookup (nt_mappings t) k' = Some m \<and>
        now < nm_expires_at m \<and> nm_translated m = sock_new (nt_translated_address t) p))"
proof -
  define t1 where "t1 = nat_cleanup now t"
  have inv1: "nat_inv t1" unfolding t1_def by (rule nat_cleanup_inv [OF inv])
  have port: "40000 \<le> unat (nt_next_port t1)" and addr: "nt_translated_address t1 = nt_translated_address t"
    using inv by (simp_all add: t1_def frame_simps nat_inv_def)
  have used: "fm_contains (nt_reverse t1) a \<longleftrightarrow> (\<exists>k' m. fmlookup (nt_mappings t) k' = Some m \<and>
      now < nm_expires_at m \<and> nm_translated m = a)" for a
    using inv1 by (auto simp: nat_inv_def fm_contains_lookup t1_def nat_cleanup_mappings) metis+
  have alloc: "\<not> is_ok (fst (allocate_port t1)) \<longleftrightarrow>
      (\<forall>p. 40000 \<le> unat p \<longrightarrow> fm_contains (nt_reverse t1) (sock_new (nt_translated_address t) p))"
  proof (cases "allocate_port t1")
    case (Pair x t2)
    show ?thesis
    proof (cases x)
      case (Inl e)
      with Pair have "\<forall>i < 25536. fm_contains (nt_reverse t1)
          (sock_new (nt_translated_address t) (port_at (nt_next_port t1) i))"
        using allocate_port_loop_Err [of 25536 t1 e t2] by (simp add: allocate_port_def addr)
      with port_at_surj [OF port] Pair Inl show ?thesis by (simp, metis)
    next
      case (Inr a)
      with Pair obtain i where "a = sock_new (nt_translated_address t) (port_at (nt_next_port t1) i)"
        "\<not> fm_contains (nt_reverse t1) a"
        using allocate_port_loop_Ok [of 25536 t1 a t2] by (auto simp: allocate_port_def addr)
      moreover have "40000 \<le> unat (port_at (nt_next_port t1) i)"
        by (simp add: unat_port_at [OF port])
      ultimately show ?thesis using Pair Inr by auto
    qed
  qed
  have "fst (nat_create now now' t k) \<noteq> Err PortExhausted"
    if "fm_contains (nt_mappings t1) k \<or> \<not> nat_len t1 < nt_maximum_mappings t"
    using that by (auto simp: nat_create_def t1_def frame_simps nat_len_def Let_def)
  then show ?thesis
    using nat_create_exhausted [of now t k now'] alloc
    unfolding used by (auto simp: t1_def [symmetric] nat_len_def)
qed

subsection \<open>Witnesses\<close>

definition demo_flow :: "u16 \<Rightarrow> FlowKey" where
  "demo_flow p = \<lparr>fk_flow_id = SessionId [1], fk_source = sock_new (V4 0x0a000002) p,
     fk_destination = sock_new (V4 0xc6336401) 443, fk_session_id = SessionId [9],
     fk_source_identity = PeerId [1], fk_entry_peer = PeerId [2], fk_exit_peer = PeerId [3], fk_protocol = 17\<rparr>"

definition demo_nat :: NatTable where
  "demo_nat = \<lparr>nt_mappings = fmempty, nt_reverse = fmempty, nt_maximum_mappings = 2, nt_lifetime = 100,
     nt_next_port = 40000, nt_translated_address = V4 0xc0000201\<rparr>"

lemma demo_nat_new: "nat_new (V4 0xc0000201) 2 100 = Ok demo_nat"
  by (simp add: nat_new_def demo_nat_def)

lemma demo_nat_create: "\<exists>m t'. nat_create 5 5 demo_nat (demo_flow 1000) = (Ok m, t')"
  by (simp add: nat_create_def nat_cleanup_def demo_nat_def allocate_port_def allocate_port_loop.simps Let_def)

theorem nat_reachable_bijective_witness:
  "nat_len (foldl nat_step demo_nat [Ev_Create 5 5 (demo_flow 1000), Ev_Create 6 6 (demo_flow 1001)])
     \<le> nt_maximum_mappings (foldl nat_step demo_nat [Ev_Create 5 5 (demo_flow 1000), Ev_Create 6 6 (demo_flow 1001)])"
  using nat_reachable_bijective [OF demo_nat_new refl] by blast

theorem nat_create_then_lookup_witness:
  "\<exists>m t'. nat_create 5 5 demo_nat (demo_flow 1000) = (Ok m, t') \<and>
     fst (lookup_reverse 50 t' (nm_translated m) (demo_flow 1000)) = Ok m"
proof -
  obtain m t' where cr: "nat_create 5 5 demo_nat (demo_flow 1000) = (Ok m, t')"
    using demo_nat_create by blast
  have "50 < 5 + nt_lifetime demo_nat" by (simp add: demo_nat_def)
  from nat_create_then_lookup [OF nat_new_inv [OF demo_nat_new] cr this] cr show ?thesis by blast
qed

theorem nat_port_exhausted_witness: "fst (nat_create 5 5 demo_nat (demo_flow 1000)) \<noteq> Err PortExhausted"
proof -
  have port: "40000 \<le> unat (40000 :: u16)" and empty: "fmlookup (nt_mappings demo_nat) k = None" for k
    by (simp_all add: demo_nat_def)
  show ?thesis
    using nat_port_exhausted [OF nat_new_inv [OF demo_nat_new], of 5 5 "demo_flow 1000"] port
    unfolding empty by blast
qed

end
