(* ===== verification/Return_Path.thy ===== *)
theory Return_Path
  imports Net_Types
begin

text \<open>
  \<open>network/src/return_path.rs\<close>: the table through which a reply finds its way back. An entry can
  be consumed once; a consumed identifier is remembered for a lifetime, during which it can neither
  be consumed nor inserted again.
\<close>

subsection \<open>State and operations\<close>

record ReturnPathKey =
  rk_session_id :: SessionId
  rk_packet_id :: SessionId
  rk_source_identity :: PeerId
  rk_entry_peer :: PeerId
  rk_exit_peer :: PeerId

record ReturnPathMapping =
  rm_key :: ReturnPathKey
  rm_expires_at :: instant

datatype ReturnPathError =
    Rp_Capacity
  | Rp_Duplicate
  | Rp_Unknown
  | Rp_BindingMismatch
  | Rp_Replayed
  | Rp_InvalidLifetime

record ReturnPathTable =
  rt_entries :: "(SessionId, ReturnPathMapping) fmap"
  rt_consumed :: "(SessionId, instant) fmap"
  rt_capacity :: nat
  rt_lifetime :: duration

definition return_path_new :: "nat \<Rightarrow> duration \<Rightarrow> ReturnPathError + ReturnPathTable" where
  "return_path_new cap lifetime =
     (if cap = 0 \<or> lifetime = 0 then Err Rp_InvalidLifetime
      else Ok \<lparr>rt_entries = fmempty, rt_consumed = fmempty, rt_capacity = cap, rt_lifetime = lifetime\<rparr>)"

definition return_path_cleanup :: "instant \<Rightarrow> ReturnPathTable \<Rightarrow> ReturnPathTable" where
  "return_path_cleanup now t =
     t\<lparr>rt_entries := fm_retain (\<lambda>_ v. rm_expires_at v > now) (rt_entries t),
       rt_consumed := fm_retain (\<lambda>_ e. e > now) (rt_consumed t)\<rparr>"

definition return_path_insert ::
  "instant \<Rightarrow> instant \<Rightarrow> ReturnPathTable \<Rightarrow> ReturnPathKey \<Rightarrow> (ReturnPathError + unit) \<times> ReturnPathTable" where
  "return_path_insert now now' t key =
     (let t1 = return_path_cleanup now t in
      if fm_contains (rt_entries t1) (rk_packet_id key) \<or> fm_contains (rt_consumed t1) (rk_packet_id key)
      then (Err Rp_Duplicate, t1)
      else if fm_size (rt_entries t1) \<ge> rt_capacity t1 then (Err Rp_Capacity, t1)
      else (Ok (), t1\<lparr>rt_entries := fmupd (rk_packet_id key)
                        \<lparr>rm_key = key, rm_expires_at = now' + rt_lifetime t1\<rparr> (rt_entries t1)\<rparr>))"

definition return_path_lookup ::
  "instant \<Rightarrow> ReturnPathTable \<Rightarrow> SessionId \<Rightarrow> ReturnPathKey
     \<Rightarrow> (ReturnPathError + ReturnPathMapping) \<times> ReturnPathTable" where
  "return_path_lookup now t packet_id expected =
     (let t1 = return_path_cleanup now t in
      case fmlookup (rt_entries t1) packet_id of
        None \<Rightarrow> (Err (if fm_contains (rt_consumed t1) packet_id then Rp_Replayed else Rp_Unknown), t1)
      | Some mapping \<Rightarrow>
          if rm_key mapping \<noteq> expected then (Err Rp_BindingMismatch, t1) else (Ok mapping, t1))"

definition return_path_consume ::
  "instant \<Rightarrow> instant \<Rightarrow> ReturnPathTable \<Rightarrow> SessionId \<Rightarrow> ReturnPathKey
     \<Rightarrow> (ReturnPathError + ReturnPathMapping) \<times> ReturnPathTable" where
  "return_path_consume now now' t packet_id expected =
     (case return_path_lookup now t packet_id expected of
        (Inl e, t1) \<Rightarrow> (Err e, t1)
      | (Inr mapping, t1) \<Rightarrow>
          (Ok mapping,
           t1\<lparr>rt_entries := fmdrop packet_id (rt_entries t1),
              rt_consumed := fmupd packet_id (now' + rt_lifetime t1) (rt_consumed t1)\<rparr>))"

definition return_path_remove_session :: "ReturnPathTable \<Rightarrow> SessionId \<Rightarrow> ReturnPathTable" where
  "return_path_remove_session t sid =
     t\<lparr>rt_entries := fm_retain (\<lambda>_ m. rk_session_id (rm_key m) \<noteq> sid) (rt_entries t)\<rparr>"

definition return_path_len :: "ReturnPathTable \<Rightarrow> nat" where
  "return_path_len t = fm_size (rt_entries t)"

subsection \<open>Runs\<close>

datatype return_path_event =
    Ev_Insert instant instant ReturnPathKey
  | Ev_Lookup instant SessionId ReturnPathKey
  | Ev_Consume instant instant SessionId ReturnPathKey
  | Ev_RemoveSession SessionId
  | Ev_Cleanup instant

fun return_path_step :: "ReturnPathTable \<Rightarrow> return_path_event \<Rightarrow> ReturnPathTable" where
  "return_path_step t (Ev_Insert now now' k) = snd (return_path_insert now now' t k)"
| "return_path_step t (Ev_Lookup now i k) = snd (return_path_lookup now t i k)"
| "return_path_step t (Ev_Consume now now' i k) = snd (return_path_consume now now' t i k)"
| "return_path_step t (Ev_RemoveSession sid) = return_path_remove_session t sid"
| "return_path_step t (Ev_Cleanup now) = return_path_cleanup now t"

text \<open>The clock readings of an event.\<close>

fun event_times :: "return_path_event \<Rightarrow> instant list" where
  "event_times (Ev_Insert now now' _) = [now, now']"
| "event_times (Ev_Lookup now _ _) = [now]"
| "event_times (Ev_Consume now now' _ _) = [now, now']"
| "event_times (Ev_RemoveSession _) = []"
| "event_times (Ev_Cleanup now) = [now]"

lemma cleanup_lookups [simp]:
  "fmlookup (rt_entries (return_path_cleanup now t)) i =
     (case fmlookup (rt_entries t) i of None \<Rightarrow> None | Some m \<Rightarrow> if now < rm_expires_at m then Some m else None)"
  "fmlookup (rt_consumed (return_path_cleanup now t)) i =
     (case fmlookup (rt_consumed t) i of None \<Rightarrow> None | Some e \<Rightarrow> if now < e then Some e else None)"
  "rt_capacity (return_path_cleanup now t) = rt_capacity t"
  "rt_lifetime (return_path_cleanup now t) = rt_lifetime t"
  by (auto simp: return_path_cleanup_def)

lemma cleanup_size: "fm_size (rt_entries (return_path_cleanup now t)) \<le> fm_size (rt_entries t)"
  by (simp add: return_path_cleanup_def)

lemma return_path_lookup_state: "snd (return_path_lookup now t i k) = return_path_cleanup now t"
  by (simp add: return_path_lookup_def Let_def split: option.splits)

lemma return_path_lookup_Ok:
  "return_path_lookup now t i k = (Ok m, t') \<longleftrightarrow>
     t' = return_path_cleanup now t \<and> fmlookup (rt_entries t) i = Some m \<and> now < rm_expires_at m \<and> rm_key m = k"
  by (auto simp: return_path_lookup_def Let_def split: if_splits option.splits)

lemma return_path_consume_lookup:
  "return_path_consume now now' t i k = (Ok m, t') \<longleftrightarrow>
     return_path_lookup now t i k = (Ok m, return_path_cleanup now t) \<and>
     t' = (return_path_cleanup now t)\<lparr>rt_entries := fmdrop i (rt_entries (return_path_cleanup now t)),
            rt_consumed := fmupd i (now' + rt_lifetime t) (rt_consumed (return_path_cleanup now t))\<rparr>"
  using return_path_lookup_state [of now t i k]
  by (cases "return_path_lookup now t i k"; cases "fst (return_path_lookup now t i k)")
     (auto simp: return_path_consume_def)

lemmas return_path_consume_Ok = return_path_consume_lookup [unfolded return_path_lookup_Ok, simplified]

lemma return_path_consume_Err:
  "return_path_consume now now' t i k = (Err e, t') \<Longrightarrow> t' = return_path_cleanup now t"
  using return_path_lookup_state [of now t i k]
  by (auto simp: return_path_consume_def split: sum.splits prod.splits)

lemma return_path_consume_state:
  "snd (return_path_consume now now' t i k) = return_path_cleanup now t \<or>
   snd (return_path_consume now now' t i k) =
     (return_path_cleanup now t)\<lparr>rt_entries := fmdrop i (rt_entries (return_path_cleanup now t)),
        rt_consumed := fmupd i (now' + rt_lifetime t) (rt_consumed (return_path_cleanup now t))\<rparr>"
  using return_path_lookup_state [of now t i k]
  by (auto simp: return_path_consume_def split: sum.splits prod.splits)

lemma return_path_insert_size:
  "fm_size (rt_entries t) \<le> rt_capacity t \<Longrightarrow>
     fm_size (rt_entries (snd (return_path_insert now now' t k))) \<le> rt_capacity t"
  using cleanup_size [of now t] by (simp add: return_path_insert_def Let_def)

lemma return_path_consume_size:
  "fm_size (rt_entries (snd (return_path_consume now now' t i k))) \<le> fm_size (rt_entries t)"
  using return_path_consume_state [of now now' t i k] cleanup_size [of now t]
  by (auto intro: le_trans [OF fm_size_drop_le])

interpretation return_path_store: bounded_store return_path_step return_path_len rt_capacity
proof (standard, goal_cases)
  case (1 t ev)
  show ?case
  proof (cases ev)
    case (Ev_Consume now now' i k)
    then show ?thesis
      using return_path_consume_state [of now now' t i k] by auto
  qed (auto simp: return_path_insert_def return_path_lookup_state return_path_remove_session_def Let_def)
next
  case (2 t ev)
  then show ?case
    by (cases ev)
       (auto simp: return_path_len_def return_path_insert_size return_path_lookup_state
          return_path_remove_session_def intro: le_trans [OF return_path_consume_size]
          le_trans [OF cleanup_size] le_trans [OF fm_size_retain_le])
qed

text \<open>
  The number of entries of a return path table never exceeds its capacity, whatever operations
  run on it.
\<close>

theorem return_path_bounded:
  assumes "return_path_new cap lifetime = Ok t"
  shows "return_path_len (foldl return_path_step t evs) \<le> cap"
proof -
  have "return_path_len t \<le> rt_capacity t" "rt_capacity t = cap"
    using assms by (auto simp: return_path_new_def return_path_len_def split: if_splits)
  with return_path_store.run_bounded [of t evs] show ?thesis by simp
qed

subsection \<open>An entry is consumed once\<close>

definition consumed_until :: "instant \<Rightarrow> SessionId \<Rightarrow> ReturnPathTable \<Rightarrow> bool" where
  "consumed_until e i t \<longleftrightarrow>
     fmlookup (rt_entries t) i = None \<and> (\<exists>e'. fmlookup (rt_consumed t) i = Some e' \<and> e \<le> e')"

lemma consumed_cleanup: "consumed_until e i t \<Longrightarrow> now < e \<Longrightarrow> consumed_until e i (return_path_cleanup now t)"
  by (auto simp: consumed_until_def)

lemma consumed_insert:
  "consumed_until e i t \<Longrightarrow> now < e \<Longrightarrow> consumed_until e i (snd (return_path_insert now now' t k))"
  by (auto simp: return_path_insert_def consumed_until_def fm_contains_def Let_def)

lemma consumed_refuses:
  "consumed_until e i t \<Longrightarrow> now < e \<Longrightarrow> return_path_consume now now' t i k = (Err Rp_Replayed, return_path_cleanup now t)"
  by (auto simp: return_path_consume_def return_path_lookup_def consumed_until_def fm_contains_def Let_def)

lemma consumed_consume:
  assumes "consumed_until e i t" and "now < e"
  shows "consumed_until e i (snd (return_path_consume now now' t j k))"
proof (cases "j = i")
  case True
  with consumed_refuses [OF assms] consumed_cleanup [OF assms] show ?thesis by simp
next
  case False
  with consumed_cleanup [OF assms] return_path_consume_state [of now now' t j k] show ?thesis
    by (auto simp: consumed_until_def simp del: cleanup_lookups)
qed

lemma consumed_step:
  "consumed_until e i t \<Longrightarrow> list_all (\<lambda>x. x < e) (event_times ev) \<Longrightarrow> consumed_until e i (return_path_step t ev)"
  by (cases ev)
     (auto simp: consumed_insert consumed_consume consumed_cleanup return_path_lookup_state,
      auto simp: consumed_until_def return_path_remove_session_def)

lemma consumed_run:
  "consumed_until e i t \<Longrightarrow> list_all (\<lambda>ev. list_all (\<lambda>x. x < e) (event_times ev)) evs \<Longrightarrow>
     consumed_until e i (foldl return_path_step t evs)"
  by (induction evs arbitrary: t) (auto intro: consumed_step)

text \<open>
  C28: an entry is consumed at most once: after it was consumed for the key it was inserted with, and
  as long as its lifetime has not passed, whatever operations follow, consuming it again is answered
  with \<open>Replayed\<close> and inserting its identifier with \<open>Duplicate\<close>.
\<close>

theorem return_path_consumed_once:
  assumes cons: "return_path_consume now now' t i k = (Ok m, t1)"
    and times: "list_all (\<lambda>ev. list_all (\<lambda>x. x < now' + rt_lifetime t) (event_times ev)) evs"
    and t2: "t2 = foldl return_path_step t1 evs" and now2: "now2 < now' + rt_lifetime t"
  shows "rm_key m = k \<and> fst (return_path_consume now2 now3 t2 i k2) = Err Rp_Replayed \<and>
     (\<forall>k3. rk_packet_id k3 = i \<longrightarrow> fst (return_path_insert now2 now3 t2 k3) = Err Rp_Duplicate)"
proof -
  have "consumed_until (now' + rt_lifetime t) i t1"
    using cons by (auto simp: return_path_consume_lookup consumed_until_def)
  then have c: "consumed_until (now' + rt_lifetime t) i t2"
    unfolding t2 using times by (rule consumed_run)
  then have "fm_contains (rt_consumed (return_path_cleanup now2 t2)) i"
    using now2 by (auto simp: consumed_until_def fm_contains_def)
  then show ?thesis
    using cons consumed_refuses [OF c now2]
    by (auto simp: return_path_consume_Ok return_path_insert_def Let_def)
qed

subsection \<open>Witnesses\<close>

definition demo_rkey :: ReturnPathKey where
  "demo_rkey = \<lparr>rk_session_id = SessionId [9], rk_packet_id = SessionId [7], rk_source_identity = PeerId [1],
     rk_entry_peer = PeerId [2], rk_exit_peer = PeerId [3]\<rparr>"

definition demo_rtable :: ReturnPathTable where
  "demo_rtable = \<lparr>rt_entries = fmempty, rt_consumed = fmempty, rt_capacity = 1, rt_lifetime = 100\<rparr>"

theorem return_path_bounded_witness:
  "return_path_len (foldl return_path_step demo_rtable [Ev_Insert 1 1 demo_rkey]) \<le> 1"
  by (rule return_path_bounded [of 1 100]) (simp add: return_path_new_def demo_rtable_def)

theorem return_path_consumed_once_witness:
  "\<exists>m t1. return_path_consume 4 4 (snd (return_path_insert 3 3 demo_rtable demo_rkey)) (SessionId [7]) demo_rkey
       = (Ok m, t1) \<and>
     fst (return_path_consume 50 50 (return_path_cleanup 40 t1) (SessionId [7]) demo_rkey) = Err Rp_Replayed"
proof -
  let ?t = "snd (return_path_insert 3 3 demo_rtable demo_rkey)"
  have life: "rt_lifetime ?t = 100"
    by (simp add: return_path_insert_def demo_rtable_def return_path_cleanup_def Let_def)
  have "\<exists>m t1. return_path_consume 4 4 ?t (SessionId [7]) demo_rkey = (Ok m, t1)"
    by (simp add: return_path_consume_Ok return_path_insert_def demo_rtable_def demo_rkey_def
        return_path_cleanup_def Let_def)
  then obtain m t1 where c: "return_path_consume 4 4 ?t (SessionId [7]) demo_rkey = (Ok m, t1)" by blast
  have "fst (return_path_consume 50 50 (return_path_cleanup 40 t1) (SessionId [7]) demo_rkey) = Err Rp_Replayed"
    using return_path_consumed_once [OF c, of "[Ev_Cleanup 40]" "return_path_cleanup 40 t1" 50 50 demo_rkey]
    by (simp add: life)
  with c show ?thesis by blast
qed

end
