(* ===== verification/Dns.thy ===== *)
theory Dns
  imports Net_Types
begin

text \<open>
  \<open>network/src/dns.rs\<close>, with the query builder of \<open>client/src/engine.rs\<close>: parsing of DNS queries,
  the UDP resolver, whose socket calls are a parameter, and the resolver used in tests. The
  theorems: a query the client builds parses, and a response the resolver returns was checked
  against the query.
\<close>

unbundle bit_operations_syntax

subsection \<open>Queries\<close>

datatype DnsError =
    Dns_Disabled
  | Dns_MalformedRequest
  | Dns_UnknownHost
  | Dns_RequestTooLarge
  | Dns_ResponseTooLarge
  | Dns_Timeout
  | Dns_TransactionMismatch
  | Dns_InvalidResponse
  | Dns_ServerFailure

record DnsLimits =
  dl_maximum_request_size :: nat
  dl_maximum_response_size :: nat
  dl_timeout :: duration

datatype DnsRecordType = Dns_A | Dns_Aaaa

record DnsQuery =
  dq_transaction_id :: u16
  dq_record_type :: DnsRecordType

text \<open>The loop over the labels of the queried name; it returns the index of the terminating zero.\<close>

function dns_skip_name :: "bytes \<Rightarrow> nat \<Rightarrow> DnsError + nat" where
  "dns_skip_name packet index =
     (if index < length packet \<and> packet ! index \<noteq> 0 then
        let len = unat (packet ! index) in
        if len = 0 \<or> len > 63 \<or> index + len + 1 \<ge> length packet then Err Dns_MalformedRequest
        else dns_skip_name packet (index + len + 1)
      else Ok index)"
  by pat_completeness auto
termination
  by (relation "measure (\<lambda>(packet, index). length packet - index)") auto

declare dns_skip_name.simps [simp del]

definition dns_query_parse :: "bytes \<Rightarrow> nat \<Rightarrow> DnsError + DnsQuery" where
  "dns_query_parse packet maximum_size =
     (if length packet < 12 then Err Dns_MalformedRequest
      else if length packet > maximum_size then Err Dns_RequestTooLarge
      else if (packet ! 2) AND 0x80 \<noteq> 0 \<or> packet ! 4 \<noteq> 0 \<or> packet ! 5 \<noteq> 1 then Err Dns_MalformedRequest
      else case dns_skip_name packet 12 of
          Inl e \<Rightarrow> Err e
        | Inr index \<Rightarrow>
            if index + 4 \<ge> length packet then Err Dns_MalformedRequest
            else
              let value = u16_from_be_bytes (packet ! (index + 1)) (packet ! (index + 2));
                  transaction_id = u16_from_be_bytes (packet ! 0) (packet ! 1)
              in if value = 1 then Ok \<lparr>dq_transaction_id = transaction_id, dq_record_type = Dns_A\<rparr>
                 else if value = 28 then Ok \<lparr>dq_transaction_id = transaction_id, dq_record_type = Dns_Aaaa\<rparr>
                 else Err Dns_MalformedRequest)"

subsection \<open>The UDP resolver\<close>

text \<open>
  The socket calls of one resolution: \<open>None\<close> or \<open>False\<close> is an I/O error. \<open>us_recv n\<close> is the
  datagram read into a buffer of \<open>n\<close> bytes.
\<close>

record UdpSocketCalls =
  us_bind :: "string \<Rightarrow> bool"
  us_set_read_timeout :: "duration \<Rightarrow> bool"
  us_set_write_timeout :: "duration \<Rightarrow> bool"
  us_send_to :: "bytes \<Rightarrow> SocketAddr \<Rightarrow> bool"
  us_recv :: "nat \<Rightarrow> bytes option"

record UdpDnsResolver =
  ur_server :: SocketAddr
  ur_limits :: DnsLimits
  ur_enabled :: bool

definition udp_resolver_new :: "SocketAddr \<Rightarrow> DnsLimits \<Rightarrow> bool \<Rightarrow> DnsError + UdpDnsResolver" where
  "udp_resolver_new server limits enabled =
     (if dl_maximum_request_size limits = 0 \<or> dl_maximum_response_size limits = 0 \<or> dl_timeout limits = 0
      then Err Dns_Timeout
      else if sock_port server = 0 \<or> ip_is_unspecified (sock_ip server) then Err Dns_MalformedRequest
      else Ok \<lparr>ur_server = server, ur_limits = limits, ur_enabled = enabled\<rparr>)"

definition resolve_packet :: "UdpSocketCalls \<Rightarrow> UdpDnsResolver \<Rightarrow> bytes \<Rightarrow> DnsError + bytes" where
  "resolve_packet S r request =
     (if \<not> ur_enabled r then Err Dns_Disabled
      else case dns_query_parse request (dl_maximum_request_size (ur_limits r)) of
          Inl e \<Rightarrow> Err e
        | Inr query \<Rightarrow>
            if \<not> us_bind S (if sock_is_ipv4 (ur_server r) then ''0.0.0.0:0'' else ''[::]:0'') then Err Dns_Timeout
            else if \<not> us_set_read_timeout S (dl_timeout (ur_limits r)) then Err Dns_Timeout
            else if \<not> us_set_write_timeout S (dl_timeout (ur_limits r)) then Err Dns_Timeout
            else if \<not> us_send_to S request (ur_server r) then Err Dns_Timeout
            else case us_recv S (dl_maximum_response_size (ur_limits r) + 1) of
                None \<Rightarrow> Err Dns_Timeout
              | Some response \<Rightarrow>
                  if length response > dl_maximum_response_size (ur_limits r) then Err Dns_ResponseTooLarge
                  else if length response < 12 \<or>
                      u16_from_be_bytes (response ! 0) (response ! 1) \<noteq> dq_transaction_id query
                  then Err Dns_TransactionMismatch
                  else if (response ! 2) AND 0x80 = 0 then Err Dns_InvalidResponse
                  else if (response ! 3) AND 0x0f = 0 \<or> (response ! 3) AND 0x0f = 3 then Ok response
                  else if (response ! 3) AND 0x0f = 2 then Err Dns_ServerFailure
                  else Err Dns_InvalidResponse)"

subsection \<open>The resolver for tests\<close>

text \<open>\<open>str::from_utf8\<close> accepts exactly well-formed UTF-8; a \<open>String\<close> is its bytes.\<close>

definition byte_in :: "u8 \<Rightarrow> nat \<Rightarrow> nat \<Rightarrow> bool" where
  "byte_in b lo hi = (lo \<le> unat b \<and> unat b \<le> hi)"

fun utf8_valid :: "bytes \<Rightarrow> bool" where
  "utf8_valid [] = True"
| "utf8_valid (a # r) =
     (if byte_in a 0 0x7f then utf8_valid r
      else case r of
          [] \<Rightarrow> False
        | b # s \<Rightarrow>
            if byte_in a 0xc2 0xdf then byte_in b 0x80 0xbf \<and> utf8_valid s
            else case s of
                [] \<Rightarrow> False
              | c # t \<Rightarrow>
                  if byte_in a 0xe0 0xef then
                    byte_in b (if unat a = 0xe0 then 0xa0 else 0x80) (if unat a = 0xed then 0x9f else 0xbf) \<and>
                    byte_in c 0x80 0xbf \<and> utf8_valid t
                  else case t of
                      [] \<Rightarrow> False
                    | d # u \<Rightarrow>
                        byte_in a 0xf0 0xf4 \<and>
                        byte_in b (if unat a = 0xf0 then 0x90 else 0x80) (if unat a = 0xf4 then 0x8f else 0xbf) \<and>
                        byte_in c 0x80 0xbf \<and> byte_in d 0x80 0xbf \<and> utf8_valid u)"

record MockDnsResolver =
  md_records :: "(bytes, bytes) fmap"
  md_limits :: DnsLimits
  md_enabled :: bool
  md_timed_out :: bool

definition mock_dns_new :: "(bytes, bytes) fmap \<Rightarrow> DnsLimits \<Rightarrow> bool \<Rightarrow> DnsError + MockDnsResolver" where
  "mock_dns_new records limits enabled =
     (if dl_maximum_request_size limits = 0 \<or> dl_maximum_response_size limits = 0 \<or> dl_timeout limits = 0
      then Err Dns_Timeout
      else Ok \<lparr>md_records = records, md_limits = limits, md_enabled = enabled, md_timed_out = False\<rparr>)"

definition mock_dns_with_timeout :: "MockDnsResolver \<Rightarrow> bool \<Rightarrow> MockDnsResolver" where
  "mock_dns_with_timeout r timed_out = r\<lparr>md_timed_out := timed_out\<rparr>"

definition mock_dns_resolve :: "MockDnsResolver \<Rightarrow> bytes \<Rightarrow> DnsError + bytes" where
  "mock_dns_resolve r request =
     (if \<not> md_enabled r then Err Dns_Disabled
      else if md_timed_out r then Err Dns_Timeout
      else if request = [] then Err Dns_MalformedRequest
      else if length request > dl_maximum_request_size (md_limits r) then Err Dns_RequestTooLarge
      else if \<not> utf8_valid request then Err Dns_MalformedRequest
      else case fmlookup (md_records r) request of
          None \<Rightarrow> Err Dns_UnknownHost
        | Some response \<Rightarrow>
            if length response > dl_maximum_response_size (md_limits r) then Err Dns_ResponseTooLarge
            else Ok response)"

subsection \<open>The client's query\<close>

text \<open>\<open>str::split('.')\<close> on the bytes of a name.\<close>

fun split_dot :: "bytes \<Rightarrow> bytes list" where
  "split_dot [] = [[]]"
| "split_dot (b # bs) =
     (if b = 0x2e then [] # split_dot bs
      else case split_dot bs of l # ls \<Rightarrow> (b # l) # ls | [] \<Rightarrow> [[b]])"

fun encode_labels :: "bytes list \<Rightarrow> bytes" where
  "encode_labels [] = []"
| "encode_labels (l # ls) = of_nat (length l) # l @ encode_labels ls"

definition dns_query :: "bytes \<Rightarrow> bytes" where
  "dns_query name =
     [0x12, 0x34, 0x01, 0x00, 0x00, 0x01, 0, 0, 0, 0, 0, 0] @ encode_labels (split_dot name) @ [0, 0, 1, 0, 1]"

subsection \<open>A built query parses\<close>

definition label_ok :: "bytes \<Rightarrow> bool" where
  "label_ok l \<longleftrightarrow> 1 \<le> length l \<and> length l \<le> 63"

lemma unat_label_length: "length l \<le> 63 \<Longrightarrow> unat (of_nat (length l) :: u8) = length l"
  by (simp add: unat_of_nat take_bit_eq_mod)

lemma dns_skip_encoded:
  "list_all label_ok ls \<Longrightarrow>
     dns_skip_name (pre @ encode_labels ls @ 0 # suf) (length pre) = Ok (length pre + length (encode_labels ls))"
proof (induction ls arbitrary: pre)
  case Nil
  then show ?case by (subst dns_skip_name.simps) (simp add: nth_append)
next
  case (Cons l ls)
  let ?b = "of_nat (length l) :: u8"
  have l: "1 \<le> length l" "length l \<le> 63" "unat ?b = length l"
    using Cons.prems by (auto simp: label_ok_def intro: unat_label_length)
  then have nz: "?b \<noteq> 0"
    by (metis not_one_le_zero unsigned_0)
  have split: "pre @ encode_labels (l # ls) @ 0 # suf = (pre @ ?b # l) @ encode_labels ls @ 0 # suf"
    by simp
  have at: "(pre @ encode_labels (l # ls) @ 0 # suf) ! length pre = ?b"
    by simp
  have "dns_skip_name (pre @ encode_labels (l # ls) @ 0 # suf) (length pre) =
      dns_skip_name ((pre @ ?b # l) @ encode_labels ls @ 0 # suf) (length (pre @ ?b # l))"
    by (subst dns_skip_name.simps) (use l nz in \<open>auto simp: at Let_def\<close>)
  also have "\<dots> = Ok (length (pre @ ?b # l) + length (encode_labels ls))"
    using Cons by (intro Cons.IH) simp
  finally show ?case by simp
qed

text \<open>
  The query the client builds for a name whose labels are 1 to 63 bytes long is a query the
  exit's resolver accepts: it parses, within the size limit, as an A query with the client's
  transaction identifier.
\<close>

theorem dns_query_parses:
  assumes "list_all label_ok (split_dot name)" and "length (dns_query name) \<le> maximum_size"
  shows "dns_query_parse (dns_query name) maximum_size = Ok \<lparr>dq_transaction_id = 0x1234, dq_record_type = Dns_A\<rparr>"
proof -
  let ?pre = "[0x12, 0x34, 0x01, 0x00, 0x00, 0x01, 0, 0, 0, 0, 0, 0] :: bytes"
  let ?n = "length (encode_labels (split_dot name))"
  have q: "dns_query name = ?pre @ encode_labels (split_dot name) @ 0 # [0, 1, 0, 1]"
    by (simp add: dns_query_def)
  have "length ?pre = 12" by simp
  then have skip: "dns_skip_name (dns_query name) 12 = Ok (12 + ?n)"
    using dns_skip_encoded [OF assms(1), of ?pre "[0, 1, 0, 1]"] unfolding q by (simp only:)
  have at: "dns_query name ! (12 + ?n + 1) = 0" "dns_query name ! (12 + ?n + 2) = 1"
    "length (dns_query name) = 12 + ?n + 5"
    unfolding q by (simp_all add: nth_append)
  have hd: "dns_query name ! 0 = 0x12" "dns_query name ! Suc 0 = 0x34" "dns_query name ! 2 = 1"
    "dns_query name ! 4 = 0" "dns_query name ! 5 = 1"
    unfolding q by simp_all
  show ?thesis
    using assms(2) at
    by (simp add: dns_query_parse_def skip hd Let_def u16_from_be_bytes_def be_value_def)
qed

text \<open>
  C31: a response the resolver returns was asked for and checked: the resolver is enabled, the
  request parsed as a query within its limit, and the response fits the response limit, has at
  least a header, carries the query's transaction identifier, is marked as a response and reports
  success or a non-existent name.
\<close>

theorem dns_response_checked:
  assumes "resolve_packet S r request = Ok response"
  shows "ur_enabled r \<and> us_send_to S request (ur_server r) \<and>
     (\<exists>query. dns_query_parse request (dl_maximum_request_size (ur_limits r)) = Ok query \<and>
        length request \<le> dl_maximum_request_size (ur_limits r) \<and>
        12 \<le> length response \<and> length response \<le> dl_maximum_response_size (ur_limits r) \<and>
        u16_from_be_bytes (response ! 0) (response ! 1) = dq_transaction_id query \<and>
        (response ! 2) AND 0x80 \<noteq> 0 \<and> (response ! 3) AND 0x0f \<in> {0, 3})"
proof -
  have "length request \<le> mx" if "dns_query_parse request mx = Ok q" for mx q
    using that by (auto simp: dns_query_parse_def split: if_splits)
  with assms show ?thesis
    by (auto simp: resolve_packet_def not_less split: if_splits sum.splits option.splits)
qed

subsection \<open>Witnesses\<close>

definition demo_name :: bytes where
  "demo_name = [0x61, 0x2e, 0x62]"

definition demo_dns_socket :: UdpSocketCalls where
  "demo_dns_socket = \<lparr>us_bind = (\<lambda>_. True), us_set_read_timeout = (\<lambda>_. True),
     us_set_write_timeout = (\<lambda>_. True), us_send_to = (\<lambda>_ _. True),
     us_recv = (\<lambda>_. Some [0x12, 0x34, 0x81, 0, 0, 1, 0, 0, 0, 0, 0, 0])\<rparr>"

definition demo_resolver :: UdpDnsResolver where
  "demo_resolver = \<lparr>ur_server = sock_new (V4 0x01010101) 53,
     ur_limits = \<lparr>dl_maximum_request_size = 512, dl_maximum_response_size = 512, dl_timeout = 1\<rparr>,
     ur_enabled = True\<rparr>"

theorem dns_query_parses_witness:
  "dns_query_parse (dns_query demo_name) 512 = Ok \<lparr>dq_transaction_id = 0x1234, dq_record_type = Dns_A\<rparr>"
  by (rule dns_query_parses) (simp_all add: demo_name_def label_ok_def dns_query_def)

theorem dns_response_checked_witness:
  "\<exists>response. resolve_packet demo_dns_socket demo_resolver (dns_query demo_name) = Ok response \<and>
     u16_from_be_bytes (response ! 0) (response ! 1) = 0x1234"
proof -
  have parsed: "dns_query_parse (dns_query demo_name) 512 = Ok \<lparr>dq_transaction_id = 0x1234, dq_record_type = Dns_A\<rparr>"
    by (simp add: dns_query_def demo_name_def dns_query_parse_def dns_skip_name.simps u16_from_be_bytes_def
        be_value_def)
  have ok: "resolve_packet demo_dns_socket demo_resolver (dns_query demo_name) =
      Ok [0x12, 0x34, 0x81, 0, 0, 1, 0, 0, 0, 0, 0, 0]"
    by (simp add: resolve_packet_def demo_resolver_def parsed demo_dns_socket_def u16_from_be_bytes_def be_value_def)
  from dns_response_checked [OF ok] parsed ok show ?thesis
    by (auto simp: demo_resolver_def)
qed

end
