(* ===== verification/Rust_Text.thy ===== *)
theory Rust_Text
  imports Net_Types
begin

text \<open>
  The text operations of Rust's standard library that the sources use. A string is the list of its
  UTF-8 bytes (a HOL \<open>char\<close> is a byte): trimming, splitting, ASCII case, the reading and printing of
  unsigned numbers, and the textual forms of IP and socket addresses. The reader of addresses is the
  standard library's recursive descent: it reads as much as it can, goes back when a part fails, and
  the whole input has to be read. The round trips at the end are what the configuration and the exit
  rely on: an address that is printed reads back as itself.
\<close>

subsection \<open>White space, case and separators\<close>

text \<open>The UTF-8 encodings of the code points with the property \<open>White_Space\<close>.\<close>

definition ws_seq :: "nat list \<Rightarrow> bool" where
  "ws_seq bs =
     (case bs of
        [a] \<Rightarrow> 9 \<le> a \<and> a \<le> 13 \<or> a = 32
      | [a, b] \<Rightarrow> a = 0xc2 \<and> (b = 0x85 \<or> b = 0xa0)
      | [a, b, c] \<Rightarrow>
          a = 0xe1 \<and> b = 0x9a \<and> c = 0x80
          \<or> a = 0xe2 \<and> b = 0x80 \<and> (0x80 \<le> c \<and> c \<le> 0x8a \<or> c = 0xa8 \<or> c = 0xa9 \<or> c = 0xaf)
          \<or> a = 0xe2 \<and> b = 0x81 \<and> c = 0x9f
          \<or> a = 0xe3 \<and> b = 0x80 \<and> c = 0x80
      | _ \<Rightarrow> False)"

definition ws_prefix :: "string \<Rightarrow> nat" where
  "ws_prefix s = (if ws_seq (map of_char (take 1 s)) then 1 else if ws_seq (map of_char (take 2 s)) then 2
     else if ws_seq (map of_char (take 3 s)) then 3 else 0)"

definition ws_suffix :: "string \<Rightarrow> nat" where
  "ws_suffix r = (if ws_seq (map of_char (rev (take 1 r))) then 1 else if ws_seq (map of_char (rev (take 2 r))) then 2
     else if ws_seq (map of_char (rev (take 3 r))) then 3 else 0)"

lemma ws_prefix_nonempty: "ws_prefix s \<noteq> 0 \<Longrightarrow> s \<noteq> []"
  by (auto simp: ws_prefix_def ws_seq_def)

lemma ws_suffix_nonempty: "ws_suffix s \<noteq> 0 \<Longrightarrow> s \<noteq> []"
  by (auto simp: ws_suffix_def ws_seq_def)

function trim_start :: "string \<Rightarrow> string" where
  "trim_start s = (if ws_prefix s = 0 then s else trim_start (drop (ws_prefix s) s))"
  by pat_completeness auto
termination
  by (relation "measure length") (use ws_prefix_nonempty in \<open>auto simp: diff_less\<close>)

text \<open>\<open>trim_end\<close> works on the reversed string.\<close>

function trim_end_rev :: "string \<Rightarrow> string" where
  "trim_end_rev r = (if ws_suffix r = 0 then r else trim_end_rev (drop (ws_suffix r) r))"
  by pat_completeness auto
termination
  by (relation "measure length") (use ws_suffix_nonempty in \<open>auto simp: diff_less\<close>)

declare trim_start.simps [simp del] trim_end_rev.simps [simp del]

definition str_trim :: "string \<Rightarrow> string" where
  "str_trim s = rev (trim_end_rev (rev (trim_start s)))"

definition ascii_lower :: "char \<Rightarrow> char" where
  "ascii_lower c = (let n = of_char c :: nat in if 65 \<le> n \<and> n \<le> 90 then char_of (n + 32) else c)"

definition to_ascii_lowercase :: "string \<Rightarrow> string" where
  "to_ascii_lowercase s = map ascii_lower s"

text \<open>\<open>str::split\<close> by a character yields the parts between the separators, empty ones included.\<close>

fun split_char :: "char \<Rightarrow> string \<Rightarrow> string list" where
  "split_char c [] = [[]]"
| "split_char c (x # xs) =
     (if x = c then [] # split_char c xs
      else case split_char c xs of [] \<Rightarrow> [[x]] | p # ps \<Rightarrow> (x # p) # ps)"

fun split_once :: "char \<Rightarrow> string \<Rightarrow> (string \<times> string) option" where
  "split_once c [] = None"
| "split_once c (x # xs) =
     (if x = c then Some ([], xs) else map_option (\<lambda>(a, b). (x # a, b)) (split_once c xs))"

text \<open>
  \<open>str::lines\<close>: a line ends with a line feed, before which a carriage return is dropped; what follows
  the last line feed is a line unless it is empty.
\<close>

definition strip_cr :: "string \<Rightarrow> string" where
  "strip_cr s = (if s \<noteq> [] \<and> List.last s = char_of (13 :: nat) then butlast s else s)"

definition str_lines :: "string \<Rightarrow> string list" where
  "str_lines s =
     (let ps = split_char (char_of (10 :: nat)) s in
      map strip_cr (butlast ps) @ (if List.last ps = [] then [] else [List.last ps]))"

text \<open>\<open>str::contains\<close>.\<close>

definition str_contains :: "string \<Rightarrow> string \<Rightarrow> bool" where
  "str_contains s pat = list_ex (\<lambda>i. take (length pat) (drop i s) = pat) [0..<Suc (length s)]"

lemma split_once_append: "c \<notin> set a \<Longrightarrow> split_once c (a @ c # b) = Some (a, b)"
  by (induction a) auto

subsection \<open>Numbers\<close>

text \<open>\<open>char::to_digit\<close>: ten decimal digits, then letters in both cases.\<close>

definition to_digit :: "nat \<Rightarrow> char \<Rightarrow> nat option" where
  "to_digit radix c =
     (let n = of_char c :: nat;
          v = (if 48 \<le> n \<and> n \<le> 57 then n - 48
               else if 97 \<le> n \<and> n \<le> 122 then n - 87
               else if 65 \<le> n \<and> n \<le> 90 then n - 55 else radix)
      in if v < radix then Some v else None)"

definition is_digit :: "nat \<Rightarrow> char \<Rightarrow> bool" where
  "is_digit radix c = (to_digit radix c \<noteq> None)"

definition digits_value :: "nat \<Rightarrow> string \<Rightarrow> nat" where
  "digits_value radix ds = foldl (\<lambda>acc c. acc * radix + the (to_digit radix c)) 0 ds"

text \<open>\<open>str::parse\<close> for an unsigned type of \<open>w\<close> bits: an optional plus sign, then only digits.\<close>

definition parse_uint :: "nat \<Rightarrow> string \<Rightarrow> nat option" where
  "parse_uint w s =
     (let ds = (case s of [] \<Rightarrow> [] | c # r \<Rightarrow> if c = CHR ''+'' then r else s) in
      if ds = [] \<or> \<not> list_all (is_digit 10) ds then None
      else if digits_value 10 ds < 2 ^ w then Some (digits_value 10 ds) else None)"

text \<open>Printing in a radix of at most sixteen, with small letters.\<close>

definition digit_char :: "nat \<Rightarrow> char" where
  "digit_char d = (if d < 10 then char_of (48 + d) else char_of (87 + d))"

function show_radix :: "nat \<Rightarrow> nat \<Rightarrow> string" where
  "show_radix radix n =
     (if n < radix \<or> radix < 2 then [digit_char n] else show_radix radix (n div radix) @ [digit_char (n mod radix)])"
  by pat_completeness auto
termination
  by (relation "measure snd") auto

declare show_radix.simps [simp del]

definition show_nat :: "nat \<Rightarrow> string" where
  "show_nat n = show_radix 10 n"

lemma to_digit_digit_char: "d < radix \<Longrightarrow> radix \<le> 16 \<Longrightarrow> to_digit radix (digit_char d) = Some d"
  by (auto simp: to_digit_def digit_char_def Let_def)

lemma show_radix_small: "n < radix \<Longrightarrow> show_radix radix n = [digit_char n]"
  by (simp add: show_radix.simps)

lemma show_radix_large:
  "\<not> n < radix \<Longrightarrow> 2 \<le> radix \<Longrightarrow> show_radix radix n = show_radix radix (n div radix) @ [digit_char (n mod radix)]"
  by (simp add: show_radix.simps)

lemma show_radix_nonempty: "show_radix radix n \<noteq> []"
  by (subst show_radix.simps) auto

lemma show_radix_induct [consumes 1, case_names small large]:
  fixes n :: nat
  assumes "2 \<le> radix" and "\<And>n. n < radix \<Longrightarrow> P n"
    and "\<And>n. \<not> n < radix \<Longrightarrow> n div radix \<noteq> 0 \<Longrightarrow> P (n div radix) \<Longrightarrow> P n"
  shows "P n"
proof (induction n rule: less_induct)
  case (less n)
  show ?case
  proof (cases "n < radix")
    case False
    then have "n div radix < n" and "n div radix \<noteq> 0"
      using assms(1) by (auto simp: div_eq_0_iff)
    with less False assms(3) show ?thesis by blast
  qed (rule assms(2))
qed

lemma show_radix_digits:
  assumes "2 \<le> radix" and "radix \<le> 16"
  shows "list_all (is_digit radix) (show_radix radix n)"
  using assms(1)
proof (induction n rule: show_radix_induct)
  case (small n)
  then show ?case
    using assms by (simp add: show_radix_small is_digit_def to_digit_digit_char)
next
  case (large n)
  moreover have "is_digit radix (digit_char (n mod radix))"
    using assms by (simp add: is_digit_def to_digit_digit_char)
  ultimately show ?case
    using assms by (simp add: show_radix_large)
qed

lemma digits_value_snoc: "digits_value radix (ds @ [c]) = digits_value radix ds * radix + the (to_digit radix c)"
  by (simp add: digits_value_def)

lemma show_radix_value:
  assumes "2 \<le> radix" and "radix \<le> 16"
  shows "digits_value radix (show_radix radix n) = n"
  using assms(1)
proof (induction n rule: show_radix_induct)
  case (small n)
  then show ?case
    using assms by (simp add: show_radix_small digits_value_def to_digit_digit_char)
next
  case (large n)
  then show ?case
    using assms by (simp add: show_radix_large digits_value_snoc to_digit_digit_char)
qed

lemma digit_char_zero: "d < 16 \<Longrightarrow> digit_char d = CHR ''0'' \<Longrightarrow> d = 0"
proof -
  assume "d < 16" and "digit_char d = CHR ''0''"
  then have "to_digit 16 (CHR ''0'') = Some d"
    using to_digit_digit_char [of d 16] by simp
  then show "d = 0" by (simp add: to_digit_def)
qed

lemma show_radix_no_leading_zero:
  assumes "2 \<le> radix" and "radix \<le> 16" and "n \<noteq> 0"
  shows "hd (show_radix radix n) \<noteq> CHR ''0''"
  using assms(1,3)
proof (induction n rule: show_radix_induct)
  case (small n)
  then show ?case
    using assms digit_char_zero [of n] by (auto simp: show_radix_small)
next
  case (large n)
  then show ?case
    using assms by (simp add: show_radix_large show_radix_nonempty)
qed

lemma show_radix_length:
  assumes "2 \<le> radix" and "n < radix ^ k" and "0 < k"
  shows "length (show_radix radix n) \<le> k"
  using assms(2,3)
proof (induction k arbitrary: n)
  case (Suc k)
  show ?case
  proof (cases "n < radix")
    case False
    then have k: "0 < k"
      using Suc.prems(1) by (cases k) auto
    have "n div radix < radix ^ k"
      using Suc.prems(1) assms(1) by (simp add: less_mult_imp_div_less mult.commute)
    from Suc.IH [OF this k] False assms(1) show ?thesis
      by (simp add: show_radix_large)
  qed (simp add: show_radix_small)
qed simp

lemma show_radix_zero: "2 \<le> radix \<Longrightarrow> show_radix radix 0 = ''0''"
proof -
  assume "2 \<le> radix"
  moreover have "char_of (of_char (CHR ''0'') :: nat) = CHR ''0''"
    by (rule char_of_char)
  ultimately show ?thesis
    by (simp add: show_radix_small digit_char_def)
qed

lemma parse_uint_show_nat: "n < 2 ^ w \<Longrightarrow> parse_uint w (show_nat n) = Some n"
proof -
  assume n: "n < 2 ^ w"
  have d: "list_all (is_digit 10) (show_nat n)" and v: "digits_value 10 (show_nat n) = n"
    by (simp_all add: show_nat_def show_radix_digits show_radix_value)
  have "\<not> is_digit 10 (CHR ''+'')"
    by (simp add: is_digit_def to_digit_def)
  then have "(case show_nat n of [] \<Rightarrow> [] | c # r \<Rightarrow> if c = CHR ''+'' then r else show_nat n) = show_nat n"
    using d by (cases "show_nat n") auto
  then show ?thesis
    using n d v show_radix_nonempty [of 10 n, folded show_nat_def] by (simp add: parse_uint_def)
qed

subsection \<open>Reading addresses\<close>

text \<open>
  A reader returns what it read and the rest of the input, or \<open>None\<close> with nothing consumed.
  \<open>read_number\<close> takes all digits there are; more than \<open>maximum\<close> digits, an overflow, or a leading
  zero where none is allowed is a failure.
\<close>

definition read_number :: "nat \<Rightarrow> nat option \<Rightarrow> bool \<Rightarrow> nat \<Rightarrow> string \<Rightarrow> (nat \<times> string) option" where
  "read_number radix maximum allow_zero_prefix bound s =
     (let ds = takeWhile (is_digit radix) s; rest = dropWhile (is_digit radix) s in
      if ds = [] then None
      else if (case maximum of None \<Rightarrow> False | Some m \<Rightarrow> length ds > m) then None
      else if \<not> allow_zero_prefix \<and> hd ds = CHR ''0'' \<and> length ds > 1 then None
      else if digits_value radix ds < bound then Some (digits_value radix ds, rest) else None)"

fun read_char :: "char \<Rightarrow> string \<Rightarrow> string option" where
  "read_char c [] = None"
| "read_char c (x # xs) = (if x = c then Some xs else None)"

definition read_separator :: "char \<Rightarrow> nat \<Rightarrow> (string \<Rightarrow> ('a \<times> string) option) \<Rightarrow> string \<Rightarrow> ('a \<times> string) option" where
  "read_separator c index inner s =
     (if index > 0 then (case read_char c s of None \<Rightarrow> None | Some r \<Rightarrow> inner r) else inner s)"

text \<open>The octets of an IPv4 address: \<open>n\<close> more groups, the first of them with index \<open>i\<close>.\<close>

fun read_octets :: "nat \<Rightarrow> nat \<Rightarrow> string \<Rightarrow> (nat list \<times> string) option" where
  "read_octets 0 i s = Some ([], s)"
| "read_octets (Suc n) i s =
     (case read_separator (CHR ''.'') i (read_number 10 (Some 3) False 256) s of
        None \<Rightarrow> None
      | Some (b, r) \<Rightarrow> map_option (\<lambda>(bs, r'). (b # bs, r')) (read_octets n (Suc i) r))"

definition read_ipv4 :: "string \<Rightarrow> (nat list \<times> string) option" where
  "read_ipv4 s = read_octets 4 0 s"

definition hex_group :: "string \<Rightarrow> (nat \<times> string) option" where
  "hex_group = read_number 16 (Some 4) True 65536"

text \<open>
  The groups of an IPv6 address: \<open>n\<close> more slots, the first of them with index \<open>i\<close>. An embedded
  IPv4 address takes the last two slots that are read.
\<close>

fun read_groups :: "nat \<Rightarrow> nat \<Rightarrow> string \<Rightarrow> nat list \<times> bool \<times> string" where
  "read_groups 0 i s = ([], False, s)"
| "read_groups (Suc n) i s =
     (case (if n \<ge> 1 then read_separator (CHR '':'') i read_ipv4 s else None) of
        Some (os, r) \<Rightarrow> ([os ! 0 * 256 + os ! 1, os ! 2 * 256 + os ! 3], True, r)
      | None \<Rightarrow>
          (case read_separator (CHR '':'') i hex_group s of
             None \<Rightarrow> ([], False, s)
           | Some (g, r) \<Rightarrow> (case read_groups n (Suc i) r of (gs, v4, r') \<Rightarrow> (g # gs, v4, r'))))"

definition read_ipv6 :: "string \<Rightarrow> (nat list \<times> string) option" where
  "read_ipv6 s =
     (case read_groups 8 0 s of (head, v4, r) \<Rightarrow>
        if length head = 8 then Some (head, r)
        else if v4 then None
        else case read_char (CHR '':'') r of
            None \<Rightarrow> None
          | Some r1 \<Rightarrow>
            (case read_char (CHR '':'') r1 of
               None \<Rightarrow> None
             | Some r2 \<Rightarrow>
                 (case read_groups (7 - length head) 0 r2 of (tail, _, r3) \<Rightarrow>
                    Some (head @ replicate (8 - length head - length tail) 0 @ tail, r3))))"

definition v4_of_octets :: "nat list \<Rightarrow> 32 word" where
  "v4_of_octets os = of_nat (foldl (\<lambda>acc b. acc * 256 + b) 0 os)"

definition v6_of_groups :: "nat list \<Rightarrow> 128 word" where
  "v6_of_groups gs = of_nat (foldl (\<lambda>acc g. acc * 65536 + g) 0 gs)"

definition read_port :: "string \<Rightarrow> (nat \<times> string) option" where
  "read_port s = (case read_char (CHR '':'') s of None \<Rightarrow> None | Some r \<Rightarrow> read_number 10 None True 65536 r)"

definition read_scope_id :: "string \<Rightarrow> (nat \<times> string) option" where
  "read_scope_id s = (case read_char (CHR ''%'') s of None \<Rightarrow> None | Some r \<Rightarrow> read_number 10 None True (2 ^ 32) r)"

definition read_ip :: "string \<Rightarrow> (IpAddr \<times> string) option" where
  "read_ip s =
     (case read_ipv4 s of
        Some (os, r) \<Rightarrow> Some (V4 (v4_of_octets os), r)
      | None \<Rightarrow> map_option (\<lambda>(gs, r). (V6 (v6_of_groups gs), r)) (read_ipv6 s))"

definition read_socket_v4 :: "string \<Rightarrow> (SocketAddr \<times> string) option" where
  "read_socket_v4 s =
     (case read_ipv4 s of
        None \<Rightarrow> None
      | Some (os, r) \<Rightarrow> map_option (\<lambda>(p, r'). (SocketV4 (v4_of_octets os) (of_nat p), r')) (read_port r))"

definition read_socket_v6 :: "string \<Rightarrow> (SocketAddr \<times> string) option" where
  "read_socket_v6 s =
     (case read_char (CHR ''['') s of
        None \<Rightarrow> None
      | Some r \<Rightarrow>
        (case read_ipv6 r of
           None \<Rightarrow> None
         | Some (gs, r1) \<Rightarrow>
             let (scope, r2) = (case read_scope_id r1 of Some x \<Rightarrow> x | None \<Rightarrow> (0, r1)) in
             case read_char (CHR '']'') r2 of
               None \<Rightarrow> None
             | Some r3 \<Rightarrow>
                 map_option (\<lambda>(p, r'). (SocketV6 (v6_of_groups gs) (of_nat p) 0 (of_nat scope), r')) (read_port r3)))"

definition all_read :: "('a \<times> string) option \<Rightarrow> 'a option" where
  "all_read x = (case x of Some (a, []) \<Rightarrow> Some a | _ \<Rightarrow> None)"

text \<open>\<open>str::parse\<close> for \<open>IpAddr\<close> and \<open>SocketAddr\<close>.\<close>

definition ip_parse :: "string \<Rightarrow> IpAddr option" where
  "ip_parse s = all_read (read_ip s)"

definition socket_parse :: "string \<Rightarrow> SocketAddr option" where
  "socket_parse s =
     all_read (case read_socket_v4 s of Some x \<Rightarrow> Some x | None \<Rightarrow> read_socket_v6 s)"

subsection \<open>Printing addresses\<close>

fun join :: "char \<Rightarrow> string list \<Rightarrow> string" where
  "join c [] = []"
| "join c [p] = p"
| "join c (p # q # ps) = p @ c # join c (q # ps)"

definition v4_to_string :: "32 word \<Rightarrow> string" where
  "v4_to_string a = join (CHR ''.'') (map (\<lambda>b. show_nat (unat b)) (v4_octets a))"

text \<open>The eight groups of an IPv6 address, and its longest run of zero groups: the first of those.\<close>

fun group_values :: "bytes \<Rightarrow> nat list" where
  "group_values (a # b # r) = (unat a * 256 + unat b) # group_values r"
| "group_values _ = []"

definition v6_segments :: "128 word \<Rightarrow> nat list" where
  "v6_segments a = group_values (v6_octets a)"

text \<open>The loop over the segments: index, current span and longest span, as pairs of start and length.\<close>

fun zero_span :: "nat \<Rightarrow> nat \<times> nat \<Rightarrow> nat \<times> nat \<Rightarrow> nat list \<Rightarrow> nat \<times> nat" where
  "zero_span i cur best [] = best"
| "zero_span i (start, len) (bstart, blen) (g # gs) =
     (if g = 0 then
        let start' = (if len = 0 then i else start); len' = len + 1 in
        zero_span (i + 1) (start', len') (if len' > blen then (start', len') else (bstart, blen)) gs
      else zero_span (i + 1) (0, 0) (bstart, blen) gs)"

definition groups_text :: "nat list \<Rightarrow> string" where
  "groups_text gs = join (CHR '':'') (map (show_radix 16) gs)"

definition v6_to_string :: "128 word \<Rightarrow> string" where
  "v6_to_string a =
     (let gs = v6_segments a in
      if take 6 gs = [0, 0, 0, 0, 0, 0xffff] then ''::ffff:'' @ v4_to_string (v4_from_octets (drop 12 (v6_octets a)))
      else case zero_span 0 (0, 0) (0, 0) gs of (start, len) \<Rightarrow>
        if len > 1 then groups_text (take start gs) @ ''::'' @ groups_text (drop (start + len) gs)
        else groups_text gs)"

fun ip_to_string :: "IpAddr \<Rightarrow> string" where
  "ip_to_string (V4 a) = v4_to_string a"
| "ip_to_string (V6 a) = v6_to_string a"

fun socket_to_string :: "SocketAddr \<Rightarrow> string" where
  "socket_to_string (SocketV4 a p) = v4_to_string a @ '':'' @ show_nat (unat p)"
| "socket_to_string (SocketV6 a p flow scope) =
     (if scope = 0 then ''['' @ v6_to_string a @ '']:'' @ show_nat (unat p)
      else ''['' @ v6_to_string a @ ''%'' @ show_nat (unat scope) @ '']:'' @ show_nat (unat p))"

subsection \<open>Printed addresses read back\<close>

definition stops :: "nat \<Rightarrow> string \<Rightarrow> bool" where
  "stops radix r \<longleftrightarrow> r = [] \<or> \<not> is_digit radix (hd r)"

lemma takeWhile_stops:
  assumes "list_all P ds" and "r = [] \<or> \<not> P (hd r)"
  shows "takeWhile P (ds @ r) = ds" and "dropWhile P (ds @ r) = r"
  using assms by (induction ds) (cases r; auto)+

lemma read_number_show:
  assumes radix: "2 \<le> radix" "radix \<le> 16" and n: "n < bound" and stop: "stops radix r"
    and len: "\<And>m. maximum = Some m \<Longrightarrow> length (show_radix radix n) \<le> m"
  shows "read_number radix maximum allow bound (show_radix radix n @ r) = Some (n, r)"
proof -
  note tw = takeWhile_stops [OF show_radix_digits [OF radix] stop [unfolded stops_def], of n]
  have "hd (show_radix radix n) \<noteq> CHR ''0'' \<or> length (show_radix radix n) = 1"
    using show_radix_no_leading_zero [OF radix, of n] show_radix_zero [OF radix(1)] by (cases "n = 0") auto
  moreover have "\<not> (case maximum of None \<Rightarrow> False | Some m \<Rightarrow> length (show_radix radix n) > m)"
    using len by (auto simp: not_less split: option.splits)
  ultimately show ?thesis
    using n by (auto simp: read_number_def tw show_radix_nonempty show_radix_value [OF radix] Let_def)
qed

lemma read_number_empty: "stops radix r \<Longrightarrow> read_number radix maximum allow bound r = None"
  by (cases r) (auto simp: read_number_def stops_def)

lemma stops_simps:
  "stops radix []" "stops radix (CHR ''.'' # r)" "stops radix (CHR '':'' # r)" "stops radix (CHR '']'' # r)"
  "stops radix (CHR ''%'' # r)" "stops radix (CHR ''['' # r)"
  by (auto simp: stops_def is_digit_def to_digit_def)

subsubsection \<open>IPv4\<close>

lemma join_concat: "join c (p # ps) = p @ concat (map ((#) c) ps)"
  by (induction ps arbitrary: p) auto

lemma octet_length: "n < 256 \<Longrightarrow> length (show_radix 10 n) \<le> 3"
  by (rule show_radix_length) auto

lemma stops_dotted: "stops 10 r \<Longrightarrow> stops 10 (concat (map (\<lambda>b. CHR ''.'' # show_nat b) bs) @ r)"
  by (cases bs) (auto simp: stops_simps)

lemma read_octets_dotted:
  assumes "list_all (\<lambda>b. b < 256) bs" and "stops 10 r" and "0 < i"
  shows "read_octets (length bs) i (concat (map (\<lambda>b. CHR ''.'' # show_nat b) bs) @ r) = Some (bs, r)"
  using assms(1,3)
proof (induction bs arbitrary: i)
  case (Cons b bs)
  have "read_number 10 (Some 3) False 256
      (show_radix 10 b @ concat (map (\<lambda>b. CHR ''.'' # show_nat b) bs) @ r) =
      Some (b, concat (map (\<lambda>b. CHR ''.'' # show_nat b) bs) @ r)"
    using Cons.prems assms(2) by (intro read_number_show stops_dotted) (auto intro: octet_length)
  with Cons show ?case
    by (simp add: read_separator_def show_nat_def)
qed simp

lemma read_ipv4_unfold:
  "read_ipv4 s = (case read_number 10 (Some 3) False 256 s of None \<Rightarrow> None
     | Some (b, r) \<Rightarrow> map_option (\<lambda>(bs, r'). (b # bs, r')) (read_octets 3 (Suc 0) r))"
  using read_octets.simps(2) [of 3 0 s] by (simp add: read_ipv4_def read_separator_def)

lemma read_octets_no_dot: "read_char (CHR ''.'') r = None \<Longrightarrow> read_octets 3 (Suc 0) r = None"
  using read_octets.simps(2) [of 2 "Suc 0" r] by (simp add: read_separator_def)

lemma read_ipv4_text:
  assumes "list_all (\<lambda>b. b < 256) bs" and "length bs = 4" and "stops 10 r"
  shows "read_ipv4 (join (CHR ''.'') (map show_nat bs) @ r) = Some (bs, r)"
proof -
  obtain b bs' where bs: "bs = b # bs'" and len: "length bs' = 3"
    using assms(2) by (cases bs) auto
  let ?t = "concat (map (\<lambda>b. CHR ''.'' # show_nat b) bs') @ r"
  have "read_number 10 (Some 3) False 256 (show_radix 10 b @ ?t) = Some (b, ?t)"
    using assms bs by (intro read_number_show stops_dotted) (auto intro: octet_length)
  moreover have "read_octets 3 (Suc 0) ?t = Some (bs', r)"
    using read_octets_dotted [of bs' r 1] assms bs len by simp
  moreover have "join (CHR ''.'') (map show_nat bs) @ r = show_radix 10 b @ ?t"
    by (simp add: bs join_concat show_nat_def comp_def)
  ultimately show ?thesis
    by (simp add: read_ipv4_unfold bs)
qed

lemma octets_bounded: "list_all (\<lambda>b. b < 256) (map unat (bs :: bytes))"
  using unsigned_less [where ?'a = nat and ?'b = 8] by (simp add: list_all_iff)

lemma read_v4_string: "stops 10 r \<Longrightarrow> read_ipv4 (v4_to_string a @ r) = Some (map unat (v4_octets a), r)"
  using read_ipv4_text [OF octets_bounded, of "v4_octets a" r] by (simp add: v4_to_string_def comp_def)

lemma foldl_be_value: "foldl (\<lambda>acc b. acc * 256 + b) acc (map unat bs) = be_value_acc acc bs"
  by (induction bs arbitrary: acc) auto

lemma v4_of_octets: "v4_of_octets (map unat (v4_octets a)) = a"
  using v4_octets_roundtrip [of a] by (simp add: v4_of_octets_def foldl_be_value v4_from_octets_def be_value_def)

subsubsection \<open>IPv6\<close>

lemma read_ipv4_hex:
  assumes "list_all (is_digit 16) ds" and "t = [] \<or> \<not> is_digit 10 (hd t) \<and> hd t \<noteq> CHR ''.''"
  shows "read_ipv4 (ds @ t) = None"
proof -
  have dot: "\<not> is_digit 16 (CHR ''.'')"
    by (simp add: is_digit_def to_digit_def)
  let ?r = "dropWhile (is_digit 10) (ds @ t)"
  have "read_char (CHR ''.'') ?r = None"
    using assms dot
  proof (induction ds)
    case Nil
    then show ?case by (cases t) auto
  next
    case (Cons d ds)
    then show ?case by (cases "is_digit 10 d") auto
  qed
  then have "read_octets 3 (Suc 0) ?r = None"
    by (rule read_octets_no_dot)
  then show ?thesis
    by (simp add: read_ipv4_unfold read_number_def Let_def split: option.splits)
qed

lemma read_ipv4_empty: "stops 10 r \<Longrightarrow> read_ipv4 r = None"
  by (simp add: read_ipv4_unfold read_number_empty)

text \<open>What may follow the groups of an address: its end, or the two colons of a run of zeros.\<close>

definition rest_stops :: "string \<Rightarrow> bool" where
  "rest_stops r \<longleftrightarrow> r = [] \<or> hd r = CHR '']'' \<or> hd r = CHR ''%'' \<or> (\<exists>r'. r = CHR '':'' # CHR '':'' # r')"

lemma rest_stops_stops: "rest_stops r \<Longrightarrow> stops radix r"
  by (cases r) (auto simp: rest_stops_def stops_simps)

lemma rest_stops_separator:
  assumes "rest_stops r"
  shows "read_separator (CHR '':'') i read_ipv4 r = None" and "read_separator (CHR '':'') i hex_group r = None"
  using assms rest_stops_stops [OF assms, of 10] rest_stops_stops [OF assms, of 16]
  by (auto simp: rest_stops_def read_separator_def hex_group_def read_ipv4_empty read_number_empty stops_simps
      split: option.splits elim: read_char.elims)

lemma read_groups_stop: "rest_stops r \<Longrightarrow> read_groups n i r = ([], False, r)"
  by (cases n) (simp_all add: rest_stops_separator)

lemma group_length: "g < 65536 \<Longrightarrow> length (show_radix 16 g) \<le> 4"
  by (rule show_radix_length) auto

lemma stops_groups: "rest_stops r \<Longrightarrow> stops radix (concat (map (\<lambda>g. CHR '':'' # show_radix 16 g) gs) @ r)"
  by (cases gs) (auto simp: stops_simps rest_stops_stops)

lemma head_groups:
  "rest_stops r \<Longrightarrow> (let t = concat (map (\<lambda>g. CHR '':'' # show_radix 16 g) gs) @ r in
     t = [] \<or> \<not> is_digit 10 (hd t) \<and> hd t \<noteq> CHR ''.'')"
  using stops_groups [of r 10 gs] by (cases gs) (auto simp: stops_def rest_stops_def Let_def)

lemma read_one_group:
  assumes "g < 65536" and "rest_stops r"
  shows "read_ipv4 (show_radix 16 g @ concat (map (\<lambda>g. CHR '':'' # show_radix 16 g) gs) @ r) = None"
    and "hex_group (show_radix 16 g @ concat (map (\<lambda>g. CHR '':'' # show_radix 16 g) gs) @ r) =
      Some (g, concat (map (\<lambda>g. CHR '':'' # show_radix 16 g) gs) @ r)"
proof -
  show "read_ipv4 (show_radix 16 g @ concat (map (\<lambda>g. CHR '':'' # show_radix 16 g) gs) @ r) = None"
    using head_groups [OF assms(2), of gs] by (intro read_ipv4_hex) (auto simp: show_radix_digits Let_def)
  show "hex_group (show_radix 16 g @ concat (map (\<lambda>g. CHR '':'' # show_radix 16 g) gs) @ r) =
      Some (g, concat (map (\<lambda>g. CHR '':'' # show_radix 16 g) gs) @ r)"
    unfolding hex_group_def using assms by (intro read_number_show stops_groups) (auto intro: group_length)
qed

lemma read_groups_tail:
  assumes "list_all (\<lambda>g. g < 65536) gs" and "rest_stops r" and "length gs \<le> n" and "0 < i"
  shows "read_groups n i (concat (map (\<lambda>g. CHR '':'' # show_radix 16 g) gs) @ r) = (gs, False, r)"
  using assms(1,3,4)
proof (induction gs arbitrary: n i)
  case Nil
  then show ?case using assms(2) by (simp add: read_groups_stop)
next
  case (Cons g gs)
  then obtain m where n: "n = Suc m" and m: "length gs \<le> m"
    by (cases n) auto
  show ?case
    using Cons read_one_group [of g r gs] assms(2) m by (simp add: n read_separator_def)
qed

lemma read_groups_text:
  assumes "list_all (\<lambda>g. g < 65536) gs" and "rest_stops r" and "length gs \<le> n"
  shows "read_groups n 0 (groups_text gs @ r) = (gs, False, r)"
proof (cases gs)
  case Nil
  then show ?thesis using assms(2) by (simp add: groups_text_def read_groups_stop)
next
  case (Cons g gs')
  then obtain m where n: "n = Suc m" and m: "length gs' \<le> m"
    using assms(3) by (cases n) auto
  have t: "groups_text (g # gs') @ r = show_radix 16 g @ concat (map (\<lambda>g. CHR '':'' # show_radix 16 g) gs') @ r"
    by (simp add: groups_text_def join_concat comp_def)
  show ?thesis
    using read_one_group [of g r gs'] read_groups_tail [of gs' r m 1] assms m
    by (simp add: t n Cons read_separator_def)
qed

text \<open>The span of zeros that the printer leaves out really consists of zeros.\<close>

definition zeros_at :: "nat list \<Rightarrow> nat \<times> nat \<Rightarrow> bool" where
  "zeros_at gs span \<longleftrightarrow> snd span = 0 \<or>
     fst span + snd span \<le> length gs \<and> (\<forall>k. fst span \<le> k \<and> k < fst span + snd span \<longrightarrow> gs ! k = 0)"

lemma zeros_at_extend:
  assumes "zeros_at gs (start, len)" and "len = 0 \<or> start + len = i" and "i < length gs" and "gs ! i = 0"
  shows "zeros_at gs (if len = 0 then i else start, Suc len)"
  using assms by (auto simp: zeros_at_def less_Suc_eq)

lemma zero_span_zeros:
  assumes "rest = drop i gs" and "zeros_at gs cur" and "snd cur = 0 \<or> fst cur + snd cur = i" and "zeros_at gs best"
  shows "zeros_at gs (zero_span i cur best rest)"
  using assms
proof (induction i cur best rest rule: zero_span.induct)
  case (2 i start len bstart blen g rest)
  have "i < length gs"
    using 2(3) by (cases "i < length gs") auto
  then have "g # rest = gs ! i # drop (Suc i) gs"
    using 2(3) Cons_nth_drop_Suc [of i gs] by simp
  with \<open>i < length gs\<close> have i: "i < length gs" "g = gs ! i" "rest = drop (Suc i) gs"
    by simp_all
  show ?case
  proof (cases "g = 0")
    case True
    have ext: "zeros_at gs (if len = 0 then i else start, Suc len)"
      using zeros_at_extend [of gs start len i] 2 i True by auto
    show ?thesis
      using 2(1) [OF True refl refl] True i ext 2(5,6) by (auto simp: Let_def)
  next
    case False
    then show ?thesis
      using 2(2) [OF False] i 2(6) by (auto simp: zeros_at_def)
  qed
qed auto

lemma zeros_at_split:
  assumes "zeros_at gs (start, len)" and "0 < len"
  shows "gs = take start gs @ replicate len 0 @ drop (start + len) gs" and "start + len \<le> length gs"
proof -
  show le: "start + len \<le> length gs"
    using assms by (auto simp: zeros_at_def)
  have "take len (drop start gs) = replicate len 0"
    using assms le by (intro nth_equalityI) (auto simp: zeros_at_def)
  then show "gs = take start gs @ replicate len 0 @ drop (start + len) gs"
    by (metis add.commute append_take_drop_id drop_drop)
qed

lemma group_values_bounded: "list_all (\<lambda>g. g < 65536) (group_values bs)"
proof (induction bs rule: group_values.induct)
  case (1 a b r)
  have "unat a < 256" "unat b < 256"
    using unsigned_less [of a, where ?'a = nat] unsigned_less [of b, where ?'a = nat] by simp_all
  with 1 show ?case by simp
qed auto

lemma length_group_values: "length (group_values bs) = length bs div 2"
  by (induction bs rule: group_values.induct) auto

lemma foldl_group_values:
  "even (length bs) \<Longrightarrow> foldl (\<lambda>acc g. acc * 65536 + g) acc (group_values bs) = be_value_acc acc bs"
  by (induction bs arbitrary: acc rule: group_values.induct) (auto simp: algebra_simps)

lemma v6_of_segments: "v6_of_groups (v6_segments a) = a"
  using v6_octets_roundtrip [of a]
  by (simp add: v6_of_groups_def v6_segments_def foldl_group_values v6_from_octets_def be_value_def)

lemma length_segments: "length (v6_segments a) = 8"
  by (simp add: v6_segments_def length_group_values)

lemma segments_bounded: "list_all (\<lambda>g. g < 65536) (v6_segments a)"
  by (simp add: v6_segments_def group_values_bounded)

lemma read_compressed:
  assumes gs: "list_all (\<lambda>g. g < 65536) gs" "length gs = 8" and z: "zeros_at gs (start, len)" "1 < len"
    and r: "rest_stops r"
  shows "read_ipv6 (groups_text (take start gs) @ ''::'' @ groups_text (drop (start + len) gs) @ r) = Some (gs, r)"
proof -
  have le: "start + len \<le> 8" and split: "take start gs @ replicate len 0 @ drop (start + len) gs = gs"
    using zeros_at_split [OF z(1)] z(2) gs(2) by simp_all
  let ?tail = "groups_text (drop (start + len) gs) @ r"
  have "rest_stops (''::'' @ ?tail)"
    by (simp add: rest_stops_def)
  then have head: "read_groups 8 0 (groups_text (take start gs) @ ''::'' @ ?tail) = (take start gs, False, ''::'' @ ?tail)"
    using gs le by (intro read_groups_text) (auto simp: list_all_iff dest: in_set_takeD)
  have tail: "read_groups (7 - start) 0 ?tail = (drop (start + len) gs, False, r)"
    using gs le z(2) r by (intro read_groups_text) (auto simp: list_all_iff dest: in_set_dropD)
  have "8 - start - (8 - (start + len)) = len"
    using le by simp
  moreover have "length (take start gs) = start" "start \<noteq> 8" "length (drop (start + len) gs) = 8 - (start + len)"
    using le z(2) gs(2) by simp_all
  ultimately show ?thesis
    unfolding read_ipv6_def head prod.case by (simp add: tail split)
qed

lemma read_mapped:
  assumes os: "list_all (\<lambda>b. b < 256) os" "length os = 4" and r: "rest_stops r"
  shows "read_ipv6 (''::ffff:'' @ join (CHR ''.'') (map show_nat os) @ r) =
     Some ([0, 0, 0, 0, 0, 0xffff, os ! 0 * 256 + os ! 1, os ! 2 * 256 + os ! 3], r)"
proof -
  let ?v4 = "join (CHR ''.'') (map show_nat os) @ r"
  have head: "read_groups 8 0 (''::ffff:'' @ ?v4) = ([], False, ''::ffff:'' @ ?v4)"
    by (rule read_groups_stop) (simp add: rest_stops_def)
  have "hex_group (''ffff'' @ CHR '':'' # ?v4) = Some (0xffff, CHR '':'' # ?v4)"
    by (simp add: hex_group_def read_number_def is_digit_def to_digit_def digits_value_def)
  moreover have "read_ipv4 (''ffff'' @ CHR '':'' # ?v4) = None"
    by (rule read_ipv4_hex) (simp_all add: is_digit_def to_digit_def)
  moreover have "read_groups 6 (Suc 0) (CHR '':'' # ?v4) = ([os ! 0 * 256 + os ! 1, os ! 2 * 256 + os ! 3], True, r)"
    using read_groups.simps(2) [of 5 "Suc 0" "CHR '':'' # ?v4"] read_ipv4_text [OF os rest_stops_stops [OF r]]
    by (simp add: read_separator_def)
  ultimately have "read_groups 7 0 (''ffff'' @ CHR '':'' # ?v4) =
      ([0xffff, os ! 0 * 256 + os ! 1, os ! 2 * 256 + os ! 3], True, r)"
    using read_groups.simps(2) [of 6 0 "''ffff'' @ CHR '':'' # ?v4"] by (simp add: read_separator_def)
  moreover have "replicate 5 (0 :: nat) = [0, 0, 0, 0, 0]"
    by (simp add: numeral_eq_Suc)
  ultimately show ?thesis
    using head by (simp add: read_ipv6_def)
qed

lemma mapped_groups:
  assumes "length bs = 16" and "take 6 (group_values bs) = [0, 0, 0, 0, 0, 0xffff]"
  shows "group_values bs = (let os = map unat (drop 12 bs) in
     [0, 0, 0, 0, 0, 0xffff, os ! 0 * 256 + os ! 1, os ! 2 * 256 + os ! 3])"
proof -
  obtain b0 b1 b2 b3 b4 b5 b6 b7 b8 b9 b10 b11 b12 b13 b14 b15 where
    "bs = [b0, b1, b2, b3, b4, b5, b6, b7, b8, b9, b10, b11, b12, b13, b14, b15]"
    using assms(1) by (auto simp: numeral_eq_Suc length_Suc_conv)
  with assms(2) show ?thesis
    by (simp add: Let_def)
qed

lemmas mapped_segments = mapped_groups [OF length_v6_octets, folded v6_segments_def]

lemma read_v6_string:
  assumes r: "rest_stops r"
  shows "read_ipv6 (v6_to_string a @ r) = Some (v6_segments a, r)"
proof (cases "take 6 (v6_segments a) = [0, 0, 0, 0, 0, 0xffff]")
  case True
  let ?bs = "drop 12 (v6_octets a)"
  have "v4_octets (v4_from_octets ?bs) = ?bs"
    by (rule v4_from_octets_inverse) simp
  then have "v6_to_string a = ''::ffff:'' @ join (CHR ''.'') (map show_nat (map unat ?bs))"
    using True by (simp add: v6_to_string_def v4_to_string_def Let_def comp_def)
  then show ?thesis
    using read_mapped [OF octets_bounded [of ?bs] _ r] mapped_segments [OF True] by (simp add: Let_def)
next
  case False
  let ?gs = "v6_segments a"
  obtain start len where span: "zero_span 0 (0, 0) (0, 0) ?gs = (start, len)" by fastforce
  show ?thesis
  proof (cases "1 < len")
    case True
    have "zeros_at ?gs (start, len)"
      using zero_span_zeros [of ?gs 0 ?gs "(0, 0)" "(0, 0)"] span by (simp add: zeros_at_def)
    from read_compressed [OF segments_bounded length_segments this True r] show ?thesis
      using False span True by (simp add: v6_to_string_def Let_def)
  next
    case len: False
    have "read_groups 8 0 (groups_text ?gs @ r) = (?gs, False, r)"
      by (rule read_groups_text [OF segments_bounded r]) (simp add: length_segments)
    then show ?thesis
      using False span len by (simp add: v6_to_string_def Let_def read_ipv6_def length_segments)
  qed
qed

lemma read_ipv4_v6_string: "read_ipv4 (v6_to_string a) = None"
proof -
  have groups: "read_ipv4 (groups_text (g # gs) @ t) = None"
    if colon: "gs \<noteq> [] \<or> (\<exists>t'. t = CHR '':'' # t')" for g gs t
  proof -
    obtain t' where "groups_text (g # gs) @ t = show_radix 16 g @ CHR '':'' # t'"
      using colon by (cases gs) (auto simp: groups_text_def join_concat)
    then show ?thesis
      using read_ipv4_hex [of "show_radix 16 g" "CHR '':'' # t'"]
      by (simp add: show_radix_digits is_digit_def to_digit_def)
  qed
  let ?gs = "v6_segments a"
  obtain g g' gs where gs: "?gs = g # g' # gs"
    using length_segments [of a] by (cases ?gs; cases "tl ?gs") auto
  obtain start len where span: "zero_span 0 (0, 0) (0, 0) ?gs = (start, len)" by fastforce
  show ?thesis
  proof (cases "take 6 ?gs = [0, 0, 0, 0, 0, 0xffff]")
    case True
    then show ?thesis by (simp add: v6_to_string_def read_ipv4_empty stops_simps Let_def)
  next
    case False
    show ?thesis
    proof (cases "1 < len")
      case True
      show ?thesis
      proof (cases "take start ?gs")
        case Nil
        then have "groups_text (take start ?gs) = []" by (simp only: groups_text_def list.map join.simps)
        then show ?thesis
          using False True span by (simp add: v6_to_string_def Let_def read_ipv4_empty stops_simps)
      next
        case (Cons h hs)
        then show ?thesis
          using False True span groups [of hs] by (simp add: v6_to_string_def Let_def)
      qed
    next
      case len: False
      then have "v6_to_string a = groups_text ?gs"
        using False span by (simp add: v6_to_string_def Let_def)
      then show ?thesis
        using groups [of "g' # gs" "[]" g] by (simp add: gs)
    qed
  qed
qed

lemma read_port_show: "read_port (CHR '':'' # show_nat (unat (p :: u16))) = Some (unat p, [])"
proof -
  have "unat p < 65536"
    using unsigned_less [of p, where ?'a = nat] by simp
  then show ?thesis
    using read_number_show [of 10 "unat p" 65536 "[]" None True]
    by (simp add: read_port_def show_nat_def stops_simps)
qed

theorem ip_roundtrip: "ip_parse (ip_to_string a) = Some a"
proof (cases a)
  case (V4 v)
  then show ?thesis
    using read_v4_string [of "[]" v] by (simp add: ip_parse_def read_ip_def all_read_def stops_simps v4_of_octets)
next
  case (V6 v)
  then show ?thesis
    using read_v6_string [of "[]" v]
    by (simp add: ip_parse_def read_ip_def all_read_def read_ipv4_v6_string rest_stops_def v6_of_segments)
qed

text \<open>The text of a socket address does not carry the flow information.\<close>

theorem socket_roundtrip:
  "socket_parse (socket_to_string s) =
     Some (case s of SocketV4 a p \<Rightarrow> s | SocketV6 a p flow scope \<Rightarrow> SocketV6 a p 0 scope)"
proof (cases s)
  case (SocketV4 a p)
  have "read_ipv4 (v4_to_string a @ CHR '':'' # show_nat (unat p)) =
      Some (map unat (v4_octets a), CHR '':'' # show_nat (unat p))"
    by (rule read_v4_string) (simp add: stops_simps)
  then show ?thesis
    by (simp add: SocketV4 socket_parse_def read_socket_v4_def read_port_show all_read_def v4_of_octets)
next
  case (SocketV6 a p flow scope)
  let ?port = "CHR '':'' # show_nat (unat p)"
  have v4: "read_socket_v4 (CHR ''['' # t) = None" for t
    by (simp add: read_socket_v4_def read_ipv4_empty stops_simps)
  show ?thesis
  proof (cases "scope = 0")
    case True
    have "read_ipv6 (v6_to_string a @ CHR '']'' # ?port) = Some (v6_segments a, CHR '']'' # ?port)"
      by (rule read_v6_string) (simp add: rest_stops_def)
    then show ?thesis
      using True
      by (simp add: SocketV6 socket_parse_def v4 read_socket_v6_def read_scope_id_def read_port_show all_read_def v6_of_segments)
  next
    case False
    let ?rest = "CHR ''%'' # show_nat (unat scope) @ CHR '']'' # ?port"
    have "read_ipv6 (v6_to_string a @ ?rest) = Some (v6_segments a, ?rest)"
      by (rule read_v6_string) (simp add: rest_stops_def)
    moreover have "unat scope < 2 ^ 32"
      using unsigned_less [of scope, where ?'a = nat] by simp
    then have "read_scope_id ?rest = Some (unat scope, CHR '']'' # ?port)"
      using read_number_show [of 10 "unat scope" "2 ^ 32" "CHR '']'' # ?port" None True]
      by (simp add: read_scope_id_def show_nat_def stops_simps)
    ultimately show ?thesis
      using False
      by (simp add: SocketV6 socket_parse_def v4 read_socket_v6_def read_port_show all_read_def v6_of_segments)
  qed
qed

end
