(* ===== verification/Os_Routing.thy ===== *)
theory Os_Routing
  imports Rust_Text
begin

text \<open>
  \<open>network/src/os_routing.rs\<close>: canonical IP prefixes, the routing policy, and the installation of
  its routes through a route manager. The trait \<open>RouteManager\<close> is the locale \<open>route_manager\<close>, whose
  laws say what the operations do to the set of routes and the set of owned routes; the default
  method \<open>install\<close> is verified against these laws and the laws are proved for \<open>MockRouteManager\<close>.
  The manager that runs \<open>netsh\<close> takes the program as a parameter.
\<close>

unbundle bit_operations_syntax

subsection \<open>Prefixes\<close>

datatype RouteError =
    InvalidPrefix
  | DefaultRouteRejected
  | InvalidInterface
  | DuplicateRoute
  | RouteUnavailable string
  | RouteOperationFailed string

record IpPrefix =
  ip_address :: IpAddr
  ip_prefix_length :: u8

text \<open>\<open>bytes[full] &= 0xff << (8 - remaining)\<close> and \<open>bytes[first_zero..].fill(0)\<close>.\<close>

definition mask_octets :: "nat \<Rightarrow> bytes \<Rightarrow> bytes" where
  "mask_octets len bs =
     (let full = len div 8; remaining = len mod 8 in
      if full < length bs then
        let bs' = (if remaining \<noteq> 0 then bs[full := (bs ! full) AND push_bit (8 - remaining) 0xff] else bs);
            first_zero = full + (if remaining \<noteq> 0 then 1 else 0)
        in take first_zero bs' @ replicate (length bs' - first_zero) 0
      else bs)"

fun network_address :: "nat \<Rightarrow> IpAddr \<Rightarrow> IpAddr" where
  "network_address len (V4 a) = V4 (a AND (if len = 32 then - 1 else push_bit (32 - len) (- 1)))"
| "network_address len (V6 a) = V6 (v6_from_octets (mask_octets len (v6_octets a)))"

definition ip_prefix_new :: "IpAddr \<Rightarrow> u8 \<Rightarrow> RouteError + IpPrefix" where
  "ip_prefix_new address len =
     (let maximum = (if is_ipv4 address then 32 else 128) in
      if len = 0 \<or> unat len > maximum then Err DefaultRouteRejected
      else Ok \<lparr>ip_address = network_address (unat len) address, ip_prefix_length = len\<rparr>)"

definition ip_prefix_contains :: "IpPrefix \<Rightarrow> IpAddr \<Rightarrow> bool" where
  "ip_prefix_contains p address =
     (if is_ipv4 (ip_address p) \<noteq> is_ipv4 address then False
      else case ip_prefix_new address (ip_prefix_length p) of
          Inl _ \<Rightarrow> False
        | Inr candidate \<Rightarrow> ip_address candidate = ip_address p)"

text \<open>The text form: the address, a slash and the length.\<close>

definition ip_prefix_to_string :: "IpPrefix \<Rightarrow> string" where
  "ip_prefix_to_string p = ip_to_string (ip_address p) @ ''/'' @ show_nat (unat (ip_prefix_length p))"

definition ip_prefix_from_str :: "string \<Rightarrow> RouteError + IpPrefix" where
  "ip_prefix_from_str value =
     (case split_once (CHR ''/'') value of
        None \<Rightarrow> Err InvalidPrefix
      | Some (a, l) \<Rightarrow>
        (case ip_parse a of
           None \<Rightarrow> Err InvalidPrefix
         | Some address \<Rightarrow>
           (case parse_uint 8 l of
              None \<Rightarrow> Err InvalidPrefix
            | Some len \<Rightarrow> ip_prefix_new address (of_nat len))))"

subsection \<open>Policies\<close>

record OwnedRoute =
  or_destination :: IpPrefix
  or_interface_name :: string

datatype RoutingPolicy =
    Policy_Disabled
  | Policy_Explicit "IpPrefix list"
  | Policy_ControlledTest IpPrefix

fun policy_routes_loop ::
  "string \<Rightarrow> IpPrefix list \<Rightarrow> OwnedRoute list \<Rightarrow> RouteError + OwnedRoute list" where
  "policy_routes_loop name [] routes = Ok routes"
| "policy_routes_loop name (d # ds) routes =
     (if list_ex (\<lambda>r. or_destination r = d) routes then Err DuplicateRoute
      else policy_routes_loop name ds (routes @ [\<lparr>or_destination = d, or_interface_name = name\<rparr>]))"

definition policy_routes :: "RoutingPolicy \<Rightarrow> string \<Rightarrow> RouteError + OwnedRoute list" where
  "policy_routes policy name =
     (if str_trim name = [] then Err InvalidInterface
      else case policy of
          Policy_Disabled \<Rightarrow> Ok []
        | Policy_Explicit ps \<Rightarrow> policy_routes_loop name ps []
        | Policy_ControlledTest p \<Rightarrow> policy_routes_loop name [p] [])"

subsection \<open>Installing routes\<close>

text \<open>The rollback: the result of each removal is ignored.\<close>

fun remove_all :: "('s \<Rightarrow> OwnedRoute \<Rightarrow> (RouteError + unit) \<times> 's) \<Rightarrow> 's \<Rightarrow> OwnedRoute list \<Rightarrow> 's" where
  "remove_all rem s [] = s"
| "remove_all rem s (r # rs) = remove_all rem (snd (rem s r)) rs"

fun install_loop ::
  "('s \<Rightarrow> OwnedRoute \<Rightarrow> (RouteError + bool) \<times> 's) \<Rightarrow> ('s \<Rightarrow> OwnedRoute \<Rightarrow> (RouteError + unit) \<times> 's)
     \<Rightarrow> ('s \<Rightarrow> OwnedRoute \<Rightarrow> (RouteError + unit) \<times> 's) \<Rightarrow> 's \<Rightarrow> OwnedRoute list \<Rightarrow> OwnedRoute list
     \<Rightarrow> (RouteError + unit) \<times> 's" where
  "install_loop insp ad rem s [] added = (Ok (), s)"
| "install_loop insp ad rem s (r # rs) added =
     (case insp s r of
        (Inl e, s1) \<Rightarrow> (Err e, s1)
      | (Inr True, s1) \<Rightarrow> install_loop insp ad rem s1 rs added
      | (Inr False, s1) \<Rightarrow>
          (case ad s1 r of
             (Inl e, s2) \<Rightarrow> (Err e, remove_all rem s2 (rev added))
           | (Inr _, s2) \<Rightarrow> install_loop insp ad rem s2 rs (added @ [r])))"

definition route_install ::
  "('s \<Rightarrow> OwnedRoute \<Rightarrow> (RouteError + bool) \<times> 's) \<Rightarrow> ('s \<Rightarrow> OwnedRoute \<Rightarrow> (RouteError + unit) \<times> 's)
     \<Rightarrow> ('s \<Rightarrow> OwnedRoute \<Rightarrow> (RouteError + unit) \<times> 's) \<Rightarrow> 's \<Rightarrow> RoutingPolicy \<Rightarrow> string
     \<Rightarrow> (RouteError + unit) \<times> 's" where
  "route_install insp ad rem s policy name =
     (case policy_routes policy name of
        Inl e \<Rightarrow> (Err e, s)
      | Inr routes \<Rightarrow> install_loop insp ad rem s routes [])"

subsection \<open>The mock route manager\<close>

record MockRouteManager =
  mr_routes :: "OwnedRoute fset"
  mr_owned_routes :: "OwnedRoute fset"
  mr_available :: bool

definition mock_routes_new :: MockRouteManager where
  "mock_routes_new = \<lparr>mr_routes = {||}, mr_owned_routes = {||}, mr_available = True\<rparr>"

definition mock_set_available :: "MockRouteManager \<Rightarrow> bool \<Rightarrow> MockRouteManager" where
  "mock_set_available m a = m\<lparr>mr_available := a\<rparr>"

definition mock_seed :: "MockRouteManager \<Rightarrow> OwnedRoute \<Rightarrow> MockRouteManager" where
  "mock_seed m r = m\<lparr>mr_routes := finsert r (mr_routes m)\<rparr>"

definition mock_contains :: "MockRouteManager \<Rightarrow> OwnedRoute \<Rightarrow> bool" where
  "mock_contains m r = (r |\<in>| mr_routes m)"

definition mock_inspect :: "MockRouteManager \<Rightarrow> OwnedRoute \<Rightarrow> (RouteError + bool) \<times> MockRouteManager" where
  "mock_inspect m r =
     (if \<not> mr_available m then (Err (RouteUnavailable ''mock route manager unavailable''), m)
      else (Ok (r |\<in>| mr_routes m), m))"

definition mock_add :: "MockRouteManager \<Rightarrow> OwnedRoute \<Rightarrow> (RouteError + unit) \<times> MockRouteManager" where
  "mock_add m r =
     (if \<not> mr_available m then (Err (RouteUnavailable ''mock route manager unavailable''), m)
      else if r |\<in>| mr_routes m then (Err DuplicateRoute, m)
      else (Ok (), m\<lparr>mr_routes := finsert r (mr_routes m), mr_owned_routes := finsert r (mr_owned_routes m)\<rparr>))"

definition mock_remove :: "MockRouteManager \<Rightarrow> OwnedRoute \<Rightarrow> (RouteError + unit) \<times> MockRouteManager" where
  "mock_remove m r =
     (if r |\<in>| mr_owned_routes m then
        (Ok (), m\<lparr>mr_owned_routes := mr_owned_routes m |-| {|r|}, mr_routes := mr_routes m |-| {|r|}\<rparr>)
      else (Ok (), m))"

definition mock_remove_owned :: "MockRouteManager \<Rightarrow> (RouteError + unit) \<times> MockRouteManager" where
  "mock_remove_owned m =
     (Ok (), m\<lparr>mr_routes := mr_routes m |-| mr_owned_routes m, mr_owned_routes := {||}\<rparr>)"

subsection \<open>The Windows route manager\<close>

text \<open>
  A run of \<open>netsh\<close> on the system state \<open>'w\<close>: an error of starting it, or its success, standard output
  and standard error as text.
\<close>

type_synonym 'w netsh = "'w \<Rightarrow> string list \<Rightarrow> (string + bool \<times> string \<times> string) \<times> 'w"

record 'w WindowsRouteManager =
  wm_owned_routes :: "OwnedRoute fset"
  wm_system :: 'w

definition windows_routes_new :: "'w \<Rightarrow> 'w WindowsRouteManager" where
  "windows_routes_new w = \<lparr>wm_owned_routes = {||}, wm_system = w\<rparr>"

definition route_family :: "OwnedRoute \<Rightarrow> string" where
  "route_family r = (if is_ipv4 (ip_address (or_destination r)) then ''ipv4'' else ''ipv6'')"

definition run_netsh ::
  "'w netsh \<Rightarrow> 'w WindowsRouteManager \<Rightarrow> string list \<Rightarrow> (RouteError + string) \<times> 'w WindowsRouteManager" where
  "run_netsh N m arguments =
     (case N (wm_system m) arguments of
        (Inl text, w) \<Rightarrow> (Err (RouteOperationFailed text), m\<lparr>wm_system := w\<rparr>)
      | (Inr (success, out, err), w) \<Rightarrow>
          (if success then Ok out else Err (RouteOperationFailed (str_trim err)), m\<lparr>wm_system := w\<rparr>))"

definition windows_inspect ::
  "'w netsh \<Rightarrow> 'w WindowsRouteManager \<Rightarrow> OwnedRoute \<Rightarrow> (RouteError + bool) \<times> 'w WindowsRouteManager" where
  "windows_inspect N m r =
     (case run_netsh N m [''interface'', route_family r, ''show'', ''route''] of
        (Inl e, m1) \<Rightarrow> (Err e, m1)
      | (Inr out, m1) \<Rightarrow>
          (Ok (list_ex (\<lambda>line. str_contains line (ip_prefix_to_string (or_destination r)) \<and>
                 str_contains line (or_interface_name r)) (str_lines out)), m1))"

definition windows_add ::
  "'w netsh \<Rightarrow> 'w WindowsRouteManager \<Rightarrow> OwnedRoute \<Rightarrow> (RouteError + unit) \<times> 'w WindowsRouteManager" where
  "windows_add N m r =
     (case run_netsh N m [''interface'', route_family r, ''add'', ''route'',
         ''prefix='' @ ip_prefix_to_string (or_destination r), ''interface='' @ or_interface_name r, ''store=active''] of
        (Inl e, m1) \<Rightarrow> (Err e, m1)
      | (Inr _, m1) \<Rightarrow> (Ok (), m1\<lparr>wm_owned_routes := finsert r (wm_owned_routes m1)\<rparr>))"

definition windows_remove ::
  "'w netsh \<Rightarrow> 'w WindowsRouteManager \<Rightarrow> OwnedRoute \<Rightarrow> (RouteError + unit) \<times> 'w WindowsRouteManager" where
  "windows_remove N m r =
     (if r |\<notin>| wm_owned_routes m then (Ok (), m)
      else case run_netsh N (m\<lparr>wm_owned_routes := wm_owned_routes m |-| {|r|}\<rparr>)
          [''interface'', route_family r, ''delete'', ''route'',
           ''prefix='' @ ip_prefix_to_string (or_destination r), ''interface='' @ or_interface_name r] of
        (Inl e, m1) \<Rightarrow> (Err e, m1)
      | (Inr _, m1) \<Rightarrow> (Ok (), m1))"

text \<open>The owned routes in the order in which the hash set is iterated, and the loop over them.\<close>

fun windows_remove_each ::
  "'w netsh \<Rightarrow> 'w WindowsRouteManager \<Rightarrow> OwnedRoute list \<Rightarrow> (RouteError + unit) \<times> 'w WindowsRouteManager" where
  "windows_remove_each N m [] = (Ok (), m)"
| "windows_remove_each N m (r # rs) =
     (case windows_remove N m r of
        (Inl e, m1) \<Rightarrow> (Err e, m1)
      | (Inr _, m1) \<Rightarrow> windows_remove_each N m1 rs)"

definition windows_remove_owned ::
  "'w netsh \<Rightarrow> (OwnedRoute fset \<Rightarrow> OwnedRoute list) \<Rightarrow> 'w WindowsRouteManager
     \<Rightarrow> (RouteError + unit) \<times> 'w WindowsRouteManager" where
  "windows_remove_owned N order m = windows_remove_each N m (order (wm_owned_routes m))"

text \<open>On other systems the manager refuses to add routes and has none to remove.\<close>

definition other_inspect :: "unit \<Rightarrow> OwnedRoute \<Rightarrow> (RouteError + bool) \<times> unit" where
  "other_inspect m r = (Err (RouteUnavailable ''Windows route management is unavailable on this platform''), m)"
definition other_add :: "unit \<Rightarrow> OwnedRoute \<Rightarrow> (RouteError + unit) \<times> unit" where
  "other_add m r = (Err (RouteUnavailable ''Windows route management is unavailable on this platform''), m)"
definition other_remove :: "unit \<Rightarrow> OwnedRoute \<Rightarrow> (RouteError + unit) \<times> unit" where
  "other_remove m r = (Ok (), m)"
definition other_remove_owned :: "unit \<Rightarrow> (RouteError + unit) \<times> unit" where
  "other_remove_owned m = (Ok (), m)"

subsection \<open>Prefixes contain what they should\<close>

lemma and_high_mask: "a AND push_bit k (- 1) = push_bit k (drop_bit k a)" for a :: "'a::len word"
  by (rule bit_word_eqI) (auto simp: bit_simps)

lemma high_mask_eq_iff:
  "a AND push_bit k (- 1) = b AND push_bit k (- 1) \<longleftrightarrow> drop_bit k a = drop_bit k b" for a b :: "'a::len word"
proof
  have again: "drop_bit k (push_bit k (drop_bit k a)) = drop_bit k a" for a :: "'a word"
    by (rule bit_word_eqI) (auto simp: bit_simps dest: bit_imp_le_length)
  assume "a AND push_bit k (- 1) = b AND push_bit k (- 1)"
  then show "drop_bit k a = drop_bit k b"
    unfolding and_high_mask by (metis again)
qed (simp only: and_high_mask)

lemma byte_high_mask: "push_bit k (0xff :: u8) = push_bit k (- 1)"
proof -
  have "(0xff :: u8) = - 1"
    by (simp add: word_unat_eq_iff unsigned_minus_1_eq_mask mask_eq_exp_minus_1)
  then show ?thesis by (simp only:)
qed

lemma mask_octets_shape:
  assumes "len < 8 * length bs"
  shows "mask_octets len bs = take (len div 8) bs @
     (if len mod 8 \<noteq> 0 then [push_bit (8 - len mod 8) (drop_bit (8 - len mod 8) (bs ! (len div 8)))] else []) @
     replicate (length bs - len div 8 - (if len mod 8 \<noteq> 0 then 1 else 0)) 0"
proof -
  have full: "len div 8 < length bs"
    using assms by (simp add: less_mult_imp_div_less mult.commute)
  show ?thesis
  proof (cases "len mod 8 = 0")
    case True
    with full show ?thesis by (simp add: mask_octets_def Let_def)
  next
    case False
    with full show ?thesis
      by (simp add: mask_octets_def Let_def byte_high_mask and_high_mask take_Suc_conv_app_nth
          del: push_bit_minus_one_eq_not_mask)
  qed
qed

text \<open>Two sequences of octets agree in their first \<open>len\<close> bits.\<close>

definition same_prefix_bits :: "nat \<Rightarrow> bytes \<Rightarrow> bytes \<Rightarrow> bool" where
  "same_prefix_bits len bs cs \<longleftrightarrow>
     take (len div 8) bs = take (len div 8) cs \<and>
     (len mod 8 \<noteq> 0 \<longrightarrow>
        drop_bit (8 - len mod 8) (bs ! (len div 8)) = drop_bit (8 - len mod 8) (cs ! (len div 8)))"

lemma mask_octets_full: "8 * length bs \<le> len \<Longrightarrow> mask_octets len bs = bs"
  by (simp add: mask_octets_def Let_def less_eq_div_iff_mult_less_eq mult.commute not_less)

lemma length_mask_octets [simp]: "length (mask_octets len bs) = length bs"
  by (cases "len < 8 * length bs")
     (auto simp: mask_octets_def mask_octets_full Let_def min_def)

lemma mask_octets_eq_iff:
  assumes "length bs = length cs" and "len \<le> 8 * length bs"
  shows "mask_octets len bs = mask_octets len cs \<longleftrightarrow> same_prefix_bits len bs cs"
proof (cases "len = 8 * length bs")
  case True
  with assms show ?thesis by (simp add: mask_octets_full same_prefix_bits_def)
next
  case False
  then have lt: "len < 8 * length bs" "len < 8 * length cs" using assms by auto
  then have "len div 8 < length cs"
    by (simp add: less_mult_imp_div_less mult.commute)
  then have tk: "length (take (len div 8) bs) = length (take (len div 8) cs)"
    using assms(1) by simp
  have high: "push_bit k (drop_bit k a) = push_bit k (drop_bit k b) \<longleftrightarrow> drop_bit k a = drop_bit k b"
    for k and a b :: u8
    using high_mask_eq_iff [of a k b] by (simp only: and_high_mask)
  show ?thesis
    using tk assms(1)
    by (auto simp: mask_octets_shape [OF lt(1)] mask_octets_shape [OF lt(2)] same_prefix_bits_def high)
qed

lemma is_ipv4_network_address [simp]: "is_ipv4 (network_address n x) = is_ipv4 x"
  by (cases x) simp_all

lemma v6_from_octets_inj:
  "length bs = 16 \<Longrightarrow> length cs = 16 \<Longrightarrow> v6_from_octets bs = v6_from_octets cs \<longleftrightarrow> bs = cs"
  by (metis v6_from_octets_inverse)

text \<open>
  C38: a prefix contains exactly the addresses of its family that agree with the address it was made
  from in the first \<open>len\<close> bits; a prefix of length zero, which would be a default route, and one
  longer than the address are rejected.
\<close>

theorem ip_prefix_contains_iff:
  shows "(case ip_prefix_new (V4 a) len of
       Inl e \<Rightarrow> e = DefaultRouteRejected \<and> (len = 0 \<or> 32 < unat len)
     | Inr p \<Rightarrow> 0 < unat len \<and> unat len \<le> 32 \<and> ip_prefix_contains p (V6 c) = False \<and>
         (ip_prefix_contains p (V4 b) = (drop_bit (32 - unat len) a = drop_bit (32 - unat len) b))) \<and>
    (case ip_prefix_new (V6 c) len of
       Inl e \<Rightarrow> e = DefaultRouteRejected \<and> (len = 0 \<or> 128 < unat len)
     | Inr p \<Rightarrow> 0 < unat len \<and> unat len \<le> 128 \<and> ip_prefix_contains p (V4 a) = False \<and>
         (ip_prefix_contains p (V6 d) = same_prefix_bits (unat len) (v6_octets c) (v6_octets d)))"
proof -
  have "unat len = 0 \<longleftrightarrow> len = 0"
    by (simp add: unat_eq_0)
  moreover have "network_address (unat len) (V4 b) = network_address (unat len) (V4 a) \<longleftrightarrow>
      drop_bit (32 - unat len) a = drop_bit (32 - unat len) b" if "unat len \<le> 32"
  proof -
    have "(if unat len = 32 then - 1 else push_bit (32 - unat len) (- 1)) = push_bit (32 - unat len) (- 1 :: 32 word)"
      by simp
    then show ?thesis
      unfolding network_address.simps by (simp only: high_mask_eq_iff IpAddr.inject eq_commute)
  qed
  moreover have "network_address (unat len) (V6 d) = network_address (unat len) (V6 c) \<longleftrightarrow>
      same_prefix_bits (unat len) (v6_octets c) (v6_octets d)" if "unat len \<le> 128"
  proof -
    have "mask_octets (unat len) (v6_octets d) = mask_octets (unat len) (v6_octets c) \<longleftrightarrow>
        same_prefix_bits (unat len) (v6_octets c) (v6_octets d)"
      using mask_octets_eq_iff [of "v6_octets c" "v6_octets d" "unat len"] that by auto
    then show ?thesis by (simp add: v6_from_octets_inj)
  qed
  ultimately show ?thesis
    by (auto simp: ip_prefix_new_def ip_prefix_contains_def simp del: network_address.simps)
qed

subsection \<open>Prefixes read back\<close>

lemma mask_octets_same:
  assumes "len \<le> 8 * length bs"
  shows "same_prefix_bits len (mask_octets len bs) bs"
proof (cases "len < 8 * length bs")
  case True
  then have full: "len div 8 < length bs"
    by (simp add: less_mult_imp_div_less mult.commute)
  have "drop_bit k (push_bit k (drop_bit k x)) = drop_bit k x" for k and x :: u8
    by (rule bit_word_eqI) (auto simp: bit_simps dest: bit_imp_le_length)
  with full show ?thesis
    by (simp add: same_prefix_bits_def mask_octets_shape [OF True] nth_append)
next
  case False
  with assms show ?thesis by (simp add: mask_octets_full same_prefix_bits_def)
qed

lemma mask_octets_idem: "len \<le> 8 * length bs \<Longrightarrow> mask_octets len (mask_octets len bs) = mask_octets len bs"
  using mask_octets_eq_iff [of "mask_octets len bs" bs len] mask_octets_same by simp

lemma network_address_idem:
  assumes "len \<le> (if is_ipv4 a then 32 else 128)"
  shows "network_address len (network_address len a) = network_address len a"
proof (cases a)
  case (V4 v)
  then show ?thesis by (simp add: and.assoc)
next
  case (V6 v)
  have "length (mask_octets len (v6_octets v)) = 16" by simp
  from v6_from_octets_inverse [OF this] show ?thesis
    using assms V6 mask_octets_idem [of len "v6_octets v"] by simp
qed

lemma no_slash:
  "CHR ''/'' \<notin> set (ip_to_string a)"
proof -
  have digit: "\<not> is_digit 16 (CHR ''/'')" "\<not> is_digit 10 (CHR ''/'')"
    by (simp_all add: is_digit_def to_digit_def)
  have show_set: "CHR ''/'' \<notin> set (show_radix 16 n)" "CHR ''/'' \<notin> set (show_nat n)" for n
    using show_radix_digits [of 16 n] show_radix_digits [of 10 n] digit
    by (auto simp: list_all_iff show_nat_def)
  have join_set: "CHR ''/'' \<notin> set (join c ps)" if "c \<noteq> CHR ''/''" "\<forall>p\<in>set ps. CHR ''/'' \<notin> set p" for c ps
    using that by (induction c ps rule: join.induct) auto
  have v4: "CHR ''/'' \<notin> set (v4_to_string v)" for v
    unfolding v4_to_string_def by (rule join_set) (auto simp: show_set)
  have groups: "CHR ''/'' \<notin> set (groups_text gs)" for gs
    unfolding groups_text_def by (rule join_set) (auto simp: show_set)
  show ?thesis
    by (cases a) (auto simp: v4 groups v6_to_string_def Let_def split: prod.splits)
qed

text \<open>
  C33: a prefix that was built from an address and a length prints as text that reads back as the
  same prefix.
\<close>

theorem ip_prefix_roundtrip:
  assumes "ip_prefix_new a len = Ok p"
  shows "ip_prefix_from_str (ip_prefix_to_string p) = Ok p"
proof -
  have p: "p = \<lparr>ip_address = network_address (unat len) a, ip_prefix_length = len\<rparr>"
    and len: "len \<noteq> 0" "unat len \<le> (if is_ipv4 a then 32 else 128)"
    using assms by (auto simp: ip_prefix_new_def Let_def split: if_splits)
  have "split_once (CHR ''/'') (ip_prefix_to_string p) =
      Some (ip_to_string (ip_address p), show_nat (unat (ip_prefix_length p)))"
    using split_once_append [OF no_slash] by (simp add: ip_prefix_to_string_def)
  moreover have "parse_uint 8 (show_nat (unat len)) = Some (unat len)"
    using unsigned_less [of len, where ?'a = nat] by (intro parse_uint_show_nat) simp
  ultimately have "ip_prefix_from_str (ip_prefix_to_string p) = ip_prefix_new (network_address (unat len) a) len"
    by (simp add: ip_prefix_from_str_def ip_roundtrip p del: network_address.simps)
  also have "\<dots> = Ok p"
    using network_address_idem [OF len(2)] len p
    by (simp add: ip_prefix_new_def Let_def del: network_address.simps)
  finally show ?thesis .
qed

theorem ip_prefix_roundtrip_witness:
  "ip_prefix_from_str (ip_prefix_to_string \<lparr>ip_address = V4 0xc6336400, ip_prefix_length = 24\<rparr>) =
     Ok \<lparr>ip_address = V4 0xc6336400, ip_prefix_length = 24\<rparr>"
  by (rule ip_prefix_roundtrip [of "V4 0xc6336407" 24]) (simp add: ip_prefix_new_def mask_eq_exp_minus_1)

subsection \<open>Installation against the interface\<close>

text \<open>
  What the trait's implementations promise: \<open>inspect\<close> changes nothing and tells whether the route
  is present, \<open>add\<close> adds and owns the route or changes nothing, \<open>remove\<close> removes an owned route
  and leaves any other alone; while a manager is up, \<open>inspect\<close> does not fail.
\<close>

locale route_manager =
  fixes insp :: "'s \<Rightarrow> OwnedRoute \<Rightarrow> (RouteError + bool) \<times> 's"
    and ad :: "'s \<Rightarrow> OwnedRoute \<Rightarrow> (RouteError + unit) \<times> 's"
    and rem :: "'s \<Rightarrow> OwnedRoute \<Rightarrow> (RouteError + unit) \<times> 's"
    and table :: "'s \<Rightarrow> OwnedRoute set"
    and owned :: "'s \<Rightarrow> OwnedRoute set"
    and up :: "'s \<Rightarrow> bool"
  assumes insp_keeps: "insp s r = (x, s') \<Longrightarrow> table s' = table s \<and> owned s' = owned s"
    and insp_true: "insp s r = (Inr b, s') \<Longrightarrow> b \<longleftrightarrow> r \<in> table s"
    and ad_ok: "ad s r = (Inr u, s') \<Longrightarrow> table s' = insert r (table s) \<and> owned s' = insert r (owned s)"
    and ad_err: "ad s r = (Inl e, s') \<Longrightarrow> table s' = table s \<and> owned s' = owned s"
    and rem_owned: "r \<in> owned s \<Longrightarrow> rem s r = (y, s') \<Longrightarrow>
        table s' = table s - {r} \<and> owned s' = owned s - {r}"
    and insp_up: "up s \<Longrightarrow> insp s r = (x, s') \<Longrightarrow> (\<exists>b. x = Inr b) \<and> up s'"
    and ad_up: "up s \<Longrightarrow> ad s r = (y, s') \<Longrightarrow> up s'"
begin

lemma remove_all_owned:
  "set rs \<subseteq> owned s \<Longrightarrow> distinct rs \<Longrightarrow>
     table (remove_all rem s rs) = table s - set rs \<and> owned (remove_all rem s rs) = owned s - set rs"
proof (induction rs arbitrary: s)
  case (Cons r rs)
  obtain x s' where eq: "rem s r = (x, s')" by (cases "rem s r")
  with Cons.prems have upd: "table s' = table s - {r}" "owned s' = owned s - {r}"
    using rem_owned by auto
  with Cons.prems have "set rs \<subseteq> owned s'" by auto
  with Cons.IH [of s'] Cons.prems upd eq show ?case by auto
qed simp

lemma install_loop_ok:
  "install_loop insp ad rem s rs added = (Inr u, s') \<Longrightarrow>
     table s' = table s \<union> set rs \<and> owned s' = owned s \<union> (set rs - table s)"
proof (induction rs arbitrary: s added)
  case (Cons r rs)
  obtain x s1 where i: "insp s r = (x, s1)" by (cases "insp s r")
  then have keep: "table s1 = table s" "owned s1 = owned s" using insp_keeps by auto
  from Cons.prems i obtain b where x: "x = Inr b" by (cases x) auto
  show ?case
  proof (cases b)
    case True
    then have "r \<in> table s" using insp_true i x by blast
    moreover have "install_loop insp ad rem s1 rs added = (Inr u, s')"
      using Cons.prems i x True by simp
    ultimately show ?thesis using Cons.IH keep by fastforce
  next
    case False
    then have new: "r \<notin> table s" using insp_true i x by blast
    obtain y s2 where a: "ad s1 r = (y, s2)" by (cases "ad s1 r")
    with Cons.prems i x False obtain v where y: "y = Inr v" by (cases y) auto
    with a keep have "table s2 = insert r (table s)" "owned s2 = insert r (owned s)" using ad_ok by auto
    moreover have "install_loop insp ad rem s2 rs (added @ [r]) = (Inr u, s')"
      using Cons.prems i x False a y by simp
    ultimately show ?thesis using Cons.IH new by fastforce
  qed
qed simp

lemma install_loop_err:
  "install_loop insp ad rem s rs added = (Inl e, s') \<Longrightarrow> set added \<subseteq> owned s \<Longrightarrow> distinct added \<Longrightarrow>
   owned s \<subseteq> table s \<Longrightarrow> up s \<Longrightarrow> table s' = table s - set added \<and> owned s' = owned s - set added"
proof (induction rs arbitrary: s added)
  case (Cons r rs)
  obtain x s1 where i: "insp s r = (x, s1)" by (cases "insp s r")
  then have keep: "table s1 = table s" "owned s1 = owned s" using insp_keeps by auto
  from i Cons.prems(5) obtain b where x: "x = Inr b" and up1: "up s1" using insp_up by blast
  show ?case
  proof (cases b)
    case True
    with Cons.prems(1) i x have "install_loop insp ad rem s1 rs added = (Inl e, s')" by simp
    from Cons.IH [OF this] Cons.prems(2-4) keep up1 show ?thesis by auto
  next
    case False
    then have new: "r \<notin> table s" using insp_true i x by blast
    obtain y s2 where a: "ad s1 r = (y, s2)" by (cases "ad s1 r")
    then have up2: "up s2" using ad_up up1 by blast
    show ?thesis
    proof (cases y)
      case (Inl e')
      with a keep have s2: "table s2 = table s" "owned s2 = owned s" using ad_err by auto
      have "s' = remove_all rem s2 (rev added)" using Cons.prems i x False a Inl by simp
      with remove_all_owned [of "rev added" s2] Cons.prems s2 show ?thesis by simp
    next
      case (Inr v)
      with a keep have s2: "table s2 = insert r (table s)" "owned s2 = insert r (owned s)"
        using ad_ok by auto
      have "install_loop insp ad rem s2 rs (added @ [r]) = (Inl e, s')"
        using Cons.prems i x False a Inr by simp
      from Cons.IH [OF this] Cons.prems(2-4) s2 new up2 show ?thesis by auto
    qed
  qed
qed simp

end

interpretation mock_routes: route_manager mock_inspect mock_add mock_remove
  "\<lambda>m. fset (mr_routes m)" "\<lambda>m. fset (mr_owned_routes m)" mr_available
  by standard (auto simp: mock_inspect_def mock_add_def mock_remove_def split: if_splits)

lemma mock_install_unavailable:
  "\<not> mr_available m \<Longrightarrow> install_loop mock_inspect mock_add mock_remove m rs added = (Err e, m') \<Longrightarrow> m' = m"
  by (cases rs) (auto simp: mock_inspect_def)


definition demo_prefix :: IpPrefix where
  "demo_prefix = \<lparr>ip_address = V4 0xc6336400, ip_prefix_length = 24\<rparr>"


end
