(* ===== verification/Relay_State.thy ===== *)
theory Relay_State
  imports Net_Types
begin

text \<open>
  \<open>relay/src/state.rs\<close>, \<open>health.rs\<close>, \<open>heartbeat.rs\<close>, \<open>metadata.rs\<close> and \<open>registry.rs\<close>, with the
  events of \<open>network/src/transport.rs\<close>: what a relay knows about itself, how it judges its health,
  and what it advertises. Clock readings are arguments; libp2p's addresses are opaque, their parser
  a parameter. The event counters are 64-bit words. The theorems: the latency window holds exactly
  the last hundred measurements, the health class follows its specification, and metadata is
  accepted exactly when it is current and well formed.
\<close>

subsection \<open>Network events\<close>

text \<open>libp2p's \<open>Multiaddr\<close>, and the identifiers of its request-response protocol.\<close>

datatype Multiaddr = Multiaddr bytes

record AddrLib =
  al_parse :: "string \<Rightarrow> Multiaddr option"
  al_to_string :: "Multiaddr \<Rightarrow> string"
  al_peer_to_string :: "PeerId \<Rightarrow> string"

datatype NetworkEvent =
    PeerConnected PeerId
  | PeerDisconnected PeerId
  | PeerIdentified PeerId string
  | PingResult PeerId "string + duration"
  | DiscoveryRequest PeerId nat bytes nat
  | DiscoveryResponse PeerId nat bytes
  | Listening Multiaddr
  | NetworkError string

subsection \<open>The state of a relay\<close>

definition MAX_LATENCY_SAMPLES :: nat where "MAX_LATENCY_SAMPLES = 100"

datatype RelayStatus = Status_Starting | Status_Online | Status_Degraded | Status_Offline | Status_ShuttingDown

definition relay_status_to_string :: "RelayStatus \<Rightarrow> string" where
  "relay_status_to_string s =
     (case s of Status_Starting \<Rightarrow> ''starting'' | Status_Online \<Rightarrow> ''online'' | Status_Degraded \<Rightarrow> ''degraded''
      | Status_Offline \<Rightarrow> ''offline'' | Status_ShuttingDown \<Rightarrow> ''shutting_down'')"

record LatencyMeasurement =
  lm_peer_id :: PeerId
  lm_timestamp :: system_time
  lm_round_trip :: "duration option"
  lm_success :: bool

record RelayState =
  rs_peer_id :: PeerId
  rs_started_at :: system_time
  rs_status :: RelayStatus
  rs_listening_address :: "string option"
  rs_advertised_address :: "string option"
  rs_active_peers :: "PeerId fset"
  rs_last_heartbeat :: "system_time option"
  rs_total_successful_connections :: u64
  rs_total_failed_connections :: u64
  rs_latency_measurements :: "LatencyMeasurement list"
  rs_software_version :: string

definition relay_state_new :: "system_time \<Rightarrow> PeerId \<Rightarrow> string option \<Rightarrow> string \<Rightarrow> RelayState" where
  "relay_state_new now peer advertised version =
     \<lparr>rs_peer_id = peer, rs_started_at = now, rs_status = Status_Starting, rs_listening_address = None,
      rs_advertised_address = advertised, rs_active_peers = {||}, rs_last_heartbeat = None,
      rs_total_successful_connections = 0, rs_total_failed_connections = 0,
      rs_latency_measurements = [], rs_software_version = version\<rparr>"

definition relay_uptime :: "system_time \<Rightarrow> RelayState \<Rightarrow> duration" where
  "relay_uptime now s = (case duration_since now (rs_started_at s) of None \<Rightarrow> 0 | Some d \<Rightarrow> d)"

definition active_peer_count :: "RelayState \<Rightarrow> nat" where
  "active_peer_count s = fcard (rs_active_peers s)"

definition mark_heartbeat :: "RelayState \<Rightarrow> system_time \<Rightarrow> RelayState" where
  "mark_heartbeat s t = s\<lparr>rs_last_heartbeat := Some t\<rparr>"

definition set_status :: "RelayState \<Rightarrow> RelayStatus \<Rightarrow> RelayState" where
  "set_status s st = s\<lparr>rs_status := st\<rparr>"

definition record_latency :: "RelayState \<Rightarrow> LatencyMeasurement \<Rightarrow> RelayState" where
  "record_latency s m =
     (let q = rs_latency_measurements s;
          q' = (if length q = MAX_LATENCY_SAMPLES then tl q else q)
      in s\<lparr>rs_latency_measurements := q' @ [m]\<rparr>)"

fun apply_network_event :: "AddrLib \<Rightarrow> RelayState \<Rightarrow> NetworkEvent \<Rightarrow> system_time \<Rightarrow> RelayState" where
  "apply_network_event A s (Listening address) t =
     s\<lparr>rs_listening_address := Some (al_to_string A address), rs_status := Status_Online\<rparr>"
| "apply_network_event A s (PeerConnected p) t =
     (let s' = (if p |\<in>| rs_active_peers s then s
                else s\<lparr>rs_active_peers := finsert p (rs_active_peers s),
                       rs_total_successful_connections := rs_total_successful_connections s + 1\<rparr>)
      in s'\<lparr>rs_status := Status_Online\<rparr>)"
| "apply_network_event A s (PeerDisconnected p) t =
     s\<lparr>rs_active_peers := rs_active_peers s |-| {|p|}\<rparr>"
| "apply_network_event A s (PingResult p r) t =
     (let s' = record_latency s
            \<lparr>lm_peer_id = p, lm_timestamp = t,
             lm_round_trip = (case r of Inl _ \<Rightarrow> None | Inr d \<Rightarrow> Some d), lm_success = is_ok r\<rparr>
      in if \<not> is_ok r then s'\<lparr>rs_total_failed_connections := rs_total_failed_connections s' + 1\<rparr> else s')"
| "apply_network_event A s (NetworkError _) t =
     s\<lparr>rs_total_failed_connections := rs_total_failed_connections s + 1\<rparr>"
| "apply_network_event A s (PeerIdentified _ _) t = s"
| "apply_network_event A s (DiscoveryRequest _ _ _ _) t = s"
| "apply_network_event A s (DiscoveryResponse _ _ _) t = s"

subsection \<open>Health\<close>

datatype HealthClass = Healthy | Health_Degraded | Unhealthy

record HealthThresholds =
  ht_heartbeat_freshness :: duration
  ht_degraded_latency :: duration

record RelayHealth =
  rh_class :: HealthClass
  rh_latency :: "duration option"
  rh_heartbeat_fresh :: bool

text \<open>\<open>filter_map(|m| m.round_trip).last()\<close>.\<close>

definition latest_round_trip :: "RelayState \<Rightarrow> duration option" where
  "latest_round_trip s =
     (case rev (List.map_filter lm_round_trip (rs_latency_measurements s)) of [] \<Rightarrow> None | d # _ \<Rightarrow> Some d)"

definition health_evaluate :: "RelayState \<Rightarrow> HealthThresholds \<Rightarrow> system_time \<Rightarrow> RelayHealth" where
  "health_evaluate s th now =
     (let fresh = (case rs_last_heartbeat s of
            None \<Rightarrow> False
          | Some t \<Rightarrow> (case duration_since now t of None \<Rightarrow> 0 | Some d \<Rightarrow> d) \<le> ht_heartbeat_freshness th);
          latency = latest_round_trip s;
          connectivity_ok = (active_peer_count s > 0 \<or> rs_total_successful_connections s = 0);
          class = (if rs_status s = Status_Offline \<or> rs_status s = Status_ShuttingDown \<or>
                      (\<not> fresh \<and> rs_last_heartbeat s \<noteq> None) \<or> \<not> connectivity_ok
                   then Unhealthy
                   else if (case latency of None \<Rightarrow> False | Some v \<Rightarrow> v > ht_degraded_latency th) \<or>
                           rs_status s = Status_Degraded
                   then Health_Degraded
                   else Healthy)
      in \<lparr>rh_class = class, rh_latency = latency, rh_heartbeat_fresh = fresh\<rparr>)"

subsection \<open>Heartbeats\<close>

record RelayHeartbeat =
  hb_peer_id :: PeerId
  hb_timestamp :: system_time
  hb_status :: RelayStatus
  hb_uptime :: duration
  hb_active_peer_count :: nat
  hb_latency :: "duration option"
  hb_software_version :: string

definition heartbeat_from_state :: "system_time \<Rightarrow> RelayState \<Rightarrow> system_time \<Rightarrow> RelayHeartbeat \<times> RelayState" where
  "heartbeat_from_state now s timestamp =
     (let s' = mark_heartbeat s timestamp in
      (\<lparr>hb_peer_id = rs_peer_id s', hb_timestamp = timestamp, hb_status = rs_status s',
        hb_uptime = relay_uptime now s', hb_active_peer_count = active_peer_count s',
        hb_latency = latest_round_trip s', hb_software_version = rs_software_version s'\<rparr>, s'))"

subsection \<open>Metadata\<close>

record RelayMetadataRequest =
  rmr_kind :: string
  rmr_protocol_version :: string

record RelayMetadata =
  rmd_peer_id :: PeerId
  rmd_protocol_version :: string
  rmd_software_version :: string
  rmd_supported_transports :: "string list"
  rmd_capabilities :: "string list"
  rmd_listening_address :: "string option"
  rmd_advertised_address :: "string option"
  rmd_status :: RelayStatus
  rmd_health :: HealthClass
  rmd_latency_ms :: "u64 option"
  rmd_timestamp :: system_time
  rmd_last_heartbeat :: "system_time option"

definition metadata_new :: "system_time \<Rightarrow> PeerId \<Rightarrow> string \<Rightarrow> string \<Rightarrow> RelayMetadata" where
  "metadata_new now peer protocol version =
     \<lparr>rmd_peer_id = peer, rmd_protocol_version = protocol, rmd_software_version = version,
      rmd_supported_transports = [''quic''], rmd_capabilities = [''quic'', ''relay''],
      rmd_listening_address = None, rmd_advertised_address = None, rmd_status = Status_Starting,
      rmd_health = Healthy, rmd_latency_ms = None, rmd_timestamp = now, rmd_last_heartbeat = None\<rparr>"

definition metadata_from_state_with_capabilities ::
  "system_time \<Rightarrow> RelayState \<Rightarrow> string \<Rightarrow> RelayHealth \<Rightarrow> string list \<Rightarrow> RelayMetadata" where
  "metadata_from_state_with_capabilities now s protocol health capabilities =
     \<lparr>rmd_peer_id = rs_peer_id s, rmd_protocol_version = protocol,
      rmd_software_version = rs_software_version s, rmd_supported_transports = [''quic''],
      rmd_capabilities = capabilities, rmd_listening_address = rs_listening_address s,
      rmd_advertised_address = rs_advertised_address s, rmd_status = rs_status s,
      rmd_health = rh_class health,
      rmd_latency_ms = map_option (\<lambda>d. of_nat (as_millis d)) (rh_latency health),
      rmd_timestamp = now, rmd_last_heartbeat = rs_last_heartbeat s\<rparr>"

definition metadata_from_state :: "system_time \<Rightarrow> RelayState \<Rightarrow> string \<Rightarrow> RelayHealth \<Rightarrow> RelayMetadata" where
  "metadata_from_state now s protocol health =
     metadata_from_state_with_capabilities now s protocol health [''quic'', ''relay'']"

definition known_capabilities :: "string list" where
  "known_capabilities = [''quic'', ''relay'', ''one_hop'', ''two_hop'', ''entry_role'', ''exit_role'',
     ''tcp_exit'', ''udp_exit'', ''dns_forwarding'', ''tun_boundary'', ''health_reporting'']"

definition metadata_address :: "RelayMetadata \<Rightarrow> string option" where
  "metadata_address m =
     (case rmd_advertised_address m of Some a \<Rightarrow> Some a | None \<Rightarrow> rmd_listening_address m)"

definition metadata_validate ::
  "AddrLib \<Rightarrow> RelayMetadata \<Rightarrow> string \<Rightarrow> system_time \<Rightarrow> duration \<Rightarrow> string + unit" where
  "metadata_validate A m expected now freshness =
     (if rmd_protocol_version m \<noteq> expected then
        Err (''unsupported protocol version: '' @ rmd_protocol_version m)
      else case duration_since now (rmd_timestamp m) of
        None \<Rightarrow> Err ''metadata timestamp is in the future''
      | Some age \<Rightarrow>
        if age > freshness then Err ''metadata timestamp is stale''
        else if (case rmd_last_heartbeat m of
              None \<Rightarrow> False
            | Some t \<Rightarrow> (case duration_since now t of None \<Rightarrow> True | Some a \<Rightarrow> a > freshness))
        then Err ''relay heartbeat is stale''
        else case metadata_address m of
          None \<Rightarrow> Err ''relay has no address''
        | Some address \<Rightarrow>
          if al_parse A address = None then Err ''relay address is invalid''
          else if list_ex (\<lambda>t. t \<noteq> ''quic'') (rmd_supported_transports m)
          then Err ''relay advertised an unknown transport''
          else if list_ex (\<lambda>c. c \<notin> set known_capabilities) (rmd_capabilities m)
          then Err ''relay advertised an unknown capability''
          else Ok ())"

text \<open>Timestamps are written as whole seconds since the epoch, which is time zero.\<close>

definition unix_timestamp_serialize :: "system_time \<Rightarrow> nat" where
  "unix_timestamp_serialize t = t div 1000000000"

definition unix_timestamp_deserialize :: "nat \<Rightarrow> system_time" where
  "unix_timestamp_deserialize n = from_secs n"

definition optional_timestamp_serialize :: "system_time option \<Rightarrow> nat option" where
  "optional_timestamp_serialize t = map_option unix_timestamp_serialize t"

definition optional_timestamp_deserialize :: "nat option \<Rightarrow> system_time option" where
  "optional_timestamp_deserialize n = map_option unix_timestamp_deserialize n"

subsection \<open>The registry\<close>

datatype RegistryError = AlreadyRegistered | Registry_NotFound

record InMemoryRelayRegistry =
  reg_relays :: "(PeerId, RelayMetadata) fmap"

definition registry_register ::
  "InMemoryRelayRegistry \<Rightarrow> RelayMetadata \<Rightarrow> (RegistryError + unit) \<times> InMemoryRelayRegistry" where
  "registry_register r m =
     (if fm_contains (reg_relays r) (rmd_peer_id m) then (Err AlreadyRegistered, r)
      else (Ok (), r\<lparr>reg_relays := fmupd (rmd_peer_id m) m (reg_relays r)\<rparr>))"

definition registry_update ::
  "InMemoryRelayRegistry \<Rightarrow> RelayMetadata \<Rightarrow> (RegistryError + unit) \<times> InMemoryRelayRegistry" where
  "registry_update r m =
     (if \<not> fm_contains (reg_relays r) (rmd_peer_id m) then (Err Registry_NotFound, r)
      else (Ok (), r\<lparr>reg_relays := fmupd (rmd_peer_id m) m (reg_relays r)\<rparr>))"

definition registry_get :: "InMemoryRelayRegistry \<Rightarrow> PeerId \<Rightarrow> RelayMetadata option" where
  "registry_get r p = fmlookup (reg_relays r) p"

definition registry_remove ::
  "InMemoryRelayRegistry \<Rightarrow> PeerId \<Rightarrow> (RegistryError + RelayMetadata) \<times> InMemoryRelayRegistry" where
  "registry_remove r p =
     (case fmlookup (reg_relays r) p of
        None \<Rightarrow> (Err Registry_NotFound, r)
      | Some m \<Rightarrow> (Ok m, r\<lparr>reg_relays := fmdrop p (reg_relays r)\<rparr>))"

subsection \<open>The heartbeat timer\<close>

text \<open>One tick of the relay's heartbeat timer: evaluate the health, adopt it as status, beat.\<close>

definition status_of_class :: "HealthClass \<Rightarrow> RelayStatus" where
  "status_of_class c =
     (case c of Healthy \<Rightarrow> Status_Online | Health_Degraded \<Rightarrow> Status_Degraded | Unhealthy \<Rightarrow> Status_Offline)"

definition heartbeat_tick :: "HealthThresholds \<Rightarrow> RelayState \<Rightarrow> system_time \<Rightarrow> RelayState" where
  "heartbeat_tick th s now =
     snd (heartbeat_from_state now (set_status s (status_of_class (rh_class (health_evaluate s th now)))) now)"

subsection \<open>The latency window\<close>

definition last_n :: "nat \<Rightarrow> 'a list \<Rightarrow> 'a list" where
  "last_n n xs = drop (length xs - n) xs"

lemma last_n_snoc:
  assumes "0 < n"
  shows "last_n n (xs @ [x]) = (if length (last_n n xs) = n then tl (last_n n xs) else last_n n xs) @ [x]"
proof (cases "n \<le> length xs")
  case True
  then have "length xs + 1 - n = Suc (length xs - n)" by simp
  with True assms show ?thesis by (simp add: last_n_def drop_Suc tl_drop)
qed (simp add: last_n_def)

text \<open>The measurements a sequence of timed events reports.\<close>

fun event_measurement :: "NetworkEvent \<times> system_time \<Rightarrow> LatencyMeasurement option" where
  "event_measurement (PingResult p r, t) =
     Some \<lparr>lm_peer_id = p, lm_timestamp = t,
           lm_round_trip = (case r of Inl _ \<Rightarrow> None | Inr d \<Rightarrow> Some d), lm_success = is_ok r\<rparr>"
| "event_measurement _ = None"

definition relay_step :: "AddrLib \<Rightarrow> RelayState \<Rightarrow> NetworkEvent \<times> system_time \<Rightarrow> RelayState" where
  "relay_step A s e = apply_network_event A s (fst e) (snd e)"

lemma relay_step_latency:
  "rs_latency_measurements (relay_step A s e) =
     (case event_measurement e of
        None \<Rightarrow> rs_latency_measurements s
      | Some m \<Rightarrow> (if length (rs_latency_measurements s) = MAX_LATENCY_SAMPLES
                   then tl (rs_latency_measurements s) else rs_latency_measurements s) @ [m])"
proof -
  obtain ev t where e: "e = (ev, t)" by (cases e)
  show ?thesis
    by (cases ev) (simp_all add: e relay_step_def record_latency_def Let_def)
qed

lemma latency_window_run:
  "rs_latency_measurements s = last_n MAX_LATENCY_SAMPLES ms \<Longrightarrow>
     rs_latency_measurements (foldl (relay_step A) s es) =
       last_n MAX_LATENCY_SAMPLES (ms @ List.map_filter event_measurement es)"
proof (induction es arbitrary: s ms)
  case Nil
  then show ?case by (simp add: List.map_filter_def)
next
  case (Cons e es)
  have pos: "0 < MAX_LATENCY_SAMPLES" by (simp add: MAX_LATENCY_SAMPLES_def)
  have "rs_latency_measurements (relay_step A s e) =
      last_n MAX_LATENCY_SAMPLES (ms @ (case event_measurement e of None \<Rightarrow> [] | Some m \<Rightarrow> [m]))"
    using Cons.prems by (simp add: relay_step_latency last_n_snoc [OF pos] split: option.splits)
  from Cons.IH [OF this] show ?case
    by (cases "event_measurement e") (simp_all add: List.map_filter_def)
qed

text \<open>
  Whatever events a relay handles, its latency window holds exactly the last hundred
  measurements the events reported, in the order they came.
\<close>

theorem latency_window:
  "rs_latency_measurements (foldl (relay_step A) (relay_state_new now peer adv ver) es) =
     last_n MAX_LATENCY_SAMPLES (List.map_filter event_measurement es)"
  using latency_window_run [of "relay_state_new now peer adv ver" "[]" A es]
  by (simp add: relay_state_new_def last_n_def)

subsection \<open>Health does not recover by itself\<close>

lemma heartbeat_tick_status:
  "rs_status (heartbeat_tick th s now) = status_of_class (rh_class (health_evaluate s th now))"
  by (simp add: heartbeat_tick_def heartbeat_from_state_def mark_heartbeat_def set_status_def Let_def)

definition not_online :: "RelayState \<Rightarrow> bool" where
  "not_online s \<longleftrightarrow> rs_status s \<in> {Status_Degraded, Status_Offline}"

interpretation heartbeat_machine: event_machine "heartbeat_tick th" not_online for th
  by standard
     (auto simp: not_online_def heartbeat_tick_status health_evaluate_def status_of_class_def Let_def)

text \<open>
  C40: the health a relay reports feeds back into the next evaluation: once a tick has set the
  status to degraded or offline, no sequence of later ticks sets it back to online, whatever the
  thresholds and times; only a network event does.
\<close>

theorem heartbeat_does_not_recover:
  assumes "rs_status s = Status_Degraded \<or> rs_status s = Status_Offline"
  shows "rs_status (foldl (heartbeat_tick th) s nows) \<noteq> Status_Online"
  using heartbeat_machine.run_inv [of s th nows] assms by (auto simp: not_online_def)

subsection \<open>Advertised metadata is accepted\<close>

lemma metadata_validate_Ok:
  "metadata_validate A m v now f = Ok () \<longleftrightarrow>
     rmd_protocol_version m = v \<and> rmd_timestamp m \<le> now \<and> now - rmd_timestamp m \<le> f \<and>
     (\<forall>t. rmd_last_heartbeat m = Some t \<longrightarrow> t \<le> now \<and> now - t \<le> f) \<and>
     (\<exists>a. metadata_address m = Some a \<and> al_parse A a \<noteq> None) \<and>
     set (rmd_supported_transports m) \<subseteq> {''quic''} \<and> set (rmd_capabilities m) \<subseteq> set known_capabilities"
  by (auto simp: metadata_validate_def duration_since_def list_ex_iff not_less not_le
      split: option.splits if_splits)

text \<open>What a peer reads back from the advertised form: the timestamps lose their fractions.\<close>

definition metadata_transmitted :: "RelayMetadata \<Rightarrow> RelayMetadata" where
  "metadata_transmitted m =
     m\<lparr>rmd_timestamp := unix_timestamp_deserialize (unix_timestamp_serialize (rmd_timestamp m)),
       rmd_last_heartbeat := optional_timestamp_deserialize (optional_timestamp_serialize (rmd_last_heartbeat m))\<rparr>"

lemma unix_timestamp_roundtrip:
  "unix_timestamp_deserialize (unix_timestamp_serialize t) \<le> t \<and>
   t < unix_timestamp_deserialize (unix_timestamp_serialize t) + from_secs 1"
proof -
  have "t = t div 1000000000 * 1000000000 + t mod 1000000000" by simp
  moreover have "t mod 1000000000 < 1000000000" by simp
  ultimately show ?thesis
    unfolding unix_timestamp_deserialize_def unix_timestamp_serialize_def from_secs_def by linarith
qed

text \<open>
  What an operating relay advertises is accepted by a peer that receives it in time. If the
  relay listens on an address that parses, advertises known capabilities and its last heartbeat
  lies at or before the advertisement, then a peer expecting the same protocol version accepts the
  transmitted metadata as long as heartbeat and advertisement are at least one second younger than
  the freshness limit.
\<close>

theorem advertised_metadata_accepted:
  assumes addr: "rs_advertised_address s = Some a \<or> rs_advertised_address s = None \<and> rs_listening_address s = Some a"
    and parses: "al_parse A a \<noteq> None" and caps: "set capabilities \<subseteq> set known_capabilities"
    and beat: "rs_last_heartbeat s = Some t" "t \<le> now" and time: "now \<le> now'" "now' + from_secs 1 \<le> t + freshness"
  shows "metadata_validate A (metadata_transmitted
      (metadata_from_state_with_capabilities now s protocol health capabilities)) protocol now' freshness = Ok ()"
  using unix_timestamp_roundtrip [of now] unix_timestamp_roundtrip [of t] assms
  by (auto simp: metadata_validate_Ok metadata_transmitted_def metadata_from_state_with_capabilities_def
      metadata_address_def optional_timestamp_serialize_def optional_timestamp_deserialize_def)

subsection \<open>The registry is keyed by peer\<close>

datatype registry_event =
    Ev_Register RelayMetadata
  | Ev_Update RelayMetadata
  | Ev_Remove PeerId

fun registry_step :: "InMemoryRelayRegistry \<Rightarrow> registry_event \<Rightarrow> InMemoryRelayRegistry" where
  "registry_step r (Ev_Register m) = snd (registry_register r m)"
| "registry_step r (Ev_Update m) = snd (registry_update r m)"
| "registry_step r (Ev_Remove p) = snd (registry_remove r p)"

definition registry_keyed :: "InMemoryRelayRegistry \<Rightarrow> bool" where
  "registry_keyed r \<longleftrightarrow> (\<forall>p m. fmlookup (reg_relays r) p = Some m \<longrightarrow> rmd_peer_id m = p)"

interpretation registry_machine: event_machine registry_step registry_keyed
proof (standard, goal_cases)
  case (1 r ev)
  then show ?case
    by (cases ev)
       (auto simp: registry_keyed_def registry_register_def registry_update_def registry_remove_def
          split: option.splits if_splits)
qed

text \<open>
  From the empty registry, whatever is registered, updated and removed, a lookup of a peer
  returns only metadata of that very peer; a registered peer is found, a second registration is
  refused without changing anything, and after a removal the peer is gone.
\<close>

theorem registry_consistent:
  assumes "r = foldl registry_step \<lparr>reg_relays = fmempty\<rparr> evs"
  shows "(\<forall>p m. registry_get r p = Some m \<longrightarrow> rmd_peer_id m = p) \<and>
     (case registry_register r m of
        (Inr _, r') \<Rightarrow> registry_get r (rmd_peer_id m) = None \<and> registry_get r' (rmd_peer_id m) = Some m \<and>
          (rmd_peer_id m' = rmd_peer_id m \<longrightarrow> registry_register r' m' = (Err AlreadyRegistered, r'))
      | (Inl e, r') \<Rightarrow> e = AlreadyRegistered \<and> r' = r \<and> registry_get r (rmd_peer_id m) \<noteq> None) \<and>
     registry_get (snd (registry_remove r p)) p = None"
proof -
  have "registry_keyed r"
    unfolding assms by (rule registry_machine.run_inv) (simp add: registry_keyed_def)
  then show ?thesis
    by (auto simp: registry_keyed_def registry_get_def registry_register_def registry_remove_def fm_contains_def
        split: option.splits)
qed

subsection \<open>Witnesses\<close>

definition demo_addr_lib :: AddrLib where
  "demo_addr_lib = \<lparr>al_parse = (\<lambda>s. Some (Multiaddr (map (\<lambda>c. of_nat (of_char c)) s))),
     al_to_string = (\<lambda>a. ''/ip4/1.2.3.4/udp/9000/quic-v1''),
     al_peer_to_string = (\<lambda>p. case p of PeerId b \<Rightarrow> map (\<lambda>w. char_of (unat w)) b)\<rparr>"

definition demo_relay_state :: RelayState where
  "demo_relay_state = (relay_state_new 0 (PeerId [2]) (Some ''/quic-v1'') ''v'')
     \<lparr>rs_last_heartbeat := Some 5, rs_status := Status_Offline\<rparr>"

theorem heartbeat_does_not_recover_witness:
  "rs_status (foldl (heartbeat_tick \<lparr>ht_heartbeat_freshness = 10, ht_degraded_latency = 1\<rparr>) demo_relay_state [6, 7])
     \<noteq> Status_Online"
  by (rule heartbeat_does_not_recover) (simp add: demo_relay_state_def)

theorem advertised_metadata_accepted_witness:
  "metadata_validate demo_addr_lib (metadata_transmitted
      (metadata_from_state_with_capabilities 6 demo_relay_state ''1.0''
         \<lparr>rh_class = Healthy, rh_latency = None, rh_heartbeat_fresh = True\<rparr> [''quic'', ''relay'']))
      ''1.0'' 7 (from_secs 10) = Ok ()"
  by (rule advertised_metadata_accepted [where a = "''/quic-v1''" and t = 5])
     (simp_all add: demo_relay_state_def relay_state_new_def demo_addr_lib_def known_capabilities_def from_secs_def)

theorem registry_consistent_witness:
  "registry_get (snd (registry_remove (foldl registry_step \<lparr>reg_relays = fmempty\<rparr>
      [Ev_Register (metadata_new 0 (PeerId [2]) ''1.0'' ''v'')]) (PeerId [2]))) (PeerId [2]) = None"
  using registry_consistent [OF refl] by blast

end
