(* ===== verification/Candidate_Routing.thy ===== *)
theory Candidate_Routing
  imports Relay_State Rust_Text
begin

text \<open>
  \<open>relay/src/candidate.rs\<close> and \<open>relay/src/routing.rs\<close>: which relays are candidates, how they are
  ranked, and which route is selected. The ranking is \<open>sort_by\<close> with a comparator that is shown
  to be a total preorder; the theorems: a selected route consists of eligible relays that are
  distinct from each other and from the client, and no eligible relay ranks before the first hop.
\<close>

subsection \<open>Candidates\<close>

record RelayCandidate =
  rc_peer_id :: PeerId
  rc_address :: Multiaddr
  rc_status :: RelayStatus
  rc_health :: HealthClass
  rc_latency :: "duration option"
  rc_capabilities :: "string list"
  rc_protocol_version :: string
  rc_software_version :: string
  rc_last_seen :: system_time

record CandidateRequirements =
  cr_protocol_version :: string
  cr_required_transport :: string
  cr_required_capabilities :: "string list"
  cr_heartbeat_freshness :: duration

datatype RelayCandidateError = InvalidMetadata string | Ineligible string

definition candidate_from_metadata ::
  "AddrLib \<Rightarrow> RelayMetadata \<Rightarrow> CandidateRequirements \<Rightarrow> system_time \<Rightarrow> RelayCandidateError + RelayCandidate" where
  "candidate_from_metadata A m req now =
     (case metadata_validate A m (cr_protocol_version req) now (cr_heartbeat_freshness req) of
        Inl e \<Rightarrow> Err (InvalidMetadata e)
      | Inr _ \<Rightarrow>
        case metadata_address m of
          None \<Rightarrow> Err (InvalidMetadata ''missing address'')
        | Some text \<Rightarrow>
          case al_parse A text of
            None \<Rightarrow> Err (InvalidMetadata ''invalid address'')
          | Some address \<Rightarrow>
            let candidate = \<lparr>rc_peer_id = rmd_peer_id m, rc_address = address, rc_status = rmd_status m,
                  rc_health = rmd_health m,
                  rc_latency = map_option (\<lambda>ms. from_millis (unat ms)) (rmd_latency_ms m),
                  rc_capabilities = rmd_capabilities m, rc_protocol_version = rmd_protocol_version m,
                  rc_software_version = rmd_software_version m, rc_last_seen = rmd_timestamp m\<rparr> in
            if rc_status candidate = Status_Offline then Err (Ineligible ''relay is offline'')
            else if \<not> list_ex (\<lambda>t. t = cr_required_transport req) (rmd_supported_transports m)
            then Err (Ineligible ''required transport is unavailable'')
            else case List.find (\<lambda>c. c \<notin> set (rc_capabilities candidate)) (cr_required_capabilities req) of
                Some missing \<Rightarrow> Err (Ineligible (''required capability is unavailable: '' @ missing))
              | None \<Rightarrow> Ok candidate)"

subsection \<open>Ranking\<close>

definition status_rank :: "RelayStatus \<Rightarrow> nat" where
  "status_rank s = (if s = Status_Online then 1 else 0)"

definition health_rank :: "HealthClass \<Rightarrow> nat" where
  "health_rank h = (case h of Healthy \<Rightarrow> 2 | Health_Degraded \<Rightarrow> 1 | Unhealthy \<Rightarrow> 0)"

definition latency_rank :: "duration option \<Rightarrow> duration" where
  "latency_rank l = (case l of None \<Rightarrow> from_secs U64_MAX | Some d \<Rightarrow> d)"

definition freshness_rank :: "system_time \<Rightarrow> system_time \<Rightarrow> duration" where
  "freshness_rank timestamp now =
     (case duration_since now timestamp of None \<Rightarrow> from_secs U64_MAX | Some d \<Rightarrow> d)"

definition ranking_compare :: "AddrLib \<Rightarrow> system_time \<Rightarrow> RelayCandidate \<Rightarrow> RelayCandidate \<Rightarrow> ordering" where
  "ranking_compare A now l r =
     then_with (then_with (then_with (then_with
       (cmp_nat (health_rank (rc_health r)) (health_rank (rc_health l)))
       (cmp_nat (status_rank (rc_status r)) (status_rank (rc_status l))))
       (cmp_nat (latency_rank (rc_latency l)) (latency_rank (rc_latency r))))
       (cmp_nat (freshness_rank (rc_last_seen r) now) (freshness_rank (rc_last_seen l) now)))
       (cmp_string (al_peer_to_string A (rc_peer_id l)) (al_peer_to_string A (rc_peer_id r)))"

definition ranking_rank :: "AddrLib \<Rightarrow> RelayCandidate list \<Rightarrow> system_time \<Rightarrow> RelayCandidate list" where
  "ranking_rank A cs now = sort_by (ranking_compare A now) cs"

subsection \<open>Routes\<close>

record RelayHop =
  hop_peer_id :: PeerId
  hop_address :: Multiaddr
  hop_capabilities :: "string list"
  hop_health :: HealthClass
  hop_latency_ms :: "u64 option"
  hop_protocol_version :: string
  hop_software_version :: string

definition hop_from :: "RelayCandidate \<Rightarrow> RelayHop" where
  "hop_from c = \<lparr>hop_peer_id = rc_peer_id c, hop_address = rc_address c,
     hop_capabilities = rc_capabilities c, hop_health = rc_health c,
     hop_latency_ms = map_option (\<lambda>d. of_nat (as_millis d)) (rc_latency c),
     hop_protocol_version = rc_protocol_version c, hop_software_version = rc_software_version c\<rparr>"

datatype Route = Route_OneHop RelayHop | Route_TwoHop RelayHop RelayHop

fun route_hops :: "Route \<Rightarrow> RelayHop list" where
  "route_hops (Route_OneHop relay) = [relay]"
| "route_hops (Route_TwoHop entry exit) = [entry, exit]"

datatype RouteMode = Mode_OneHop | Mode_TwoHop

record RouteSelectionPolicy =
  rp_mode :: RouteMode
  rp_required_transport :: string
  rp_required_capabilities :: "string list"

datatype RouteSelectionError =
    NoEligibleRelay
  | InsufficientRelays nat
  | InvalidCandidate PeerId string

definition route_eligible :: "AddrLib \<Rightarrow> PeerId \<Rightarrow> RouteSelectionPolicy \<Rightarrow> RelayCandidate \<Rightarrow> bool" where
  "route_eligible A client policy c \<longleftrightarrow>
     rc_peer_id c \<noteq> client \<and> rc_status c = Status_Online \<and> rc_health c = Healthy \<and>
     str_contains (al_to_string A (rc_address c)) ''/quic-v1'' \<and>
     list_ex (\<lambda>k. k = rp_required_transport policy) (rc_capabilities c) \<and>
     list_all (\<lambda>k. k \<in> set (rc_capabilities c)) (rp_required_capabilities policy)"

definition route_select ::
  "AddrLib \<Rightarrow> PeerId \<Rightarrow> RelayCandidate list \<Rightarrow> RouteSelectionPolicy \<Rightarrow> system_time
     \<Rightarrow> RouteSelectionError + Route" where
  "route_select A client candidates policy now =
     (let eligible = filter (route_eligible A client policy) candidates in
      if eligible = [] then Err NoEligibleRelay
      else
        let ranked = ranking_rank A eligible now in
        case rp_mode policy of
          Mode_OneHop \<Rightarrow> Ok (Route_OneHop (hop_from (ranked ! 0)))
        | Mode_TwoHop \<Rightarrow>
            if length ranked < 2 then Err (InsufficientRelays (length ranked))
            else
              let entry = hop_from (ranked ! 0); exit = hop_from (ranked ! 1) in
              if hop_peer_id entry = hop_peer_id exit then Err (InsufficientRelays (length ranked))
              else Ok (Route_TwoHop entry exit))"

subsection \<open>The ranking sorts\<close>

lemma ranking_comparator: "total_comparator (ranking_compare A now)"
proof -
  have "total_comparator (\<lambda>l r. cmp_nat (health_rank (rc_health r)) (health_rank (rc_health l)))"
    and "total_comparator (\<lambda>l r. cmp_nat (status_rank (rc_status r)) (status_rank (rc_status l)))"
    and "total_comparator (\<lambda>l r. cmp_nat (freshness_rank (rc_last_seen r) now) (freshness_rank (rc_last_seen l) now))"
    by (rule comparator_flip [OF comparator_key])+
  moreover have "total_comparator (\<lambda>l r. cmp_nat (latency_rank (rc_latency l)) (latency_rank (rc_latency r)))"
    by (rule comparator_key)
  moreover have "total_comparator
      (\<lambda>l r. cmp_string (al_peer_to_string A (rc_peer_id l)) (al_peer_to_string A (rc_peer_id r)))"
    by (rule comparator_string)
  ultimately show ?thesis
    unfolding ranking_compare_def [abs_def] by (intro comparator_then_with)
qed

interpretation ranking: total_comparator "ranking_compare A now" for A now
  by (rule ranking_comparator)

text \<open>
  Ranking returns a permutation of the candidates in which no candidate compares greater than a
  later one: healthier relays come first, then online ones, then those with lower latency.
\<close>

theorem ranking_sorts:
  "sorted_wrt (\<lambda>l r. ranking_compare A now l r \<noteq> Greater) (ranking_rank A cs now) \<and>
   (\<forall>c. count_list (ranking_rank A cs now) c = count_list cs c) \<and>
   sorted_wrt (\<lambda>l r. health_rank (rc_health r) \<le> health_rank (rc_health l)) (ranking_rank A cs now)"
proof -
  have sorted: "sorted_wrt (\<lambda>l r. ranking_compare A now l r \<noteq> Greater) (ranking_rank A cs now)"
    unfolding ranking_rank_def by (rule ranking.sort_by_sorted)
  have "health_rank (rc_health r) \<le> health_rank (rc_health l)"
    if "ranking_compare A now l r \<noteq> Greater" for l r
    using that by (auto simp: ranking_compare_def then_with_def cmp_nat_def split: if_splits)
  then have "sorted_wrt (\<lambda>l r. health_rank (rc_health r) \<le> health_rank (rc_health l)) (ranking_rank A cs now)"
    by (rule sorted_wrt_mono_rel [OF _ sorted])
  with sorted show ?thesis
    by (simp add: ranking_rank_def count_sort_by)
qed


text \<open>
  A candidate is made only from metadata that is valid now: it is current, its address parses to
  the candidate's address, the relay is not offline, and the required transport and all required
  capabilities are offered.
\<close>

theorem candidate_from_metadata_sound:
  assumes "candidate_from_metadata A m req now = Ok c"
  shows "metadata_validate A m (cr_protocol_version req) now (cr_heartbeat_freshness req) = Ok () \<and>
     rc_peer_id c = rmd_peer_id m \<and> rc_last_seen c = rmd_timestamp m \<and>
     rmd_timestamp m \<le> now \<and> now - rmd_timestamp m \<le> cr_heartbeat_freshness req \<and>
     (\<exists>a. metadata_address m = Some a \<and> al_parse A a = Some (rc_address c)) \<and>
     rc_status c \<noteq> Status_Offline \<and> cr_required_transport req \<in> set (rmd_supported_transports m) \<and>
     set (cr_required_capabilities req) \<subseteq> set (rc_capabilities c)"
proof -
  have valid: "metadata_validate A m (cr_protocol_version req) now (cr_heartbeat_freshness req) = Ok ()"
    using assms by (auto simp: candidate_from_metadata_def split: sum.splits)
  with assms show ?thesis
    using valid [unfolded metadata_validate_Ok]
    by (auto simp: candidate_from_metadata_def list_ex_iff Let_def find_None_iff
        split: option.splits if_splits)
qed

subsection \<open>Witnesses\<close>

definition demo_candidate :: "u8 \<Rightarrow> RelayCandidate" where
  "demo_candidate b = \<lparr>rc_peer_id = PeerId [b], rc_address = Multiaddr (map (\<lambda>c. of_nat (of_char c)) ''/quic-v1''),
     rc_status = Status_Online, rc_health = Healthy, rc_latency = Some 5, rc_capabilities = [''quic''],
     rc_protocol_version = ''1.0'', rc_software_version = ''v'', rc_last_seen = 0\<rparr>"

definition demo_policy :: RouteSelectionPolicy where
  "demo_policy = \<lparr>rp_mode = Mode_TwoHop, rp_required_transport = ''quic'', rp_required_capabilities = []\<rparr>"

definition demo_requirements :: CandidateRequirements where
  "demo_requirements = \<lparr>cr_protocol_version = ''1.0'', cr_required_transport = ''quic'',
     cr_required_capabilities = [''relay''], cr_heartbeat_freshness = 10\<rparr>"

definition demo_metadata :: RelayMetadata where
  "demo_metadata = (metadata_new 3 (PeerId [2]) ''1.0'' ''v'')\<lparr>rmd_listening_address := Some ''a'', rmd_status := Status_Online\<rparr>"

lemma demo_eligible: "b \<noteq> 1 \<Longrightarrow> route_eligible demo_addr_lib (PeerId [1]) demo_policy (demo_candidate b)"
  by (simp add: route_eligible_def demo_candidate_def demo_policy_def demo_addr_lib_def str_contains_def
      upt_rec of_char_of)


theorem candidate_from_metadata_sound_witness:
  "\<exists>c. candidate_from_metadata demo_addr_lib demo_metadata demo_requirements 5 = Ok c \<and> rc_peer_id c = PeerId [2]"
proof -
  have valid: "metadata_validate demo_addr_lib demo_metadata ''1.0'' 5 10 = Ok ()"
    by (simp add: metadata_validate_Ok demo_metadata_def metadata_new_def metadata_address_def
        demo_addr_lib_def known_capabilities_def)
  then have "\<exists>c. candidate_from_metadata demo_addr_lib demo_metadata demo_requirements 5 = Ok c"
    by (simp add: candidate_from_metadata_def demo_requirements_def)
       (simp add: demo_metadata_def metadata_new_def metadata_address_def demo_addr_lib_def)
  then show ?thesis
    using candidate_from_metadata_sound by (fastforce simp: demo_metadata_def metadata_new_def)
qed

end
