(* ===== verification/Relay_Managers.thy ===== *)
theory Relay_Managers
  imports Session
begin

text \<open>
  \<open>relay/src/core.rs\<close>, \<open>connection.rs\<close> and \<open>session_manager.rs\<close>: the bookkeeping of a relay. Each
  manager is a container with a limit, an instance of \<open>bounded_store\<close>; the core also has a life
  cycle, which only moves forward. Clock readings are arguments. Counters are 64-bit words; the
  sizes in the metrics are natural numbers.
\<close>

subsection \<open>The core\<close>

datatype RelayLifecycle = Lc_Starting | Lc_Discovering | Lc_Ready | Lc_Draining | Lc_ShuttingDown | Lc_Stopped

datatype RelayCoreError =
    InvalidTransition RelayLifecycle string
  | PeerLimit
  | SessionLimit
  | FlowLimit

record RelayMetrics =
  me_active_peers :: nat
  me_active_sessions :: nat
  me_active_flows :: nat
  me_packets_accepted :: u64
  me_packets_rejected :: u64
  me_bytes_forwarded :: u64
  me_tcp_flows :: u64
  me_udp_flows :: u64
  me_dns_requests :: u64
  me_forwarding_errors :: u64
  me_session_errors :: u64
  me_connection_errors :: u64

definition metrics_default :: RelayMetrics where
  "metrics_default = \<lparr>me_active_peers = 0, me_active_sessions = 0, me_active_flows = 0,
     me_packets_accepted = 0, me_packets_rejected = 0, me_bytes_forwarded = 0, me_tcp_flows = 0,
     me_udp_flows = 0, me_dns_requests = 0, me_forwarding_errors = 0, me_session_errors = 0,
     me_connection_errors = 0\<rparr>"

record RelayResourceLimits =
  rl_maximum_connected_peers :: nat
  rl_maximum_active_sessions :: nat
  rl_maximum_active_flows :: nat
  rl_maximum_queued_packets :: nat
  rl_maximum_exit_connections :: nat
  rl_session_timeout :: duration
  rl_flow_timeout :: duration

record RelayCore =
  co_peer_id :: PeerId
  co_software_version :: string
  co_protocol_version :: string
  co_capabilities :: "string list"
  co_limits :: RelayResourceLimits
  co_lifecycle :: RelayLifecycle
  co_started_at :: instant
  co_peers :: "PeerId fset"
  co_sessions :: "SessionId fset"
  co_flows :: "SessionId fset"
  co_metrics :: RelayMetrics

definition core_new ::
  "instant \<Rightarrow> PeerId \<Rightarrow> string \<Rightarrow> string \<Rightarrow> string list \<Rightarrow> RelayResourceLimits \<Rightarrow> RelayCoreError + RelayCore" where
  "core_new now peer software protocol capabilities limits =
     Ok \<lparr>co_peer_id = peer, co_software_version = software, co_protocol_version = protocol,
         co_capabilities = capabilities, co_limits = limits, co_lifecycle = Lc_Starting,
         co_started_at = now, co_peers = {||}, co_sessions = {||}, co_flows = {||},
         co_metrics = metrics_default\<rparr>"

definition core_is_ready :: "RelayCore \<Rightarrow> bool" where
  "core_is_ready c = (co_lifecycle c = Lc_Ready)"

definition lifecycle_valid :: "RelayLifecycle \<Rightarrow> RelayLifecycle \<Rightarrow> bool" where
  "lifecycle_valid s n =
     ((s, n) \<in> {(Lc_Starting, Lc_Discovering), (Lc_Discovering, Lc_Ready), (Lc_Ready, Lc_Draining),
        (Lc_Ready, Lc_ShuttingDown), (Lc_Draining, Lc_ShuttingDown), (Lc_ShuttingDown, Lc_Stopped),
        (Lc_Draining, Lc_Draining), (Lc_ShuttingDown, Lc_ShuttingDown), (Lc_Stopped, Lc_Stopped)})"

definition core_transition :: "RelayCore \<Rightarrow> RelayLifecycle \<Rightarrow> (RelayCoreError + unit) \<times> RelayCore" where
  "core_transition c next =
     (if \<not> lifecycle_valid (co_lifecycle c) next
      then (Err (InvalidTransition (co_lifecycle c) ''lifecycle transition''), c)
      else (Ok (), c\<lparr>co_lifecycle := next\<rparr>))"

definition core_admit_peer :: "RelayCore \<Rightarrow> PeerId \<Rightarrow> (RelayCoreError + unit) \<times> RelayCore" where
  "core_admit_peer c p =
     (if p |\<in>| co_peers c then (Ok (), c)
      else if co_lifecycle c \<noteq> Lc_Ready \<and> co_lifecycle c \<noteq> Lc_Discovering
      then (Err (InvalidTransition (co_lifecycle c) ''admit peer''), c)
      else if fcard (co_peers c) \<ge> rl_maximum_connected_peers (co_limits c) then (Err PeerLimit, c)
      else let ps = finsert p (co_peers c) in
        (Ok (), c\<lparr>co_peers := ps, co_metrics := (co_metrics c)\<lparr>me_active_peers := fcard ps\<rparr>\<rparr>))"

definition core_remove_peer :: "RelayCore \<Rightarrow> PeerId \<Rightarrow> RelayCore" where
  "core_remove_peer c p =
     (let ps = co_peers c |-| {|p|} in
      c\<lparr>co_peers := ps, co_metrics := (co_metrics c)\<lparr>me_active_peers := fcard ps\<rparr>\<rparr>)"

definition core_admit_session :: "RelayCore \<Rightarrow> SessionId \<Rightarrow> (RelayCoreError + unit) \<times> RelayCore" where
  "core_admit_session c s =
     (if co_lifecycle c \<noteq> Lc_Ready \<and> co_lifecycle c \<noteq> Lc_Discovering
      then (Err (InvalidTransition (co_lifecycle c) ''admit session''), c)
      else if fcard (co_sessions c) \<ge> rl_maximum_active_sessions (co_limits c) then (Err SessionLimit, c)
      else let ss = finsert s (co_sessions c) in
        (Ok (), c\<lparr>co_sessions := ss, co_metrics := (co_metrics c)\<lparr>me_active_sessions := fcard ss\<rparr>\<rparr>))"

definition core_remove_session :: "RelayCore \<Rightarrow> SessionId \<Rightarrow> RelayCore" where
  "core_remove_session c s =
     (let ss = co_sessions c |-| {|s|}; fs = co_flows c |-| {|s|} in
      c\<lparr>co_sessions := ss, co_flows := fs,
        co_metrics := (co_metrics c)\<lparr>me_active_sessions := fcard ss, me_active_flows := fcard fs\<rparr>\<rparr>)"

definition core_admit_flow :: "RelayCore \<Rightarrow> SessionId \<Rightarrow> nat \<Rightarrow> (RelayCoreError + unit) \<times> RelayCore" where
  "core_admit_flow c f n =
     (if f |\<in>| co_flows c then (Ok (), c)
      else if fcard (co_flows c) \<ge> rl_maximum_active_flows (co_limits c) then (Err FlowLimit, c)
      else let fs = finsert f (co_flows c) in
        (Ok (), c\<lparr>co_flows := fs,
                   co_metrics := (co_metrics c)\<lparr>me_active_flows := fcard fs,
                     me_packets_accepted := me_packets_accepted (co_metrics c) + 1,
                     me_bytes_forwarded := saturating_add_u64 (me_bytes_forwarded (co_metrics c)) (of_nat n)\<rparr>\<rparr>))"

definition core_remove_flow :: "RelayCore \<Rightarrow> SessionId \<Rightarrow> RelayCore" where
  "core_remove_flow c f =
     (let fs = co_flows c |-| {|f|} in
      c\<lparr>co_flows := fs, co_metrics := (co_metrics c)\<lparr>me_active_flows := fcard fs\<rparr>\<rparr>)"

definition core_reject_packet :: "RelayCore \<Rightarrow> RelayCore" where
  "core_reject_packet c =
     c\<lparr>co_metrics := (co_metrics c)\<lparr>me_packets_rejected := me_packets_rejected (co_metrics c) + 1\<rparr>\<rparr>"

record RelayOperationalState =
  op_peer_id :: string
  op_software_version :: string
  op_protocol_version :: string
  op_capabilities :: "string list"
  op_lifecycle :: string
  op_readiness :: bool
  op_uptime_secs :: nat
  op_active_sessions :: nat
  op_active_flows :: nat
  op_active_peers :: nat
  op_metrics :: RelayMetrics

definition lifecycle_to_string :: "RelayLifecycle \<Rightarrow> string" where
  "lifecycle_to_string l = (case l of Lc_Starting \<Rightarrow> ''Starting'' | Lc_Discovering \<Rightarrow> ''Discovering''
     | Lc_Ready \<Rightarrow> ''Ready'' | Lc_Draining \<Rightarrow> ''Draining'' | Lc_ShuttingDown \<Rightarrow> ''ShuttingDown''
     | Lc_Stopped \<Rightarrow> ''Stopped'')"

definition core_operational_state :: "SessionLib \<Rightarrow> instant \<Rightarrow> RelayCore \<Rightarrow> RelayOperationalState" where
  "core_operational_state L now c =
     \<lparr>op_peer_id = peer_to_string L (co_peer_id c), op_software_version = co_software_version c,
      op_protocol_version = co_protocol_version c, op_capabilities = co_capabilities c,
      op_lifecycle = lifecycle_to_string (co_lifecycle c), op_readiness = core_is_ready c,
      op_uptime_secs = (now - co_started_at c) div 1000000000,
      op_active_sessions = fcard (co_sessions c), op_active_flows = fcard (co_flows c),
      op_active_peers = fcard (co_peers c), op_metrics = co_metrics c\<rparr>"

subsection \<open>Connections\<close>

datatype ConnectionState = Conn_Connecting | Conn_Ready | Conn_Closing | Conn_Closed

record ConnectionRecord =
  cn_peer_id :: PeerId
  cn_state :: ConnectionState
  cn_created_at :: instant
  cn_last_activity :: instant
  cn_protocol_version :: string

datatype ConnectionManagerError = Conn_Limit | Conn_Duplicate

record ConnectionManager =
  cm_records :: "(PeerId, ConnectionRecord) fmap"
  cm_maximum_connections :: nat

definition connections_new :: "nat \<Rightarrow> ConnectionManagerError + ConnectionManager" where
  "connections_new maximum =
     (if maximum = 0 then Err Conn_Limit else Ok \<lparr>cm_records = fmempty, cm_maximum_connections = maximum\<rparr>)"

definition connection_establish ::
  "instant \<Rightarrow> ConnectionManager \<Rightarrow> PeerId \<Rightarrow> string \<Rightarrow> (ConnectionManagerError + unit) \<times> ConnectionManager" where
  "connection_establish now m p version =
     (if fm_contains (cm_records m) p then (Err Conn_Duplicate, m)
      else if fm_size (cm_records m) \<ge> cm_maximum_connections m then (Err Conn_Limit, m)
      else (Ok (), m\<lparr>cm_records := fmupd p
              \<lparr>cn_peer_id = p, cn_state = Conn_Ready, cn_created_at = now, cn_last_activity = now,
               cn_protocol_version = version\<rparr> (cm_records m)\<rparr>))"

definition connection_touch :: "instant \<Rightarrow> ConnectionManager \<Rightarrow> PeerId \<Rightarrow> bool \<times> ConnectionManager" where
  "connection_touch now m p =
     (case fmlookup (cm_records m) p of
        None \<Rightarrow> (False, m)
      | Some r \<Rightarrow> (True, m\<lparr>cm_records := fmupd p (r\<lparr>cn_last_activity := now\<rparr>) (cm_records m)\<rparr>))"

definition connection_close :: "ConnectionManager \<Rightarrow> PeerId \<Rightarrow> bool \<times> ConnectionManager" where
  "connection_close m p =
     (fm_contains (cm_records m) p, m\<lparr>cm_records := fmdrop p (cm_records m)\<rparr>)"

text \<open>\<open>Instant::duration_since\<close> saturates at zero.\<close>

definition connection_cleanup_idle :: "instant \<Rightarrow> ConnectionManager \<Rightarrow> duration \<Rightarrow> nat \<times> ConnectionManager" where
  "connection_cleanup_idle now m idle =
     (let rs = fm_retain (\<lambda>_ r. now - cn_last_activity r \<le> idle) (cm_records m) in
      (fm_size (cm_records m) - fm_size rs, m\<lparr>cm_records := rs\<rparr>))"

definition connections_len :: "ConnectionManager \<Rightarrow> nat" where
  "connections_len m = fm_size (cm_records m)"

subsection \<open>Session bindings\<close>

record SessionBinding =
  sb_session_id :: SessionId
  sb_authenticated_peer :: PeerId
  sb_route :: RouteBinding
  sb_entry_peer :: PeerId
  sb_exit_peer :: PeerId
  sb_created_at :: instant
  sb_last_activity :: instant

datatype SessionManagerError = Sm_Limit | Sm_Duplicate | Sm_Unknown

record SessionManager =
  sm_sessions :: "(SessionId, SessionBinding) fmap"
  sm_maximum_sessions :: nat
  sm_timeout :: duration

definition sessions_new :: "nat \<Rightarrow> duration \<Rightarrow> SessionManagerError + SessionManager" where
  "sessions_new maximum timeout =
     (if maximum = 0 \<or> timeout = 0 then Err Sm_Limit
      else Ok \<lparr>sm_sessions = fmempty, sm_maximum_sessions = maximum, sm_timeout = timeout\<rparr>)"

definition sessions_cleanup :: "instant \<Rightarrow> SessionManager \<Rightarrow> SessionManager" where
  "sessions_cleanup now m =
     m\<lparr>sm_sessions := fm_retain (\<lambda>_ s. now - sb_last_activity s \<le> sm_timeout m) (sm_sessions m)\<rparr>"

definition sessions_insert ::
  "instant \<Rightarrow> SessionManager \<Rightarrow> SessionBinding \<Rightarrow> (SessionManagerError + unit) \<times> SessionManager" where
  "sessions_insert now m b =
     (let m1 = sessions_cleanup now m in
      if fm_contains (sm_sessions m1) (sb_session_id b) then (Err Sm_Duplicate, m1)
      else if fm_size (sm_sessions m1) \<ge> sm_maximum_sessions m1 then (Err Sm_Limit, m1)
      else (Ok (), m1\<lparr>sm_sessions := fmupd (sb_session_id b) b (sm_sessions m1)\<rparr>))"

definition sessions_get :: "SessionManager \<Rightarrow> SessionId \<Rightarrow> SessionBinding option" where
  "sessions_get m s = fmlookup (sm_sessions m) s"

definition sessions_remove :: "SessionManager \<Rightarrow> SessionId \<Rightarrow> (SessionManagerError + unit) \<times> SessionManager" where
  "sessions_remove m s =
     (if fm_contains (sm_sessions m) s then (Ok (), m\<lparr>sm_sessions := fmdrop s (sm_sessions m)\<rparr>)
      else (Err Sm_Unknown, m))"

definition sessions_len :: "SessionManager \<Rightarrow> nat" where
  "sessions_len m = fm_size (sm_sessions m)"

subsection \<open>Limits of the core\<close>

datatype core_event =
    Ev_Transition RelayLifecycle
  | Ev_AdmitPeer PeerId
  | Ev_RemovePeer PeerId
  | Ev_AdmitSession SessionId
  | Ev_RemoveSession SessionId
  | Ev_AdmitFlow SessionId nat
  | Ev_RemoveFlow SessionId
  | Ev_RejectPacket

fun core_step :: "RelayCore \<Rightarrow> core_event \<Rightarrow> RelayCore" where
  "core_step c (Ev_Transition l) = snd (core_transition c l)"
| "core_step c (Ev_AdmitPeer p) = snd (core_admit_peer c p)"
| "core_step c (Ev_RemovePeer p) = core_remove_peer c p"
| "core_step c (Ev_AdmitSession s) = snd (core_admit_session c s)"
| "core_step c (Ev_RemoveSession s) = core_remove_session c s"
| "core_step c (Ev_AdmitFlow f n) = snd (core_admit_flow c f n)"
| "core_step c (Ev_RemoveFlow f) = core_remove_flow c f"
| "core_step c Ev_RejectPacket = core_reject_packet c"

definition core_inv :: "RelayResourceLimits \<Rightarrow> RelayCore \<Rightarrow> bool" where
  "core_inv l c \<longleftrightarrow> co_limits c = l \<and>
     fcard (co_peers c) \<le> rl_maximum_connected_peers l \<and> me_active_peers (co_metrics c) = fcard (co_peers c) \<and>
     fcard (co_sessions c) \<le> rl_maximum_active_sessions l \<and> me_active_sessions (co_metrics c) = fcard (co_sessions c) \<and>
     fcard (co_flows c) \<le> rl_maximum_active_flows l \<and> me_active_flows (co_metrics c) = fcard (co_flows c)"

lemma fcard_empty [simp]: "fcard {||} = 0"
  by (simp add: fcard.rep_eq)

lemma fcard_remove_le: "fcard (A |-| B) \<le> fcard A"
  by (rule fcard_mono) auto

lemma fcard_finsert_le: "fcard A < n \<Longrightarrow> fcard (finsert x A) \<le> n"
  by (simp add: fcard_finsert_if)

lemmas core_defs = core_transition_def core_admit_peer_def core_remove_peer_def core_admit_session_def
  core_remove_session_def core_admit_flow_def core_remove_flow_def core_reject_packet_def Let_def

interpretation core_machine: event_machine core_step "core_inv l" for l
proof (standard, goal_cases)
  case (1 c ev)
  then show ?case
    by (cases ev)
       (auto simp: core_defs core_inv_def not_le intro: fcard_finsert_le le_trans [OF fcard_remove_le])
qed

text \<open>
  Whatever a relay admits and removes, the numbers of connected peers, active sessions and
  active flows never exceed the configured limits, and the metrics report exactly these numbers.
\<close>

theorem core_within_limits:
  assumes "core_new now peer software protocol capabilities limits = Ok c0" and "c = foldl core_step c0 evs"
  shows "fcard (co_peers c) \<le> rl_maximum_connected_peers limits \<and>
     fcard (co_sessions c) \<le> rl_maximum_active_sessions limits \<and>
     fcard (co_flows c) \<le> rl_maximum_active_flows limits \<and>
     me_active_peers (co_metrics c) = fcard (co_peers c) \<and>
     me_active_sessions (co_metrics c) = fcard (co_sessions c) \<and>
     me_active_flows (co_metrics c) = fcard (co_flows c)"
proof -
  have "core_inv limits c0"
    using assms(1) by (auto simp: core_new_def core_inv_def metrics_default_def)
  then have "core_inv limits c"
    unfolding assms(2) by (rule core_machine.run_inv)
  then show ?thesis by (simp add: core_inv_def)
qed

subsection \<open>The life cycle moves forward\<close>

definition lifecycle_rank :: "RelayLifecycle \<Rightarrow> nat" where
  "lifecycle_rank l = (case l of Lc_Starting \<Rightarrow> 0 | Lc_Discovering \<Rightarrow> 1 | Lc_Ready \<Rightarrow> 2 | Lc_Draining \<Rightarrow> 3
     | Lc_ShuttingDown \<Rightarrow> 4 | Lc_Stopped \<Rightarrow> 5)"

lemma lifecycle_valid_rank: "lifecycle_valid s n \<Longrightarrow> lifecycle_rank s \<le> lifecycle_rank n"
  by (auto simp: lifecycle_valid_def lifecycle_rank_def)

lemma core_step_lifecycle:
  "co_lifecycle (core_step c ev) =
     (case ev of Ev_Transition l \<Rightarrow> if lifecycle_valid (co_lifecycle c) l then l else co_lifecycle c
      | _ \<Rightarrow> co_lifecycle c)"
  by (cases ev) (auto simp: core_defs)

definition core_draining :: "nat \<Rightarrow> PeerId fset \<Rightarrow> SessionId fset \<Rightarrow> RelayCore \<Rightarrow> bool" where
  "core_draining n ps ss c \<longleftrightarrow> n \<le> lifecycle_rank (co_lifecycle c) \<and>
     (3 \<le> n \<longrightarrow> co_peers c |\<subseteq>| ps \<and> co_sessions c |\<subseteq>| ss)"

interpretation core_lifecycle: event_machine core_step "core_draining n ps ss" for n ps ss
proof (standard, goal_cases)
  case (1 c ev)
  then have "n \<le> lifecycle_rank (co_lifecycle (core_step c ev))"
    using lifecycle_valid_rank [of "co_lifecycle c"]
    by (auto simp: core_draining_def core_step_lifecycle dest: le_trans split: core_event.splits)
  moreover have "co_lifecycle c \<noteq> Lc_Ready \<and> co_lifecycle c \<noteq> Lc_Discovering" if "3 \<le> n"
    using 1 that by (auto simp: core_draining_def lifecycle_rank_def)
  ultimately show ?case
    using 1 by (cases ev) (auto simp: core_draining_def core_defs)
qed

text \<open>
  C30: the life cycle of a relay only moves forward, and once it drains no peer and no session is
  admitted any more: whatever happens later, its peers and sessions are among those it had then.
\<close>

theorem core_lifecycle_forward:
  "lifecycle_rank (co_lifecycle c) \<le> lifecycle_rank (co_lifecycle (foldl core_step c evs)) \<and>
   (co_lifecycle c \<in> {Lc_Draining, Lc_ShuttingDown, Lc_Stopped} \<longrightarrow>
      co_peers (foldl core_step c evs) |\<subseteq>| co_peers c \<and>
      co_sessions (foldl core_step c evs) |\<subseteq>| co_sessions c)"
proof -
  have "core_draining (lifecycle_rank (co_lifecycle c)) (co_peers c) (co_sessions c) c"
    by (simp add: core_draining_def)
  from core_lifecycle.run_inv [OF this, of evs] show ?thesis
    by (auto simp: core_draining_def lifecycle_rank_def)
qed

subsection \<open>The managers are bounded\<close>

datatype connection_event =
    Ev_Establish instant PeerId string
  | Ev_Touch instant PeerId
  | Ev_CloseConnection PeerId
  | Ev_CleanupIdle instant duration

fun connection_step :: "ConnectionManager \<Rightarrow> connection_event \<Rightarrow> ConnectionManager" where
  "connection_step m (Ev_Establish now p v) = snd (connection_establish now m p v)"
| "connection_step m (Ev_Touch now p) = snd (connection_touch now m p)"
| "connection_step m (Ev_CloseConnection p) = snd (connection_close m p)"
| "connection_step m (Ev_CleanupIdle now d) = snd (connection_cleanup_idle now m d)"

interpretation connection_store: bounded_store connection_step connections_len cm_maximum_connections
proof (standard, goal_cases)
  case (1 m ev)
  show ?case
    by (cases ev)
       (auto simp: connection_establish_def connection_touch_def connection_close_def
          connection_cleanup_idle_def Let_def split: option.splits)
next
  case (2 m ev)
  then show ?case
    by (cases ev)
       (auto simp: connections_len_def connection_establish_def connection_touch_def connection_close_def
          connection_cleanup_idle_def Let_def split: option.splits
          intro: le_trans [OF fm_size_drop_le] le_trans [OF fm_size_retain_le])
qed

datatype session_manager_event =
    Ev_InsertBinding instant SessionBinding
  | Ev_RemoveBinding SessionId
  | Ev_CleanupSessions instant

fun session_manager_step :: "SessionManager \<Rightarrow> session_manager_event \<Rightarrow> SessionManager" where
  "session_manager_step m (Ev_InsertBinding now b) = snd (sessions_insert now m b)"
| "session_manager_step m (Ev_RemoveBinding s) = snd (sessions_remove m s)"
| "session_manager_step m (Ev_CleanupSessions now) = sessions_cleanup now m"

lemma sessions_cleanup_size: "fm_size (sm_sessions (sessions_cleanup now m)) \<le> fm_size (sm_sessions m)"
  by (simp add: sessions_cleanup_def)

lemma sessions_cleanup_max [simp]: "sm_maximum_sessions (sessions_cleanup now m) = sm_maximum_sessions m"
  by (simp add: sessions_cleanup_def)

lemma sessions_insert_size:
  "fm_size (sm_sessions m) \<le> sm_maximum_sessions m \<Longrightarrow>
   fm_size (sm_sessions (snd (sessions_insert now m b))) \<le> sm_maximum_sessions m"
  using sessions_cleanup_size [of now m] by (simp add: sessions_insert_def Let_def)

interpretation session_store: bounded_store session_manager_step sessions_len sm_maximum_sessions
proof (standard, goal_cases)
  case (1 m ev)
  show ?case
    by (cases ev) (auto simp: sessions_insert_def sessions_remove_def Let_def)
next
  case (2 m ev)
  then show ?case
    by (cases ev)
       (auto simp: sessions_len_def sessions_remove_def intro: sessions_insert_size le_trans [OF fm_size_drop_le] le_trans [OF sessions_cleanup_size])
qed

text \<open>
  The connection manager and the session manager never hold more entries than they were created
  for, whatever is established, touched, inserted, closed and cleaned up.
\<close>

theorem managers_bounded:
  assumes "connections_new mc = Ok cm" and "sessions_new ms timeout = Ok sm"
  shows "connections_len (foldl connection_step cm cevs) \<le> mc \<and>
     sessions_len (foldl session_manager_step sm sevs) \<le> ms"
proof -
  have "connections_len cm \<le> cm_maximum_connections cm" "cm_maximum_connections cm = mc"
    and "sessions_len sm \<le> sm_maximum_sessions sm" "sm_maximum_sessions sm = ms"
    using assms
    by (auto simp: connections_new_def sessions_new_def connections_len_def sessions_len_def split: if_splits)
  with connection_store.run_bounded [of cm cevs] session_store.run_bounded [of sm sevs]
  show ?thesis by simp
qed

subsection \<open>Witnesses\<close>

definition demo_limits :: RelayResourceLimits where
  "demo_limits = \<lparr>rl_maximum_connected_peers = 1, rl_maximum_active_sessions = 1, rl_maximum_active_flows = 1,
     rl_maximum_queued_packets = 8, rl_maximum_exit_connections = 1, rl_session_timeout = 100, rl_flow_timeout = 100\<rparr>"

definition demo_core :: RelayCore where
  "demo_core = (case core_new 0 (PeerId [2]) ''v'' ''1.0'' [] demo_limits of Inr c \<Rightarrow> c)"

theorem core_within_limits_witness:
  "fcard (co_peers (foldl core_step demo_core [Ev_Transition Lc_Discovering, Ev_AdmitPeer (PeerId [1]), Ev_AdmitPeer (PeerId [3])]))
     \<le> 1"
proof -
  have "core_new 0 (PeerId [2]) ''v'' ''1.0'' [] demo_limits = Ok demo_core"
    by (simp add: demo_core_def core_new_def)
  from core_within_limits [OF this refl,
      of "[Ev_Transition Lc_Discovering, Ev_AdmitPeer (PeerId [1]), Ev_AdmitPeer (PeerId [3])]"]
  have "fcard (co_peers (foldl core_step demo_core
      [Ev_Transition Lc_Discovering, Ev_AdmitPeer (PeerId [1]), Ev_AdmitPeer (PeerId [3])]))
      \<le> rl_maximum_connected_peers demo_limits"
    by blast
  moreover have "rl_maximum_connected_peers demo_limits = 1"
    by (simp add: demo_limits_def)
  ultimately show ?thesis by (simp only:)
qed

theorem core_lifecycle_forward_witness:
  "co_peers (foldl core_step (demo_core\<lparr>co_lifecycle := Lc_Draining\<rparr>) [Ev_AdmitPeer (PeerId [1])]) = {||}"
proof -
  have "co_peers (demo_core\<lparr>co_lifecycle := Lc_Draining\<rparr>) = {||}"
    by (simp add: demo_core_def core_new_def)
  moreover have "co_peers (foldl core_step (demo_core\<lparr>co_lifecycle := Lc_Draining\<rparr>) [Ev_AdmitPeer (PeerId [1])])
      |\<subseteq>| co_peers (demo_core\<lparr>co_lifecycle := Lc_Draining\<rparr>)"
    using core_lifecycle_forward [of "demo_core\<lparr>co_lifecycle := Lc_Draining\<rparr>" "[Ev_AdmitPeer (PeerId [1])]"]
    by simp
  ultimately show ?thesis by auto
qed

theorem managers_bounded_witness:
  "connections_len (foldl connection_step \<lparr>cm_records = fmempty, cm_maximum_connections = 1\<rparr>
      [Ev_Establish 1 (PeerId [1]) ''1.0'', Ev_Establish 2 (PeerId [2]) ''1.0'']) \<le> 1 \<and>
   sessions_len (foldl session_manager_step
      \<lparr>sm_sessions = fmempty, sm_maximum_sessions = 1, sm_timeout = 5\<rparr> [Ev_CleanupSessions 9]) \<le> 1"
  by (rule managers_bounded [where timeout = 5]) (simp_all add: connections_new_def sessions_new_def)

end
