(* ===== verification/Forwarding.thy ===== *)
theory Forwarding
  imports Data_Plane
begin

text \<open>
  \<open>relay/src/forwarding.rs\<close> and \<open>forwarding_manager.rs\<close>: the context of a two-hop flow on a relay,
  the messages and packets it accepts, and the bounded table of contexts. The context is a state
  machine; \<open>fwd_step\<close> states the machine as a labelled transition relation, \<open>fwd_apply\<close> dispatches
  to the operations of the code, and \<open>fwd_apply_refines\<close> shows that they agree. The theorems about
  runs go by rule induction over \<open>fwd_steps\<close>.
\<close>

subsection \<open>Packets, messages and errors\<close>

definition FORWARDING_KIND :: string where "FORWARDING_KIND = ''ghost_layer_forwarding''"

datatype ForwardedProtocol = Fp_Tcp | Fp_Udp | Fp_Dns | Fp_Ip

record ForwardedPacket =
  fp_protocol :: ForwardedProtocol
  fp_source :: "SocketAddr option"
  fp_destination :: SocketAddr
  fp_flow_id :: SessionId
  fp_session_id :: SessionId
  fp_route_id :: SessionId
  fp_sequence :: u64
  fp_payload :: bytes

datatype Hop = Hop_Entry | Hop_Exit

datatype ForwardingDirection = ClientToExit | ExitToClient

datatype ForwardingState = Fs_Created | Fs_Connecting | Fs_Established | Fs_Forwarding | Fs_Closing | Fs_Closed

record ForwardingMessage =
  fm_kind :: string
  fm_forwarding_id :: SessionId
  fm_client_session_id :: SessionId
  fm_client_peer :: string
  fm_route :: RouteBinding
  fm_data :: DataPlaneEnvelope
  fm_packet :: "ForwardedPacket option"

datatype ForwardingError =
    Fwd_InvalidState ForwardingState string
  | Fwd_InvalidRoute
  | InvalidForwardingContext
  | WrongEntryRelay
  | WrongExitRelay
  | WrongSessionBinding
  | DuplicateForwardingRequest
  | ClosedContext
  | MalformedForwardingMessage
  | Fwd_OversizedPayload
  | ExitUnavailable
  | EntrySessionClosed
  | ExitSessionClosed
  | Fwd_AuthenticationFailed
  | Fwd_SequenceViolation
  | UnsupportedProtocol
  | ForwardingTimeout
  | Fwd_Backpressure
  | UnexpectedProtocolMessage
  | Fwd_Shutdown

record MultiHopSession =
  mh_client_session_id :: SessionId
  mh_relay_session_id :: SessionId
  mh_client_peer :: PeerId
  mh_entry_peer :: PeerId
  mh_exit_peer :: PeerId
  mh_route :: RouteBinding

record ForwardingContext =
  fc_forwarding_id :: SessionId
  fc_client_session_id :: SessionId
  fc_client_peer :: PeerId
  fc_entry_peer :: PeerId
  fc_exit_peer :: PeerId
  fc_route :: RouteBinding
  fc_state :: ForwardingState
  fc_relay_session_id :: "SessionId option"
  fc_last_request :: "(SessionId \<times> ForwardingDirection) option"
  fc_last_sequence :: "u64 option"

subsection \<open>Operations of a context\<close>

definition with_forwarding_id ::
  "SessionId \<Rightarrow> SessionId \<Rightarrow> PeerId \<Rightarrow> PeerId \<Rightarrow> PeerId \<Rightarrow> RouteBinding \<Rightarrow> ForwardingError + ForwardingContext" where
  "with_forwarding_id fid client_session client_peer entry_peer exit_peer route =
     (if \<not> (case route of
             TwoHop entry exit _ \<Rightarrow> entry = entry_peer \<and> exit = exit_peer \<and> entry \<noteq> exit
           | _ \<Rightarrow> False)
      then Err Fwd_InvalidRoute
      else if client_peer = entry_peer \<or> client_peer = exit_peer then Err Fwd_InvalidRoute
      else Ok \<lparr>fc_forwarding_id = fid, fc_client_session_id = client_session, fc_client_peer = client_peer,
               fc_entry_peer = entry_peer, fc_exit_peer = exit_peer, fc_route = route,
               fc_state = Fs_Created, fc_relay_session_id = None, fc_last_request = None,
               fc_last_sequence = None\<rparr>)"

text \<open>\<open>SessionId::generate()\<close> is the argument \<open>generated\<close>.\<close>

definition forwarding_new ::
  "SessionId \<Rightarrow> SessionId \<Rightarrow> PeerId \<Rightarrow> PeerId \<Rightarrow> PeerId \<Rightarrow> RouteBinding \<Rightarrow> ForwardingError + ForwardingContext" where
  "forwarding_new generated client_session client_peer entry_peer exit_peer route =
     with_forwarding_id generated client_session client_peer entry_peer exit_peer route"

definition bind_relay_session ::
  "ForwardingContext \<Rightarrow> SessionId \<Rightarrow> (ForwardingError + unit) \<times> ForwardingContext" where
  "bind_relay_session c s =
     (if fc_state c \<noteq> Fs_Established then (Err (Fwd_InvalidState (fc_state c) ''bind relay session''), c)
      else (Ok (), c\<lparr>fc_relay_session_id := Some s\<rparr>))"

definition fwd_transition ::
  "ForwardingContext \<Rightarrow> ForwardingState \<Rightarrow> ForwardingState \<Rightarrow> string
     \<Rightarrow> (ForwardingError + unit) \<times> ForwardingContext" where
  "fwd_transition c expected next operation =
     (if fc_state c \<noteq> expected then (Err (Fwd_InvalidState (fc_state c) operation), c)
      else (Ok (), c\<lparr>fc_state := next\<rparr>))"

definition transition_connecting :: "ForwardingContext \<Rightarrow> (ForwardingError + unit) \<times> ForwardingContext" where
  "transition_connecting c = fwd_transition c Fs_Created Fs_Connecting ''connect''"

definition transition_established :: "ForwardingContext \<Rightarrow> (ForwardingError + unit) \<times> ForwardingContext" where
  "transition_established c = fwd_transition c Fs_Connecting Fs_Established ''establish''"

definition begin_forwarding ::
  "ForwardingContext \<Rightarrow> SessionId \<Rightarrow> ForwardingDirection \<Rightarrow> (ForwardingError + unit) \<times> ForwardingContext" where
  "begin_forwarding c request direction =
     (if fc_state c = Fs_Closing \<or> fc_state c = Fs_Closed then (Err ClosedContext, c)
      else if \<not> (fc_state c = Fs_Established \<or> fc_state c = Fs_Forwarding)
      then (Err (Fwd_InvalidState (fc_state c) ''forward''), c)
      else if fc_last_request c = Some (request, direction) then (Err DuplicateForwardingRequest, c)
      else (Ok (), c\<lparr>fc_last_request := Some (request, direction), fc_state := Fs_Forwarding\<rparr>))"

definition transition_closing :: "ForwardingContext \<Rightarrow> (ForwardingError + unit) \<times> ForwardingContext" where
  "transition_closing c =
     (if fc_state c = Fs_Created \<or> fc_state c = Fs_Closed then (Err (Fwd_InvalidState (fc_state c) ''close''), c)
      else (Ok (), c\<lparr>fc_state := Fs_Closing\<rparr>))"

definition transition_closed :: "ForwardingContext \<Rightarrow> (ForwardingError + unit) \<times> ForwardingContext" where
  "transition_closed c =
     (if fc_state c \<noteq> Fs_Closing then (Err (Fwd_InvalidState (fc_state c) ''finish close''), c)
      else (Ok (), c\<lparr>fc_state := Fs_Closed\<rparr>))"

definition validate_client :: "ForwardingContext \<Rightarrow> SessionId \<Rightarrow> PeerId \<Rightarrow> ForwardingError + unit" where
  "validate_client c s p =
     (if s \<noteq> fc_client_session_id c then Err WrongSessionBinding
      else if p \<noteq> fc_client_peer c then Err WrongEntryRelay
      else Ok ())"

definition validate_entry :: "ForwardingContext \<Rightarrow> PeerId \<Rightarrow> ForwardingError + unit" where
  "validate_entry c p = (if p \<noteq> fc_entry_peer c then Err WrongEntryRelay else Ok ())"

definition validate_exit :: "ForwardingContext \<Rightarrow> PeerId \<Rightarrow> ForwardingError + unit" where
  "validate_exit c p = (if p \<noteq> fc_exit_peer c then Err WrongExitRelay else Ok ())"

definition fwd_validate_packet :: "ForwardingContext \<Rightarrow> ForwardedPacket \<Rightarrow> ForwardingError + unit" where
  "fwd_validate_packet c p =
     (if fp_session_id p \<noteq> fc_client_session_id c \<or> fp_route_id p \<noteq> fc_forwarding_id c
         \<or> fp_flow_id p \<noteq> fc_forwarding_id c \<or> length (fp_payload p) > DEFAULT_MAXIMUM_PAYLOAD_SIZE
      then Err InvalidForwardingContext
      else if fp_sequence p = 0 then Err Fwd_SequenceViolation
      else if sock_port (fp_destination p) = 0 then Err MalformedForwardingMessage
      else if fp_protocol p = Fp_Udp \<and> fp_source p = None then Err MalformedForwardingMessage
      else Ok ())"

definition validate_message ::
  "SessionLib \<Rightarrow> ForwardingContext \<Rightarrow> ForwardingMessage \<Rightarrow> ForwardingError + unit" where
  "validate_message L c m =
     (if fm_kind m \<noteq> FORWARDING_KIND then Err MalformedForwardingMessage
      else if fm_forwarding_id m \<noteq> fc_forwarding_id c
          \<or> fm_client_session_id m \<noteq> fc_client_session_id c
          \<or> peer_parse L (fm_client_peer m) \<noteq> Some (fc_client_peer c)
          \<or> fm_route m \<noteq> fc_route c
      then Err InvalidForwardingContext
      else if de_kind (fm_data m) \<noteq> DATA_PLANE_KIND then Err UnexpectedProtocolMessage
      else case fm_packet m of
          None \<Rightarrow> Err MalformedForwardingMessage
        | Some packet \<Rightarrow> fwd_validate_packet c packet)"

definition accept_sequence :: "ForwardingContext \<Rightarrow> u64 \<Rightarrow> (ForwardingError + unit) \<times> ForwardingContext" where
  "accept_sequence c sequence =
     (if sequence = 0 \<or> (case fc_last_sequence c of None \<Rightarrow> False | Some last_seq \<Rightarrow> sequence \<le> last_seq)
      then (Err Fwd_SequenceViolation, c)
      else (Ok (), c\<lparr>fc_last_sequence := Some sequence\<rparr>))"

definition validate_relay_session :: "ForwardingContext \<Rightarrow> SessionId \<Rightarrow> ForwardingError + unit" where
  "validate_relay_session c s = (if fc_relay_session_id c \<noteq> Some s then Err WrongSessionBinding else Ok ())"

subsection \<open>The table of contexts\<close>

record ForwardingManager =
  fw_contexts :: "(SessionId, ForwardingContext) fmap"
  fw_maximum_flows :: nat

definition forwarding_manager_new :: "nat \<Rightarrow> ForwardingError + ForwardingManager" where
  "forwarding_manager_new maximum =
     (if maximum = 0 then Err Fwd_Backpressure else Ok \<lparr>fw_contexts = fmempty, fw_maximum_flows = maximum\<rparr>)"

text \<open>\<open>entry(id).or_insert(context)\<close> keeps a context that is already there.\<close>

definition forwarding_admit ::
  "ForwardingManager \<Rightarrow> ForwardingContext \<Rightarrow> (ForwardingError + unit) \<times> ForwardingManager" where
  "forwarding_admit m c =
     (if fm_size (fw_contexts m) \<ge> fw_maximum_flows m then (Err Fwd_Backpressure, m)
      else (Ok (), if fm_contains (fw_contexts m) (fc_forwarding_id c) then m
                   else m\<lparr>fw_contexts := fmupd (fc_forwarding_id c) c (fw_contexts m)\<rparr>))"

definition manager_validate ::
  "SessionLib \<Rightarrow> ForwardingManager \<Rightarrow> ForwardingMessage \<Rightarrow> ForwardingError + ForwardingContext" where
  "manager_validate L m msg =
     (case fmlookup (fw_contexts m) (fm_forwarding_id msg) of
        None \<Rightarrow> Err InvalidForwardingContext
      | Some c \<Rightarrow> (case validate_message L c msg of Inl e \<Rightarrow> Err e | Inr _ \<Rightarrow> Ok c))"

definition manager_validate_packet :: "ForwardingManager \<Rightarrow> ForwardedPacket \<Rightarrow> ForwardingError + unit" where
  "manager_validate_packet m p =
     (case fmlookup (fw_contexts m) (fp_flow_id p) of
        None \<Rightarrow> Err InvalidForwardingContext
      | Some c \<Rightarrow> fwd_validate_packet c p)"

definition forwarding_remove :: "ForwardingManager \<Rightarrow> SessionId \<Rightarrow> ForwardingManager" where
  "forwarding_remove m fid = m\<lparr>fw_contexts := fmdrop fid (fw_contexts m)\<rparr>"

definition forwarding_len :: "ForwardingManager \<Rightarrow> nat" where
  "forwarding_len m = fm_size (fw_contexts m)"

definition forwarding_is_empty :: "ForwardingManager \<Rightarrow> bool" where
  "forwarding_is_empty m = (fmdom (fw_contexts m) = {||})"

subsection \<open>The state machine of a context\<close>

text \<open>
  The events that may change a context, and the machine as a relation: each rule gives the guard
  and the effect of one event. An event whose guard does not hold is refused.
\<close>

datatype fwd_event =
    Ev_Connecting
  | Ev_Established
  | Ev_Bind SessionId
  | Ev_Begin SessionId ForwardingDirection
  | Ev_Sequence u64
  | Ev_Closing
  | Ev_Closed

inductive fwd_step :: "ForwardingContext \<Rightarrow> fwd_event \<Rightarrow> ForwardingContext \<Rightarrow> bool" where
  step_connecting: "fc_state c = Fs_Created \<Longrightarrow> fwd_step c Ev_Connecting (c\<lparr>fc_state := Fs_Connecting\<rparr>)"
| step_established: "fc_state c = Fs_Connecting \<Longrightarrow> fwd_step c Ev_Established (c\<lparr>fc_state := Fs_Established\<rparr>)"
| step_bind: "fc_state c = Fs_Established \<Longrightarrow> fwd_step c (Ev_Bind s) (c\<lparr>fc_relay_session_id := Some s\<rparr>)"
| step_begin: "fc_state c \<in> {Fs_Established, Fs_Forwarding} \<Longrightarrow> fc_last_request c \<noteq> Some (r, d) \<Longrightarrow>
    fwd_step c (Ev_Begin r d) (c\<lparr>fc_last_request := Some (r, d), fc_state := Fs_Forwarding\<rparr>)"
| step_sequence: "n \<noteq> 0 \<Longrightarrow> (\<And>l. fc_last_sequence c = Some l \<Longrightarrow> l < n) \<Longrightarrow>
    fwd_step c (Ev_Sequence n) (c\<lparr>fc_last_sequence := Some n\<rparr>)"
| step_closing: "fc_state c \<notin> {Fs_Created, Fs_Closed} \<Longrightarrow> fwd_step c Ev_Closing (c\<lparr>fc_state := Fs_Closing\<rparr>)"
| step_closed: "fc_state c = Fs_Closing \<Longrightarrow> fwd_step c Ev_Closed (c\<lparr>fc_state := Fs_Closed\<rparr>)"

inductive_simps fwd_step_simps:
  "fwd_step c Ev_Connecting c'" "fwd_step c Ev_Established c'" "fwd_step c (Ev_Bind s) c'"
  "fwd_step c (Ev_Begin r d) c'" "fwd_step c (Ev_Sequence n) c'" "fwd_step c Ev_Closing c'"
  "fwd_step c Ev_Closed c'"

inductive fwd_steps :: "ForwardingContext \<Rightarrow> fwd_event list \<Rightarrow> ForwardingContext \<Rightarrow> bool" where
  steps_nil: "fwd_steps c [] c"
| steps_done: "fwd_step c ev c' \<Longrightarrow> fwd_steps c' evs c'' \<Longrightarrow> fwd_steps c (ev # evs) c''"
| steps_refused: "(\<And>c'. \<not> fwd_step c ev c') \<Longrightarrow> fwd_steps c evs c'' \<Longrightarrow> fwd_steps c (ev # evs) c''"

inductive_cases fwd_steps_ConsE: "fwd_steps c (ev # evs) c'"

text \<open>The operations of the code.\<close>

fun fwd_apply :: "ForwardingContext \<Rightarrow> fwd_event \<Rightarrow> (ForwardingError + unit) \<times> ForwardingContext" where
  "fwd_apply c Ev_Connecting = transition_connecting c"
| "fwd_apply c Ev_Established = transition_established c"
| "fwd_apply c (Ev_Bind s) = bind_relay_session c s"
| "fwd_apply c (Ev_Begin r d) = begin_forwarding c r d"
| "fwd_apply c (Ev_Sequence n) = accept_sequence c n"
| "fwd_apply c Ev_Closing = transition_closing c"
| "fwd_apply c Ev_Closed = transition_closed c"

definition fwd_run :: "ForwardingContext \<Rightarrow> fwd_event list \<Rightarrow> ForwardingContext" where
  "fwd_run c evs = foldl (\<lambda>c ev. snd (fwd_apply c ev)) c evs"

lemmas fwd_op_defs = transition_connecting_def transition_established_def bind_relay_session_def
  begin_forwarding_def accept_sequence_def transition_closing_def transition_closed_def fwd_transition_def

lemma fwd_apply_refines: "fwd_apply c ev = (Ok u, c') \<longleftrightarrow> fwd_step c ev c'"
  by (cases ev) (auto simp: fwd_op_defs fwd_step_simps not_le split: option.splits)

lemma fwd_apply_refused: "fwd_apply c ev = (Err e, c') \<Longrightarrow> c' = c \<and> \<not> fwd_step c ev c''"
proof -
  assume e: "fwd_apply c ev = (Err e, c')"
  then have "c' = c"
    by (cases ev) (auto simp: fwd_op_defs split: if_splits)
  moreover have "\<not> fwd_step c ev c''"
    using e fwd_apply_refines [of c ev "()" c''] by auto
  ultimately show ?thesis ..
qed

lemma fwd_run_steps: "fwd_steps c evs (fwd_run c evs)"
proof (induction evs arbitrary: c)
  case Nil
  show ?case by (simp add: fwd_run_def steps_nil)
next
  case (Cons ev evs)
  obtain r c' where eq: "fwd_apply c ev = (r, c')" by fastforce
  have run: "fwd_run c (ev # evs) = fwd_run c' evs"
    by (simp add: fwd_run_def eq)
  show ?case
  proof (cases r)
    case (Inl e)
    with eq have "c' = c" and "\<And>c''. \<not> fwd_step c ev c''"
      using fwd_apply_refused by blast+
    then show ?thesis
      using Cons steps_refused run by metis
  next
    case (Inr u)
    then have "fwd_step c ev c'"
      using eq fwd_apply_refines by blast
    then show ?thesis
      using Cons steps_done run by metis
  qed
qed

lemma fwd_steps_deterministic: "fwd_steps c evs c1 \<Longrightarrow> c1 = fwd_run c evs"
proof (induction rule: fwd_steps.induct)
  case (steps_nil c)
  then show ?case by (simp add: fwd_run_def)
next
  case (steps_done c ev c' evs c'')
  then have "fwd_apply c ev = (Ok (), c')"
    by (simp add: fwd_apply_refines)
  with steps_done show ?case by (simp add: fwd_run_def)
next
  case (steps_refused c ev evs c'')
  obtain r c' where eq: "fwd_apply c ev = (r, c')" by fastforce
  have "r \<noteq> Inr u" for u
    using steps_refused.hyps(1) eq fwd_apply_refines by blast
  then have "c' = c"
    using eq fwd_apply_refused by (cases r) blast+
  with steps_refused eq show ?case by (simp add: fwd_run_def)
qed

subsection \<open>Progress of a context\<close>

definition fwd_rank :: "ForwardingState \<Rightarrow> nat" where
  "fwd_rank s = (case s of Fs_Created \<Rightarrow> 0 | Fs_Connecting \<Rightarrow> 1 | Fs_Established \<Rightarrow> 2 | Fs_Forwarding \<Rightarrow> 3
     | Fs_Closing \<Rightarrow> 4 | Fs_Closed \<Rightarrow> 5)"

text \<open>The fields that identify the flow.\<close>

definition fwd_identity ::
  "ForwardingContext \<Rightarrow> SessionId \<times> SessionId \<times> PeerId \<times> PeerId \<times> PeerId \<times> RouteBinding" where
  "fwd_identity c = (fc_forwarding_id c, fc_client_session_id c, fc_client_peer c, fc_entry_peer c,
     fc_exit_peer c, fc_route c)"

text \<open>What every step, and hence every run, respects: a preorder on contexts.\<close>

definition fwd_later :: "ForwardingContext \<Rightarrow> ForwardingContext \<Rightarrow> bool" where
  "fwd_later c c' \<longleftrightarrow> fwd_identity c' = fwd_identity c \<and> fwd_rank (fc_state c) \<le> fwd_rank (fc_state c') \<and>
     (3 \<le> fwd_rank (fc_state c) \<longrightarrow> fc_relay_session_id c' = fc_relay_session_id c) \<and>
     (4 \<le> fwd_rank (fc_state c) \<longrightarrow> fc_last_request c' = fc_last_request c)"

lemma fwd_later_refl: "fwd_later c c"
  by (simp add: fwd_later_def)

lemma fwd_later_trans: "fwd_later a b \<Longrightarrow> fwd_later b c \<Longrightarrow> fwd_later a c"
  by (auto simp: fwd_later_def)

lemma fwd_step_later: "fwd_step c ev c' \<Longrightarrow> fwd_later c c'"
  by (induction rule: fwd_step.induct)
     (auto simp: fwd_later_def fwd_identity_def fwd_rank_def split: ForwardingState.splits)

lemma fwd_steps_later: "fwd_steps c evs c' \<Longrightarrow> fwd_later c c'"
  by (induction rule: fwd_steps.induct) (auto intro: fwd_later_refl fwd_later_trans fwd_step_later)

text \<open>
  C23: the operations of a forwarding context implement its state machine, and no run of it, with
  every refused operation in between, goes back: the identity of the flow never changes, the state
  only moves forward, the relay session is fixed once forwarding has begun and a closing context
  records no further request.
\<close>

theorem forwarding_progress:
  "fwd_steps c evs (fwd_run c evs) \<and>
   fwd_identity (fwd_run c evs) = fwd_identity c \<and>
   fwd_rank (fc_state c) \<le> fwd_rank (fc_state (fwd_run c evs)) \<and>
   (fc_state c \<in> {Fs_Forwarding, Fs_Closing, Fs_Closed} \<longrightarrow>
      fc_relay_session_id (fwd_run c evs) = fc_relay_session_id c) \<and>
   (fc_state c \<in> {Fs_Closing, Fs_Closed} \<longrightarrow> fc_last_request (fwd_run c evs) = fc_last_request c)"
  using fwd_run_steps fwd_steps_later [OF fwd_run_steps, of c evs]
  by (auto simp: fwd_later_def fwd_rank_def)

subsection \<open>Sequence numbers\<close>

text \<open>The sequence number that an event accepts.\<close>

definition fwd_sequence_op :: "ForwardingContext \<Rightarrow> fwd_event \<Rightarrow> u64 option \<times> ForwardingContext" where
  "fwd_sequence_op c ev =
     (case fwd_apply c ev of (r, c') \<Rightarrow>
        (case (r, ev) of (Inr _, Ev_Sequence n) \<Rightarrow> Some n | _ \<Rightarrow> None, c'))"

lemma fwd_step_sequence:
  "fwd_step c ev c' \<Longrightarrow> (\<And>n. ev \<noteq> Ev_Sequence n) \<Longrightarrow> fc_last_sequence c' = fc_last_sequence c"
  by (erule fwd_step.cases) auto

lemma fwd_sequence_accepts:
  assumes "fwd_sequence_op c ev = (Some n, c')"
  shows "ev = Ev_Sequence n \<and> fwd_step c ev c'"
proof -
  obtain r c1 where eq: "fwd_apply c ev = (r, c1)" by fastforce
  with assms show ?thesis
    by (auto simp: fwd_sequence_op_def fwd_apply_refines split: sum.splits fwd_event.splits)
qed

lemma fwd_sequence_refuses:
  assumes "fwd_sequence_op c ev = (None, c')"
  shows "fc_last_sequence c' = fc_last_sequence c"
proof -
  obtain r c1 where eq: "fwd_apply c ev = (r, c1)" by fastforce
  show ?thesis
  proof (cases r)
    case (Inl e)
    with eq assms show ?thesis
      using fwd_apply_refused [of c ev e c1] by (auto simp: fwd_sequence_op_def)
  next
    case (Inr u)
    with eq assms have "c' = c1" and n: "\<And>n. ev \<noteq> Ev_Sequence n"
      by (auto simp: fwd_sequence_op_def simp del: fwd_apply.simps)
    moreover have "fwd_step c ev c1"
      using eq Inr fwd_apply_refines by blast
    ultimately have "fwd_step c ev c'" and "\<And>n. ev \<noteq> Ev_Sequence n"
      by blast+
    then show ?thesis by (rule fwd_step_sequence)
  qed
qed

interpretation sequence_guard: monotone_guard fwd_sequence_op fc_last_sequence
proof (standard, goal_cases)
  case (1 c ev n c')
  then show ?case
    using fwd_sequence_accepts [of c ev n c'] by (auto simp: fwd_step_simps)
next
  case (2 c ev c' l)
  then show ?case using fwd_sequence_refuses by force
qed

lemma accepted_sequences_nonzero: "n \<in> set (accepted fwd_sequence_op c evs) \<Longrightarrow> n \<noteq> 0"
proof (induction evs arbitrary: c)
  case (Cons ev evs)
  obtain r c' where eq: "fwd_sequence_op c ev = (r, c')" by fastforce
  show ?case
  proof (cases r)
    case None
    with Cons eq show ?thesis by auto
  next
    case (Some k)
    then have "k \<noteq> 0"
      using fwd_sequence_accepts [of c ev k c'] eq by (auto simp: fwd_step_simps)
    with Cons eq Some show ?thesis by auto
  qed
qed simp

text \<open>
  However the operations of a context interleave, the sequence numbers it accepts are strictly
  increasing and never zero, so a replayed or reordered packet is refused.
\<close>

theorem forwarding_sequences_increasing:
  "sorted_wrt (<) (accepted fwd_sequence_op c evs) \<and> 0 \<notin> set (accepted fwd_sequence_op c evs)"
  using sequence_guard.accepted_increasing accepted_sequences_nonzero by blast

subsection \<open>Requests\<close>

definition requested :: "SessionId \<Rightarrow> ForwardingDirection \<Rightarrow> ForwardingContext \<Rightarrow> bool" where
  "requested r d c \<longleftrightarrow> fc_last_request c = Some (r, d)"

lemma fwd_steps_requested:
  "fwd_steps c evs c' \<Longrightarrow> requested r d c \<Longrightarrow> (\<And>r d. Ev_Begin r d \<notin> set evs) \<Longrightarrow> requested r d c'"
proof (induction rule: fwd_steps.induct)
  case (steps_done c ev c' evs c'')
  then have "requested r d c'"
    by (cases ev) (auto simp: fwd_step_simps requested_def)
  with steps_done show ?case by simp
qed auto

text \<open>
  A request that was forwarded is not forwarded again until another one has been: whatever else
  happens to the context, repeating it is refused as a duplicate, or as closed.
\<close>

theorem forwarding_request_once:
  assumes "begin_forwarding c r d = (Ok (), c1)" and "\<And>r' d'. Ev_Begin r' d' \<notin> set evs"
  shows "fst (begin_forwarding (fwd_run c1 evs) r d) \<in> {Err DuplicateForwardingRequest, Err ClosedContext}"
proof -
  have c1: "requested r d c1" and "fc_state c1 = Fs_Forwarding"
    using assms(1) by (auto simp: begin_forwarding_def requested_def split: if_splits)
  then have "3 \<le> fwd_rank (fc_state (fwd_run c1 evs))"
    using fwd_steps_later [OF fwd_run_steps, of c1 evs] by (simp add: fwd_later_def fwd_rank_def)
  moreover have "requested r d (fwd_run c1 evs)"
    using fwd_steps_requested [OF fwd_run_steps c1] assms(2) by blast
  ultimately show ?thesis
    by (auto simp: begin_forwarding_def requested_def fwd_rank_def split: ForwardingState.splits)
qed

subsection \<open>Contexts and the messages they accept\<close>

lemma with_forwarding_id_Ok:
  "with_forwarding_id fid s client entry exit route = Ok c \<longleftrightarrow>
     (\<exists>address. route = TwoHop entry exit address) \<and> distinct [client, entry, exit] \<and>
     c = \<lparr>fc_forwarding_id = fid, fc_client_session_id = s, fc_client_peer = client, fc_entry_peer = entry,
          fc_exit_peer = exit, fc_route = route, fc_state = Fs_Created, fc_relay_session_id = None,
          fc_last_request = None, fc_last_sequence = None\<rparr>"
  by (cases route) (auto simp: with_forwarding_id_def)

text \<open>
  A forwarding context exists exactly for a two-hop route whose entry and exit are the two given
  relays, with client, entry and exit three different peers; every other route, in particular a
  one-hop route, is refused as invalid.
\<close>

theorem forwarding_context_two_hop:
  "(if (\<exists>address. route = TwoHop entry exit address) \<and> distinct [client, entry, exit]
    then is_ok (with_forwarding_id fid s client entry exit route)
    else with_forwarding_id fid s client entry exit route = Err Fwd_InvalidRoute) \<and>
   with_forwarding_id fid s client entry exit (OneHop relay) = Err Fwd_InvalidRoute"
  by (cases route) (auto simp: with_forwarding_id_def)

lemma fwd_validate_packet_Ok:
  "fwd_validate_packet c p = Ok () \<longleftrightarrow>
     fp_session_id p = fc_client_session_id c \<and> fp_route_id p = fc_forwarding_id c \<and>
     fp_flow_id p = fc_forwarding_id c \<and> length (fp_payload p) \<le> DEFAULT_MAXIMUM_PAYLOAD_SIZE \<and>
     fp_sequence p \<noteq> 0 \<and> sock_port (fp_destination p) \<noteq> 0 \<and>
     (fp_protocol p = Fp_Udp \<longrightarrow> fp_source p \<noteq> None)"
  by (auto simp: fwd_validate_packet_def)

lemma validate_message_Ok:
  "validate_message L c m = Ok () \<longleftrightarrow>
     fm_kind m = FORWARDING_KIND \<and> fm_forwarding_id m = fc_forwarding_id c \<and>
     fm_client_session_id m = fc_client_session_id c \<and>
     peer_parse L (fm_client_peer m) = Some (fc_client_peer c) \<and> fm_route m = fc_route c \<and>
     de_kind (fm_data m) = DATA_PLANE_KIND \<and>
     (\<exists>p. fm_packet m = Some p \<and> fwd_validate_packet c p = Ok ())"
  by (auto simp: validate_message_def split: option.splits)

subsection \<open>The table of contexts is bounded and keyed by flow\<close>

datatype forwarding_event = Ev_AdmitContext ForwardingContext | Ev_RemoveContext SessionId

fun forwarding_step :: "ForwardingManager \<Rightarrow> forwarding_event \<Rightarrow> ForwardingManager" where
  "forwarding_step m (Ev_AdmitContext c) = snd (forwarding_admit m c)"
| "forwarding_step m (Ev_RemoveContext fid) = forwarding_remove m fid"

interpretation forwarding_store: bounded_store forwarding_step forwarding_len fw_maximum_flows
proof (standard, goal_cases)
  case (1 m ev)
  show ?case by (cases ev) (auto simp: forwarding_admit_def forwarding_remove_def)
next
  case (2 m ev)
  then show ?case
    by (cases ev)
       (auto simp: forwarding_len_def forwarding_admit_def forwarding_remove_def
          intro: le_trans [OF fm_size_drop_le])
qed

definition contexts_keyed :: "ForwardingManager \<Rightarrow> bool" where
  "contexts_keyed m \<longleftrightarrow> (\<forall>fid c. fmlookup (fw_contexts m) fid = Some c \<longrightarrow> fc_forwarding_id c = fid)"

interpretation forwarding_keys: event_machine forwarding_step contexts_keyed
proof (standard, goal_cases)
  case (1 m ev)
  then show ?case
    by (cases ev) (auto simp: contexts_keyed_def forwarding_admit_def forwarding_remove_def split: if_splits)
qed

lemma forwarding_manager_runs:
  assumes "forwarding_manager_new n = Ok m0"
  shows "contexts_keyed (foldl forwarding_step m0 evs)" and "forwarding_len (foldl forwarding_step m0 evs) \<le> n"
proof -
  have m0: "contexts_keyed m0" "forwarding_len m0 \<le> fw_maximum_flows m0" "fw_maximum_flows m0 = n"
    using assms by (auto simp: forwarding_manager_new_def contexts_keyed_def forwarding_len_def split: if_splits)
  show "contexts_keyed (foldl forwarding_step m0 evs)"
    by (rule forwarding_keys.run_inv [OF m0(1)])
  show "forwarding_len (foldl forwarding_step m0 evs) \<le> n"
    using forwarding_store.run_bounded [OF m0(2)] m0(3) by simp
qed

text \<open>
  Whatever contexts a relay admits and removes, the table never holds more flows than it was
  created for, and a message passes validation against the table only under the context of its own
  flow: same client session, client peer and route, with a packet of that flow that has a non-zero
  sequence number and destination port and at most 2048 bytes.
\<close>

theorem forwarding_manager_validates:
  assumes new: "forwarding_manager_new n = Ok m0" and m: "m = foldl forwarding_step m0 evs"
    and ok: "manager_validate L m msg = Ok c"
  shows "forwarding_len m \<le> n \<and> fc_forwarding_id c = fm_forwarding_id msg \<and>
     fc_client_session_id c = fm_client_session_id msg \<and> fc_route c = fm_route msg \<and>
     peer_parse L (fm_client_peer msg) = Some (fc_client_peer c) \<and>
     (\<exists>p. fm_packet msg = Some p \<and> fp_flow_id p = fm_forwarding_id msg \<and>
        fp_session_id p = fm_client_session_id msg \<and> fp_sequence p \<noteq> 0 \<and>
        sock_port (fp_destination p) \<noteq> 0 \<and> length (fp_payload p) \<le> 2048)"
proof -
  from ok have c: "validate_message L c msg = Ok ()"
    by (auto simp: manager_validate_def split: option.splits sum.splits)
  then show ?thesis
    using forwarding_manager_runs(2) [OF new, of evs] m
    by (auto simp: validate_message_Ok fwd_validate_packet_Ok DEFAULT_MAXIMUM_PAYLOAD_SIZE_def)
qed

subsection \<open>Witnesses\<close>

definition demo_context :: ForwardingContext where
  "demo_context = \<lparr>fc_forwarding_id = SessionId [1], fc_client_session_id = SessionId [1],
     fc_client_peer = PeerId [1], fc_entry_peer = PeerId [2], fc_exit_peer = PeerId [3],
     fc_route = TwoHop (PeerId [2]) (PeerId [3]) [], fc_state = Fs_Created, fc_relay_session_id = None,
     fc_last_request = None, fc_last_sequence = None\<rparr>"

definition demo_message :: ForwardingMessage where
  "demo_message = \<lparr>fm_kind = FORWARDING_KIND, fm_forwarding_id = SessionId [1],
     fm_client_session_id = SessionId [1], fm_client_peer = peer_to_string demo_lib (PeerId [1]),
     fm_route = TwoHop (PeerId [2]) (PeerId [3]) [],
     fm_data = \<lparr>de_kind = DATA_PLANE_KIND, de_session_id = SessionId [4], de_frame = [9]\<rparr>,
     fm_packet = Some \<lparr>fp_protocol = Fp_Tcp, fp_source = None, fp_destination = SocketV4 5 80,
       fp_flow_id = SessionId [1], fp_session_id = SessionId [1], fp_route_id = SessionId [1],
       fp_sequence = 1, fp_payload = [7]\<rparr>\<rparr>"

theorem forwarding_progress_witness:
  "fc_relay_session_id (fwd_run (demo_context\<lparr>fc_state := Fs_Forwarding\<rparr>) [Ev_Bind (SessionId [5]), Ev_Closing]) = None"
  using forwarding_progress [of "demo_context\<lparr>fc_state := Fs_Forwarding\<rparr>" "[Ev_Bind (SessionId [5]), Ev_Closing]"]
  by (simp add: demo_context_def)

theorem forwarding_request_once_witness:
  "fst (begin_forwarding (fwd_run (demo_context\<lparr>fc_last_request := Some (SessionId [1], ClientToExit), fc_state := Fs_Forwarding\<rparr>)
      [Ev_Sequence 1]) (SessionId [1]) ClientToExit) \<in> {Err DuplicateForwardingRequest, Err ClosedContext}"
  by (rule forwarding_request_once [of "demo_context\<lparr>fc_state := Fs_Established\<rparr>"])
     (simp_all add: begin_forwarding_def demo_context_def)

theorem forwarding_manager_validates_witness:
  "forwarding_len (foldl forwarding_step \<lparr>fw_contexts = fmempty, fw_maximum_flows = 1\<rparr> [Ev_AdmitContext demo_context]) \<le> 1 \<and>
   fc_client_session_id demo_context = fm_client_session_id demo_message"
proof -
  have lib: "peer_parse demo_lib (peer_to_string demo_lib p) = Some p" for p
    using demo_lib_ok by (simp add: session_lib_ok_def identity_ok_def)
  have "manager_validate demo_lib (foldl forwarding_step \<lparr>fw_contexts = fmempty, fw_maximum_flows = 1\<rparr>
      [Ev_AdmitContext demo_context]) demo_message = Ok demo_context"
    by (simp add: manager_validate_def forwarding_admit_def demo_context_def demo_message_def
        validate_message_def fwd_validate_packet_def lib DEFAULT_MAXIMUM_PAYLOAD_SIZE_def)
  from forwarding_manager_validates [OF _ refl this, of 1] show ?thesis
    by (simp add: forwarding_manager_new_def)
qed

end
