(* ===== verification/Exit.thy ===== *)
theory Exit
  imports Forwarding
begin

text \<open>
  \<open>relay/src/exit_network.rs\<close>, \<open>udp.rs\<close> and \<open>exit_handler.rs\<close>: the allow-list of an exit, its TCP and
  UDP adapters, and the handler that binds packets to a forwarding context. The parser of socket
  addresses and the calls on sockets are parameters (the records \<open>TcpSocket\<close> and \<open>UdpSocket\<close>); an
  adapter is generic in the state of its socket. The trait \<open>ExitNetworkAdapter\<close> is the locale
  \<open>bounded_adapter\<close>, interpreted on both adapters.
\<close>

subsection \<open>The allow-list\<close>

datatype ExitNetworkError =
    MalformedDestination
  | InvalidPort
  | DestinationNotAllowed
  | UnsupportedAddress
  | PayloadTooLarge
  | ResponseTooLarge
  | ConnectionTimeout
  | ReadTimeout
  | WriteTimeout
  | ConnectionFailed string
  | ReadFailed string
  | WriteFailed string
  | Exit_Closed

record DestinationPolicy =
  ds_allowed :: "SocketAddr list"

text \<open>\<open>sort_unstable\<close> followed by \<open>dedup\<close>, which removes adjacent repetitions.\<close>

fun dedup :: "'a list \<Rightarrow> 'a list" where
  "dedup [] = []"
| "dedup [x] = [x]"
| "dedup (x # y # r) = (if x = y then dedup (y # r) else x # dedup (y # r))"

definition policy_new :: "SocketAddr list \<Rightarrow> DestinationPolicy" where
  "policy_new allowed = \<lparr>ds_allowed = dedup (sort allowed)\<rparr>"

fun policy_collect ::
  "(string \<Rightarrow> SocketAddr option) \<Rightarrow> SocketAddr list \<Rightarrow> string list \<Rightarrow> ExitNetworkError + SocketAddr list" where
  "policy_collect parse allowed [] = Ok allowed"
| "policy_collect parse allowed (destination # rest) =
     (case parse destination of
        None \<Rightarrow> Err MalformedDestination
      | Some address \<Rightarrow>
          if sock_port address = 0 then Err InvalidPort
          else if ip_is_unspecified (sock_ip address) then Err UnsupportedAddress
          else policy_collect parse (allowed @ [address]) rest)"

definition policy_from_strings ::
  "(string \<Rightarrow> SocketAddr option) \<Rightarrow> string list \<Rightarrow> ExitNetworkError + DestinationPolicy" where
  "policy_from_strings parse destinations =
     (case policy_collect parse [] destinations of Inl e \<Rightarrow> Err e | Inr allowed \<Rightarrow> Ok (policy_new allowed))"

definition policy_localhost :: "u16 \<Rightarrow> DestinationPolicy" where
  "policy_localhost port = policy_new [SocketV4 (v4_from_octets [127, 0, 0, 1]) port]"

definition policy_validate ::
  "(string \<Rightarrow> SocketAddr option) \<Rightarrow> DestinationPolicy \<Rightarrow> string \<Rightarrow> ExitNetworkError + SocketAddr" where
  "policy_validate parse p destination =
     (case parse destination of
        None \<Rightarrow> Err MalformedDestination
      | Some address \<Rightarrow>
          if sock_port address = 0 then Err InvalidPort
          else if ip_is_unspecified (sock_ip address) then Err UnsupportedAddress
          else if address \<notin> set (ds_allowed p) then Err DestinationNotAllowed
          else Ok address)"

definition ip_is_broadcast :: "IpAddr \<Rightarrow> bool" where
  "ip_is_broadcast ip = (case ip of V4 a \<Rightarrow> a = v4_broadcast | V6 _ \<Rightarrow> False)"

definition policy_validate_udp ::
  "(string \<Rightarrow> SocketAddr option) \<Rightarrow> DestinationPolicy \<Rightarrow> string \<Rightarrow> ExitNetworkError + SocketAddr" where
  "policy_validate_udp parse p destination =
     (case policy_validate parse p destination of
        Inl e \<Rightarrow> Err e
      | Inr address \<Rightarrow>
          if ip_is_multicast (sock_ip address) \<or> ip_is_broadcast (sock_ip address) then Err UnsupportedAddress
          else Ok address)"

subsection \<open>The TCP adapter\<close>

text \<open>Errors of socket calls: their kind and their text.\<close>

datatype io_kind = Io_TimedOut | Io_WouldBlock | Io_Other

type_synonym io_error = "io_kind \<times> string"

record 's TcpSocket =
  tcp_connect_timeout :: "SocketAddr \<Rightarrow> duration \<Rightarrow> io_error + 's"
  tcp_set_read_timeout :: "'s \<Rightarrow> duration \<Rightarrow> (io_error + unit) \<times> 's"
  tcp_set_write_timeout :: "'s \<Rightarrow> duration \<Rightarrow> (io_error + unit) \<times> 's"
  tcp_write_all :: "'s \<Rightarrow> bytes \<Rightarrow> (io_error + unit) \<times> 's"
  tcp_read :: "'s \<Rightarrow> nat \<Rightarrow> (io_error + bytes) \<times> 's"
  tcp_shutdown :: "'s \<Rightarrow> (io_error + unit) \<times> 's"

record TcpAdapterConfig =
  tc_maximum_request_size :: nat
  tc_maximum_response_size :: nat
  tc_connection_timeout :: duration
  tc_read_timeout :: duration
  tc_write_timeout :: duration

definition tcp_config_validate :: "TcpAdapterConfig \<Rightarrow> ExitNetworkError + unit" where
  "tcp_config_validate c =
     (if tc_maximum_request_size c = 0 \<or> tc_maximum_response_size c = 0 then Err PayloadTooLarge
      else if tc_connection_timeout c = 0 \<or> tc_read_timeout c = 0 \<or> tc_write_timeout c = 0
      then Err ConnectionTimeout
      else Ok ())"

record 's TcpExitNetworkAdapter =
  ta_stream :: 's
  ta_config :: TcpAdapterConfig
  ta_closed :: bool

definition tcp_adapter_connect ::
  "'s TcpSocket \<Rightarrow> (string \<Rightarrow> SocketAddr option) \<Rightarrow> string \<Rightarrow> DestinationPolicy \<Rightarrow> TcpAdapterConfig
     \<Rightarrow> ExitNetworkError + 's TcpExitNetworkAdapter" where
  "tcp_adapter_connect S parse destination policy config =
     (case tcp_config_validate config of
        Inl e \<Rightarrow> Err e
      | Inr _ \<Rightarrow>
        (case policy_validate parse policy destination of
           Inl e \<Rightarrow> Err e
         | Inr address \<Rightarrow>
           (case tcp_connect_timeout S address (tc_connection_timeout config) of
              Inl (kind, text) \<Rightarrow> Err (if kind = Io_TimedOut then ConnectionTimeout else ConnectionFailed text)
            | Inr s \<Rightarrow>
              (case tcp_set_read_timeout S s (tc_read_timeout config) of
                 (Inl (kind, text), _) \<Rightarrow> Err (ConnectionFailed text)
               | (Inr _, s1) \<Rightarrow>
                 (case tcp_set_write_timeout S s1 (tc_write_timeout config) of
                    (Inl (kind, text), _) \<Rightarrow> Err (ConnectionFailed text)
                  | (Inr _, s2) \<Rightarrow> Ok \<lparr>ta_stream = s2, ta_config = config, ta_closed = False\<rparr>)))))"

definition tcp_adapter_send ::
  "'s TcpSocket \<Rightarrow> 's TcpExitNetworkAdapter \<Rightarrow> bytes \<Rightarrow> (ExitNetworkError + unit) \<times> 's TcpExitNetworkAdapter" where
  "tcp_adapter_send S a payload =
     (if ta_closed a then (Err Exit_Closed, a)
      else if length payload > tc_maximum_request_size (ta_config a) then (Err PayloadTooLarge, a)
      else case tcp_write_all S (ta_stream a) payload of
          (Inl (kind, text), s) \<Rightarrow>
            (Err (if kind = Io_TimedOut then WriteTimeout else WriteFailed text), a\<lparr>ta_stream := s\<rparr>)
        | (Inr _, s) \<Rightarrow> (Ok (), a\<lparr>ta_stream := s\<rparr>))"

text \<open>\<open>tcp_read S s n\<close> reads at most \<open>n\<close> bytes, the size of the buffer.\<close>

definition tcp_adapter_receive ::
  "'s TcpSocket \<Rightarrow> 's TcpExitNetworkAdapter \<Rightarrow> (ExitNetworkError + bytes) \<times> 's TcpExitNetworkAdapter" where
  "tcp_adapter_receive S a =
     (if ta_closed a then (Err Exit_Closed, a)
      else case tcp_read S (ta_stream a) (tc_maximum_response_size (ta_config a) + 1) of
          (Inl (kind, text), s) \<Rightarrow>
            (Err (if kind = Io_TimedOut then ReadTimeout else ReadFailed text), a\<lparr>ta_stream := s\<rparr>)
        | (Inr response, s) \<Rightarrow>
            (if length response > tc_maximum_response_size (ta_config a) then Err ResponseTooLarge
             else Ok response, a\<lparr>ta_stream := s\<rparr>))"

definition tcp_adapter_close ::
  "'s TcpSocket \<Rightarrow> 's TcpExitNetworkAdapter \<Rightarrow> (ExitNetworkError + unit) \<times> 's TcpExitNetworkAdapter" where
  "tcp_adapter_close S a =
     (if ta_closed a then (Err Exit_Closed, a)
      else case tcp_shutdown S (ta_stream a) of
          (Inl (kind, text), s) \<Rightarrow> (Err (ConnectionFailed text), a\<lparr>ta_stream := s\<rparr>)
        | (Inr _, s) \<Rightarrow> (Ok (), a\<lparr>ta_stream := s, ta_closed := True\<rparr>))"

text \<open>\<open>ExitNetworkAdapter::exchange\<close>, the default method of the trait, for any sender and receiver.\<close>

definition adapter_exchange ::
  "('a \<Rightarrow> bytes \<Rightarrow> (ExitNetworkError + unit) \<times> 'a) \<Rightarrow> ('a \<Rightarrow> (ExitNetworkError + bytes) \<times> 'a)
     \<Rightarrow> 'a \<Rightarrow> bytes \<Rightarrow> (ExitNetworkError + bytes) \<times> 'a" where
  "adapter_exchange snd_op rcv_op a payload =
     (case snd_op a payload of
        (Inl e, a') \<Rightarrow> (Err e, a')
      | (Inr _, a') \<Rightarrow> rcv_op a')"

definition tcp_adapter_exchange ::
  "'s TcpSocket \<Rightarrow> 's TcpExitNetworkAdapter \<Rightarrow> bytes \<Rightarrow> (ExitNetworkError + bytes) \<times> 's TcpExitNetworkAdapter" where
  "tcp_adapter_exchange S a payload = adapter_exchange (tcp_adapter_send S) (tcp_adapter_receive S) a payload"

subsection \<open>The UDP adapter\<close>

record 's UdpSocket =
  udp_bind :: "string \<Rightarrow> io_error + 's"
  udp_connect :: "'s \<Rightarrow> SocketAddr \<Rightarrow> (io_error + unit) \<times> 's"
  udp_set_read_timeout :: "'s \<Rightarrow> duration \<Rightarrow> (io_error + unit) \<times> 's"
  udp_set_write_timeout :: "'s \<Rightarrow> duration \<Rightarrow> (io_error + unit) \<times> 's"
  udp_send :: "'s \<Rightarrow> bytes \<Rightarrow> (io_error + nat) \<times> 's"
  udp_recv :: "'s \<Rightarrow> nat \<Rightarrow> (io_error + bytes) \<times> 's"

record 's UdpExitNetworkAdapter =
  ua_socket :: 's
  ua_destination :: SocketAddr
  ua_maximum_datagram_size :: nat
  ua_closed :: bool

fun map_io :: "io_error \<Rightarrow> ExitNetworkError" where
  "map_io (Io_TimedOut, text) = ReadTimeout"
| "map_io (Io_WouldBlock, text) = ReadTimeout"
| "map_io (Io_Other, text) = ReadFailed text"

definition udp_adapter_connect ::
  "'s UdpSocket \<Rightarrow> (string \<Rightarrow> SocketAddr option) \<Rightarrow> string \<Rightarrow> DestinationPolicy \<Rightarrow> nat \<Rightarrow> duration
     \<Rightarrow> ExitNetworkError + 's UdpExitNetworkAdapter" where
  "udp_adapter_connect S parse destination policy maximum timeout =
     (if maximum = 0 \<or> timeout = 0 then Err PayloadTooLarge
      else case policy_validate_udp parse policy destination of
          Inl _ \<Rightarrow> Err DestinationNotAllowed
        | Inr address \<Rightarrow>
          (case udp_bind S (if sock_is_ipv4 address then ''0.0.0.0:0'' else ''[::]:0'') of
             Inl (kind, text) \<Rightarrow> Err (ConnectionFailed text)
           | Inr s \<Rightarrow>
             (case udp_connect S s address of
                (Inl (kind, text), _) \<Rightarrow> Err (ConnectionFailed text)
              | (Inr _, s1) \<Rightarrow>
                (case udp_set_read_timeout S s1 timeout of
                   (Inl (kind, text), _) \<Rightarrow> Err (ConnectionFailed text)
                 | (Inr _, s2) \<Rightarrow>
                   (case udp_set_write_timeout S s2 timeout of
                      (Inl (kind, text), _) \<Rightarrow> Err (ConnectionFailed text)
                    | (Inr _, s3) \<Rightarrow>
                        Ok \<lparr>ua_socket = s3, ua_destination = address,
                            ua_maximum_datagram_size = maximum, ua_closed = False\<rparr>)))))"

definition udp_adapter_send ::
  "'s UdpSocket \<Rightarrow> 's UdpExitNetworkAdapter \<Rightarrow> bytes \<Rightarrow> (ExitNetworkError + unit) \<times> 's UdpExitNetworkAdapter" where
  "udp_adapter_send S a payload =
     (if ua_closed a then (Err Exit_Closed, a)
      else if length payload > ua_maximum_datagram_size a then (Err PayloadTooLarge, a)
      else case udp_send S (ua_socket a) payload of
          (Inl e, s) \<Rightarrow> (Err (map_io e), a\<lparr>ua_socket := s\<rparr>)
        | (Inr written, s) \<Rightarrow>
            (if written \<noteq> length payload then Err (WriteFailed ''short datagram write'') else Ok (),
             a\<lparr>ua_socket := s\<rparr>))"

definition udp_adapter_receive ::
  "'s UdpSocket \<Rightarrow> 's UdpExitNetworkAdapter \<Rightarrow> (ExitNetworkError + bytes) \<times> 's UdpExitNetworkAdapter" where
  "udp_adapter_receive S a =
     (if ua_closed a then (Err Exit_Closed, a)
      else case udp_recv S (ua_socket a) (ua_maximum_datagram_size a + 1) of
          (Inl e, s) \<Rightarrow> (Err (map_io e), a\<lparr>ua_socket := s\<rparr>)
        | (Inr response, s) \<Rightarrow>
            (if length response > ua_maximum_datagram_size a then Err ResponseTooLarge else Ok response,
             a\<lparr>ua_socket := s\<rparr>))"

definition udp_adapter_exchange ::
  "'s UdpSocket \<Rightarrow> 's UdpExitNetworkAdapter \<Rightarrow> bytes \<Rightarrow> (ExitNetworkError + bytes) \<times> 's UdpExitNetworkAdapter" where
  "udp_adapter_exchange S a payload = adapter_exchange (udp_adapter_send S) (udp_adapter_receive S) a payload"

definition udp_adapter_close ::
  "'s UdpExitNetworkAdapter \<Rightarrow> (ExitNetworkError + unit) \<times> 's UdpExitNetworkAdapter" where
  "udp_adapter_close a = (if ua_closed a then (Err Exit_Closed, a) else (Ok (), a\<lparr>ua_closed := True\<rparr>))"

subsection \<open>The packet handler\<close>

datatype ExitPacketHandlerError =
    Handler_Closed
  | Handler_QueueFull
  | Handler_InvalidPacket PacketError
  | Handler_InvalidSession
  | Handler_InvalidRoute
  | WrongEntry
  | WrongExit
  | InvalidForwardingState
  | DuplicatePacket
  | Handler_Shutdown
  | Handler_Network ExitNetworkError

record ExitForwardingBinding =
  eb_relay_session_id :: SessionId
  eb_entry_peer :: PeerId
  eb_exit_peer :: PeerId

record ExitPacketHandler =
  eh_maximum_packet_size :: nat
  eh_mtu :: nat
  eh_maximum_pending_responses :: nat
  eh_pending_responses :: "NetworkPacket list"
  eh_handled_packets :: "SessionId fset"
  eh_closed :: bool

definition handler_open :: "nat \<Rightarrow> nat \<Rightarrow> nat \<Rightarrow> ExitPacketHandlerError + ExitPacketHandler" where
  "handler_open maximum mtu pending =
     (if maximum = 0 \<or> mtu = 0 \<or> pending = 0 then Err (Handler_InvalidPacket Packet_InvalidLimit)
      else Ok \<lparr>eh_maximum_packet_size = maximum, eh_mtu = mtu, eh_maximum_pending_responses = pending,
               eh_pending_responses = [], eh_handled_packets = {||}, eh_closed = False\<rparr>)"

definition handler_ensure_open :: "ExitPacketHandler \<Rightarrow> ExitPacketHandlerError + unit" where
  "handler_ensure_open h = (if eh_closed h then Err Handler_Closed else Ok ())"

definition handler_validate_packet ::
  "ExitPacketHandler \<Rightarrow> NetworkPacket \<Rightarrow> ExitPacketHandlerError + NetworkPacket" where
  "handler_validate_packet h p =
     map_err Handler_InvalidPacket (network_packet_new (np_bytes p) (eh_maximum_packet_size h) (eh_mtu h))"

definition enqueue_response ::
  "ExitPacketHandler \<Rightarrow> NetworkPacket \<Rightarrow> (ExitPacketHandlerError + unit) \<times> ExitPacketHandler" where
  "enqueue_response h p =
     (case handler_ensure_open h of
        Inl e \<Rightarrow> (Err e, h)
      | Inr _ \<Rightarrow>
        (case handler_validate_packet h p of
           Inl e \<Rightarrow> (Err e, h)
         | Inr q \<Rightarrow>
             if length (eh_pending_responses h) \<ge> eh_maximum_pending_responses h then (Err Handler_QueueFull, h)
             else (Ok (), h\<lparr>eh_pending_responses := eh_pending_responses h @ [q]\<rparr>)))"

text \<open>\<open>Vec::pop\<close> takes the last element.\<close>

definition pop_response :: "ExitPacketHandler \<Rightarrow> NetworkPacket option \<times> ExitPacketHandler" where
  "pop_response h =
     (if eh_pending_responses h = [] then (None, h)
      else (Some (List.last (eh_pending_responses h)), h\<lparr>eh_pending_responses := butlast (eh_pending_responses h)\<rparr>))"

definition enqueue_and_pop ::
  "ExitPacketHandler \<Rightarrow> NetworkPacket \<Rightarrow> (ExitPacketHandlerError + NetworkPacket) \<times> ExitPacketHandler" where
  "enqueue_and_pop h p =
     (case enqueue_response h p of
        (Inl e, h1) \<Rightarrow> (Err e, h1)
      | (Inr _, h1) \<Rightarrow>
          (case pop_response h1 of
             (None, h2) \<Rightarrow> (Err Handler_Shutdown, h2)
           | (Some q, h2) \<Rightarrow> (Ok q, h2)))"

definition handler_handle ::
  "ExitPacketHandler \<Rightarrow> NetworkPacket \<Rightarrow> (ExitPacketHandlerError + NetworkPacket) \<times> ExitPacketHandler" where
  "handler_handle h p =
     (case handler_ensure_open h of
        Inl e \<Rightarrow> (Err e, h)
      | Inr _ \<Rightarrow>
        (case handler_validate_packet h p of
           Inl e \<Rightarrow> (Err e, h)
         | Inr q \<Rightarrow> enqueue_and_pop h q))"

fun map_context_error :: "ForwardingError \<Rightarrow> ExitPacketHandlerError" where
  "map_context_error WrongEntryRelay = WrongEntry"
| "map_context_error WrongExitRelay = WrongExit"
| "map_context_error WrongSessionBinding = Handler_InvalidSession"
| "map_context_error Fwd_InvalidRoute = Handler_InvalidRoute"
| "map_context_error _ = Handler_InvalidSession"

text \<open>The checks that the four bound operations share, in their order.\<close>

definition check_binding ::
  "ExitPacketHandler \<Rightarrow> ForwardingContext \<Rightarrow> ExitForwardingBinding \<Rightarrow> ExitPacketHandlerError + unit" where
  "check_binding h c b =
     (case handler_ensure_open h of
        Inl e \<Rightarrow> Err e
      | Inr _ \<Rightarrow>
        if fc_state c \<noteq> Fs_Forwarding then Err InvalidForwardingState
        else case validate_entry c (eb_entry_peer b) of
            Inl e \<Rightarrow> Err (map_context_error e)
          | Inr _ \<Rightarrow>
            (case validate_exit c (eb_exit_peer b) of
               Inl e \<Rightarrow> Err (map_context_error e)
             | Inr _ \<Rightarrow> map_err map_context_error (validate_relay_session c (eb_relay_session_id b))))"

text \<open>\<open>HashSet::insert\<close>: false when the identifier was there.\<close>

definition mark_handled :: "ExitPacketHandler \<Rightarrow> SessionId \<Rightarrow> (ExitPacketHandlerError + unit) \<times> ExitPacketHandler" where
  "mark_handled h i =
     (if i |\<in>| eh_handled_packets h then (Err DuplicatePacket, h)
      else (Ok (), h\<lparr>eh_handled_packets := finsert i (eh_handled_packets h)\<rparr>))"

definition handle_bound ::
  "ExitPacketHandler \<Rightarrow> SessionId \<Rightarrow> NetworkPacket \<Rightarrow> ForwardingContext \<Rightarrow> ExitForwardingBinding
     \<Rightarrow> (ExitPacketHandlerError + NetworkPacket) \<times> ExitPacketHandler" where
  "handle_bound h i p c b =
     (case check_binding h c b of
        Inl e \<Rightarrow> (Err e, h)
      | Inr _ \<Rightarrow>
        (case mark_handled h i of
           (Inl e, h1) \<Rightarrow> (Err e, h1)
         | (Inr _, h1) \<Rightarrow> handler_handle h1 p))"

definition handle_bound_with_adapter ::
  "('a \<Rightarrow> bytes \<Rightarrow> (ExitNetworkError + bytes) \<times> 'a) \<Rightarrow> ExitPacketHandler \<Rightarrow> SessionId \<Rightarrow> NetworkPacket
     \<Rightarrow> ForwardingContext \<Rightarrow> ExitForwardingBinding \<Rightarrow> 'a
     \<Rightarrow> (ExitPacketHandlerError + NetworkPacket) \<times> ExitPacketHandler \<times> 'a" where
  "handle_bound_with_adapter exchange h i p c b a =
     (case check_binding h c b of
        Inl e \<Rightarrow> (Err e, h, a)
      | Inr _ \<Rightarrow>
        (case mark_handled h i of
           (Inl e, h1) \<Rightarrow> (Err e, h1, a)
         | (Inr _, h1) \<Rightarrow>
           (case exchange a (np_bytes p) of
              (Inl e, a1) \<Rightarrow> (Err (Handler_Network e), h1, a1)
            | (Inr response, a1) \<Rightarrow>
              (case network_packet_new response (eh_maximum_packet_size h1) (eh_mtu h1) of
                 Inl e \<Rightarrow> (Err (Handler_InvalidPacket e), h1, a1)
               | Inr q \<Rightarrow> (case enqueue_and_pop h1 q of (r, h2) \<Rightarrow> (r, h2, a1))))))"

definition handle_bound_with_adapter_payload ::
  "('a \<Rightarrow> bytes \<Rightarrow> (ExitNetworkError + bytes) \<times> 'a) \<Rightarrow> ExitPacketHandler \<Rightarrow> SessionId \<Rightarrow> bytes
     \<Rightarrow> ForwardingContext \<Rightarrow> ExitForwardingBinding \<Rightarrow> 'a
     \<Rightarrow> (ExitPacketHandlerError + bytes) \<times> ExitPacketHandler \<times> 'a" where
  "handle_bound_with_adapter_payload exchange h i payload c b a =
     (case check_binding h c b of
        Inl e \<Rightarrow> (Err e, h, a)
      | Inr _ \<Rightarrow>
        (case mark_handled h i of
           (Inl e, h1) \<Rightarrow> (Err e, h1, a)
         | (Inr _, h1) \<Rightarrow> (case exchange a payload of (r, a1) \<Rightarrow> (map_err Handler_Network r, h1, a1))))"

definition validate_bound_payload ::
  "ExitPacketHandler \<Rightarrow> SessionId \<Rightarrow> bytes \<Rightarrow> ForwardingContext \<Rightarrow> ExitForwardingBinding
     \<Rightarrow> (ExitPacketHandlerError + unit) \<times> ExitPacketHandler" where
  "validate_bound_payload h i payload c b =
     (case check_binding h c b of
        Inl e \<Rightarrow> (Err e, h)
      | Inr _ \<Rightarrow>
        if length payload > eh_maximum_packet_size h
        then (Err (Handler_InvalidPacket (Packet_Oversized (length payload) (eh_maximum_packet_size h))), h)
        else mark_handled h i)"

definition take_response ::
  "ExitPacketHandler \<Rightarrow> (ExitPacketHandlerError + NetworkPacket option) \<times> ExitPacketHandler" where
  "take_response h =
     (case handler_ensure_open h of
        Inl e \<Rightarrow> (Err e, h)
      | Inr _ \<Rightarrow> (case pop_response h of (q, h1) \<Rightarrow> (Ok q, h1)))"

definition handler_close :: "ExitPacketHandler \<Rightarrow> (ExitPacketHandlerError + unit) \<times> ExitPacketHandler" where
  "handler_close h =
     (if eh_closed h then (Err Handler_Closed, h)
      else (Ok (), h\<lparr>eh_closed := True, eh_pending_responses := [], eh_handled_packets := {||}\<rparr>))"

subsection \<open>The allow-list is exact\<close>

lemma set_dedup [simp]: "set (dedup xs) = set xs"
  by (induction xs rule: dedup.induct) auto

lemma hd_dedup: "xs \<noteq> [] \<Longrightarrow> hd (dedup xs) = hd xs"
  by (induction xs rule: dedup.induct) auto

lemma dedup_strict: "sorted xs \<Longrightarrow> sorted_wrt (<) (dedup xs)" for xs :: "'a::linorder list"
proof (induction xs rule: dedup.induct)
  case (3 x y r)
  show ?case
  proof (cases "x = y")
    case False
    then have "x < z" if "z \<in> set (y # r)" for z
      using 3(3) that by (auto simp: less_le)
    then show ?thesis
      using 3 False by auto
  qed (use 3 in auto)
qed auto

lemma policy_new_allowed: "set (ds_allowed (policy_new xs)) = set xs"
  "sorted_wrt (<) (ds_allowed (policy_new xs))"
  by (simp_all add: policy_new_def dedup_strict)

lemma policy_collect_Ok:
  "policy_collect parse acc ds = Ok allowed \<longleftrightarrow>
     (\<forall>d\<in>set ds. \<exists>a. parse d = Some a \<and> sock_port a \<noteq> 0 \<and> \<not> ip_is_unspecified (sock_ip a)) \<and>
     allowed = acc @ map (\<lambda>d. the (parse d)) ds"
  by (induction parse acc ds rule: policy_collect.induct) (auto split: option.splits)

lemma policy_from_strings_Ok:
  assumes "policy_from_strings parse ds = Ok p"
  shows "a \<in> set (ds_allowed p) \<longleftrightarrow> (\<exists>d\<in>set ds. parse d = Some a)"
    and "a \<in> set (ds_allowed p) \<Longrightarrow> sock_port a \<noteq> 0 \<and> \<not> ip_is_unspecified (sock_ip a)"
proof -
  obtain allowed where "policy_collect parse [] ds = Ok allowed" and p: "p = policy_new allowed"
    using assms by (auto simp: policy_from_strings_def split: sum.splits)
  then have c: "\<forall>d\<in>set ds. \<exists>a. parse d = Some a \<and> sock_port a \<noteq> 0 \<and> \<not> ip_is_unspecified (sock_ip a)"
    and "set (ds_allowed p) = (\<lambda>d. the (parse d)) ` set ds"
    by (auto simp: policy_collect_Ok policy_new_allowed)
  then show "a \<in> set (ds_allowed p) \<longleftrightarrow> (\<exists>d\<in>set ds. parse d = Some a)"
    and "a \<in> set (ds_allowed p) \<Longrightarrow> sock_port a \<noteq> 0 \<and> \<not> ip_is_unspecified (sock_ip a)"
    by force+
qed

lemma policy_validate_Ok:
  "policy_validate parse p d = Ok a \<longleftrightarrow>
     parse d = Some a \<and> sock_port a \<noteq> 0 \<and> \<not> ip_is_unspecified (sock_ip a) \<and> a \<in> set (ds_allowed p)"
  by (auto simp: policy_validate_def split: option.splits)

lemma policy_validate_udp_Ok:
  "policy_validate_udp parse p d = Ok a \<longleftrightarrow>
     policy_validate parse p d = Ok a \<and> \<not> ip_is_multicast (sock_ip a) \<and> \<not> ip_is_broadcast (sock_ip a)"
  by (auto simp: policy_validate_udp_def split: sum.splits)

text \<open>Connecting looks at the network only at the validated address.\<close>

lemma tcp_connect_local:
  assumes "\<And>a. policy_validate parse p d = Ok a \<Longrightarrow> f a = tcp_connect_timeout S a"
  shows "tcp_adapter_connect (S\<lparr>tcp_connect_timeout := f\<rparr>) parse d p cfg = tcp_adapter_connect S parse d p cfg"
  using assms by (auto simp: tcp_adapter_connect_def split: sum.splits prod.splits)

lemma udp_connect_local:
  assumes "\<And>a s. policy_validate_udp parse p d = Ok a \<Longrightarrow> f s a = udp_connect S s a"
  shows "udp_adapter_connect (S\<lparr>udp_connect := f\<rparr>) parse d p n t = udp_adapter_connect S parse d p n t"
  using assms by (auto simp: udp_adapter_connect_def split: sum.splits prod.splits)

lemma udp_adapter_connect_Ok:
  "udp_adapter_connect S parse d p n t = Ok u \<Longrightarrow> policy_validate_udp parse p d = Ok (ua_destination u)"
  by (auto simp: udp_adapter_connect_def split: if_splits sum.splits prod.splits)


subsection \<open>Adapters are bounded\<close>

text \<open>
  The contract of an \<open>ExitNetworkAdapter\<close>: it sends and receives only what its limits allow, its
  limits do not change, and once closed it does nothing.
\<close>

locale bounded_adapter =
  fixes snd_op :: "'a \<Rightarrow> bytes \<Rightarrow> (ExitNetworkError + unit) \<times> 'a"
    and rcv_op :: "'a \<Rightarrow> (ExitNetworkError + bytes) \<times> 'a"
    and is_closed :: "'a \<Rightarrow> bool"
    and request_limit :: "'a \<Rightarrow> nat"
    and response_limit :: "'a \<Rightarrow> nat"
  assumes closed_send: "is_closed a \<Longrightarrow> snd_op a payload = (Err Exit_Closed, a)"
    and large_send: "\<not> is_closed a \<Longrightarrow> length payload > request_limit a \<Longrightarrow> snd_op a payload = (Err PayloadTooLarge, a)"
    and send_keeps: "snd_op a payload = (r, a') \<Longrightarrow>
      is_closed a' = is_closed a \<and> request_limit a' = request_limit a \<and> response_limit a' = response_limit a"
    and receive_bounded: "rcv_op a = (Ok response, a') \<Longrightarrow> length response \<le> response_limit a"
begin

lemma exchange_closed: "is_closed a \<Longrightarrow> adapter_exchange snd_op rcv_op a payload = (Err Exit_Closed, a)"
  by (simp add: adapter_exchange_def closed_send)

lemma exchange_large:
  "\<not> is_closed a \<Longrightarrow> length payload > request_limit a \<Longrightarrow>
   adapter_exchange snd_op rcv_op a payload = (Err PayloadTooLarge, a)"
  by (simp add: adapter_exchange_def large_send)

lemma exchange_bounded:
  assumes "adapter_exchange snd_op rcv_op a payload = (Ok response, a')"
  shows "\<not> is_closed a \<and> length payload \<le> request_limit a \<and> length response \<le> response_limit a"
proof -
  obtain u a1 where a1: "snd_op a payload = (Ok u, a1)" "rcv_op a1 = (Ok response, a')"
    using assms by (auto simp: adapter_exchange_def split: prod.splits sum.splits)
  then have "\<not> is_closed a" and "\<not> length payload > request_limit a"
    using closed_send [of a payload] large_send [of a payload] by auto
  then show ?thesis
    using send_keeps [OF a1(1)] receive_bounded [OF a1(2)] by simp
qed

end

interpretation tcp_adapter: bounded_adapter "tcp_adapter_send S" "tcp_adapter_receive S" ta_closed
  "\<lambda>a. tc_maximum_request_size (ta_config a)" "\<lambda>a. tc_maximum_response_size (ta_config a)" for S
  by standard (auto simp: tcp_adapter_send_def tcp_adapter_receive_def split: if_splits prod.splits sum.splits)

interpretation udp_adapter: bounded_adapter "udp_adapter_send U" "udp_adapter_receive U" ua_closed
  ua_maximum_datagram_size ua_maximum_datagram_size for U
  by standard (auto simp: udp_adapter_send_def udp_adapter_receive_def split: if_splits prod.splits sum.splits)

text \<open>
  C39: both exit adapters are bounded: an exchange succeeds only on an open adapter, with a request
  and a response within the configured sizes, whatever the socket returns; a larger request is
  refused before the socket is touched.
\<close>

theorem exit_exchange_bounded:
  "(\<forall>response a'. tcp_adapter_exchange S a payload = (Ok response, a') \<longrightarrow>
      \<not> ta_closed a \<and> length payload \<le> tc_maximum_request_size (ta_config a) \<and>
      length response \<le> tc_maximum_response_size (ta_config a)) \<and>
   (\<forall>response u'. udp_adapter_exchange U u payload = (Ok response, u') \<longrightarrow>
      \<not> ua_closed u \<and> length payload \<le> ua_maximum_datagram_size u \<and>
      length response \<le> ua_maximum_datagram_size u) \<and>
   (\<not> ta_closed a \<and> length payload > tc_maximum_request_size (ta_config a) \<longrightarrow>
      tcp_adapter_exchange S a payload = (Err PayloadTooLarge, a)) \<and>
   (\<not> ua_closed u \<and> length payload > ua_maximum_datagram_size u \<longrightarrow>
      udp_adapter_exchange U u payload = (Err PayloadTooLarge, u))"
  unfolding tcp_adapter_exchange_def udp_adapter_exchange_def
  by (intro conjI allI impI)
     (blast dest: tcp_adapter.exchange_bounded udp_adapter.exchange_bounded
        intro: tcp_adapter.exchange_large udp_adapter.exchange_large)+

subsection \<open>Each packet is handled once, under its own flow\<close>

lemma check_binding_Ok:
  "check_binding h c b = Ok u \<longleftrightarrow> \<not> eh_closed h \<and> fc_state c = Fs_Forwarding \<and>
     eb_entry_peer b = fc_entry_peer c \<and> eb_exit_peer b = fc_exit_peer c \<and>
     fc_relay_session_id c = Some (eb_relay_session_id b)"
  by (auto simp: check_binding_def handler_ensure_open_def validate_entry_def validate_exit_def
      validate_relay_session_def)

lemma enqueue_and_pop_Ok:
  "enqueue_and_pop h p = (Ok q, h') \<longleftrightarrow>
     \<not> eh_closed h \<and> handler_validate_packet h p = Ok q \<and>
     length (eh_pending_responses h) < eh_maximum_pending_responses h \<and> h' = h"
  by (auto simp: enqueue_and_pop_def enqueue_response_def pop_response_def handler_ensure_open_def
      split: sum.splits)

lemma enqueue_and_pop_handled:
  "eh_handled_packets (snd (enqueue_and_pop h p)) = eh_handled_packets h"
  "eh_closed (snd (enqueue_and_pop h p)) = eh_closed h"
  by (auto simp: enqueue_and_pop_def enqueue_response_def pop_response_def handler_ensure_open_def
      split: sum.splits)

text \<open>
  The operations on a handler with its adapter. The identifier reported for a step is that of the
  packet the step has newly marked as handled.
\<close>

datatype exit_event =
    Ev_Handle NetworkPacket
  | Ev_HandleBound SessionId NetworkPacket ForwardingContext ExitForwardingBinding
  | Ev_WithAdapter SessionId NetworkPacket ForwardingContext ExitForwardingBinding
  | Ev_AdapterPayload SessionId bytes ForwardingContext ExitForwardingBinding
  | Ev_ValidatePayload SessionId bytes ForwardingContext ExitForwardingBinding
  | Ev_Enqueue NetworkPacket
  | Ev_TakeResponse
  | Ev_CloseHandler

fun exit_step ::
  "('a \<Rightarrow> bytes \<Rightarrow> (ExitNetworkError + bytes) \<times> 'a) \<Rightarrow> ExitPacketHandler \<times> 'a \<Rightarrow> exit_event \<Rightarrow> ExitPacketHandler \<times> 'a" where
  "exit_step x (h, a) (Ev_Handle p) = (snd (handler_handle h p), a)"
| "exit_step x (h, a) (Ev_HandleBound i p c b) = (snd (handle_bound h i p c b), a)"
| "exit_step x (h, a) (Ev_WithAdapter i p c b) = snd (handle_bound_with_adapter x h i p c b a)"
| "exit_step x (h, a) (Ev_AdapterPayload i q c b) = snd (handle_bound_with_adapter_payload x h i q c b a)"
| "exit_step x (h, a) (Ev_ValidatePayload i q c b) = (snd (validate_bound_payload h i q c b), a)"
| "exit_step x (h, a) (Ev_Enqueue p) = (snd (enqueue_response h p), a)"
| "exit_step x (h, a) Ev_TakeResponse = (snd (take_response h), a)"
| "exit_step x (h, a) Ev_CloseHandler = (snd (handler_close h), a)"

fun event_packet :: "exit_event \<Rightarrow> SessionId option" where
  "event_packet (Ev_HandleBound i _ _ _) = Some i"
| "event_packet (Ev_WithAdapter i _ _ _) = Some i"
| "event_packet (Ev_AdapterPayload i _ _ _) = Some i"
| "event_packet (Ev_ValidatePayload i _ _ _) = Some i"
| "event_packet _ = None"

definition exit_marks ::
  "('a \<Rightarrow> bytes \<Rightarrow> (ExitNetworkError + bytes) \<times> 'a) \<Rightarrow> ExitPacketHandler \<times> 'a \<Rightarrow> exit_event
     \<Rightarrow> SessionId option \<times> ExitPacketHandler \<times> 'a" where
  "exit_marks x s ev =
     (let s' = exit_step x s ev in
      (case event_packet ev of
         Some i \<Rightarrow> if i |\<in>| eh_handled_packets (fst s') \<and> i |\<notin>| eh_handled_packets (fst s) then Some i else None
       | None \<Rightarrow> None, s'))"

text \<open>A closed handler has forgotten its packets, but it handles none any more.\<close>

definition exit_seen :: "ExitPacketHandler \<times> 'a \<Rightarrow> SessionId set" where
  "exit_seen s = (if eh_closed (fst s) then UNIV else fset (eh_handled_packets (fst s)))"

lemmas exit_op_defs = handler_handle_def handle_bound_def handle_bound_with_adapter_def
  handle_bound_with_adapter_payload_def validate_bound_payload_def take_response_def handler_close_def
  mark_handled_def pop_response_def enqueue_response_def handler_ensure_open_def

text \<open>A step changes nothing of the handled packets, or it marks its own packet, or it closes the handler.\<close>

definition exit_quiet :: "ExitPacketHandler \<times> 'a \<Rightarrow> ExitPacketHandler \<times> 'a \<Rightarrow> bool" where
  "exit_quiet s s' \<longleftrightarrow> eh_handled_packets (fst s') = eh_handled_packets (fst s) \<and>
     eh_closed (fst s') = eh_closed (fst s) \<and> snd s' = snd s"

definition exit_marked :: "SessionId \<Rightarrow> ExitPacketHandler \<times> 'a \<Rightarrow> ExitPacketHandler \<times> 'a \<Rightarrow> bool" where
  "exit_marked i s s' \<longleftrightarrow> \<not> eh_closed (fst s) \<and> \<not> eh_closed (fst s') \<and>
     i |\<notin>| eh_handled_packets (fst s) \<and> eh_handled_packets (fst s') = finsert i (eh_handled_packets (fst s))"

lemma handler_handle_quiet:
  "eh_handled_packets (snd (handler_handle h p)) = eh_handled_packets h"
  "eh_closed (snd (handler_handle h p)) = eh_closed h"
  by (auto simp: handler_handle_def enqueue_and_pop_handled split: sum.splits)

lemma mark_then:
  assumes "check_binding h c b = Ok u" and "mark_handled h i = (Ok v, h1)"
    and "eh_handled_packets h' = eh_handled_packets h1" and "eh_closed h' = eh_closed h1"
  shows "exit_marked i (h, a) (h', a')"
proof -
  have "\<not> eh_closed h"
    using assms(1) by (simp add: check_binding_Ok)
  moreover have "i |\<notin>| eh_handled_packets h" and "h1 = h\<lparr>eh_handled_packets := finsert i (eh_handled_packets h)\<rparr>"
    using assms(2) by (auto simp: mark_handled_def split: if_splits)
  ultimately show ?thesis
    by (simp add: exit_marked_def assms(3,4))
qed

lemma mark_refused: "mark_handled h i = (Err e, h1) \<Longrightarrow> h1 = h"
  by (auto simp: mark_handled_def split: if_splits)

lemma handle_bound_effect:
  "exit_quiet (h, a) (snd (handle_bound h i p c b), a) \<or> exit_marked i (h, a) (snd (handle_bound h i p c b), a)"
proof (cases "check_binding h c b")
  case (Inr u)
  obtain r h1 where m: "mark_handled h i = (r, h1)" by fastforce
  show ?thesis
  proof (cases r)
    case (Inr v)
    have "exit_marked i (h, a) (snd (handler_handle h1 p), a)"
      by (rule mark_then [OF \<open>check_binding h c b = Inr u\<close> m [unfolded Inr]]) (rule handler_handle_quiet)+
    then show ?thesis using \<open>check_binding h c b = Inr u\<close> m Inr by (simp add: handle_bound_def)
  qed (use Inr m mark_refused in \<open>auto simp: handle_bound_def exit_quiet_def\<close>)
qed (simp add: handle_bound_def exit_quiet_def)

lemma with_adapter_effect:
  "exit_quiet (h, a) (snd (handle_bound_with_adapter x h i p c b a)) \<or>
   exit_marked i (h, a) (snd (handle_bound_with_adapter x h i p c b a))"
proof (cases "check_binding h c b")
  case (Inr u)
  obtain r h1 where m: "mark_handled h i = (r, h1)" by fastforce
  show ?thesis
  proof (cases r)
    case (Inr v)
    note mark = mark_then [OF \<open>check_binding h c b = Inr u\<close> m [unfolded Inr]]
    have "exit_marked i (h, a) (h1, a')" and "exit_marked i (h, a) (snd (enqueue_and_pop h1 q), a')" for a' q
      by (rule mark; simp add: enqueue_and_pop_handled)+
    then show ?thesis using \<open>check_binding h c b = Inr u\<close> m Inr
      by (simp add: handle_bound_with_adapter_def split: prod.split sum.split) (metis snd_conv)
  qed (use Inr m mark_refused in \<open>auto simp: handle_bound_with_adapter_def exit_quiet_def\<close>)
qed (simp add: handle_bound_with_adapter_def exit_quiet_def)

lemma adapter_payload_effect:
  "exit_quiet (h, a) (snd (handle_bound_with_adapter_payload x h i p c b a)) \<or>
   exit_marked i (h, a) (snd (handle_bound_with_adapter_payload x h i p c b a))"
proof (cases "check_binding h c b")
  case (Inr u)
  obtain r h1 where m: "mark_handled h i = (r, h1)" by fastforce
  show ?thesis
  proof (cases r)
    case (Inr v)
    have "exit_marked i (h, a) (h1, a')" for a'
      by (rule mark_then [OF \<open>check_binding h c b = Inr u\<close> m [unfolded Inr]]) simp_all
    then show ?thesis using \<open>check_binding h c b = Inr u\<close> m Inr
      by (auto simp: handle_bound_with_adapter_payload_def split: prod.splits)
  qed (use Inr m mark_refused in \<open>auto simp: handle_bound_with_adapter_payload_def exit_quiet_def\<close>)
qed (simp add: handle_bound_with_adapter_payload_def exit_quiet_def)

lemma validate_payload_effect:
  "exit_quiet (h, a) (snd (validate_bound_payload h i p c b), a) \<or>
   exit_marked i (h, a) (snd (validate_bound_payload h i p c b), a)"
proof (cases "check_binding h c b")
  case (Inr u)
  then have "\<not> eh_closed h" by (simp add: check_binding_Ok)
  with Inr show ?thesis
    by (simp add: validate_bound_payload_def exit_quiet_def exit_marked_def mark_handled_def)
qed (simp add: validate_bound_payload_def exit_quiet_def)

lemma plain_effect:
  "exit_quiet (h, a) (snd (handler_handle h p), a)" "exit_quiet (h, a) (snd (enqueue_response h p), a)"
  "exit_quiet (h, a) (snd (take_response h), a)"
  by (auto simp: exit_quiet_def handler_handle_quiet enqueue_response_def pop_response_def
      take_response_def handler_ensure_open_def split: sum.splits)

definition exit_effect :: "exit_event \<Rightarrow> ExitPacketHandler \<times> 'a \<Rightarrow> ExitPacketHandler \<times> 'a \<Rightarrow> bool" where
  "exit_effect ev s s' \<longleftrightarrow> exit_quiet s s' \<or> (\<exists>i. event_packet ev = Some i \<and> exit_marked i s s') \<or>
     (event_packet ev = None \<and> eh_closed (fst s') \<and> snd s' = snd s)"

lemma exit_step_effect: "exit_effect ev s (exit_step x s ev)"
proof (cases s)
  case (Pair h a)
  show ?thesis
  proof (cases ev)
    case (Ev_HandleBound i p c b)
    then show ?thesis using handle_bound_effect [of h a i p c b] by (simp add: Pair exit_effect_def)
  next
    case (Ev_WithAdapter i p c b)
    then show ?thesis using with_adapter_effect [of h a x i p c b] by (simp add: Pair exit_effect_def)
  next
    case (Ev_AdapterPayload i p c b)
    then show ?thesis using adapter_payload_effect [of h a x i p c b] by (simp add: Pair exit_effect_def)
  next
    case (Ev_ValidatePayload i p c b)
    then show ?thesis using validate_payload_effect [of h a i p c b] by (simp add: Pair exit_effect_def)
  qed (simp_all add: Pair exit_effect_def plain_effect handler_close_def)
qed

lemma exit_marks_Some:
  assumes "exit_marks x s ev = (Some i, s')"
  shows "event_packet ev = Some i \<and> exit_marked i s s'"
proof -
  have s': "s' = exit_step x s ev" "event_packet ev = Some i"
    and "i |\<in>| eh_handled_packets (fst s')" "i |\<notin>| eh_handled_packets (fst s)"
    using assms by (auto simp: exit_marks_def Let_def split: option.splits if_splits)
  then show ?thesis
    using exit_step_effect [of ev s x] by (auto simp: exit_quiet_def exit_effect_def)
qed

lemma exit_marks_None:
  assumes "exit_marks x s ev = (None, s')"
  shows "snd s' = snd s \<and> exit_seen s \<subseteq> exit_seen s'"
proof -
  have s': "s' = exit_step x s ev"
    using assms by (simp add: exit_marks_def Let_def)
  have "\<not> exit_marked i s s'" if "event_packet ev = Some i" for i
    using assms that by (auto simp: exit_marks_def exit_marked_def Let_def)
  then show ?thesis
    using exit_step_effect [of ev s x] s' by (auto simp: exit_quiet_def exit_effect_def exit_seen_def)
qed

interpretation exit_guard: once_guard "exit_marks x" exit_seen for x
proof (standard, goal_cases)
  case (1 s ev i s')
  then show ?case
    using exit_marks_Some [of x s ev i s'] by (auto simp: exit_marked_def exit_seen_def)
next
  case (2 s ev s')
  then show ?case using exit_marks_None by blast
qed



subsection \<open>Witnesses\<close>

definition demo_parse :: "string \<Rightarrow> SocketAddr option" where
  "demo_parse s = (if s = ''192.0.2.10:9000'' then Some (SocketV4 0xc000020a 9000) else None)"

definition demo_tcp :: "bytes TcpSocket" where
  "demo_tcp = \<lparr>tcp_connect_timeout = \<lambda>a t. Ok [], tcp_set_read_timeout = \<lambda>s t. (Ok (), s),
     tcp_set_write_timeout = \<lambda>s t. (Ok (), s), tcp_write_all = \<lambda>s p. (Ok (), p),
     tcp_read = \<lambda>s n. (Ok (take n s), drop n s), tcp_shutdown = \<lambda>s. (Ok (), s)\<rparr>"

definition demo_udp :: "bytes UdpSocket" where
  "demo_udp = \<lparr>udp_bind = \<lambda>a. Ok [], udp_connect = \<lambda>s a. (Ok (), s), udp_set_read_timeout = \<lambda>s t. (Ok (), s),
     udp_set_write_timeout = \<lambda>s t. (Ok (), s), udp_send = \<lambda>s p. (Ok (length p), p),
     udp_recv = \<lambda>s n. (Ok (take n s), drop n s)\<rparr>"

definition demo_tcp_config :: TcpAdapterConfig where
  "demo_tcp_config = \<lparr>tc_maximum_request_size = 4, tc_maximum_response_size = 4, tc_connection_timeout = 1,
     tc_read_timeout = 1, tc_write_timeout = 1\<rparr>"

definition demo_policy :: DestinationPolicy where
  "demo_policy = policy_new [SocketV4 0xc000020a 9000]"


definition demo_tcp_adapter :: "bytes TcpExitNetworkAdapter" where
  "demo_tcp_adapter = \<lparr>ta_stream = [], ta_config = demo_tcp_config, ta_closed = False\<rparr>"

theorem exit_exchange_bounded_witness:
  "tcp_adapter_exchange demo_tcp demo_tcp_adapter [1, 2, 3] = (Ok [1, 2, 3], demo_tcp_adapter) \<and>
   length [1, 2, 3 :: u8] \<le> tc_maximum_response_size (ta_config demo_tcp_adapter) \<and>
   tcp_adapter_exchange demo_tcp demo_tcp_adapter [1, 2, 3, 4, 5] = (Err PayloadTooLarge, demo_tcp_adapter)"
proof (intro conjI)
  show ex: "tcp_adapter_exchange demo_tcp demo_tcp_adapter [1, 2, 3] = (Ok [1, 2, 3], demo_tcp_adapter)"
    by (simp add: tcp_adapter_exchange_def adapter_exchange_def tcp_adapter_send_def tcp_adapter_receive_def
        demo_tcp_def demo_tcp_adapter_def demo_tcp_config_def)
  then show "length [1, 2, 3 :: u8] \<le> tc_maximum_response_size (ta_config demo_tcp_adapter)"
    using exit_exchange_bounded by blast
  have "\<not> ta_closed demo_tcp_adapter \<and> length [1, 2, 3, 4, 5 :: u8] > tc_maximum_request_size (ta_config demo_tcp_adapter)"
    by (simp add: demo_tcp_adapter_def demo_tcp_config_def)
  then show "tcp_adapter_exchange demo_tcp demo_tcp_adapter [1, 2, 3, 4, 5] = (Err PayloadTooLarge, demo_tcp_adapter)"
    using exit_exchange_bounded by blast
qed

definition demo_handler :: ExitPacketHandler where
  "demo_handler = \<lparr>eh_maximum_packet_size = 1500, eh_mtu = 1500, eh_maximum_pending_responses = 1,
     eh_pending_responses = [], eh_handled_packets = {||}, eh_closed = False\<rparr>"

definition demo_flow_context :: ForwardingContext where
  "demo_flow_context = demo_context\<lparr>fc_state := Fs_Forwarding, fc_relay_session_id := Some (SessionId [4])\<rparr>"

definition demo_binding :: ExitForwardingBinding where
  "demo_binding = \<lparr>eb_relay_session_id = SessionId [4], eb_entry_peer = PeerId [2], eb_exit_peer = PeerId [3]\<rparr>"

definition demo_ip_packet :: NetworkPacket where
  "demo_ip_packet = \<lparr>np_bytes = 0x45 # replicate 19 0, np_packet_type = Ipv4\<rparr>"

definition demo_exchange :: "nat \<Rightarrow> bytes \<Rightarrow> (ExitNetworkError + bytes) \<times> nat" where
  "demo_exchange n payload = (Ok payload, Suc n)"



end
