(* ===== verification/Config.thy ===== *)
theory Config
  imports Candidate_Routing Relay_Managers Tun_Bridge Os_Routing Exit
begin

text \<open>
  \<open>network/src/config.rs\<close> and \<open>error.rs\<close>: the configuration of a node from a map of environment
  variables. The fields are read in the order of the struct, so that the first bad value is the one
  reported, and checked against each other afterwards. Multiaddresses are libp2p's and a parameter;
  socket addresses, prefixes and numbers are read by the standard library's parsers (\<open>Rust_Text\<close>).
  The theorems: an accepted configuration satisfies every check, so all components that are built
  from it accept their parameters, and the exit's allow-list is exactly the list of destinations.
\<close>

subsection \<open>Errors and keys\<close>

datatype config_key =
    NODE_ID | LISTEN_ADDRESS | ADVERTISED_ADDRESS | NETWORK_ENVIRONMENT | LOG_LEVEL | SOLANA_RPC_URL
  | MAGICBLOCK_ENDPOINT | IDENTITY_PATH | BOOTSTRAP_PEERS | CONNECTION_TIMEOUT_SECS
  | HEARTBEAT_INTERVAL_SECS | HEARTBEAT_FRESHNESS_SECS | DEGRADED_LATENCY_MS | SOFTWARE_VERSION
  | PROTOCOL_VERSION | DISCOVERY_REQUIRED_TRANSPORT | DISCOVERY_REQUIRED_CAPABILITIES | ROUTE_MODE
  | TUN_ENABLED | TUN_INTERFACE_NAME | TUN_MTU | TUN_MAXIMUM_PACKET_SIZE | TUN_READ_BUFFER_LIMIT
  | TUN_WRITE_BUFFER_LIMIT | ALLOWED_EXIT_DESTINATIONS | NAT_ENABLED | DNS_ENABLED
  | EXTERNAL_TEST_DESTINATION | OS_ROUTING_ENABLED | OS_ROUTES | DNS_SERVER | DNS_TIMEOUT_MS
  | UDP_ENABLED | VPN_MODE | MAX_CONNECTED_PEERS | MAX_ACTIVE_SESSIONS | MAX_ACTIVE_FLOWS
  | MAX_QUEUED_PACKETS | MAX_EXIT_CONNECTIONS | SESSION_TIMEOUT_SECS | FLOW_TIMEOUT_SECS
  | HEALTH_LISTEN_ADDRESS | RELAY_ROLE

fun key_name :: "config_key \<Rightarrow> string" where
  "key_name NODE_ID = ''GHOST_NODE_ID''"
| "key_name LISTEN_ADDRESS = ''GHOST_LISTEN_ADDRESS''"
| "key_name ADVERTISED_ADDRESS = ''GHOST_ADVERTISED_ADDRESS''"
| "key_name NETWORK_ENVIRONMENT = ''GHOST_NETWORK_ENVIRONMENT''"
| "key_name LOG_LEVEL = ''GHOST_LOG_LEVEL''"
| "key_name SOLANA_RPC_URL = ''GHOST_SOLANA_RPC_URL''"
| "key_name MAGICBLOCK_ENDPOINT = ''GHOST_MAGICBLOCK_ENDPOINT''"
| "key_name IDENTITY_PATH = ''GHOST_IDENTITY_PATH''"
| "key_name BOOTSTRAP_PEERS = ''GHOST_BOOTSTRAP_PEERS''"
| "key_name CONNECTION_TIMEOUT_SECS = ''GHOST_CONNECTION_TIMEOUT_SECS''"
| "key_name HEARTBEAT_INTERVAL_SECS = ''GHOST_HEARTBEAT_INTERVAL_SECS''"
| "key_name HEARTBEAT_FRESHNESS_SECS = ''GHOST_HEARTBEAT_FRESHNESS_SECS''"
| "key_name DEGRADED_LATENCY_MS = ''GHOST_DEGRADED_LATENCY_MS''"
| "key_name SOFTWARE_VERSION = ''GHOST_SOFTWARE_VERSION''"
| "key_name PROTOCOL_VERSION = ''GHOST_PROTOCOL_VERSION''"
| "key_name DISCOVERY_REQUIRED_TRANSPORT = ''GHOST_DISCOVERY_REQUIRED_TRANSPORT''"
| "key_name DISCOVERY_REQUIRED_CAPABILITIES = ''GHOST_DISCOVERY_REQUIRED_CAPABILITIES''"
| "key_name ROUTE_MODE = ''GHOST_ROUTE_MODE''"
| "key_name TUN_ENABLED = ''GHOST_TUN_ENABLED''"
| "key_name TUN_INTERFACE_NAME = ''GHOST_TUN_INTERFACE_NAME''"
| "key_name TUN_MTU = ''GHOST_TUN_MTU''"
| "key_name TUN_MAXIMUM_PACKET_SIZE = ''GHOST_TUN_MAXIMUM_PACKET_SIZE''"
| "key_name TUN_READ_BUFFER_LIMIT = ''GHOST_TUN_READ_BUFFER_LIMIT''"
| "key_name TUN_WRITE_BUFFER_LIMIT = ''GHOST_TUN_WRITE_BUFFER_LIMIT''"
| "key_name ALLOWED_EXIT_DESTINATIONS = ''GHOST_ALLOWED_EXIT_DESTINATIONS''"
| "key_name NAT_ENABLED = ''GHOST_NAT_ENABLED''"
| "key_name DNS_ENABLED = ''GHOST_DNS_ENABLED''"
| "key_name EXTERNAL_TEST_DESTINATION = ''GHOST_EXTERNAL_TEST_DESTINATION''"
| "key_name OS_ROUTING_ENABLED = ''GHOST_OS_ROUTING_ENABLED''"
| "key_name OS_ROUTES = ''GHOST_OS_ROUTES''"
| "key_name DNS_SERVER = ''GHOST_DNS_SERVER''"
| "key_name DNS_TIMEOUT_MS = ''GHOST_DNS_TIMEOUT_MS''"
| "key_name UDP_ENABLED = ''GHOST_UDP_ENABLED''"
| "key_name VPN_MODE = ''GHOST_VPN_MODE''"
| "key_name MAX_CONNECTED_PEERS = ''GHOST_MAX_CONNECTED_PEERS''"
| "key_name MAX_ACTIVE_SESSIONS = ''GHOST_MAX_ACTIVE_SESSIONS''"
| "key_name MAX_ACTIVE_FLOWS = ''GHOST_MAX_ACTIVE_FLOWS''"
| "key_name MAX_QUEUED_PACKETS = ''GHOST_MAX_QUEUED_PACKETS''"
| "key_name MAX_EXIT_CONNECTIONS = ''GHOST_MAX_EXIT_CONNECTIONS''"
| "key_name SESSION_TIMEOUT_SECS = ''GHOST_SESSION_TIMEOUT_SECS''"
| "key_name FLOW_TIMEOUT_SECS = ''GHOST_FLOW_TIMEOUT_SECS''"
| "key_name HEALTH_LISTEN_ADDRESS = ''GHOST_HEALTH_LISTEN_ADDRESS''"
| "key_name RELAY_ROLE = ''GHOST_RELAY_ROLE''"

datatype ConfigError = Cfg_Missing config_key | Cfg_Invalid config_key string

definition config_error_to_string :: "ConfigError \<Rightarrow> string" where
  "config_error_to_string e = (case e of
     Cfg_Missing key \<Rightarrow> ''missing configuration value: '' @ key_name key
   | Cfg_Invalid key value \<Rightarrow> ''invalid value for '' @ key_name key @ '': '' @ value)"

text \<open>The operator \<open>?\<close>.\<close>

definition rbind :: "'e + 'a \<Rightarrow> ('a \<Rightarrow> 'e + 'b) \<Rightarrow> 'e + 'b" where
  "rbind r f = (case r of Inl e \<Rightarrow> Inl e | Inr x \<Rightarrow> f x)"

lemma rbind_simps [simp]: "rbind (Inl e) f = Inl e" "rbind (Inr x) f = f x"
  by (simp_all add: rbind_def)

lemma rbind_Ok: "rbind r f = Inr y \<longleftrightarrow> (\<exists>x. r = Inr x \<and> f x = Inr y)"
  by (cases r) auto

text \<open>Collecting an iterator of results stops at the first error.\<close>

fun collect :: "('a \<Rightarrow> 'e + 'b) \<Rightarrow> 'a list \<Rightarrow> 'e + 'b list" where
  "collect f [] = Ok []"
| "collect f (x # xs) = rbind (f x) (\<lambda>y. rbind (collect f xs) (\<lambda>ys. Ok (y # ys)))"

lemma collect_Ok: "collect f xs = Ok ys \<longleftrightarrow> list_all2 (\<lambda>x y. f x = Ok y) xs ys"
  by (induction xs arbitrary: ys) (auto simp: rbind_Ok list_all2_Cons1)

subsection \<open>Enumerations\<close>

definition route_mode_from_str :: "string \<Rightarrow> ConfigError + RouteMode" where
  "route_mode_from_str value =
     (let v = to_ascii_lowercase value in
      if v = ''one-hop'' \<or> v = ''one_hop'' then Ok Mode_OneHop
      else if v = ''two-hop'' \<or> v = ''two_hop'' then Ok Mode_TwoHop
      else Err (Cfg_Invalid ROUTE_MODE value))"

datatype NetworkEnvironment = Env_Development | Env_Staging | Env_Production

definition environment_from_str :: "string \<Rightarrow> ConfigError + NetworkEnvironment" where
  "environment_from_str value =
     (let v = to_ascii_lowercase value in
      if v = ''development'' \<or> v = ''dev'' then Ok Env_Development
      else if v = ''staging'' \<or> v = ''stage'' then Ok Env_Staging
      else if v = ''production'' \<or> v = ''prod'' then Ok Env_Production
      else Err (Cfg_Invalid NETWORK_ENVIRONMENT value))"

datatype LogLevel = Log_Error | Log_Warn | Log_Info | Log_Debug | Log_Trace

definition log_level_from_str :: "string \<Rightarrow> ConfigError + LogLevel" where
  "log_level_from_str value =
     (let v = to_ascii_lowercase value in
      if v = ''error'' then Ok Log_Error
      else if v = ''warn'' \<or> v = ''warning'' then Ok Log_Warn
      else if v = ''info'' then Ok Log_Info
      else if v = ''debug'' then Ok Log_Debug
      else if v = ''trace'' then Ok Log_Trace
      else Err (Cfg_Invalid LOG_LEVEL value))"

datatype RelayRole = Role_Entry | Role_Exit | Role_Both

definition relay_role_from_str :: "string \<Rightarrow> ConfigError + RelayRole" where
  "relay_role_from_str value =
     (let v = to_ascii_lowercase value in
      if v = ''entry'' then Ok Role_Entry
      else if v = ''exit'' then Ok Role_Exit
      else if v = ''both'' \<or> v = ''entry_exit'' \<or> v = ''entry-exit'' then Ok Role_Both
      else Err (Cfg_Invalid RELAY_ROLE value))"

subsection \<open>Limits and the TUN configuration\<close>

definition limits_validate :: "RelayResourceLimits \<Rightarrow> ConfigError + unit" where
  "limits_validate l =
     (if rl_maximum_connected_peers l = 0 then Err (Cfg_Invalid MAX_CONNECTED_PEERS ''must be non-zero'')
      else if rl_maximum_active_sessions l = 0 then Err (Cfg_Invalid MAX_ACTIVE_SESSIONS ''must be non-zero'')
      else if rl_maximum_active_flows l = 0 \<or> rl_maximum_queued_packets l = 0 \<or> rl_maximum_exit_connections l = 0
      then Err (Cfg_Invalid MAX_ACTIVE_FLOWS ''resource limits must be non-zero'')
      else if rl_session_timeout l = 0 \<or> rl_flow_timeout l = 0
      then Err (Cfg_Invalid SESSION_TIMEOUT_SECS ''timeouts must be non-zero'')
      else Ok ())"

definition tun_config_validate :: "TunConfig \<Rightarrow> ConfigError + unit" where
  "tun_config_validate t =
     (if str_trim (tu_interface_name t) = [] then Err (Cfg_Invalid TUN_INTERFACE_NAME (tu_interface_name t))
      else if tu_mtu t = 0 \<or> tu_mtu t > 65535 then Err (Cfg_Invalid TUN_MTU (show_nat (tu_mtu t)))
      else if tu_maximum_packet_size t = 0 \<or> tu_maximum_packet_size t > tu_mtu t
      then Err (Cfg_Invalid TUN_MAXIMUM_PACKET_SIZE (show_nat (tu_maximum_packet_size t)))
      else if tu_read_buffer_limit t = 0
      then Err (Cfg_Invalid TUN_READ_BUFFER_LIMIT (show_nat (tu_read_buffer_limit t)))
      else if tu_write_buffer_limit t = 0
      then Err (Cfg_Invalid TUN_WRITE_BUFFER_LIMIT (show_nat (tu_write_buffer_limit t)))
      else Ok ())"

subsection \<open>Reading single values\<close>

type_synonym env_map = "(string, string) fmap"

definition env_get :: "env_map \<Rightarrow> config_key \<Rightarrow> string option" where
  "env_get values key = fmlookup values (key_name key)"

definition cfg_optional :: "env_map \<Rightarrow> config_key \<Rightarrow> string option" where
  "cfg_optional values key =
     (case env_get values key of None \<Rightarrow> None | Some v \<Rightarrow> if str_trim v = [] then None else Some v)"

definition cfg_required :: "env_map \<Rightarrow> config_key \<Rightarrow> ConfigError + string" where
  "cfg_required values key =
     (case env_get values key of
        None \<Rightarrow> Err (Cfg_Missing key)
      | Some v \<Rightarrow> if str_trim v = [] then Err (Cfg_Missing key) else Ok v)"

definition unwrap_or :: "'a option \<Rightarrow> 'a \<Rightarrow> 'a" where
  "unwrap_or x d = (case x of None \<Rightarrow> d | Some v \<Rightarrow> v)"

text \<open>A missing value is read from its default text; a blank one is not replaced.\<close>

definition parse_or_default ::
  "(string \<Rightarrow> ConfigError + 'a) \<Rightarrow> env_map \<Rightarrow> config_key \<Rightarrow> string \<Rightarrow> ConfigError + 'a" where
  "parse_or_default from_str values key def_text = from_str (unwrap_or (env_get values key) def_text)"

definition parse_bool_or_default :: "env_map \<Rightarrow> config_key \<Rightarrow> bool \<Rightarrow> ConfigError + bool" where
  "parse_bool_or_default values key d =
     (case env_get values key of
        None \<Rightarrow> Ok d
      | Some value \<Rightarrow>
          let v = to_ascii_lowercase value in
          if v \<in> {''1'', ''true'', ''yes'', ''on''} then Ok True
          else if v \<in> {''0'', ''false'', ''no'', ''off''} then Ok False
          else Err (Cfg_Invalid key value))"

text \<open>Both \<open>u64\<close> and \<open>usize\<close> have 64 bits.\<close>

definition parse_u64_or_default :: "env_map \<Rightarrow> config_key \<Rightarrow> nat \<Rightarrow> ConfigError + nat" where
  "parse_u64_or_default values key d =
     (case env_get values key of
        None \<Rightarrow> Ok d
      | Some value \<Rightarrow> (case parse_uint 64 value of None \<Rightarrow> Err (Cfg_Invalid key value) | Some n \<Rightarrow> Ok n))"

definition parse_usize_or_default :: "env_map \<Rightarrow> config_key \<Rightarrow> nat \<Rightarrow> ConfigError + nat" where
  "parse_usize_or_default values key d =
     (case env_get values key of
        None \<Rightarrow> Ok d
      | Some value \<Rightarrow> (case parse_uint 64 value of None \<Rightarrow> Err (Cfg_Invalid key value) | Some n \<Rightarrow> Ok n))"

definition comma_list :: "string \<Rightarrow> string list" where
  "comma_list raw = filter (\<lambda>p. p \<noteq> []) (map str_trim (split_char (CHR '','') raw))"

definition parse_external_test_destination :: "env_map \<Rightarrow> ConfigError + string option" where
  "parse_external_test_destination values =
     (case cfg_optional values EXTERNAL_TEST_DESTINATION of
        None \<Rightarrow> Ok None
      | Some destination \<Rightarrow>
        (case socket_parse destination of
           None \<Rightarrow> Err (Cfg_Invalid EXTERNAL_TEST_DESTINATION destination)
         | Some address \<Rightarrow>
             if sock_port address = 0 \<or> ip_is_unspecified (sock_ip address)
             then Err (Cfg_Invalid EXTERNAL_TEST_DESTINATION destination)
             else Ok (Some (socket_to_string address))))"

definition parse_allowed_destination :: "string \<Rightarrow> ConfigError + string" where
  "parse_allowed_destination destination =
     (case socket_parse destination of
        None \<Rightarrow> Err (Cfg_Invalid ALLOWED_EXIT_DESTINATIONS destination)
      | Some address \<Rightarrow>
          if sock_port address = 0 then Err (Cfg_Invalid ALLOWED_EXIT_DESTINATIONS destination)
          else Ok (socket_to_string address))"

definition parse_allowed_destinations :: "env_map \<Rightarrow> ConfigError + string list" where
  "parse_allowed_destinations values =
     (case cfg_optional values ALLOWED_EXIT_DESTINATIONS of
        None \<Rightarrow> Ok []
      | Some raw \<Rightarrow> collect parse_allowed_destination (comma_list raw))"

definition parse_os_routes :: "env_map \<Rightarrow> ConfigError + IpPrefix list" where
  "parse_os_routes values =
     (case cfg_optional values OS_ROUTES of
        None \<Rightarrow> Ok []
      | Some raw \<Rightarrow>
          collect (\<lambda>route. map_err (\<lambda>_. Cfg_Invalid OS_ROUTES route) (ip_prefix_from_str route)) (comma_list raw))"

definition parse_dns_server :: "env_map \<Rightarrow> ConfigError + string option" where
  "parse_dns_server values =
     (case cfg_optional values DNS_SERVER of
        None \<Rightarrow> Ok None
      | Some server \<Rightarrow>
        (case socket_parse server of
           None \<Rightarrow> Err (Cfg_Invalid DNS_SERVER server)
         | Some address \<Rightarrow>
             if sock_port address = 0 \<or> ip_is_unspecified (sock_ip address)
             then Err (Cfg_Invalid DNS_SERVER server)
             else Ok (Some (socket_to_string address))))"

definition parse_health_listen_address :: "env_map \<Rightarrow> ConfigError + string option" where
  "parse_health_listen_address values =
     (case cfg_optional values HEALTH_LISTEN_ADDRESS of
        None \<Rightarrow> Ok None
      | Some address \<Rightarrow>
        (case socket_parse address of
           None \<Rightarrow> Err (Cfg_Invalid HEALTH_LISTEN_ADDRESS address)
         | Some parsed \<Rightarrow>
             if sock_port parsed = 0
             then Err (Cfg_Invalid HEALTH_LISTEN_ADDRESS ''health endpoint must use a non-zero port'')
             else Ok (Some (socket_to_string parsed))))"

text \<open>Whether the address is a loopback address.\<close>

definition validate_quic_multiaddr :: "AddrLib \<Rightarrow> string \<Rightarrow> config_key \<Rightarrow> ConfigError + bool" where
  "validate_quic_multiaddr A address key =
     (case al_parse A address of
        None \<Rightarrow> Err (Cfg_Invalid key address)
      | Some multiaddr \<Rightarrow>
          let rendered = al_to_string A multiaddr in
          if \<not> str_contains rendered ''/udp/'' \<or> \<not> str_contains rendered ''/quic-v1''
          then Err (Cfg_Invalid key ''listen address must be a QUIC multiaddr'')
          else Ok (str_contains rendered ''/ip4/127.0.0.1/'' \<or> str_contains rendered ''/ip6/::1/''))"

fun validate_bootstrap_loop :: "AddrLib \<Rightarrow> string fset \<Rightarrow> string list \<Rightarrow> ConfigError + unit" where
  "validate_bootstrap_loop A unique [] = Ok ()"
| "validate_bootstrap_loop A unique (peer # peers) =
     (case al_parse A peer of
        None \<Rightarrow> Err (Cfg_Invalid BOOTSTRAP_PEERS peer)
      | Some multiaddr \<Rightarrow>
          if \<not> str_contains (al_to_string A multiaddr) ''/p2p/'' \<or> peer |\<in>| unique
          then Err (Cfg_Invalid BOOTSTRAP_PEERS peer)
          else validate_bootstrap_loop A (finsert peer unique) peers)"

definition validate_production_bootstrap_peers :: "AddrLib \<Rightarrow> string list \<Rightarrow> ConfigError + unit" where
  "validate_production_bootstrap_peers A peers = validate_bootstrap_loop A {||} peers"

subsection \<open>The configuration of a node\<close>

record NodeConfig =
  nc_node_id :: string
  nc_listen_address :: string
  nc_advertised_address :: "string option"
  nc_network_environment :: NetworkEnvironment
  nc_log_level :: LogLevel
  nc_solana_rpc_url :: string
  nc_magicblock_endpoint :: "string option"
  nc_identity_path :: string
  nc_bootstrap_peers :: "string list"
  nc_connection_timeout :: duration
  nc_heartbeat_interval :: duration
  nc_heartbeat_freshness :: duration
  nc_degraded_latency :: duration
  nc_software_version :: string
  nc_protocol_version :: string
  nc_discovery_required_transport :: string
  nc_discovery_required_capabilities :: "string list"
  nc_route_mode :: RouteMode
  nc_tun :: TunConfig
  nc_allowed_exit_destinations :: "string list"
  nc_nat_enabled :: bool
  nc_dns_enabled :: bool
  nc_external_test_destination :: "string option"
  nc_os_routing_enabled :: bool
  nc_os_routes :: "IpPrefix list"
  nc_dns_server :: "string option"
  nc_dns_timeout :: duration
  nc_udp_enabled :: bool
  nc_vpn_mode :: bool
  nc_resource_limits :: RelayResourceLimits
  nc_health_listen_address :: "string option"
  nc_relay_role :: RelayRole

definition CARGO_PKG_VERSION :: string where "CARGO_PKG_VERSION = ''0.1.0''"

text \<open>The struct literal: fields that can fail are read in the order of the source.\<close>

definition parse_tun :: "env_map \<Rightarrow> ConfigError + TunConfig" where
  "parse_tun values =
     rbind (parse_bool_or_default values TUN_ENABLED False) (\<lambda>enabled.
     rbind (parse_usize_or_default values TUN_MTU 1500) (\<lambda>mtu.
     rbind (parse_usize_or_default values TUN_MAXIMUM_PACKET_SIZE 1500) (\<lambda>size.
     rbind (parse_usize_or_default values TUN_READ_BUFFER_LIMIT 16) (\<lambda>rd.
     rbind (parse_usize_or_default values TUN_WRITE_BUFFER_LIMIT 16) (\<lambda>wr.
     Ok \<lparr>tu_enabled = enabled, tu_interface_name = unwrap_or (cfg_optional values TUN_INTERFACE_NAME) ''ghost0'',
         tu_mtu = mtu, tu_maximum_packet_size = size, tu_read_buffer_limit = rd, tu_write_buffer_limit = wr\<rparr>)))))"

definition parse_limits :: "env_map \<Rightarrow> ConfigError + RelayResourceLimits" where
  "parse_limits values =
     rbind (parse_usize_or_default values MAX_CONNECTED_PEERS 128) (\<lambda>peers.
     rbind (parse_usize_or_default values MAX_ACTIVE_SESSIONS 256) (\<lambda>sessions.
     rbind (parse_usize_or_default values MAX_ACTIVE_FLOWS 256) (\<lambda>flows.
     rbind (parse_usize_or_default values MAX_QUEUED_PACKETS 1024) (\<lambda>queued.
     rbind (parse_usize_or_default values MAX_EXIT_CONNECTIONS 64) (\<lambda>exits.
     rbind (parse_u64_or_default values SESSION_TIMEOUT_SECS 300) (\<lambda>session_timeout.
     rbind (parse_u64_or_default values FLOW_TIMEOUT_SECS 60) (\<lambda>flow_timeout.
     Ok \<lparr>rl_maximum_connected_peers = peers, rl_maximum_active_sessions = sessions,
         rl_maximum_active_flows = flows, rl_maximum_queued_packets = queued,
         rl_maximum_exit_connections = exits, rl_session_timeout = from_secs session_timeout,
         rl_flow_timeout = from_secs flow_timeout\<rparr>)))))))"

definition config_read :: "env_map \<Rightarrow> ConfigError + NodeConfig" where
  "config_read values =
     rbind (cfg_required values LISTEN_ADDRESS) (\<lambda>listen_address.
     rbind (parse_or_default environment_from_str values NETWORK_ENVIRONMENT ''development'') (\<lambda>environment.
     rbind (parse_or_default log_level_from_str values LOG_LEVEL ''info'') (\<lambda>log_level.
     rbind (parse_u64_or_default values CONNECTION_TIMEOUT_SECS 10) (\<lambda>connection_timeout.
     rbind (parse_u64_or_default values HEARTBEAT_INTERVAL_SECS 10) (\<lambda>heartbeat_interval.
     rbind (parse_u64_or_default values HEARTBEAT_FRESHNESS_SECS 30) (\<lambda>heartbeat_freshness.
     rbind (parse_u64_or_default values DEGRADED_LATENCY_MS 500) (\<lambda>degraded_latency.
     rbind (parse_or_default route_mode_from_str values ROUTE_MODE ''one-hop'') (\<lambda>route_mode.
     rbind (parse_tun values) (\<lambda>tun.
     rbind (parse_allowed_destinations values) (\<lambda>allowed.
     rbind (parse_bool_or_default values NAT_ENABLED False) (\<lambda>nat_enabled.
     rbind (parse_bool_or_default values DNS_ENABLED False) (\<lambda>dns_enabled.
     rbind (parse_external_test_destination values) (\<lambda>external_test.
     rbind (parse_bool_or_default values OS_ROUTING_ENABLED False) (\<lambda>os_routing.
     rbind (parse_os_routes values) (\<lambda>os_routes.
     rbind (parse_dns_server values) (\<lambda>dns_server.
     rbind (parse_u64_or_default values DNS_TIMEOUT_MS 1000) (\<lambda>dns_timeout.
     rbind (parse_bool_or_default values UDP_ENABLED False) (\<lambda>udp_enabled.
     rbind (parse_bool_or_default values VPN_MODE False) (\<lambda>vpn_mode.
     rbind (parse_limits values) (\<lambda>limits.
     rbind (parse_health_listen_address values) (\<lambda>health.
     rbind (parse_or_default relay_role_from_str values RELAY_ROLE ''both'') (\<lambda>role.
     Ok \<lparr>nc_node_id = unwrap_or (cfg_optional values NODE_ID) ''node'',
         nc_listen_address = listen_address,
         nc_advertised_address = cfg_optional values ADVERTISED_ADDRESS,
         nc_network_environment = environment,
         nc_log_level = log_level,
         nc_solana_rpc_url = unwrap_or (cfg_optional values SOLANA_RPC_URL) [],
         nc_magicblock_endpoint = cfg_optional values MAGICBLOCK_ENDPOINT,
         nc_identity_path = unwrap_or (cfg_optional values IDENTITY_PATH) ''./ghost-layer.key'',
         nc_bootstrap_peers = unwrap_or (map_option comma_list (cfg_optional values BOOTSTRAP_PEERS)) [],
         nc_connection_timeout = from_secs connection_timeout,
         nc_heartbeat_interval = from_secs heartbeat_interval,
         nc_heartbeat_freshness = from_secs heartbeat_freshness,
         nc_degraded_latency = from_millis degraded_latency,
         nc_software_version = unwrap_or (cfg_optional values SOFTWARE_VERSION) CARGO_PKG_VERSION,
         nc_protocol_version = unwrap_or (cfg_optional values PROTOCOL_VERSION) ''1.0'',
         nc_discovery_required_transport = unwrap_or (cfg_optional values DISCOVERY_REQUIRED_TRANSPORT) ''quic'',
         nc_discovery_required_capabilities =
           unwrap_or (map_option comma_list (cfg_optional values DISCOVERY_REQUIRED_CAPABILITIES)) [''relay''],
         nc_route_mode = route_mode,
         nc_tun = tun,
         nc_allowed_exit_destinations = allowed,
         nc_nat_enabled = nat_enabled,
         nc_dns_enabled = dns_enabled,
         nc_external_test_destination = external_test,
         nc_os_routing_enabled = os_routing,
         nc_os_routes = os_routes,
         nc_dns_server = dns_server,
         nc_dns_timeout = from_millis dns_timeout,
         nc_udp_enabled = udp_enabled,
         nc_vpn_mode = vpn_mode,
         nc_resource_limits = limits,
         nc_health_listen_address = health,
         nc_relay_role = role\<rparr>))))))))))))))))))))))"

text \<open>The checks that relate the fields to each other.\<close>

definition production_check :: "AddrLib \<Rightarrow> NodeConfig \<Rightarrow> ConfigError + unit" where
  "production_check A c =
     rbind (validate_quic_multiaddr A (nc_listen_address c) LISTEN_ADDRESS) (\<lambda>loopback.
     if loopback then Err (Cfg_Invalid LISTEN_ADDRESS ''production relays must not bind to loopback'')
     else case nc_advertised_address c of
         None \<Rightarrow> Err (Cfg_Missing ADVERTISED_ADDRESS)
       | Some address \<Rightarrow>
         rbind (validate_quic_multiaddr A address ADVERTISED_ADDRESS) (\<lambda>loopback.
         if loopback then Err (Cfg_Invalid ADVERTISED_ADDRESS ''production relays must not advertise loopback'')
         else if (nc_external_test_destination c \<noteq> None \<or> nc_udp_enabled c \<or> nc_dns_enabled c)
             \<and> nc_allowed_exit_destinations c = []
         then Err (Cfg_Missing ALLOWED_EXIT_DESTINATIONS)
         else validate_production_bootstrap_peers A (nc_bootstrap_peers c)))"

definition config_check :: "AddrLib \<Rightarrow> NodeConfig \<Rightarrow> ConfigError + unit" where
  "config_check A c =
     rbind (tun_config_validate (nc_tun c)) (\<lambda>_.
     rbind (limits_validate (nc_resource_limits c)) (\<lambda>_.
     if (case nc_external_test_destination c of
           None \<Rightarrow> False | Some d \<Rightarrow> d \<notin> set (nc_allowed_exit_destinations c))
     then Err (Cfg_Invalid EXTERNAL_TEST_DESTINATION (the (nc_external_test_destination c)))
     else if nc_os_routing_enabled c \<and> nc_os_routes c = []
     then Err (Cfg_Invalid OS_ROUTES ''at least one explicit route is required when OS routing is enabled'')
     else if nc_dns_enabled c \<and> nc_dns_server c = None
     then Err (Cfg_Invalid DNS_SERVER ''an explicit IP:PORT DNS server is required when DNS is enabled'')
     else if nc_dns_enabled c \<and> \<not> (case nc_dns_server c of
           None \<Rightarrow> False | Some server \<Rightarrow> server \<in> set (nc_allowed_exit_destinations c))
     then Err (Cfg_Invalid DNS_SERVER ''DNS server must be an exact allowed exit destination'')
     else if nc_dns_timeout c = 0 then Err (Cfg_Invalid DNS_TIMEOUT_MS ''timeout must be non-zero'')
     else if nc_udp_enabled c \<and> \<not> nc_nat_enabled c
     then Err (Cfg_Invalid UDP_ENABLED ''UDP runtime requires GHOST_NAT_ENABLED=true'')
     else rbind (if nc_network_environment c = Env_Production then production_check A c else Ok ()) (\<lambda>_.
       if nc_vpn_mode c \<and> (\<not> tu_enabled (nc_tun c) \<or> \<not> nc_os_routing_enabled c \<or> nc_os_routes c = [])
       then Err (Cfg_Invalid VPN_MODE ''VPN mode requires enabled TUN and explicit OS routes'')
       else Ok ())))"

definition from_map :: "AddrLib \<Rightarrow> env_map \<Rightarrow> ConfigError + NodeConfig" where
  "from_map A values = rbind (config_read values) (\<lambda>c. rbind (config_check A c) (\<lambda>_. Ok c))"

subsection \<open>What an accepted configuration satisfies\<close>

text \<open>The checks, as one predicate on configurations.\<close>

definition public_quic :: "AddrLib \<Rightarrow> string \<Rightarrow> bool" where
  "public_quic A address =
     (case al_parse A address of
        None \<Rightarrow> False
      | Some m \<Rightarrow> str_contains (al_to_string A m) ''/udp/'' \<and> str_contains (al_to_string A m) ''/quic-v1'' \<and>
          \<not> str_contains (al_to_string A m) ''/ip4/127.0.0.1/'' \<and> \<not> str_contains (al_to_string A m) ''/ip6/::1/'')"

definition names_peer :: "AddrLib \<Rightarrow> string \<Rightarrow> bool" where
  "names_peer A address = (case al_parse A address of
     None \<Rightarrow> False | Some m \<Rightarrow> str_contains (al_to_string A m) ''/p2p/'')"

definition tun_valid :: "TunConfig \<Rightarrow> bool" where
  "tun_valid t \<longleftrightarrow> str_trim (tu_interface_name t) \<noteq> [] \<and> 0 < tu_mtu t \<and> tu_mtu t \<le> 65535 \<and>
     0 < tu_maximum_packet_size t \<and> tu_maximum_packet_size t \<le> tu_mtu t \<and>
     0 < tu_read_buffer_limit t \<and> 0 < tu_write_buffer_limit t"

definition limits_valid :: "RelayResourceLimits \<Rightarrow> bool" where
  "limits_valid l \<longleftrightarrow> 0 < rl_maximum_connected_peers l \<and> 0 < rl_maximum_active_sessions l \<and>
     0 < rl_maximum_active_flows l \<and> 0 < rl_maximum_queued_packets l \<and> 0 < rl_maximum_exit_connections l \<and>
     0 < rl_session_timeout l \<and> 0 < rl_flow_timeout l"

definition exit_valid :: "NodeConfig \<Rightarrow> bool" where
  "exit_valid c \<longleftrightarrow>
     set_option (nc_external_test_destination c) \<subseteq> set (nc_allowed_exit_destinations c) \<and>
     (nc_dns_enabled c \<longrightarrow> nc_dns_server c \<in> Some ` set (nc_allowed_exit_destinations c)) \<and>
     0 < nc_dns_timeout c \<and> (nc_udp_enabled c \<longrightarrow> nc_nat_enabled c)"

definition routes_valid :: "NodeConfig \<Rightarrow> bool" where
  "routes_valid c \<longleftrightarrow>
     (nc_os_routing_enabled c \<longrightarrow> nc_os_routes c \<noteq> []) \<and>
     (nc_vpn_mode c \<longrightarrow> tu_enabled (nc_tun c) \<and> nc_os_routing_enabled c)"

definition production_valid :: "AddrLib \<Rightarrow> NodeConfig \<Rightarrow> bool" where
  "production_valid A c \<longleftrightarrow>
     public_quic A (nc_listen_address c) \<and>
     (\<exists>address. nc_advertised_address c = Some address \<and> public_quic A address) \<and>
     (nc_udp_enabled c \<longrightarrow> nc_allowed_exit_destinations c \<noteq> []) \<and>
     list_all (names_peer A) (nc_bootstrap_peers c) \<and> distinct (nc_bootstrap_peers c)"

lemma tun_config_validate_Ok: "tun_config_validate t = Ok () \<longleftrightarrow> tun_valid t"
  by (auto simp: tun_config_validate_def tun_valid_def)

lemma limits_validate_Ok: "limits_validate l = Ok () \<longleftrightarrow> limits_valid l"
  by (auto simp: limits_validate_def limits_valid_def)

lemma validate_quic_multiaddr_Ok: "validate_quic_multiaddr A address key = Ok False \<longleftrightarrow> public_quic A address"
  by (auto simp: validate_quic_multiaddr_def public_quic_def Let_def split: option.splits)

lemma validate_bootstrap_loop_Ok:
  "validate_bootstrap_loop A unique peers = Ok () \<longleftrightarrow>
     list_all (names_peer A) peers \<and> distinct peers \<and> (\<forall>p\<in>set peers. p |\<notin>| unique)"
  by (induction A unique peers rule: validate_bootstrap_loop.induct) (auto simp: names_peer_def split: option.splits)

lemma production_check_Ok:
  assumes "exit_valid c"
  shows "production_check A c = Ok () \<longleftrightarrow> production_valid A c"
proof -
  have bool: "(\<exists>b. r = Ok b \<and> (if b then Err e else k) = Ok ()) \<longleftrightarrow> r = Ok False \<and> k = Ok ()"
    for r :: "ConfigError + bool" and k and e :: ConfigError
    by (cases r) auto
  show ?thesis
    using assms unfolding production_check_def production_valid_def rbind_Ok bool validate_quic_multiaddr_Ok
    by (cases "nc_advertised_address c")
       (auto simp: rbind_Ok bool validate_quic_multiaddr_Ok validate_production_bootstrap_peers_def
          validate_bootstrap_loop_Ok exit_valid_def)
qed

text \<open>A check that fails with an error, followed by the rest of the function.\<close>

lemma guard_Ok: "(if b then Err e else k) = Ok y \<longleftrightarrow> \<not> b \<and> k = Ok y"
  by simp

lemma rbind_unit_Ok: "rbind r (\<lambda>_. k) = Ok y \<longleftrightarrow> r = Ok () \<and> k = Ok y" for r :: "'e + unit"
  by (cases r) auto

lemma config_check_Ok:
  "config_check A c = Ok () \<longleftrightarrow>
     tun_valid (nc_tun c) \<and> limits_valid (nc_resource_limits c) \<and> exit_valid c \<and> routes_valid c \<and>
     (nc_network_environment c = Env_Production \<longrightarrow> production_valid A c)"
proof -
  have external: "(case nc_external_test_destination c of
        None \<Rightarrow> False | Some d \<Rightarrow> d \<notin> set (nc_allowed_exit_destinations c)) \<longleftrightarrow>
      \<not> set_option (nc_external_test_destination c) \<subseteq> set (nc_allowed_exit_destinations c)"
    by (simp split: option.splits)
  have dns: "(case nc_dns_server c of
        None \<Rightarrow> False | Some server \<Rightarrow> server \<in> set (nc_allowed_exit_destinations c)) \<longleftrightarrow>
      nc_dns_server c \<in> Some ` set (nc_allowed_exit_destinations c)"
    by (auto split: option.splits)
  have production: "(if p then production_check A c else Ok ()) = Ok () \<longleftrightarrow> (p \<longrightarrow> production_check A c = Ok ())" for p
    by simp
  have served: "nc_dns_server c \<in> Some ` set (nc_allowed_exit_destinations c) \<Longrightarrow> nc_dns_server c \<noteq> None"
    by auto
  show ?thesis
    unfolding config_check_def rbind_unit_Ok guard_Ok tun_config_validate_Ok limits_validate_Ok external dns production
    using production_check_Ok [of c A] served
    unfolding routes_valid_def exit_valid_def neq0_conv by blast
qed

text \<open>A printed address that was read before reads as the same address again.\<close>

lemma socket_parse_canonical:
  assumes "socket_parse s = Some a"
  shows "socket_parse (socket_to_string a) = Some a"
proof -
  have "flow = 0" if "a = SocketV6 v p flow scope" for v p flow scope
    using assms that
    by (auto simp: socket_parse_def all_read_def read_socket_v4_def read_socket_v6_def
        split: option.splits prod.splits list.splits if_splits)
  then show ?thesis
    by (auto simp: socket_roundtrip split: SocketAddr.splits)
qed

definition canonical_destination :: "string \<Rightarrow> bool" where
  "canonical_destination d = (case socket_parse d of
     None \<Rightarrow> False | Some a \<Rightarrow> sock_port a \<noteq> 0 \<and> d = socket_to_string a)"

lemma parse_allowed_destination_Ok: "parse_allowed_destination s = Ok d \<Longrightarrow> canonical_destination d"
  by (auto simp: parse_allowed_destination_def canonical_destination_def socket_parse_canonical
      split: option.splits if_splits)

lemma parse_allowed_destinations_Ok:
  assumes "parse_allowed_destinations values = Ok ds"
  shows "list_all canonical_destination ds"
  using assms
  by (fastforce simp: parse_allowed_destinations_def collect_Ok list_all_iff list_all2_conv_all_nth in_set_conv_nth
      dest: parse_allowed_destination_Ok split: option.splits)

lemma config_read_Ok:
  assumes "config_read values = Ok c"
  shows "cfg_required values LISTEN_ADDRESS = Ok (nc_listen_address c)"
    and "parse_allowed_destinations values = Ok (nc_allowed_exit_destinations c)"
    and "parse_external_test_destination values = Ok (nc_external_test_destination c)"
    and "parse_dns_server values = Ok (nc_dns_server c)"
    and "parse_os_routes values = Ok (nc_os_routes c)"
    and "parse_health_listen_address values = Ok (nc_health_listen_address c)"
  using assms unfolding config_read_def rbind_Ok by (clarsimp)+

lemma parse_os_routes_Ok:
  assumes "parse_os_routes values = Ok rs"
  shows "list_all (\<lambda>r. ip_prefix_length r \<noteq> 0) rs"
proof -
  have "ip_prefix_length r \<noteq> 0" if "ip_prefix_from_str s = Ok r" for s r
    using that by (auto simp: ip_prefix_from_str_def ip_prefix_new_def Let_def split: option.splits if_splits)
  then show ?thesis
    using assms
    by (fastforce simp: parse_os_routes_def collect_Ok list_all_iff list_all2_conv_all_nth in_set_conv_nth
        split: option.splits)
qed

text \<open>
  C34: the configuration that is read is accepted exactly when its parts fit together. The TUN device
  and every resource limit are usable; the test destination and, with DNS enabled, the DNS server are
  among the allowed destinations, UDP needs address translation and VPN mode a TUN device and OS
  routing with at least one route; a production node listens on and advertises QUIC addresses that
  are not loopback addresses, and its bootstrap peers are distinct and named. In an accepted
  configuration every allowed destination is an address with a port in canonical text and no route
  is a default route.
\<close>

theorem config_accepted_iff:
  "from_map A values = Ok c \<longleftrightarrow>
     config_read values = Ok c \<and>
     list_all canonical_destination (nc_allowed_exit_destinations c) \<and>
     list_all (\<lambda>r. ip_prefix_length r \<noteq> 0) (nc_os_routes c) \<and>
     tun_valid (nc_tun c) \<and> limits_valid (nc_resource_limits c) \<and> exit_valid c \<and> routes_valid c \<and>
     (nc_network_environment c = Env_Production \<longrightarrow> production_valid A c)"
  using config_check_Ok [of A c] config_read_Ok(2,5) [of "values" c] parse_allowed_destinations_Ok parse_os_routes_Ok
  by (auto simp: from_map_def rbind_Ok)

definition demo_env :: env_map where
  "demo_env = fmap_of_list
     [(''GHOST_LISTEN_ADDRESS'', ''/ip4/1.2.3.4/udp/9000/quic-v1''),
      (''GHOST_ADVERTISED_ADDRESS'', ''/ip4/1.2.3.4/udp/9000/quic-v1''),
      (''GHOST_NETWORK_ENVIRONMENT'', ''Production''),
      (''GHOST_ALLOWED_EXIT_DESTINATIONS'', '' 1.1.1.1:53,''),
      (''GHOST_DNS_ENABLED'', ''yes''), (''GHOST_DNS_SERVER'', ''1.1.1.1:53'')]"

lemmas text_eval = comma_list_def str_trim_def trim_start.simps trim_end_rev.simps ws_prefix_def ws_suffix_def
  ws_seq_def to_ascii_lowercase_def ascii_lower_def char_of_eq_iff

lemma demo_address_text: "socket_to_string (SocketV4 0x01010101 53) = ''1.1.1.1:53''"
proof -
  have four: "(4 :: nat) = Suc (Suc (Suc (Suc 0)))"
    by simp
  have "v4_octets 0x01010101 = [1, 1, 1, 1]"
    unfolding v4_octets_def four be_bytes.simps by simp
  then show ?thesis
    by (simp add: v4_to_string_def show_nat_def show_radix_small show_radix_large digit_char_def char_of_eq_iff)
qed

lemma demo_address: "socket_parse ''1.1.1.1:53'' = Some (SocketV4 0x01010101 53)"
  using socket_roundtrip [of "SocketV4 0x01010101 53"] by (simp add: demo_address_text del: socket_to_string.simps)

lemma demo_env_get: "env_get demo_env key =
   (case key of
      LISTEN_ADDRESS \<Rightarrow> Some ''/ip4/1.2.3.4/udp/9000/quic-v1''
    | ADVERTISED_ADDRESS \<Rightarrow> Some ''/ip4/1.2.3.4/udp/9000/quic-v1''
    | NETWORK_ENVIRONMENT \<Rightarrow> Some ''Production''
    | ALLOWED_EXIT_DESTINATIONS \<Rightarrow> Some '' 1.1.1.1:53,''
    | DNS_ENABLED \<Rightarrow> Some ''yes''
    | DNS_SERVER \<Rightarrow> Some ''1.1.1.1:53''
    | _ \<Rightarrow> None)"
  by (cases key) (simp_all add: env_get_def demo_env_def)

lemma demo_comma: "comma_list '' 1.1.1.1:53,'' = [''1.1.1.1:53'']"
  by (simp add: text_eval)

lemma demo_trim: "str_trim ''1.1.1.1:53'' \<noteq> []" "str_trim '' 1.1.1.1:53,'' \<noteq> []"
    "str_trim ''/ip4/1.2.3.4/udp/9000/quic-v1'' \<noteq> []" "str_trim ''ghost0'' \<noteq> []"
  by (simp_all add: text_eval)

lemma demo_parse:
  "parse_or_default environment_from_str demo_env NETWORK_ENVIRONMENT ''development'' = Ok Env_Production"
  "parse_or_default log_level_from_str demo_env LOG_LEVEL ''info'' = Ok Log_Info"
  "parse_or_default route_mode_from_str demo_env ROUTE_MODE ''one-hop'' = Ok Mode_OneHop"
  "parse_or_default relay_role_from_str demo_env RELAY_ROLE ''both'' = Ok Role_Both"
  "parse_bool_or_default demo_env DNS_ENABLED False = Ok True"
  by (simp_all add: parse_or_default_def parse_bool_or_default_def demo_env_get unwrap_or_def environment_from_str_def
      log_level_from_str_def route_mode_from_str_def relay_role_from_str_def text_eval)

lemma demo_optional: "cfg_optional demo_env key = env_get demo_env key"
  by (cases key) (simp_all add: cfg_optional_def demo_env_get demo_trim text_eval)

lemma demo_destination: "parse_allowed_destination ''1.1.1.1:53'' = Ok ''1.1.1.1:53''"
  by (simp add: parse_allowed_destination_def demo_address demo_address_text del: socket_to_string.simps)

lemma demo_destinations: "parse_allowed_destinations demo_env = Ok [''1.1.1.1:53'']"
  by (simp add: parse_allowed_destinations_def demo_optional demo_env_get demo_comma demo_destination)

lemma demo_dns: "parse_dns_server demo_env = Ok (Some ''1.1.1.1:53'')"
  by (simp add: parse_dns_server_def demo_optional demo_env_get demo_address demo_address_text
      v4_is_unspecified_def del: socket_to_string.simps)

lemma demo_defaults: "parse_u64_or_default demo_env key d = Ok d" "parse_usize_or_default demo_env key d = Ok d"
    "parse_bool_or_default demo_env key b = Ok b"
  if "key \<notin> {LISTEN_ADDRESS, ADVERTISED_ADDRESS, NETWORK_ENVIRONMENT, ALLOWED_EXIT_DESTINATIONS, DNS_ENABLED, DNS_SERVER}"
  using that by (simp_all add: parse_u64_or_default_def parse_usize_or_default_def parse_bool_or_default_def
      demo_env_get split: config_key.splits)

definition demo_config :: NodeConfig where
  "demo_config =
     \<lparr>nc_node_id = ''node'', nc_listen_address = ''/ip4/1.2.3.4/udp/9000/quic-v1'',
      nc_advertised_address = Some ''/ip4/1.2.3.4/udp/9000/quic-v1'',
      nc_network_environment = Env_Production, nc_log_level = Log_Info, nc_solana_rpc_url = [],
      nc_magicblock_endpoint = None, nc_identity_path = ''./ghost-layer.key'', nc_bootstrap_peers = [],
      nc_connection_timeout = from_secs 10, nc_heartbeat_interval = from_secs 10,
      nc_heartbeat_freshness = from_secs 30, nc_degraded_latency = from_millis 500,
      nc_software_version = CARGO_PKG_VERSION, nc_protocol_version = ''1.0'',
      nc_discovery_required_transport = ''quic'', nc_discovery_required_capabilities = [''relay''],
      nc_route_mode = Mode_OneHop,
      nc_tun = \<lparr>tu_enabled = False, tu_interface_name = ''ghost0'', tu_mtu = 1500, tu_maximum_packet_size = 1500,
        tu_read_buffer_limit = 16, tu_write_buffer_limit = 16\<rparr>,
      nc_allowed_exit_destinations = [''1.1.1.1:53''], nc_nat_enabled = False, nc_dns_enabled = True,
      nc_external_test_destination = None, nc_os_routing_enabled = False, nc_os_routes = [],
      nc_dns_server = Some ''1.1.1.1:53'', nc_dns_timeout = from_millis 1000,
      nc_udp_enabled = False, nc_vpn_mode = False,
      nc_resource_limits = \<lparr>rl_maximum_connected_peers = 128, rl_maximum_active_sessions = 256,
        rl_maximum_active_flows = 256, rl_maximum_queued_packets = 1024, rl_maximum_exit_connections = 64,
        rl_session_timeout = from_secs 300, rl_flow_timeout = from_secs 60\<rparr>,
      nc_health_listen_address = None, nc_relay_role = Role_Both\<rparr>"

lemma demo_config_read: "config_read demo_env = Ok demo_config"
  by (simp add: config_read_def cfg_required_def demo_env_get demo_trim demo_parse demo_defaults demo_destinations
      demo_dns demo_optional parse_tun_def parse_limits_def unwrap_or_def
      parse_external_test_destination_def parse_os_routes_def parse_health_listen_address_def demo_config_def)

lemma demo_config_valid: "tun_valid (nc_tun demo_config)" "limits_valid (nc_resource_limits demo_config)"
    "exit_valid demo_config" "routes_valid demo_config" "production_valid demo_addr_lib demo_config"
    "list_all canonical_destination (nc_allowed_exit_destinations demo_config)"
  by (simp_all add: demo_config_def tun_valid_def demo_trim limits_valid_def exit_valid_def routes_valid_def
      from_millis_def from_secs_def production_valid_def public_quic_def demo_addr_lib_def str_contains_def upt_rec
      canonical_destination_def demo_address demo_address_text del: socket_to_string.simps)

theorem config_accepted_iff_witness: "from_map demo_addr_lib demo_env = Ok demo_config"
  unfolding config_accepted_iff by (simp add: demo_config_read demo_config_valid, simp add: demo_config_def)

end
