(* ===== verification/Effects.thy ===== *)
theory Effects
  imports Ghost_Prelude
begin

text \<open>
  Functions of the daemons that change many local variables and may return early with an error: a
  computation takes the state and returns a result together with the new state, which is kept when
  the result is an error. \<open>zoom\<close> runs an operation of a component on one field of the state.
  \<open>keeps I m\<close> says that a computation keeps an invariant on every path, and \<open>avoids I X m\<close> that from
  a state with \<open>I\<close> it never fails with an error in \<open>X\<close>; the rules for both are in \<open>eff_intros\<close>.
\<close>

type_synonym ('s, 'e, 'a) eff = "'s \<Rightarrow> ('e + 'a) \<times> 's"

definition ret :: "'a \<Rightarrow> ('s, 'e, 'a) eff" where
  "ret x s = (Ok x, s)"

definition fail :: "'e \<Rightarrow> ('s, 'e, 'a) eff" where
  "fail e s = (Err e, s)"

definition mbind :: "('s, 'e, 'a) eff \<Rightarrow> ('a \<Rightarrow> ('s, 'e, 'b) eff) \<Rightarrow> ('s, 'e, 'b) eff" where
  "mbind m f s = (case m s of (Inl e, s') \<Rightarrow> (Err e, s') | (Inr x, s') \<Rightarrow> f x s')"

definition gets :: "('s \<Rightarrow> 'a) \<Rightarrow> ('s, 'e, 'a) eff" where
  "gets f s = (Ok (f s), s)"

definition modify :: "('s \<Rightarrow> 's) \<Rightarrow> ('s, 'e, unit) eff" where
  "modify f s = (Ok (), f s)"

definition with_state :: "('s \<Rightarrow> ('s, 'e, 'a) eff) \<Rightarrow> ('s, 'e, 'a) eff" where
  "with_state f s = f s s"

definition lift_result :: "('x \<Rightarrow> 'e) \<Rightarrow> 'x + 'a \<Rightarrow> ('s, 'e, 'a) eff" where
  "lift_result f r s = (map_err f r, s)"

definition lift_option :: "'e \<Rightarrow> 'a option \<Rightarrow> ('s, 'e, 'a) eff" where
  "lift_option e x s = (case x of None \<Rightarrow> (Err e, s) | Some y \<Rightarrow> (Ok y, s))"

definition zoom ::
  "('s \<Rightarrow> 'f) \<Rightarrow> ('f \<Rightarrow> 's \<Rightarrow> 's) \<Rightarrow> ('x \<Rightarrow> 'e) \<Rightarrow> ('f \<Rightarrow> ('x + 'a) \<times> 'f) \<Rightarrow> ('s, 'e, 'a) eff" where
  "zoom get put f op s = (case op (get s) of (r, x) \<Rightarrow> (map_err f r, put x s))"

lemma eff_simps [simp]:
  "ret x s = (Ok x, s)" "fail e s = (Err e, s)" "gets g s = (Ok (g s), s)" "modify h s = (Ok (), h s)"
  "with_state w s = w s s"
  "lift_result f (Inr y) s = (Ok y, s)" "lift_result f (Inl z) s = (Err (f z), s)"
  "lift_option e (Some y) s = (Ok y, s)" "lift_option e None s = (Err e, s)"
  by (simp_all add: ret_def fail_def gets_def modify_def with_state_def
      lift_result_def lift_option_def)

lemma mbind_simps [simp]:
  "m s = (Inl e, s') \<Longrightarrow> mbind m f s = (Err e, s')"
  "m s = (Inr x, s') \<Longrightarrow> mbind m f s = f x s'"
  by (simp_all add: mbind_def)

lemma mbind_pure [simp]: "mbind (lift_option e (Some y)) f = f y" "mbind (lift_result g (Inr y)) f = f y"
  by (auto simp: mbind_def)

lemma mbind_Ok:
  "mbind m f s = (Inr y, s') \<longleftrightarrow> (\<exists>x s1. m s = (Inr x, s1) \<and> f x s1 = (Inr y, s'))"
  by (auto simp: mbind_def split: prod.splits sum.splits)

lemma lift_result_Ok: "lift_result f r s = (Inr y, s') \<longleftrightarrow> r = Inr y \<and> s' = s"
  by (cases r) auto

lemma lift_option_Ok: "lift_option e x s = (Inr y, s') \<longleftrightarrow> x = Some y \<and> s' = s"
  by (cases x) auto

lemma zoom_Ok: "zoom get put f op s = (Inr y, s') \<longleftrightarrow> (\<exists>x. op (get s) = (Inr y, x) \<and> s' = put x s)"
  by (auto simp: zoom_def split: prod.splits)

lemma gets_Ok: "gets f s = (Inr x, s') \<longleftrightarrow> x = f s \<and> s' = s"
  by auto

lemma modify_Ok: "modify h s = (Inr x, s') \<longleftrightarrow> s' = h s"
  by auto

lemma if_fail_Ok: "(if b then fail e else k) s = (Inr x, s') \<longleftrightarrow> \<not> b \<and> k s = (Inr x, s')"
  by simp

lemmas eff_Ok = mbind_Ok lift_result_Ok lift_option_Ok zoom_Ok

lemma is_ok_fst: "is_ok (fst p) \<Longrightarrow> \<exists>x y. p = (Ok x, y)"
  by (cases p; cases "fst p") auto

named_theorems eff_intros

subsection \<open>Invariants of computations\<close>

definition keeps :: "('s \<Rightarrow> bool) \<Rightarrow> ('s, 'e, 'a) eff \<Rightarrow> bool" where
  "keeps I m \<longleftrightarrow> (\<forall>s. I s \<longrightarrow> I (snd (m s)))"

lemma keepsI: "(\<And>s. I s \<Longrightarrow> I (snd (m s))) \<Longrightarrow> keeps I m"
  by (simp add: keeps_def)

lemma keepsD: "keeps I m \<Longrightarrow> I s \<Longrightarrow> I (snd (m s))"
  by (simp add: keeps_def)

lemma keeps_mbind [eff_intros]: "keeps I m \<Longrightarrow> (\<And>x. keeps I (f x)) \<Longrightarrow> keeps I (mbind m f)"
  unfolding keeps_def by (fastforce simp: mbind_def split: prod.splits sum.splits)

lemma keeps_pure [eff_intros]:
  "keeps I (ret x)" "keeps I (fail e)" "keeps I (gets g)" "keeps I (lift_result f r)" "keeps I (lift_option e y)"
  by (auto simp: keeps_def lift_result_def lift_option_def split: option.splits)

lemma keeps_if [eff_intros]: "(b \<Longrightarrow> keeps I m) \<Longrightarrow> (\<not> b \<Longrightarrow> keeps I m') \<Longrightarrow> keeps I (if b then m else m')"
  by simp

lemma keeps_option [eff_intros]:
  "(x = None \<Longrightarrow> keeps I m) \<Longrightarrow> (\<And>y. x = Some y \<Longrightarrow> keeps I (f y)) \<Longrightarrow> keeps I (case x of None \<Rightarrow> m | Some y \<Rightarrow> f y)"
  by (cases x) auto

lemma keeps_prod [eff_intros]: "(\<And>a b. x = (a, b) \<Longrightarrow> keeps I (f a b)) \<Longrightarrow> keeps I (case x of (a, b) \<Rightarrow> f a b)"
  by (cases x) auto

lemma keeps_sum [eff_intros]:
  "(\<And>e. x = Inl e \<Longrightarrow> keeps I (f e)) \<Longrightarrow> (\<And>y. x = Inr y \<Longrightarrow> keeps I (g y))
     \<Longrightarrow> keeps I (case x of Inl e \<Rightarrow> f e | Inr y \<Rightarrow> g y)"
  by (cases x) auto

lemma keeps_with_state [eff_intros]: "(\<And>s. I s \<Longrightarrow> keeps I (f s)) \<Longrightarrow> keeps I (with_state f)"
  by (simp add: keeps_def)

lemma keeps_modify: "(\<And>s. I s \<Longrightarrow> I (h s)) \<Longrightarrow> keeps I (modify h)"
  by (simp add: keeps_def)

lemma keeps_zoom: "(\<And>s r x. I s \<Longrightarrow> op (get s) = (r, x) \<Longrightarrow> I (put x s)) \<Longrightarrow> keeps I (zoom get put f op)"
  by (auto simp: keeps_def zoom_def split: prod.splits)

subsection \<open>Errors that do not occur\<close>

definition avoids :: "('s \<Rightarrow> bool) \<Rightarrow> ('e \<Rightarrow> bool) \<Rightarrow> ('s, 'e, 'a) eff \<Rightarrow> bool" where
  "avoids I X m \<longleftrightarrow> (\<forall>s e s'. I s \<longrightarrow> m s = (Inl e, s') \<longrightarrow> \<not> X e)"

lemma avoidsD: "avoids I X m \<Longrightarrow> I s \<Longrightarrow> m s = (Inl e, s') \<Longrightarrow> \<not> X e"
  by (auto simp: avoids_def)

lemma avoids_mbind [eff_intros]:
  assumes "avoids I X m" "keeps I m" "\<And>x. avoids I X (f x)"
  shows "avoids I X (mbind m f)"
  using assms unfolding avoids_def keeps_def
  by (fastforce simp: mbind_def split: prod.splits sum.splits)

text \<open>The rule that passes on what a successful computation has established.\<close>

lemma avoids_mbind_post:
  assumes "avoids I X m" "\<And>s x s'. I s \<Longrightarrow> m s = (Inr x, s') \<Longrightarrow> J x s'" "\<And>x. avoids (J x) X (f x)"
  shows "avoids I X (mbind m f)"
  using assms unfolding avoids_def by (fastforce simp: mbind_def split: prod.splits sum.splits)

lemma avoids_weaken: "avoids I X m \<Longrightarrow> (\<And>s. J s \<Longrightarrow> I s) \<Longrightarrow> avoids J X m"
  by (auto simp: avoids_def)

lemma avoids_any:
  assumes "avoids (\<lambda>_. True) X m"
  shows "avoids I X m"
  using assms by (rule avoids_weaken) simp

lemma keeps_True [eff_intros]: "keeps (\<lambda>_. True) m"
  by (simp add: keeps_def)

lemma avoids_found: "x \<noteq> None \<Longrightarrow> (\<And>y. x = Some y \<Longrightarrow> avoids I X (f y)) \<Longrightarrow> avoids I X (mbind (lift_option e x) f)"
  by (cases x) auto

lemma avoids_const: "(P \<Longrightarrow> avoids I X m) \<Longrightarrow> avoids (\<lambda>s. I s \<and> P) X m"
  by (auto simp: avoids_def)

lemma avoids_pure [eff_intros]: "avoids I X (ret x)" "avoids I X (gets g)" "avoids I X (modify h)"
  by (auto simp: avoids_def)

lemma avoids_with_state [eff_intros]: "(\<And>s. I s \<Longrightarrow> avoids I X (f s)) \<Longrightarrow> avoids I X (with_state f)"
  by (simp add: avoids_def)

lemma avoids_fail [eff_intros]: "\<not> X e \<Longrightarrow> avoids I X (fail e)"
  by (simp add: avoids_def)

lemma avoids_lift_result [eff_intros]: "(\<And>z. \<not> X (f z)) \<Longrightarrow> avoids I X (lift_result f r)"
  by (cases r) (auto simp: avoids_def)

lemma avoids_lift_option [eff_intros]: "\<not> X e \<Longrightarrow> avoids I X (lift_option e y)"
  by (cases y) (auto simp: avoids_def)

lemma avoids_zoom [eff_intros]: "(\<And>z. \<not> X (f z)) \<Longrightarrow> avoids I X (zoom get put f op)"
  by (auto simp: avoids_def zoom_def map_err_def split: prod.splits sum.splits)

lemma avoids_if [eff_intros]:
  "(b \<Longrightarrow> avoids I X m) \<Longrightarrow> (\<not> b \<Longrightarrow> avoids I X m') \<Longrightarrow> avoids I X (if b then m else m')"
  by simp

lemma avoids_option [eff_intros]:
  "(x = None \<Longrightarrow> avoids I X m) \<Longrightarrow> (\<And>y. x = Some y \<Longrightarrow> avoids I X (f y))
     \<Longrightarrow> avoids I X (case x of None \<Rightarrow> m | Some y \<Rightarrow> f y)"
  by (cases x) auto

lemma avoids_prod [eff_intros]: "(\<And>a b. x = (a, b) \<Longrightarrow> avoids I X (f a b)) \<Longrightarrow> avoids I X (case x of (a, b) \<Rightarrow> f a b)"
  by (cases x) auto

lemma avoids_sum [eff_intros]:
  "(\<And>e. x = Inl e \<Longrightarrow> avoids I X (f e)) \<Longrightarrow> (\<And>y. x = Inr y \<Longrightarrow> avoids I X (g y))
     \<Longrightarrow> avoids I X (case x of Inl e \<Rightarrow> f e | Inr y \<Rightarrow> g y)"
  by (cases x) auto

end
