(* ===== verification/Transport.thy ===== *)
theory Transport
  imports Relay_State Effects
begin

text \<open>
  \<open>network/src/transport.rs\<close>, \<open>discovery.rs\<close> and \<open>health.rs\<close>: the node that daemons use to reach
  their peers. The swarm of libp2p is a parameter: the node keeps the calls it has made, in order, and
  the swarm's answer to a call is a function of the earlier calls. Its events are the data type
  \<open>SwarmEvent\<close>, of which \<open>translate_event\<close> keeps those that the daemons handle.
\<close>

subsection \<open>Ping settings\<close>

record PingBehaviourSettings =
  ps_interval :: duration
  ps_timeout :: duration

definition ping_behavior_settings :: "duration \<Rightarrow> PingBehaviourSettings" where
  "ping_behavior_settings connection_timeout =
     \<lparr>ps_interval = max connection_timeout (from_secs 15),
      ps_timeout = max (min connection_timeout (from_secs 5)) (from_millis 500)\<rparr>"

theorem ping_settings_bounds:
  "from_secs 15 \<le> ps_interval (ping_behavior_settings t)"
  "from_millis 500 \<le> ps_timeout (ping_behavior_settings t)"
  "ps_timeout (ping_behavior_settings t) \<le> from_secs 5"
  "ps_timeout (ping_behavior_settings t) < ps_interval (ping_behavior_settings t)"
  by (auto simp: ping_behavior_settings_def from_secs_def from_millis_def less_max_iff_disj min_less_iff_disj)

subsection \<open>Events of the swarm\<close>

text \<open>What the sources use of libp2p's events; the other ones are \<open>Sw_Other\<close>, \<open>Identify_Other\<close>, \<dots>\<close>

datatype IdentifyEvent = Identify_Received PeerId string | Identify_Other

datatype RequestResponseMessage =
    Rr_Request nat bytes nat
  | Rr_Response nat bytes

datatype DiscoveryEvent = Discovery_Message PeerId RequestResponseMessage | Discovery_Other

datatype BehaviourEvent =
    Be_Identify IdentifyEvent
  | Be_Ping PeerId "string + duration"
  | Be_Discovery DiscoveryEvent

datatype SwarmEvent =
    Sw_NewListenAddr Multiaddr
  | Sw_ConnectionEstablished PeerId
  | Sw_ConnectionClosed PeerId
  | Sw_Behaviour BehaviourEvent
  | Sw_OutgoingConnectionError string
  | Sw_IncomingConnectionError string
  | Sw_Other

fun translate_event :: "SwarmEvent \<Rightarrow> NetworkEvent option" where
  "translate_event (Sw_NewListenAddr address) = Some (Listening address)"
| "translate_event (Sw_ConnectionEstablished p) = Some (PeerConnected p)"
| "translate_event (Sw_ConnectionClosed p) = Some (PeerDisconnected p)"
| "translate_event (Sw_Behaviour (Be_Identify e)) =
     (case e of Identify_Received p version \<Rightarrow> Some (PeerIdentified p version) | _ \<Rightarrow> None)"
| "translate_event (Sw_Behaviour (Be_Ping p r)) = Some (PingResult p r)"
| "translate_event (Sw_Behaviour (Be_Discovery e)) =
     (case e of
        Discovery_Message p (Rr_Request i request channel) \<Rightarrow> Some (DiscoveryRequest p i request channel)
      | Discovery_Message p (Rr_Response i response) \<Rightarrow> Some (DiscoveryResponse p i response)
      | Discovery_Other \<Rightarrow> None)"
| "translate_event (Sw_OutgoingConnectionError text) = Some (NetworkError text)"
| "translate_event (Sw_IncomingConnectionError text) = Some (NetworkError text)"
| "translate_event Sw_Other = None"

subsection \<open>The node\<close>

datatype NodeCall =
    Call_Listen Multiaddr
  | Call_Dial Multiaddr
  | Call_Request PeerId bytes
  | Call_Respond nat bytes

record NetworkNode =
  nn_calls :: "NodeCall list"

text \<open>The swarm: the error of a call if it fails, and the identifier it gives to a request.\<close>

record SwarmLib =
  sw_listen_on :: "NodeCall list \<Rightarrow> Multiaddr \<Rightarrow> string option"
  sw_dial :: "NodeCall list \<Rightarrow> Multiaddr \<Rightarrow> string option"
  sw_send_request :: "NodeCall list \<Rightarrow> PeerId \<Rightarrow> bytes \<Rightarrow> nat"
  sw_send_response :: "NodeCall list \<Rightarrow> nat \<Rightarrow> bytes \<Rightarrow> bool"

definition node_log :: "NetworkNode \<Rightarrow> NodeCall \<Rightarrow> NetworkNode" where
  "node_log n c = n\<lparr>nn_calls := nn_calls n @ [c]\<rparr>"

definition result_of :: "string option \<Rightarrow> string + unit" where
  "result_of e = (case e of None \<Rightarrow> Ok () | Some text \<Rightarrow> Err text)"

definition node_listen :: "AddrLib \<Rightarrow> SwarmLib \<Rightarrow> NetworkNode \<Rightarrow> string \<Rightarrow> (string + unit) \<times> NetworkNode" where
  "node_listen A W n address =
     (case al_parse A address of
        None \<Rightarrow> (Err ''parse listen multiaddr'', n)
      | Some m \<Rightarrow> (result_of (sw_listen_on W (nn_calls n) m), node_log n (Call_Listen m)))"

definition node_dial :: "AddrLib \<Rightarrow> SwarmLib \<Rightarrow> NetworkNode \<Rightarrow> string \<Rightarrow> (string + unit) \<times> NetworkNode" where
  "node_dial A W n address =
     (case al_parse A address of
        None \<Rightarrow> (Err ''parse peer multiaddr'', n)
      | Some m \<Rightarrow> (result_of (sw_dial W (nn_calls n) m), node_log n (Call_Dial m)))"

definition request_discovery :: "SwarmLib \<Rightarrow> NetworkNode \<Rightarrow> PeerId \<Rightarrow> bytes \<Rightarrow> nat \<times> NetworkNode" where
  "request_discovery W n p payload =
     (sw_send_request W (nn_calls n) p payload, node_log n (Call_Request p payload))"

definition respond_to_discovery ::
  "SwarmLib \<Rightarrow> NetworkNode \<Rightarrow> nat \<Rightarrow> bytes \<Rightarrow> (string + unit) \<times> NetworkNode" where
  "respond_to_discovery W n channel payload =
     (if sw_send_response W (nn_calls n) channel payload then Ok () else Err ''send discovery response'',
      node_log n (Call_Respond channel payload))"

subsection \<open>Configured peers\<close>

record ConfiguredPeerDiscovery =
  cp_peers :: "Multiaddr list"

fun parse_addresses :: "AddrLib \<Rightarrow> string list \<Rightarrow> string + Multiaddr list" where
  "parse_addresses A [] = Ok []"
| "parse_addresses A (address # rest) =
     (case al_parse A address of
        None \<Rightarrow> Err (''invalid discovery address: '' @ address)
      | Some m \<Rightarrow> (case parse_addresses A rest of Inl e \<Rightarrow> Err e | Inr ms \<Rightarrow> Ok (m # ms)))"

definition from_addresses :: "AddrLib \<Rightarrow> string list \<Rightarrow> string + ConfiguredPeerDiscovery" where
  "from_addresses A addresses =
     (case parse_addresses A addresses of Inl e \<Rightarrow> Err e | Inr ms \<Rightarrow> Ok \<lparr>cp_peers = ms\<rparr>)"

lemma parse_addresses_Ok: "parse_addresses A as = Ok ms \<longleftrightarrow> map (al_parse A) as = map Some ms"
proof (induction as arbitrary: ms)
  case (Cons a as)
  show ?case
  proof (cases "al_parse A a")
    case (Some m)
    have "(case parse_addresses A as of Inl e \<Rightarrow> Err e | Inr ms \<Rightarrow> Ok (m # ms)) = Ok ms \<longleftrightarrow>
        (\<exists>ns. parse_addresses A as = Ok ns \<and> ms = m # ns)"
      by (auto split: sum.splits)
    also have "\<dots> \<longleftrightarrow> map (al_parse A) (a # as) = map Some ms"
      using Some by (cases ms) (auto simp: Cons.IH)
    finally show ?thesis using Some by simp
  qed (cases ms; auto)
qed auto

theorem from_addresses_Ok:
  "from_addresses A as = Ok d \<longleftrightarrow> map (al_parse A) as = map Some (cp_peers d)"
proof -
  have "from_addresses A as = Ok d \<longleftrightarrow> parse_addresses A as = Ok (cp_peers d)"
    by (cases d; cases "parse_addresses A as") (auto simp: from_addresses_def)
  then show ?thesis by (simp only: parse_addresses_Ok)
qed

definition RELAY_DISCOVERY_PROTOCOL :: string where
  "RELAY_DISCOVERY_PROTOCOL = ''/ghost-layer/relay-discovery/1.0.0''"

subsection \<open>Availability\<close>

datatype HealthStatus = Hs_Unknown | Hs_Healthy | Hs_Degraded | Hs_Unavailable

definition is_available :: "HealthStatus \<Rightarrow> bool" where
  "is_available h = (h = Hs_Healthy \<or> h = Hs_Degraded)"

end
