(* ===== verification/Relay_Daemon.thy ===== *)
theory Relay_Daemon
  imports Config Dns Nat_Table Return_Path Transport
begin

text \<open>
  \<open>relay/src/main.rs\<close>: the event loop of a relay. The local variables of \<open>main\<close> are the record
  \<open>RelayDaemon\<close>; \<open>relay_start\<close> is the code before the loop and \<open>daemon_step\<close> one turn of the loop for
  each of its four sources of events: a packet of the TUN reader, an event of the swarm, the heartbeat
  timer and the shutdown signal. A handler is a computation of \<open>Effects\<close>: an error ends \<open>main\<close>, a
  panic is the error \<open>Re_Panic\<close>. Serde's JSON, the swarm, sockets, clocks and random values are
  parameters: those that do not change are \<open>RelayLib\<close>, and what the outside world answers during one
  turn is \<open>StepEnv\<close>. Logging is left out.
\<close>

subsection \<open>Parameters\<close>

record RelayCodec =
  js_parse_init :: "bytes \<Rightarrow> HandshakeInit option"
  js_parse_response :: "bytes \<Rightarrow> HandshakeResponse option"
  js_parse_metadata_request :: "bytes \<Rightarrow> RelayMetadataRequest option"
  js_parse_forwarding :: "bytes \<Rightarrow> ForwardingMessage option"
  js_parse_envelope :: "bytes \<Rightarrow> DataPlaneEnvelope option"
  js_init :: "HandshakeInit \<Rightarrow> bytes option"
  js_response :: "HandshakeResponse \<Rightarrow> bytes option"
  js_metadata :: "RelayMetadata \<Rightarrow> bytes option"
  js_forwarding :: "ForwardingMessage \<Rightarrow> bytes option"
  js_envelope :: "DataPlaneEnvelope \<Rightarrow> bytes option"

text \<open>\<open>lb_iter\<close> is the order in which a hash map yields its keys.\<close>

record 'w RelayLib =
  lb_session :: SessionLib
  lb_channel :: ChannelJson
  lb_addr :: AddrLib
  lb_codec :: RelayCodec
  lb_swarm :: SwarmLib
  lb_tun :: "'w TunDriver"
  lb_iter :: "SessionId fset \<Rightarrow> SessionId list"

text \<open>Clock readings in the order they are taken, random values, and the sockets.\<close>

record ('t, 'u) StepEnv =
  se_time :: system_time
  se_time2 :: system_time
  se_now :: instant
  se_now2 :: instant
  se_now3 :: instant
  se_session_id :: SessionId
  se_responder_secret :: bytes
  se_initiator_secret :: bytes
  se_tcp :: "'t TcpSocket"
  se_udp :: "'u UdpSocket"
  se_dns :: UdpSocketCalls

subsection \<open>State and errors\<close>

record PendingRelayHandshake =
  ph_initiator :: SessionInitiator
  ph_client_session_id :: SessionId
  ph_client_peer :: PeerId
  ph_route :: RouteBinding
  ph_client_response :: HandshakeResponse
  ph_client_response_channel :: "nat option"
  ph_relay_init :: bytes

record ClientForwarding =
  cl_client_peer :: PeerId
  cl_context :: ForwardingContext
  cl_relay_session_id :: SessionId

record PendingClientForward =
  pf_client_session_id :: SessionId
  pf_response_channel :: nat

record HealthSignals =
  hs_alive :: bool
  hs_ready :: bool
  hs_healthy :: bool

record 'w RelayDaemon =
  rd_config :: NodeConfig
  rd_identity :: Keypair
  rd_capabilities :: "string list"
  rd_thresholds :: HealthThresholds
  rd_policy :: "DestinationPolicy option"
  rd_core :: RelayCore
  rd_node :: NetworkNode
  rd_state :: RelayState
  rd_registry :: InMemoryRelayRegistry
  rd_responder :: SessionResponder
  rd_channels :: "(SessionId, EncryptedChannel) fmap"
  rd_pending_handshakes :: "(SessionId, PendingRelayHandshake) fmap"
  rd_client_forwarding :: "(SessionId, ClientForwarding) fmap"
  rd_pending_forwards :: "(nat, PendingClientForward) fmap"
  rd_exit_forwarding :: "(SessionId, ForwardingContext) fmap"
  rd_active_exit_session :: "SessionId option"
  rd_tun_writer :: "'w WindowsTunWriter option"
  rd_nat :: "NatTable option"
  rd_exit_handler :: ExitPacketHandler
  rd_signals :: HealthSignals

text \<open>An error is its message up to the inner error, and that.\<close>

datatype RelayError =
    Re_Text string
  | Re_Json
  | Re_Node string
  | Re_Session string SessionError
  | Re_Channel string ChannelError
  | Re_DataPlane string DataPlaneError
  | Re_Forwarding string ForwardingError
  | Re_Core string RelayCoreError
  | Re_Nat string NatError
  | Re_Handler string ExitPacketHandlerError
  | Re_Exit string ExitNetworkError
  | Re_Dns string DnsError
  | Re_Registry RegistryError
  | Re_Panic string

type_synonym ('w, 'a) relay = "('w RelayDaemon, RelayError, 'a) eff"

definition own_peer :: "'w RelayLib \<Rightarrow> 'w RelayDaemon \<Rightarrow> PeerId" where
  "own_peer B s = pk_to_peer_id (lb_session B) (keypair_public (lb_session B) (rd_identity s))"

subsection \<open>Parts of the handlers\<close>

definition on_core :: "string \<Rightarrow> (RelayCore \<Rightarrow> (RelayCoreError + 'a) \<times> RelayCore) \<Rightarrow> ('w, 'a) relay" where
  "on_core text op = zoom rd_core (\<lambda>x s. s\<lparr>rd_core := x\<rparr>) (Re_Core text) op"

definition on_handler ::
  "string \<Rightarrow> (ExitPacketHandler \<Rightarrow> (ExitPacketHandlerError + 'a) \<times> ExitPacketHandler) \<Rightarrow> ('w, 'a) relay" where
  "on_handler text op = zoom rd_exit_handler (\<lambda>x s. s\<lparr>rd_exit_handler := x\<rparr>) (Re_Handler text) op"

definition respond :: "'w RelayLib \<Rightarrow> nat \<Rightarrow> bytes \<Rightarrow> ('w, unit) relay" where
  "respond B channel payload =
     zoom rd_node (\<lambda>x s. s\<lparr>rd_node := x\<rparr>) Re_Node (\<lambda>n. respond_to_discovery (lb_swarm B) n channel payload)"

definition request :: "'w RelayLib \<Rightarrow> PeerId \<Rightarrow> bytes \<Rightarrow> ('w, nat) relay" where
  "request B p payload =
     zoom rd_node (\<lambda>x s. s\<lparr>rd_node := x\<rparr>) Re_Node
       (\<lambda>n. case request_discovery (lb_swarm B) n p payload of (i, n') \<Rightarrow> (Ok i, n'))"

text \<open>
  A channel is looked up, wrapped as a data plane for one operation, and keeps what the operation did.
\<close>

definition with_data_plane ::
  "SessionId \<Rightarrow> string \<Rightarrow> string \<Rightarrow> string \<Rightarrow> (DataPlane \<Rightarrow> (DataPlaneError + 'a) \<times> DataPlane) \<Rightarrow> ('w, 'a) relay" where
  "with_data_plane sid missing opening operation op s =
     (case fmlookup (rd_channels s) sid of
        None \<Rightarrow> (Err (Re_Text missing), s)
      | Some c \<Rightarrow>
        (case data_plane_open c DEFAULT_MAXIMUM_PAYLOAD_SIZE of
           Inl e \<Rightarrow> (Err (Re_DataPlane opening e), s)
         | Inr d \<Rightarrow>
           (case op d of (r, d') \<Rightarrow>
              (map_err (Re_DataPlane operation) r,
               s\<lparr>rd_channels := fmupd sid (dp_channel d') (rd_channels s)\<rparr>))))"

definition receive_on :: "'w RelayLib \<Rightarrow> DataPlaneEnvelope \<Rightarrow> DataPlane \<Rightarrow> (DataPlaneError + bytes) \<times> DataPlane" where
  "receive_on B envelope d =
     (case data_plane_receive (lb_channel B) (lb_session B) d envelope of (r, d') \<Rightarrow> (map_sum id dm_payload r, d'))"

definition send_on :: "'w RelayLib \<Rightarrow> bytes \<Rightarrow> DataPlane \<Rightarrow> (DataPlaneError + bytes) \<times> DataPlane" where
  "send_on B payload d = data_plane_send (lb_channel B) (lb_session B) d payload"

definition open_channel :: "SessionId \<Rightarrow> SecureSession \<Rightarrow> string \<Rightarrow> ('w, unit) relay" where
  "open_channel sid session text =
     mbind (lift_result (Re_Channel text) (channel_open session CHANNEL_PROTOCOL_VERSION 4096 8)) (\<lambda>c.
     modify (\<lambda>s. s\<lparr>rd_channels := fmupd sid c (rd_channels s)\<rparr>))"

definition admit_flow :: "SessionId \<Rightarrow> nat \<Rightarrow> ('w, unit) relay" where
  "admit_flow fid n s =
     (case core_admit_flow (rd_core s) fid n of
        (Inl e, c) \<Rightarrow> (Err (Re_Core ''flow rejected by relay resource policy'' e), s\<lparr>rd_core := core_reject_packet c\<rparr>)
      | (Inr _, c) \<Rightarrow> (Ok (), s\<lparr>rd_core := c\<rparr>))"

text \<open>An operation on the context of a client's flow, and on that of a flow at the exit.\<close>

definition on_client_context ::
  "SessionId \<Rightarrow> string \<Rightarrow> (ForwardingContext \<Rightarrow> (ForwardingError + 'a) \<times> ForwardingContext) \<Rightarrow> ('w, 'a) relay" where
  "on_client_context sid text op s =
     (case fmlookup (rd_client_forwarding s) sid of
        None \<Rightarrow> (Err (Re_Panic ''client forwarding context''), s)
      | Some cf \<Rightarrow>
        (case op (cl_context cf) of (r, c) \<Rightarrow>
           (map_err (Re_Forwarding text) r,
            s\<lparr>rd_client_forwarding := fmupd sid (cf\<lparr>cl_context := c\<rparr>) (rd_client_forwarding s)\<rparr>)))"

definition on_exit_context ::
  "SessionId \<Rightarrow> string \<Rightarrow> (ForwardingContext \<Rightarrow> (ForwardingError + 'a) \<times> ForwardingContext) \<Rightarrow> ('w, 'a) relay" where
  "on_exit_context fid text op s =
     (case fmlookup (rd_exit_forwarding s) fid of
        None \<Rightarrow> (Err (Re_Panic ''exit forwarding context''), s)
      | Some c \<Rightarrow>
        (case op c of (r, c') \<Rightarrow>
           (map_err (Re_Forwarding text) r, s\<lparr>rd_exit_forwarding := fmupd fid c' (rd_exit_forwarding s)\<rparr>)))"

definition check_context :: "(ForwardingContext \<Rightarrow> ForwardingError + unit) \<Rightarrow> ForwardingContext
     \<Rightarrow> (ForwardingError + unit) \<times> ForwardingContext" where
  "check_context f c = (f c, c)"

text \<open>A new context is connected, established and bound to the session between the relays.\<close>

definition establish_context :: "ForwardingContext \<Rightarrow> SessionId \<Rightarrow> ForwardingError + ForwardingContext" where
  "establish_context c sid =
     (case transition_connecting c of
        (Inl e, _) \<Rightarrow> Err e
      | (Inr _, c1) \<Rightarrow>
        (case transition_established c1 of
           (Inl e, _) \<Rightarrow> Err e
         | (Inr _, c2) \<Rightarrow>
           (case bind_relay_session c2 sid of (Inl e, _) \<Rightarrow> Err e | (Inr _, c3) \<Rightarrow> Ok c3)))"

subsection \<open>Before the loop\<close>

fun role_capabilities :: "RelayRole \<Rightarrow> string list" where
  "role_capabilities Role_Entry = [''entry_role'']"
| "role_capabilities Role_Exit = [''exit_role'']"
| "role_capabilities Role_Both = [''entry_role'', ''exit_role'']"

definition relay_capabilities :: "NodeConfig \<Rightarrow> string list" where
  "relay_capabilities c =
     [''quic'', ''relay'', ''health_reporting''] @
     [case nc_route_mode c of Mode_OneHop \<Rightarrow> ''one_hop'' | Mode_TwoHop \<Rightarrow> ''two_hop''] @
     role_capabilities (nc_relay_role c) @
     (if nc_external_test_destination c \<noteq> None \<and> nc_relay_role c \<noteq> Role_Entry then [''tcp_exit''] else []) @
     (if nc_udp_enabled c \<and> nc_relay_role c \<noteq> Role_Entry then [''udp_exit''] else []) @
     (if nc_dns_enabled c \<and> nc_relay_role c \<noteq> Role_Entry then [''dns_forwarding''] else []) @
     (if tu_enabled (nc_tun c) then [''tun_boundary''] else [])"

definition signals_new :: HealthSignals where
  "signals_new = \<lparr>hs_alive = True, hs_ready = False, hs_healthy = False\<rparr>"

text \<open>The address translation, the packet handler and the allow-list that the configuration asks for.\<close>

definition start_nat :: "NodeConfig \<Rightarrow> RelayError + NatTable option" where
  "start_nat c =
     (if nc_nat_enabled c
      then map_err (Re_Nat ''open UDP NAT table'')
        (map_sum id Some (nat_new (V4 (v4_from_octets [127, 0, 0, 1])) 1024 (from_secs 30)))
      else Ok None)"

definition start_handler :: "NodeConfig \<Rightarrow> RelayError + ExitPacketHandler" where
  "start_handler c =
     map_err (Re_Handler ''open exit packet handler'')
       (handler_open (tu_maximum_packet_size (nc_tun c)) (tu_mtu (nc_tun c)) (tu_write_buffer_limit (nc_tun c)))"

definition start_policy :: "NodeConfig \<Rightarrow> RelayError + DestinationPolicy option" where
  "start_policy c =
     (if nc_external_test_destination c \<noteq> None \<or> nc_udp_enabled c \<or> nc_dns_enabled c
      then map_err (Re_Exit ''load exit destination policy'')
        (map_sum id Some (policy_from_strings socket_parse (nc_allowed_exit_destinations c)))
      else Ok None)"

text \<open>
  \<open>identity\<close> is the key that was loaded, \<open>tun\<close> the result of opening the TUN device and taking its
  writer (there is none except on Windows), and \<open>health\<close> the result of starting the health endpoint, if one is configured.
\<close>

fun dial_all :: "'w RelayLib \<Rightarrow> NetworkNode \<Rightarrow> string list \<Rightarrow> (string + unit) \<times> NetworkNode" where
  "dial_all B n [] = (Ok (), n)"
| "dial_all B n (address # rest) =
     (case node_dial (lb_addr B) (lb_swarm B) n address of
        (Inl e, n') \<Rightarrow> (Err e, n')
      | (Inr _, n') \<Rightarrow> dial_all B n' rest)"

definition relay_start ::
  "'w RelayLib \<Rightarrow> system_time \<Rightarrow> instant \<Rightarrow> Keypair \<Rightarrow> NetworkNode \<Rightarrow> (string + 'w WindowsTunWriter option)
     \<Rightarrow> string + unit \<Rightarrow> NodeConfig \<Rightarrow> RelayError + 'w RelayDaemon" where
  "relay_start B t now identity node tun health c =
     (let peer = pk_to_peer_id (lb_session B) (keypair_public (lb_session B) identity);
          capabilities = relay_capabilities c in
      rbind (map_err (Re_Core ''initialize relay core'')
        (core_new now peer (nc_software_version c) (nc_protocol_version c) capabilities (nc_resource_limits c))) (\<lambda>core.
      case node_listen (lb_addr B) (lb_swarm B) node (nc_listen_address c) of
        (Inl e, _) \<Rightarrow> Err (Re_Node e)
      | (Inr _, node1) \<Rightarrow>
        rbind (if tu_enabled (nc_tun c) then map_err Re_Text tun else Ok None) (\<lambda>writer.
        rbind (start_nat c) (\<lambda>nat.
        rbind (start_handler c) (\<lambda>handler.
        rbind (start_policy c) (\<lambda>policy.
        case registry_register \<lparr>reg_relays = fmempty\<rparr>
            (metadata_new t peer (nc_protocol_version c) (nc_software_version c)) of
          (Inl e, _) \<Rightarrow> Err (Re_Registry e)
        | (Inr _, registry) \<Rightarrow>
          rbind (if nc_health_listen_address c = None then Ok () else map_err Re_Text health) (\<lambda>_.
          case dial_all B node1 (nc_bootstrap_peers c) of
            (Inl e, _) \<Rightarrow> Err (Re_Node e)
          | (Inr _, node2) \<Rightarrow>
            Ok \<lparr>rd_config = c, rd_identity = identity, rd_capabilities = capabilities,
                rd_thresholds = \<lparr>ht_heartbeat_freshness = nc_heartbeat_freshness c,
                  ht_degraded_latency = nc_degraded_latency c\<rparr>,
                rd_policy = policy, rd_core = core, rd_node = node2,
                rd_state = relay_state_new t peer (nc_advertised_address c) (nc_software_version c),
                rd_registry = registry, rd_responder = responder_new identity, rd_channels = fmempty,
                rd_pending_handshakes = fmempty, rd_client_forwarding = fmempty,
                rd_pending_forwards = fmempty, rd_exit_forwarding = fmempty,
                rd_active_exit_session = None, rd_tun_writer = writer, rd_nat = nat,
                rd_exit_handler = handler, rd_signals = signals_new\<rparr>)))))))"

subsection \<open>Packets of the TUN reader\<close>

text \<open>Errors on this path drop the packet; the channel keeps what the failed send did.\<close>

definition tun_message :: "ForwardingContext \<Rightarrow> 'w RelayLib \<Rightarrow> SessionId \<Rightarrow> bytes \<Rightarrow> bytes \<Rightarrow> ForwardingMessage" where
  "tun_message f B sid frame payload =
     \<lparr>fm_kind = FORWARDING_KIND, fm_forwarding_id = fc_forwarding_id f,
      fm_client_session_id = fc_client_session_id f,
      fm_client_peer = peer_to_string (lb_session B) (fc_client_peer f), fm_route = fc_route f,
      fm_data = \<lparr>de_kind = DATA_PLANE_KIND, de_session_id = sid, de_frame = frame\<rparr>,
      fm_packet = Some \<lparr>fp_protocol = Fp_Ip, fp_source = None, fp_destination = SocketV4 0 0,
        fp_flow_id = fc_forwarding_id f, fp_session_id = fc_client_session_id f,
        fp_route_id = fc_forwarding_id f, fp_sequence = 1, fp_payload = payload\<rparr>\<rparr>"

definition first_exit_context :: "'w RelayLib \<Rightarrow> 'w RelayDaemon \<Rightarrow> ForwardingContext option" where
  "first_exit_context B s =
     (case lb_iter B (fmdom (rd_exit_forwarding s)) of
        [] \<Rightarrow> None
      | fid # _ \<Rightarrow> fmlookup (rd_exit_forwarding s) fid)"

definition attempt :: "('w, 'a) relay \<Rightarrow> ('w, 'a option) relay" where
  "attempt m s = (case m s of (Inl _, s') \<Rightarrow> (Ok None, s') | (Inr x, s') \<Rightarrow> (Ok (Some x), s'))"

definition on_tun_packet :: "'w RelayLib \<Rightarrow> bytes \<Rightarrow> ('w, unit) relay" where
  "on_tun_packet B payload = with_state (\<lambda>s.
     case first_exit_context B s of
       None \<Rightarrow> ret ()
     | Some f \<Rightarrow>
       (case rd_active_exit_session s of
          None \<Rightarrow> ret ()
        | Some sid \<Rightarrow>
          mbind (attempt (with_data_plane sid [] [] [] (send_on B payload))) (\<lambda>sent.
          case sent of
            None \<Rightarrow> ret ()
          | Some frame \<Rightarrow>
            (case js_forwarding (lb_codec B) (tun_message f B sid frame payload) of
               None \<Rightarrow> ret ()
             | Some text \<Rightarrow> mbind (request B (fc_entry_peer f) text) (\<lambda>_. ret ())))))"

subsection \<open>Connections\<close>

fun init_for_exit :: "PeerId \<Rightarrow> PendingRelayHandshake list \<Rightarrow> bytes option" where
  "init_for_exit p [] = None"
| "init_for_exit p (h # hs) =
     (case ph_route h of
        TwoHop _ exit _ \<Rightarrow> if exit = p then Some (ph_relay_init h) else init_for_exit p hs
      | OneHop _ \<Rightarrow> init_for_exit p hs)"

definition pending_values :: "'w RelayLib \<Rightarrow> 'w RelayDaemon \<Rightarrow> PendingRelayHandshake list" where
  "pending_values B s =
     List.map_filter (fmlookup (rd_pending_handshakes s)) (lb_iter B (fmdom (rd_pending_handshakes s)))"

definition admit_peer :: "PeerId \<Rightarrow> ('w, unit) relay" where
  "admit_peer p = modify (\<lambda>s.
     case core_admit_peer (rd_core s) p of
       (Inl _, c) \<Rightarrow> s\<lparr>rd_core := core_reject_packet c\<rparr>
     | (Inr _, c) \<Rightarrow> s\<lparr>rd_core := c\<rparr>)"

definition on_connection_event :: "'w RelayLib \<Rightarrow> NetworkEvent \<Rightarrow> ('w, unit) relay" where
  "on_connection_event B event = with_state (\<lambda>s.
     case event of
       Listening _ \<Rightarrow>
         if co_lifecycle (rd_core s) = Lc_Starting then
           mbind (on_core ''relay lifecycle'' (\<lambda>c. core_transition c Lc_Discovering)) (\<lambda>_.
           mbind (on_core ''relay lifecycle'' (\<lambda>c. core_transition c Lc_Ready)) (\<lambda>_.
           modify (\<lambda>s. s\<lparr>rd_signals := (rd_signals s)\<lparr>hs_ready := True, hs_healthy := True\<rparr>\<rparr>)))
         else ret ()
     | PeerConnected p \<Rightarrow>
         mbind (admit_peer p) (\<lambda>_.
         mbind (gets (\<lambda>s. init_for_exit p (pending_values B s))) (\<lambda>init.
         case init of
           None \<Rightarrow> ret ()
         | Some payload \<Rightarrow> mbind (request B p payload) (\<lambda>_. ret ())))
     | PeerDisconnected p \<Rightarrow> modify (\<lambda>s. s\<lparr>rd_core := core_remove_peer (rd_core s) p\<rparr>)
     | _ \<Rightarrow> ret ())"

subsection \<open>Handshakes and metadata\<close>

definition json :: "bytes option \<Rightarrow> ('w, bytes) relay" where
  "json b = lift_option Re_Json b"

definition is_entry_for :: "'w RelayLib \<Rightarrow> 'w RelayDaemon \<Rightarrow> RouteBinding \<Rightarrow> PeerId \<Rightarrow> bool" where
  "is_entry_for B s route peer =
     ((case route of TwoHop entry _ _ \<Rightarrow> entry = peer \<or> entry = own_peer B s | _ \<Rightarrow> False) \<and>
      (case route of TwoHop entry _ _ \<Rightarrow> entry = own_peer B s | _ \<Rightarrow> False) \<and>
      nc_relay_role (rd_config s) \<noteq> Role_Exit)"

definition start_relay_handshake ::
  "('t, 'u) StepEnv \<Rightarrow> 'w RelayLib \<Rightarrow> nat \<Rightarrow> PeerId \<Rightarrow> SessionId \<Rightarrow> RouteBinding \<Rightarrow> HandshakeResponse \<Rightarrow> PeerId
     \<Rightarrow> string \<Rightarrow> ('w, unit) relay" where
  "start_relay_handshake E B channel peer client_session route response exit exit_address =
     mbind (gets (\<lambda>s. initiator_new (rd_identity s) exit (OneHop exit)
       (nc_protocol_version (rd_config s)) (se_session_id E) (se_initiator_secret E))) (\<lambda>made.
     mbind (lift_result (Re_Session []) made) (\<lambda>initiator.
     mbind (lift_result (Re_Session []) (build_init (lb_session B) initiator)) (\<lambda>relay_init.
     mbind (json (js_init (lb_codec B) relay_init)) (\<lambda>relay_init_bytes.
     mbind (modify (\<lambda>s. s\<lparr>rd_pending_handshakes := fmupd (si_session_id initiator)
       \<lparr>ph_initiator = initiator, ph_client_session_id = client_session, ph_client_peer = peer, ph_route = route,
        ph_client_response = response, ph_client_response_channel = Some channel,
        ph_relay_init = relay_init_bytes\<rparr> (rd_pending_handshakes s)\<rparr>)) (\<lambda>_.
     modify (\<lambda>s. s\<lparr>rd_node := snd (node_dial (lb_addr B) (lb_swarm B) (rd_node s) exit_address)\<rparr>))))))"

definition session_rejected :: "RelayCore \<Rightarrow> RelayCore" where
  "session_rejected c = c\<lparr>co_metrics := (co_metrics c)\<lparr>me_session_errors := me_session_errors (co_metrics c) + 1\<rparr>\<rparr>"

definition admit_session :: "SessionId \<Rightarrow> ('w, bool) relay" where
  "admit_session sid s =
     (case core_admit_session (rd_core s) sid of
        (Inl _, c) \<Rightarrow> (Ok False, s\<lparr>rd_core := session_rejected c\<rparr>)
      | (Inr _, c) \<Rightarrow> (Ok True, s\<lparr>rd_core := c\<rparr>))"

definition on_handshake_init ::
  "('t, 'u) StepEnv \<Rightarrow> 'w RelayLib \<Rightarrow> PeerId \<Rightarrow> nat \<Rightarrow> HandshakeInit \<Rightarrow> ('w, unit) relay" where
  "on_handshake_init E B peer channel init = with_state (\<lambda>s.
     if hi_kind init \<noteq> ''secure_session_init'' then ret ()
     else
       let route = hi_route_context init; entry = is_entry_for B s route peer in
       case accept_init (lb_session B) (rd_responder s) init peer (nc_protocol_version (rd_config s))
           (se_responder_secret E) of (outcome, r) \<Rightarrow>
       mbind (modify (\<lambda>s. s\<lparr>rd_responder := r\<rparr>)) (\<lambda>_.
       case outcome of
         Inl _ \<Rightarrow> ret ()
       | Inr (response, session) \<Rightarrow>
         (let sid = ss_session_id session in
          mbind (admit_session sid) (\<lambda>admitted.
          if \<not> admitted then ret ()
          else
            mbind (open_channel sid session ''open channel'') (\<lambda>_.
            if entry then
              (case route of
                 TwoHop _ exit exit_address \<Rightarrow>
                   start_relay_handshake E B channel peer (hi_session_id init) route response exit exit_address
               | OneHop _ \<Rightarrow> ret ())
            else
              mbind (json (js_response (lb_codec B) response)) (\<lambda>payload. respond B channel payload))))))"

definition on_metadata_request ::
  "('t, 'u) StepEnv \<Rightarrow> 'w RelayLib \<Rightarrow> nat \<Rightarrow> RelayMetadataRequest \<Rightarrow> ('w, unit) relay" where
  "on_metadata_request E B channel r = with_state (\<lambda>s.
     if rmr_kind r = ''metadata'' \<and> rmr_protocol_version r = nc_protocol_version (rd_config s) then
       mbind (json (js_metadata (lb_codec B)
         (metadata_from_state_with_capabilities (se_time2 E) (rd_state s) (nc_protocol_version (rd_config s))
           (health_evaluate (rd_state s) (rd_thresholds s) (se_time E)) (rd_capabilities s))))
         (\<lambda>payload. respond B channel payload)
     else ret ())"

subsection \<open>Client packets at the entry\<close>

definition forward_message ::
  "'w RelayLib \<Rightarrow> ClientForwarding \<Rightarrow> bytes \<Rightarrow> ForwardedPacket \<Rightarrow> ForwardingMessage" where
  "forward_message B cf frame packet =
     \<lparr>fm_kind = FORWARDING_KIND, fm_forwarding_id = fc_forwarding_id (cl_context cf),
      fm_client_session_id = fc_client_session_id (cl_context cf),
      fm_client_peer = peer_to_string (lb_session B) (cl_client_peer cf), fm_route = fc_route (cl_context cf),
      fm_data = \<lparr>de_kind = DATA_PLANE_KIND, de_session_id = cl_relay_session_id cf, de_frame = frame\<rparr>,
      fm_packet = Some packet\<rparr>"

definition send_to_exit ::
  "'w RelayLib \<Rightarrow> nat \<Rightarrow> SessionId \<Rightarrow> ClientForwarding \<Rightarrow> bytes \<Rightarrow> ForwardedPacket \<Rightarrow> ('w, unit) relay" where
  "send_to_exit B channel sid cf frame packet =
     mbind (json (js_forwarding (lb_codec B) (forward_message B cf frame packet))) (\<lambda>payload.
     mbind (request B (fc_exit_peer (cl_context cf)) payload) (\<lambda>i.
     modify (\<lambda>s. s\<lparr>rd_pending_forwards := fmupd i
       \<lparr>pf_client_session_id = sid, pf_response_channel = channel\<rparr> (rd_pending_forwards s)\<rparr>)))"

definition normalize_packet :: "ForwardingContext \<Rightarrow> ForwardedPacket \<Rightarrow> ForwardedPacket" where
  "normalize_packet c packet =
     packet\<lparr>fp_flow_id := fc_forwarding_id c, fp_session_id := fc_client_session_id c,
            fp_route_id := fc_forwarding_id c\<rparr>"

definition client_begin :: "SessionId \<Rightarrow> string \<Rightarrow> ('w, unit) relay" where
  "client_begin sid text = on_client_context sid text (\<lambda>c. begin_forwarding c (fc_forwarding_id c) ClientToExit)"

definition relay_frame :: "'w RelayLib \<Rightarrow> ClientForwarding \<Rightarrow> bytes \<Rightarrow> ('w, bytes) relay" where
  "relay_frame B cf payload =
     with_data_plane (cl_relay_session_id cf) ''missing relay channel'' ''open relay data plane''
       ''encrypt relay data'' (send_on B payload)"

definition on_client_request ::
  "'w RelayLib \<Rightarrow> PeerId \<Rightarrow> nat \<Rightarrow> ForwardingMessage \<Rightarrow> ('w, unit) relay" where
  "on_client_request B peer channel m =
     (let sid = de_session_id (fm_data m) in
      mbind (gets (\<lambda>s. fmlookup (rd_client_forwarding s) sid)) (\<lambda>found.
      mbind (lift_option (Re_Panic ''client forwarding context'') found) (\<lambda>cf.
      mbind (lift_result (Re_Forwarding ''validate client protocol request'')
        (validate_client (cl_context cf) sid peer)) (\<lambda>_.
      if fm_route m \<noteq> fc_route (cl_context cf) \<or> fm_client_peer m \<noteq> peer_to_string (lb_session B) (cl_client_peer cf)
      then fail (Re_Text ''invalid client protocol forwarding binding'')
      else
        mbind (lift_option (Re_Text ''client protocol metadata is missing'') (fm_packet m)) (\<lambda>packet.
        if fp_session_id packet \<noteq> fc_client_session_id (cl_context cf)
           \<or> fp_flow_id packet \<noteq> fc_client_session_id (cl_context cf)
           \<or> fp_route_id packet \<noteq> fc_client_session_id (cl_context cf)
        then fail (Re_Text ''invalid client protocol packet binding'')
        else
          mbind (with_data_plane sid ''missing client channel'' ''open client data plane''
            ''decrypt client protocol data'' (receive_on B (fm_data m))) (\<lambda>payload.
          if fp_payload packet \<noteq> payload
          then fail (Re_Text ''client protocol payload does not match encrypted payload'')
          else
            mbind (admit_flow (fm_forwarding_id m) (length payload)) (\<lambda>_.
            mbind (client_begin sid ''begin client protocol forwarding'') (\<lambda>_.
            mbind (relay_frame B cf payload) (\<lambda>frame.
            send_to_exit B channel sid cf frame (normalize_packet (cl_context cf) packet))))))))))"

subsection \<open>Forwarded packets at the exit\<close>

definition exit_route_peers :: "RouteBinding \<Rightarrow> PeerId \<Rightarrow> PeerId \<times> PeerId" where
  "exit_route_peers route client_peer =
     (case route of TwoHop entry exit _ \<Rightarrow> (entry, exit) | OneHop relay \<Rightarrow> (client_peer, relay))"

definition exit_context :: "ForwardingMessage \<Rightarrow> PeerId \<Rightarrow> ('w, unit) relay" where
  "exit_context m client_peer = with_state (\<lambda>s.
     if fm_contains (rd_exit_forwarding s) (fm_forwarding_id m) then ret ()
     else
       mbind (lift_result (Re_Forwarding []) (with_forwarding_id (fm_forwarding_id m) (fm_client_session_id m) client_peer
          (fst (exit_route_peers (fm_route m) client_peer)) (snd (exit_route_peers (fm_route m) client_peer))
          (fm_route m))) (\<lambda>c.
        mbind (lift_result (Re_Forwarding []) (establish_context c (de_session_id (fm_data m)))) (\<lambda>c'.
        modify (\<lambda>s. s\<lparr>rd_exit_forwarding := fmupd (fm_forwarding_id m) c' (rd_exit_forwarding s)\<rparr>))))"

definition exit_validate :: "'w RelayLib \<Rightarrow> PeerId \<Rightarrow> ForwardingMessage \<Rightarrow> ('w, ForwardedPacket) relay" where
  "exit_validate B peer m =
     (let fid = fm_forwarding_id m; sid = de_session_id (fm_data m) in
      mbind (on_exit_context fid ''validate forwarding message'' (check_context (\<lambda>c. validate_message (lb_session B) c m))) (\<lambda>_.
      mbind (on_exit_context fid ''validate entry peer'' (check_context (\<lambda>c. validate_entry c peer))) (\<lambda>_.
      mbind (modify (\<lambda>s. s\<lparr>rd_active_exit_session := Some sid\<rparr>)) (\<lambda>_.
      mbind (on_exit_context fid ''validate relay session'' (check_context (\<lambda>c. validate_relay_session c sid))) (\<lambda>_.
      mbind (lift_option (Re_Panic ''validated packet metadata'') (fm_packet m)) (\<lambda>packet.
      mbind (on_exit_context fid ''validate forwarding sequence'' (\<lambda>c. accept_sequence c (fp_sequence packet))) (\<lambda>_.
      mbind (on_exit_context fid ''begin exit forwarding'' (\<lambda>c. begin_forwarding c fid ClientToExit)) (\<lambda>_.
      ret packet))))))))"

definition adapter_config :: "NodeConfig \<Rightarrow> TcpAdapterConfig" where
  "adapter_config c =
     \<lparr>tc_maximum_request_size = tu_maximum_packet_size (nc_tun c),
      tc_maximum_response_size = tu_maximum_packet_size (nc_tun c), tc_connection_timeout = from_secs 3,
      tc_read_timeout = from_secs 3, tc_write_timeout = from_secs 3\<rparr>"

definition on_nat :: "string \<Rightarrow> (NatTable \<Rightarrow> (NatError + 'a) \<times> NatTable) \<Rightarrow> ('w, 'a) relay" where
  "on_nat text op s =
     (case rd_nat s of
        None \<Rightarrow> (Err (Re_Text ''UDP NAT is disabled''), s)
      | Some t \<Rightarrow> (case op t of (r, t') \<Rightarrow> (map_err (Re_Nat text) r, s\<lparr>rd_nat := Some t'\<rparr>)))"

definition udp_exchange ::
  "('t, 'u) StepEnv \<Rightarrow> 'w RelayLib \<Rightarrow> ForwardingMessage \<Rightarrow> ForwardedPacket \<Rightarrow> bytes \<Rightarrow> ForwardingContext
     \<Rightarrow> ExitForwardingBinding \<Rightarrow> ('w, bytes) relay" where
  "udp_exchange E B m packet payload context binding = with_state (\<lambda>s.
      let c = rd_config s; fid = fm_forwarding_id m; target = socket_to_string (fp_destination packet) in
      if \<not> nc_udp_enabled c then fail (Re_Text ''UDP runtime is disabled'')
      else
        mbind (on_handler ''validate UDP payload'' (\<lambda>h. validate_bound_payload h fid payload context binding)) (\<lambda>_.
        mbind (lift_option (Re_Panic ''validated UDP source'') (fp_source packet)) (\<lambda>source.
        let flow = \<lparr>fk_flow_id = fid, fk_source = source, fk_destination = fp_destination packet,
              fk_session_id = fp_session_id packet, fk_source_identity = fc_client_peer context,
              fk_entry_peer = fc_entry_peer context, fk_exit_peer = fc_exit_peer context, fk_protocol = 17\<rparr> in
        mbind (on_nat ''create UDP NAT mapping'' (\<lambda>t. nat_create (se_now E) (se_now2 E) t flow)) (\<lambda>mapping.
        mbind (lift_option (Re_Text ''UDP destination policy is not configured'') (rd_policy s)) (\<lambda>policy.
        mbind (lift_result (Re_Exit ''connect UDP exit adapter'')
          (udp_adapter_connect (se_udp E) socket_parse target policy (tu_maximum_packet_size (nc_tun c)) (from_secs 3))) (\<lambda>adapter.
        case udp_adapter_exchange (se_udp E) adapter payload of (result, adapter1) \<Rightarrow>
        mbind (lift_result (Re_Exit ''UDP exchange'') result) (\<lambda>response.
        mbind (lift_result (Re_Exit ''close UDP adapter'') (fst (udp_adapter_close adapter1))) (\<lambda>_.
        mbind (on_nat ''lookup UDP NAT return mapping'' (\<lambda>t. lookup_reverse (se_now3 E) t (nm_translated mapping) flow)) (\<lambda>_.
        ret response)))))))))"

definition dns_exchange ::
  "('t, 'u) StepEnv \<Rightarrow> ForwardingMessage \<Rightarrow> ForwardedPacket \<Rightarrow> bytes \<Rightarrow> ForwardingContext
     \<Rightarrow> ExitForwardingBinding \<Rightarrow> ('w, bytes) relay" where
  "dns_exchange E m packet payload context binding = with_state (\<lambda>s.
      let c = rd_config s in
      if \<not> nc_dns_enabled c then fail (Re_Text ''DNS runtime is disabled'')
      else
        mbind (lift_option (Re_Text ''DNS server is not configured'') (nc_dns_server c)) (\<lambda>text.
        mbind (lift_option (Re_Text ''invalid DNS server'') (socket_parse text)) (\<lambda>server.
        if fp_destination packet \<noteq> server
        then fail (Re_Text ''DNS destination does not match configured DNS server'')
        else
          mbind (on_handler ''validate DNS payload''
            (\<lambda>h. validate_bound_payload h (fm_forwarding_id m) payload context binding)) (\<lambda>_.
          mbind (lift_result (Re_Dns ''open DNS resolver'')
            (udp_resolver_new server \<lparr>dl_maximum_request_size = tu_maximum_packet_size (nc_tun c),
               dl_maximum_response_size = tu_maximum_packet_size (nc_tun c), dl_timeout = nc_dns_timeout c\<rparr> True)) (\<lambda>resolver.
          lift_result (Re_Dns ''DNS exchange'') (resolve_packet (se_dns E) resolver payload))))))"

definition tcp_exchange ::
  "('t, 'u) StepEnv \<Rightarrow> ForwardingMessage \<Rightarrow> ForwardedPacket \<Rightarrow> bytes \<Rightarrow> ForwardingContext
     \<Rightarrow> ExitForwardingBinding \<Rightarrow> ('w, bytes) relay" where
  "tcp_exchange E m packet payload context binding = with_state (\<lambda>s.
      let c = rd_config s in
      mbind (lift_option (Re_Text ''external exit destination is not configured'') (nc_external_test_destination c)) (\<lambda>destination.
      mbind (lift_option (Re_Text ''invalid configured forwarding destination'') (socket_parse destination)) (\<lambda>address.
      if fp_destination packet \<noteq> address
      then fail (Re_Text ''TCP destination does not match configured exit destination'')
      else
        mbind (lift_option (Re_Text ''TCP destination policy is not configured'') (rd_policy s)) (\<lambda>policy.
        mbind (lift_result (Re_Exit ''connect exit adapter'')
          (tcp_adapter_connect (se_tcp E) socket_parse destination policy (adapter_config c))) (\<lambda>adapter.
        mbind (gets rd_exit_handler) (\<lambda>h.
        case handle_bound_with_adapter_payload (tcp_adapter_exchange (se_tcp E)) h (fm_forwarding_id m) payload
            context binding adapter of (result, h1, adapter1) \<Rightarrow>
        mbind (modify (\<lambda>s. s\<lparr>rd_exit_handler := h1\<rparr>)) (\<lambda>_.
        mbind (lift_result (Re_Handler ''handle exit payload'') result) (\<lambda>response.
        mbind (lift_result (Re_Exit ''close exit adapter'') (fst (tcp_adapter_close (se_tcp E) adapter1))) (\<lambda>_.
        ret response)))))))))"

text \<open>An IP packet is written to the TUN device, if there is one, and has no response.\<close>

definition ip_write :: "'w RelayLib \<Rightarrow> bytes \<Rightarrow> ('w, unit) relay" where
  "ip_write B payload = modify (\<lambda>s.
     case rd_tun_writer s of
       None \<Rightarrow> s
     | Some w \<Rightarrow>
       (case network_packet_new payload (tu_maximum_packet_size (nc_tun (rd_config s))) (tu_mtu (nc_tun (rd_config s))) of
          Inl _ \<Rightarrow> s
        | Inr p \<Rightarrow> s\<lparr>rd_tun_writer := Some (snd (windows_writer_write_packet (lb_tun B) w p))\<rparr>))"

definition exit_exchange ::
  "('t, 'u) StepEnv \<Rightarrow> 'w RelayLib \<Rightarrow> ForwardingMessage \<Rightarrow> ForwardedPacket \<Rightarrow> bytes \<Rightarrow> ForwardingContext
     \<Rightarrow> ExitForwardingBinding \<Rightarrow> ('w, bytes option) relay" where
  "exit_exchange E B m packet payload context binding =
     (case fp_protocol packet of
        Fp_Udp \<Rightarrow> mbind (udp_exchange E B m packet payload context binding) (\<lambda>r. ret (Some r))
      | Fp_Dns \<Rightarrow> mbind (dns_exchange E m packet payload context binding) (\<lambda>r. ret (Some r))
      | Fp_Tcp \<Rightarrow> mbind (tcp_exchange E m packet payload context binding) (\<lambda>r. ret (Some r))
      | Fp_Ip \<Rightarrow> mbind (ip_write B payload) (\<lambda>_. ret None))"

definition exit_respond :: "'w RelayLib \<Rightarrow> nat \<Rightarrow> ForwardingMessage \<Rightarrow> bytes \<Rightarrow> ('w, unit) relay" where
  "exit_respond B channel m response =
     mbind (with_data_plane (de_session_id (fm_data m)) ''exit relay session missing for response''
       ''open exit response data plane'' ''encrypt exit response'' (send_on B response)) (\<lambda>frame.
     mbind (json (js_forwarding (lb_codec B)
       (m\<lparr>fm_kind := FORWARDING_KIND,
          fm_data := \<lparr>de_kind = DATA_PLANE_KIND, de_session_id = de_session_id (fm_data m), de_frame = frame\<rparr>\<rparr>)))
       (\<lambda>payload. respond B channel payload))"

definition on_exit_forward ::
  "('t, 'u) StepEnv \<Rightarrow> 'w RelayLib \<Rightarrow> PeerId \<Rightarrow> nat \<Rightarrow> ForwardingMessage \<Rightarrow> PeerId \<Rightarrow> ('w, unit) relay" where
  "on_exit_forward E B peer channel m client_peer =
     mbind (exit_context m client_peer) (\<lambda>_.
     mbind (exit_validate B peer m) (\<lambda>packet.
     mbind (with_data_plane (de_session_id (fm_data m)) ''unknown exit relay session'' ''open exit data plane''
       ''decrypt exit data'' (receive_on B (fm_data m))) (\<lambda>payload.
     if fp_payload packet \<noteq> payload
     then fail (Re_Text ''forwarded packet payload does not match encrypted payload'')
     else
       mbind (admit_flow (fm_forwarding_id m) (length payload)) (\<lambda>_.
       mbind (gets (\<lambda>s. fmlookup (rd_exit_forwarding s) (fm_forwarding_id m))) (\<lambda>found.
       mbind (lift_option (Re_Panic ''exit forwarding context'') found) (\<lambda>context.
       mbind (gets (own_peer B)) (\<lambda>own.
       mbind (exit_exchange E B m packet payload context
         \<lparr>eb_relay_session_id = de_session_id (fm_data m), eb_entry_peer = peer, eb_exit_peer = own\<rparr>) (\<lambda>response.
       case response of None \<Rightarrow> ret () | Some r \<Rightarrow> exit_respond B channel m r))))))))"

definition on_forwarding ::
  "('t, 'u) StepEnv \<Rightarrow> 'w RelayLib \<Rightarrow> PeerId \<Rightarrow> nat \<Rightarrow> ForwardingMessage \<Rightarrow> ('w, unit) relay" where
  "on_forwarding E B peer channel m = with_state (\<lambda>s.
     let own = own_peer B s in
     if fm_kind m \<noteq> FORWARDING_KIND then ret ()
     else if (case fm_route m of TwoHop entry _ _ \<Rightarrow> entry = own | _ \<Rightarrow> False)
         \<and> fm_contains (rd_client_forwarding s) (de_session_id (fm_data m))
     then on_client_request B peer channel m
     else if nc_relay_role (rd_config s) = Role_Entry then ret ()
     else if \<not> (case fm_route m of TwoHop _ exit _ \<Rightarrow> exit = own | OneHop relay \<Rightarrow> relay = own) then ret ()
     else case peer_parse (lb_session B) (fm_client_peer m) of
         None \<Rightarrow> ret ()
       | Some client_peer \<Rightarrow> on_exit_forward E B peer channel m client_peer)"

subsection \<open>Data-plane envelopes\<close>

definition on_client_envelope ::
  "'w RelayLib \<Rightarrow> PeerId \<Rightarrow> nat \<Rightarrow> DataPlaneEnvelope \<Rightarrow> ('w, unit) relay" where
  "on_client_envelope B peer channel envelope =
     (let sid = de_session_id envelope in
      mbind (with_data_plane sid ''missing client channel'' ''open client data plane'' ''decrypt client data''
        (receive_on B envelope)) (\<lambda>payload.
      mbind (gets (\<lambda>s. fmlookup (rd_client_forwarding s) sid)) (\<lambda>found.
      mbind (lift_option (Re_Text ''client forwarding state missing'') found) (\<lambda>cf.
      if cl_client_peer cf \<noteq> peer then ret ()
      else
        mbind (client_begin sid ''begin client forwarding'') (\<lambda>_.
        mbind (relay_frame B cf payload) (\<lambda>frame.
        mbind (gets (\<lambda>s. nc_allowed_exit_destinations (rd_config s))) (\<lambda>allowed.
        mbind (lift_option (Re_Text ''no allowed exit destination configured'')
          (case allowed of [] \<Rightarrow> None | d # _ \<Rightarrow> Some d)) (\<lambda>text.
        mbind (lift_option (Re_Text ''invalid configured forwarding destination'') (socket_parse text)) (\<lambda>destination.
        send_to_exit B channel sid cf frame
          \<lparr>fp_protocol = Fp_Tcp, fp_source = None, fp_destination = destination,
           fp_flow_id = fc_forwarding_id (cl_context cf), fp_session_id = fc_client_session_id (cl_context cf),
           fp_route_id = fc_forwarding_id (cl_context cf), fp_sequence = 1, fp_payload = payload\<rparr>)))))))))"

text \<open>A relay that is not an entry for the session acknowledges the data.\<close>

definition on_own_envelope :: "'w RelayLib \<Rightarrow> nat \<Rightarrow> DataPlaneEnvelope \<Rightarrow> EncryptedChannel \<Rightarrow> ('w, unit) relay" where
  "on_own_envelope B channel envelope c =
     mbind (lift_result (Re_DataPlane ''open data plane'') (data_plane_open c DEFAULT_MAXIMUM_PAYLOAD_SIZE)) (\<lambda>d.
     case receive_on B envelope d of
       (Inl _, d1) \<Rightarrow>
         modify (\<lambda>s. s\<lparr>rd_channels := fmupd (de_session_id envelope) (dp_channel d1) (rd_channels s)\<rparr>)
     | (Inr payload, d1) \<Rightarrow>
         (case send_on B (str_bytes ''ack: '' @ payload) d1 of (r, d2) \<Rightarrow>
          mbind (modify (\<lambda>s. s\<lparr>rd_channels := fmupd (de_session_id envelope) (dp_channel d2) (rd_channels s)\<rparr>)) (\<lambda>_.
          mbind (lift_result (Re_DataPlane ''send data-plane acknowledgement'') r) (\<lambda>frame.
          mbind (json (js_envelope (lb_codec B)
            \<lparr>de_kind = DATA_PLANE_KIND, de_session_id = de_session_id envelope, de_frame = frame\<rparr>))
            (\<lambda>text. respond B channel text)))))"

definition on_envelope :: "'w RelayLib \<Rightarrow> PeerId \<Rightarrow> nat \<Rightarrow> DataPlaneEnvelope \<Rightarrow> ('w, unit) relay" where
  "on_envelope B peer channel envelope = with_state (\<lambda>s.
     if de_kind envelope \<noteq> DATA_PLANE_KIND then ret ()
     else if fm_contains (rd_client_forwarding s) (de_session_id envelope)
     then on_client_envelope B peer channel envelope
     else case fmlookup (rd_channels s) (de_session_id envelope) of
         None \<Rightarrow> ret ()
       | Some c \<Rightarrow> on_own_envelope B channel envelope c)"

subsection \<open>Requests and responses\<close>

text \<open>The first type the payload decodes as decides.\<close>

definition on_discovery_request ::
  "('t, 'u) StepEnv \<Rightarrow> 'w RelayLib \<Rightarrow> PeerId \<Rightarrow> nat \<Rightarrow> bytes \<Rightarrow> ('w, unit) relay" where
  "on_discovery_request E B peer channel payload =
     (case js_parse_init (lb_codec B) payload of
        Some init \<Rightarrow> on_handshake_init E B peer channel init
      | None \<Rightarrow>
        (case js_parse_metadata_request (lb_codec B) payload of
           Some r \<Rightarrow> on_metadata_request E B channel r
         | None \<Rightarrow>
           (case js_parse_forwarding (lb_codec B) payload of
              Some m \<Rightarrow> on_forwarding E B peer channel m
            | None \<Rightarrow>
              (case js_parse_envelope (lb_codec B) payload of
                 Some envelope \<Rightarrow> on_envelope B peer channel envelope
               | None \<Rightarrow> ret ()))))"

definition complete_relay_handshake ::
  "('t, 'u) StepEnv \<Rightarrow> 'w RelayLib \<Rightarrow> PendingRelayHandshake \<Rightarrow> HandshakeResponse \<Rightarrow> ('w, unit) relay" where
  "complete_relay_handshake E B h response =
     mbind (lift_result (Re_Session []) (initiator_complete (lb_session B) (ph_initiator h) response)) (\<lambda>session.
     let sid = ss_session_id session in
     mbind (open_channel sid session ''open relay channel'') (\<lambda>_.
     case ph_route h of
       OneHop _ \<Rightarrow> fail (Re_Panic ''unreachable'')
     | TwoHop entry exit _ \<Rightarrow>
       mbind (lift_result (Re_Forwarding []) (forwarding_new (se_session_id E) (ph_client_session_id h) (ph_client_peer h)
         entry exit (ph_route h))) (\<lambda>context.
       mbind (lift_result (Re_Forwarding []) (establish_context context sid)) (\<lambda>context'.
       mbind (modify (\<lambda>s. s\<lparr>rd_client_forwarding := fmupd (ph_client_session_id h)
         \<lparr>cl_client_peer = ph_client_peer h, cl_context = context', cl_relay_session_id = sid\<rparr>
         (rd_client_forwarding s)\<rparr>)) (\<lambda>_.
       case ph_client_response_channel h of
         None \<Rightarrow> ret ()
       | Some channel \<Rightarrow>
         mbind (json (js_response (lb_codec B) (ph_client_response h))) (\<lambda>payload. respond B channel payload))))))"

definition on_handshake_response ::
  "('t, 'u) StepEnv \<Rightarrow> 'w RelayLib \<Rightarrow> PeerId \<Rightarrow> HandshakeResponse \<Rightarrow> ('w, unit) relay" where
  "on_handshake_response E B peer response =
     mbind (gets (\<lambda>s. fmlookup (rd_pending_handshakes s) (hr_session_id response))) (\<lambda>found.
     case found of
       None \<Rightarrow> ret ()
     | Some h \<Rightarrow>
       mbind (modify (\<lambda>s. s\<lparr>rd_pending_handshakes := fmdrop (hr_session_id response) (rd_pending_handshakes s)\<rparr>)) (\<lambda>_.
       if route_peers (ph_route h) = [] then fail (Re_Panic ''relay route peer'')
       else if peer \<noteq> List.last (route_peers (ph_route h)) then ret ()
       else complete_relay_handshake E B h response))"

definition on_forward_response ::
  "'w RelayLib \<Rightarrow> PeerId \<Rightarrow> bytes \<Rightarrow> PendingClientForward \<Rightarrow> ('w, unit) relay" where
  "on_forward_response B peer payload pending =
     (let sid = pf_client_session_id pending in
      mbind (lift_option (Re_Text ''decode exit forwarding response'') (js_parse_forwarding (lb_codec B) payload)) (\<lambda>m.
      mbind (gets (\<lambda>s. fmlookup (rd_client_forwarding s) sid)) (\<lambda>found.
      mbind (lift_option (Re_Text ''missing client forwarding context'') found) (\<lambda>cf.
      mbind (lift_result (Re_Forwarding ''validate exit response'') (validate_message (lb_session B) (cl_context cf) m)) (\<lambda>_.
      mbind (lift_result (Re_Forwarding ''validate exit response peer'') (validate_exit (cl_context cf) peer)) (\<lambda>_.
      mbind (lift_result (Re_Forwarding ''validate exit response session'')
        (validate_relay_session (cl_context cf) (de_session_id (fm_data m)))) (\<lambda>_.
      mbind (on_client_context sid ''begin return forwarding''
        (\<lambda>c. begin_forwarding c (fm_forwarding_id m) ExitToClient)) (\<lambda>_.
      mbind (with_data_plane (de_session_id (fm_data m)) ''missing entry relay channel''
        ''open entry response data plane'' ''decrypt exit response'' (receive_on B (fm_data m))) (\<lambda>incoming.
      mbind (with_data_plane sid ''missing client channel'' ''open client response data plane''
        ''encrypt client response'' (send_on B incoming)) (\<lambda>frame.
      mbind (json (js_forwarding (lb_codec B)
        \<lparr>fm_kind = FORWARDING_KIND, fm_forwarding_id = fm_forwarding_id m, fm_client_session_id = sid,
         fm_client_peer = peer_to_string (lb_session B) (cl_client_peer cf), fm_route = fm_route m,
         fm_data = \<lparr>de_kind = DATA_PLANE_KIND, de_session_id = sid, de_frame = frame\<rparr>,
         fm_packet = fm_packet m\<rparr>)) (\<lambda>text.
      respond B (pf_response_channel pending) text)))))))))))"

definition on_discovery_response ::
  "('t, 'u) StepEnv \<Rightarrow> 'w RelayLib \<Rightarrow> PeerId \<Rightarrow> nat \<Rightarrow> bytes \<Rightarrow> ('w, unit) relay" where
  "on_discovery_response E B peer request_id payload =
     (case js_parse_response (lb_codec B) payload of
        Some response \<Rightarrow> on_handshake_response E B peer response
      | None \<Rightarrow>
        mbind (gets (\<lambda>s. fmlookup (rd_pending_forwards s) request_id)) (\<lambda>found.
        case found of
          None \<Rightarrow> ret ()
        | Some pending \<Rightarrow>
          mbind (modify (\<lambda>s. s\<lparr>rd_pending_forwards := fmdrop request_id (rd_pending_forwards s)\<rparr>)) (\<lambda>_.
          on_forward_response B peer payload pending)))"

subsection \<open>The loop\<close>

definition on_network_event :: "('t, 'u) StepEnv \<Rightarrow> 'w RelayLib \<Rightarrow> NetworkEvent \<Rightarrow> ('w, unit) relay" where
  "on_network_event E B event =
     mbind (modify (\<lambda>s. s\<lparr>rd_state := apply_network_event (lb_addr B) (rd_state s) event (se_time E)\<rparr>)) (\<lambda>_.
     mbind (on_connection_event B event) (\<lambda>_.
     case event of
       DiscoveryRequest peer _ payload channel \<Rightarrow> on_discovery_request E B peer channel payload
     | DiscoveryResponse peer request_id payload \<Rightarrow> on_discovery_response E B peer request_id payload
     | _ \<Rightarrow> ret ()))"

definition on_heartbeat :: "('t, 'u) StepEnv \<Rightarrow> ('w, unit) relay" where
  "on_heartbeat E = modify (\<lambda>s.
     s\<lparr>rd_nat := map_option (nat_cleanup (se_now E)) (rd_nat s),
       rd_state := heartbeat_tick (rd_thresholds s) (rd_state s) (se_time E),
       rd_signals := (rd_signals s)
         \<lparr>hs_healthy := rh_class (health_evaluate (rd_state s) (rd_thresholds s) (se_time E)) \<noteq> Unhealthy\<rparr>\<rparr>)"

definition context_sessions :: "'w RelayLib \<Rightarrow> 'w RelayDaemon \<Rightarrow> SessionId list" where
  "context_sessions B s =
     map (\<lambda>f. fc_client_session_id (cl_context f))
       (List.map_filter (fmlookup (rd_client_forwarding s)) (lb_iter B (fmdom (rd_client_forwarding s)))) @
     map fc_client_session_id
       (List.map_filter (fmlookup (rd_exit_forwarding s)) (lb_iter B (fmdom (rd_exit_forwarding s))))"

definition on_shutdown :: "'w RelayLib \<Rightarrow> ('w, unit) relay" where
  "on_shutdown B =
     mbind (gets (\<lambda>s. co_lifecycle (rd_core s))) (\<lambda>l.
     mbind (if l = Lc_Ready then on_core ''relay lifecycle'' (\<lambda>c. core_transition c Lc_Draining) else ret ()) (\<lambda>_.
     mbind (on_core ''relay lifecycle'' (\<lambda>c. core_transition c Lc_ShuttingDown)) (\<lambda>_.
     mbind (modify (\<lambda>s. s\<lparr>rd_state := set_status (rd_state s) Status_ShuttingDown,
       rd_signals := \<lparr>hs_alive = False, hs_ready = False, hs_healthy = False\<rparr>,
       rd_nat := map_option (\<lambda>t. foldl nat_remove_session t (context_sessions B s)) (rd_nat s),
       rd_channels := fmempty, rd_client_forwarding := fmempty, rd_exit_forwarding := fmempty\<rparr>)) (\<lambda>_.
     on_core ''relay lifecycle'' (\<lambda>c. core_transition c Lc_Stopped)))))"

text \<open>
  \<open>Rv_Swarm None\<close> is the end of the swarm's stream. The result says whether the loop goes on.
\<close>

datatype relay_event = Rv_Tun bytes | Rv_Swarm "SwarmEvent option" | Rv_Heartbeat | Rv_Shutdown

definition daemon_step :: "('t, 'u) StepEnv \<Rightarrow> 'w RelayLib \<Rightarrow> relay_event \<Rightarrow> ('w, bool) relay" where
  "daemon_step E B event =
     (case event of
        Rv_Tun payload \<Rightarrow> mbind (on_tun_packet B payload) (\<lambda>_. ret True)
      | Rv_Swarm None \<Rightarrow> ret False
      | Rv_Swarm (Some e) \<Rightarrow>
          (case translate_event e of
             None \<Rightarrow> ret True
           | Some event \<Rightarrow> mbind (on_network_event E B event) (\<lambda>_. ret True))
      | Rv_Heartbeat \<Rightarrow> mbind (on_heartbeat E) (\<lambda>_. ret True)
      | Rv_Shutdown \<Rightarrow> mbind (on_shutdown B) (\<lambda>_. ret False))"

fun daemon_run :: "'w RelayLib \<Rightarrow> (('t, 'u) StepEnv \<times> relay_event) list \<Rightarrow> ('w, unit) relay" where
  "daemon_run B [] s = (Ok (), s)"
| "daemon_run B ((E, event) # rest) s =
     (case daemon_step E B event s of
        (Inl e, s') \<Rightarrow> (Err e, s')
      | (Inr True, s') \<Rightarrow> daemon_run B rest s'
      | (Inr False, s') \<Rightarrow> (Ok (), s'))"

subsection \<open>The health endpoint\<close>

definition status_text :: "nat \<Rightarrow> string" where
  "status_text code = (if code = 404 then ''Not Found'' else if code = 503 then ''Service Unavailable'' else ''OK'')"

definition crlf :: string where "crlf = [char_of (13 :: nat), char_of (10 :: nat)]"

definition http_response :: "nat \<Rightarrow> string \<Rightarrow> string" where
  "http_response code body =
     ''HTTP/1.1 '' @ show_nat code @ '' '' @ status_text code @ crlf @
     ''Content-Type: application/json'' @ crlf @
     ''Content-Length: '' @ show_nat (length body) @ crlf @
     ''Connection: close'' @ crlf @ crlf @ body"

definition quoted :: "string \<Rightarrow> string" where
  "quoted s = [char_of (34 :: nat)] @ s @ [char_of (34 :: nat)]"

definition json_field :: "string \<Rightarrow> string \<Rightarrow> string" where
  "json_field name value = ''{'' @ quoted name @ '':'' @ value @ ''}''"

definition health_answer :: "HealthSignals \<Rightarrow> string \<Rightarrow> nat \<times> string" where
  "health_answer h path =
     (if path = ''/live'' then (200, json_field ''alive'' ''true'')
      else if path = ''/ready'' \<and> hs_ready h then (200, json_field ''ready'' ''true'')
      else if path = ''/ready'' then (503, json_field ''ready'' ''false'')
      else if path = ''/health'' \<and> hs_healthy h then (200, json_field ''health'' (quoted ''healthy''))
      else if path = ''/health'' then (503, json_field ''health'' (quoted ''unhealthy''))
      else (404, json_field ''error'' (quoted ''not_found'')))"

end
