(* ===== verification/Relay_Invariants.thy ===== *)
theory Relay_Invariants
  imports Relay_Daemon
begin

text \<open>
  Invariants of the relay's event loop. The locale \<open>daemon_invariant\<close> states what a predicate on
  the daemon's state has to satisfy for the single updates that the handlers make; then every handler,
  every turn of the loop and every run keeps it. It is interpreted on three predicates of the model:
  handshakes are pending only for two-hop routes, the signals of the health endpoint agree with the
  life cycle, and the core stays within its limits.
\<close>

lemma route_case_intros [eff_intros]:
  "(\<And>a b c. r = TwoHop a b c \<Longrightarrow> keeps I (f a b c)) \<Longrightarrow> (\<And>a. r = OneHop a \<Longrightarrow> keeps I (g a))
     \<Longrightarrow> keeps I (case r of TwoHop a b c \<Rightarrow> f a b c | OneHop a \<Rightarrow> g a)"
  "(\<And>a b c. r = TwoHop a b c \<Longrightarrow> avoids I X (f a b c)) \<Longrightarrow> (\<And>a. r = OneHop a \<Longrightarrow> avoids I X (g a))
     \<Longrightarrow> avoids I X (case r of TwoHop a b c \<Rightarrow> f a b c | OneHop a \<Rightarrow> g a)"
  by (cases r; simp)+

lemma keeps_attempt [eff_intros]: "keeps I m \<Longrightarrow> keeps I (attempt m)"
  by (fastforce simp: keeps_def attempt_def split: prod.splits sum.splits)

lemma keeps_json [eff_intros]: "keeps I (json b)"
  by (simp add: json_def keeps_pure)

fun is_two_hop :: "RouteBinding \<Rightarrow> bool" where
  "is_two_hop (TwoHop _ _ _) = True"
| "is_two_hop (OneHop _) = False"

locale daemon_invariant =
  fixes I :: "'w RelayDaemon \<Rightarrow> bool" and B :: "'w RelayLib"
  assumes channels: "I s \<Longrightarrow> I (s\<lparr>rd_channels := x1\<rparr>)"
    and node: "I s \<Longrightarrow> I (s\<lparr>rd_node := x2\<rparr>)"
    and relay_state: "I s \<Longrightarrow> I (s\<lparr>rd_state := x3\<rparr>)"
    and responder: "I s \<Longrightarrow> I (s\<lparr>rd_responder := x4\<rparr>)"
    and exit_handler: "I s \<Longrightarrow> I (s\<lparr>rd_exit_handler := x5\<rparr>)"
    and nat: "I s \<Longrightarrow> I (s\<lparr>rd_nat := x6\<rparr>)"
    and client_forwarding: "I s \<Longrightarrow> I (s\<lparr>rd_client_forwarding := x7\<rparr>)"
    and exit_forwarding: "I s \<Longrightarrow> I (s\<lparr>rd_exit_forwarding := x8\<rparr>)"
    and pending_forwards: "I s \<Longrightarrow> I (s\<lparr>rd_pending_forwards := x9\<rparr>)"
    and active_exit: "I s \<Longrightarrow> I (s\<lparr>rd_active_exit_session := x10\<rparr>)"
    and tun_writer: "I s \<Longrightarrow> I (s\<lparr>rd_tun_writer := x11\<rparr>)"
    and pending_insert: "I s \<Longrightarrow> is_two_hop (ph_route h) \<Longrightarrow>
      I (s\<lparr>rd_pending_handshakes := fmupd k h (rd_pending_handshakes s)\<rparr>)"
    and pending_remove: "I s \<Longrightarrow> I (s\<lparr>rd_pending_handshakes := fmdrop k (rd_pending_handshakes s)\<rparr>)"
    and peer_admitted: "I s \<Longrightarrow> I (s\<lparr>rd_core := snd (core_admit_peer (rd_core s) p)\<rparr>)"
    and peer_removed: "I s \<Longrightarrow> I (s\<lparr>rd_core := core_remove_peer (rd_core s) p\<rparr>)"
    and session_admitted: "I s \<Longrightarrow> I (s\<lparr>rd_core := snd (core_admit_session (rd_core s) sid)\<rparr>)"
    and flow_admitted: "I s \<Longrightarrow> I (s\<lparr>rd_core := snd (core_admit_flow (rd_core s) fid n)\<rparr>)"
    and packet_rejected: "I s \<Longrightarrow> I (s\<lparr>rd_core := core_reject_packet (rd_core s)\<rparr>)"
    and session_error: "I s \<Longrightarrow> I (s\<lparr>rd_core := session_rejected (rd_core s)\<rparr>)"
    and listening: "keeps I (on_connection_event B (Listening a))"
    and beat: "keeps I (modify (\<lambda>s. s\<lparr>rd_signals := (rd_signals s)\<lparr>hs_healthy := b\<rparr>\<rparr>))"
    and shutdown: "keeps I (on_shutdown B)"
begin

lemmas updates = channels node relay_state responder exit_handler nat client_forwarding exit_forwarding
  pending_forwards active_exit tun_writer pending_remove

lemma keeps_parts [eff_intros]:
  "keeps I (on_handler text op2)" "keeps I (respond C channel payload)" "keeps I (request C p payload)"
  "keeps I (with_data_plane sid t1 t2 t3 op3)" "keeps I (on_client_context sid text op4)"
  "keeps I (on_exit_context fid text op5)" "keeps I (on_nat text op6)" "keeps I (open_channel sid session text)"
  by (auto simp: keeps_def on_handler_def respond_def request_def zoom_def with_data_plane_def
      on_client_context_def on_exit_context_def on_nat_def open_channel_def mbind_def lift_result_def map_err_def
      split: prod.splits option.splits sum.splits intro!: updates)

lemma keeps_admit_flow [eff_intros]: "keeps I (admit_flow fid n)"
proof -
  have "I (snd (admit_flow fid n s))" if "I s" for s
    using flow_admitted [OF that, of fid n] packet_rejected [OF flow_admitted [OF that, of fid n]]
    by (auto simp: admit_flow_def split: prod.splits sum.splits)
  then show ?thesis by (simp add: keeps_def)
qed

lemma keeps_admit_peer [eff_intros]: "keeps I (admit_peer p)"
proof -
  have "I (snd (admit_peer p s))" if "I s" for s
    using peer_admitted [OF that, of p] packet_rejected [OF peer_admitted [OF that, of p]]
    by (auto simp: admit_peer_def split: prod.splits sum.splits)
  then show ?thesis by (simp add: keeps_def)
qed

lemma updated:
  "keeps I (modify (\<lambda>s. s\<lparr>rd_channels := f1 s\<rparr>))" "keeps I (modify (\<lambda>s. s\<lparr>rd_node := f2 s\<rparr>))"
  "keeps I (modify (\<lambda>s. s\<lparr>rd_responder := f3 s\<rparr>))" "keeps I (modify (\<lambda>s. s\<lparr>rd_exit_handler := f4 s\<rparr>))"
  "keeps I (modify (\<lambda>s. s\<lparr>rd_client_forwarding := f5 s\<rparr>))" "keeps I (modify (\<lambda>s. s\<lparr>rd_exit_forwarding := f6 s\<rparr>))"
  "keeps I (modify (\<lambda>s. s\<lparr>rd_pending_forwards := f7 s\<rparr>))" "keeps I (modify (\<lambda>s. s\<lparr>rd_active_exit_session := f8 s\<rparr>))"
  "keeps I (modify (\<lambda>s. s\<lparr>rd_state := f9 s\<rparr>))"
  "keeps I (modify (\<lambda>s. s\<lparr>rd_pending_handshakes := fmdrop k (rd_pending_handshakes s)\<rparr>))"
  "keeps I (modify (\<lambda>s. s\<lparr>rd_core := core_remove_peer (rd_core s) p\<rparr>))"
  by (rule keeps_modify, erule updates peer_removed)+

lemma keeps_exit [eff_intros]:
  "keeps I (exit_context m client_peer)"
  "keeps I (exit_validate C peer m)"
  "keeps I (udp_exchange E C m packet payload context binding)"
  "keeps I (dns_exchange E m packet payload context binding)"
  "keeps I (tcp_exchange E m packet payload context binding)"
  "keeps I (exit_respond C channel m payload)"
  unfolding exit_context_def exit_validate_def udp_exchange_def dns_exchange_def tcp_exchange_def
    exit_respond_def Let_def
  by (intro eff_intros updated)+

lemma keeps_ip_write [eff_intros]: "keeps I (ip_write C payload)"
  unfolding ip_write_def by (rule keeps_modify) (auto intro: tun_writer split: option.splits sum.splits)

lemma keeps_exit_exchange [eff_intros]: "keeps I (exit_exchange E C m packet payload context binding)"
  unfolding exit_exchange_def by (cases "fp_protocol packet"; simp; intro eff_intros)

lemma keeps_client [eff_intros]:
  "keeps I (send_to_exit C channel sid cf frame packet)"
  "keeps I (client_begin sid text)"
  "keeps I (relay_frame C cf payload)"
  unfolding send_to_exit_def client_begin_def relay_frame_def
  by (intro eff_intros updated)+

lemma keeps_messages [eff_intros]:
  "keeps I (on_client_request C peer channel m)"
  "keeps I (on_exit_forward E C peer channel m client_peer)"
  "keeps I (on_client_envelope C peer channel envelope)"
  "keeps I (on_own_envelope C channel envelope c)"
  "keeps I (on_forward_response C peer payload pending)"
  "keeps I (on_metadata_request E C channel r)"
  "keeps I (complete_relay_handshake E C h response)"
  unfolding on_client_request_def on_exit_forward_def on_client_envelope_def on_own_envelope_def
    on_forward_response_def on_metadata_request_def complete_relay_handshake_def Let_def
  by (intro eff_intros updated)+

lemma keeps_start_relay_handshake:
  assumes "is_two_hop route"
  shows "keeps I (start_relay_handshake E C channel peer sid route response exit exit_address)"
  unfolding start_relay_handshake_def
  by (intro eff_intros updated keeps_modify pending_insert) (simp_all add: assms)

lemma keeps_admit_session [eff_intros]: "keeps I (admit_session sid)"
proof -
  have "I (snd (admit_session sid s))" if "I s" for s
    using session_admitted [OF that, of sid] session_error [OF session_admitted [OF that, of sid]]
    by (auto simp: admit_session_def split: prod.splits sum.splits)
  then show ?thesis by (simp add: keeps_def)
qed

lemma keeps_requests [eff_intros]:
  "keeps I (on_handshake_init E C peer channel init)"
  "keeps I (on_forwarding E C peer channel m)"
  "keeps I (on_envelope C peer channel envelope)"
  "keeps I (on_handshake_response E C peer response)"
  unfolding on_handshake_init_def on_forwarding_def on_envelope_def on_handshake_response_def Let_def
  by (intro eff_intros updated keeps_start_relay_handshake; simp)+

lemma keeps_discovery [eff_intros]:
  "keeps I (on_discovery_request E C peer channel payload)"
  "keeps I (on_discovery_response E C peer i payload)"
  "keeps I (on_tun_packet C payload)"
  unfolding on_discovery_request_def on_discovery_response_def on_tun_packet_def
  by (intro eff_intros updated)+

lemma keeps_connection_event: "keeps I (on_connection_event B event)"
proof (cases event)
  case (Listening a)
  then show ?thesis using listening by simp
qed (unfold on_connection_event_def, simp_all, (intro eff_intros updated)+)

lemma keeps_heartbeat: "keeps I (on_heartbeat E)"
proof (rule keepsI)
  fix s
  assume s: "I s"
  let ?b = "rh_class (health_evaluate (rd_state s) (rd_thresholds s) (se_time E)) \<noteq> Unhealthy"
  have "I (s\<lparr>rd_nat := map_option (nat_cleanup (se_now E)) (rd_nat s),
      rd_state := heartbeat_tick (rd_thresholds s) (rd_state s) (se_time E)\<rparr>)"
    using s by (intro updates)
  from keepsD [OF beat [of ?b] this] show "I (snd (on_heartbeat E s))"
    by (simp add: on_heartbeat_def)
qed

theorem keeps_step: "keeps I (daemon_step E B event)"
proof -
  have "keeps I (on_network_event E B e)" for e
    unfolding on_network_event_def
    by (cases e; simp del: apply_network_event.simps; intro eff_intros updated keeps_connection_event)
  then show ?thesis
    unfolding daemon_step_def
    by (cases event; simp; intro eff_intros keeps_heartbeat shutdown)
qed

theorem run_keeps: "I s \<Longrightarrow> I (snd (daemon_run B es s))"
proof (induction es arbitrary: s)
  case (Cons x es)
  obtain E event where x: "x = (E, event)" by (cases x)
  have "I (snd (daemon_step E B event s))"
    by (rule keepsD [OF keeps_step Cons.prems])
  then show ?case
    using Cons.IH by (auto simp: x split: prod.splits sum.splits bool.splits)
qed simp

end

subsection \<open>The invariants\<close>

text \<open>A handshake with an exit is only started for a two-hop route.\<close>

definition pending_two_hop :: "'w RelayDaemon \<Rightarrow> bool" where
  "pending_two_hop s = fmpred (\<lambda>_ h. is_two_hop (ph_route h)) (rd_pending_handshakes s)"

text \<open>Between the turns of the loop a relay is starting, ready or stopped, and the signals say so.\<close>

definition signals_agree :: "'w RelayDaemon \<Rightarrow> bool" where
  "signals_agree s \<longleftrightarrow>
     co_lifecycle (rd_core s) \<in> {Lc_Starting, Lc_Ready, Lc_Stopped} \<and>
     (hs_ready (rd_signals s) \<longleftrightarrow> co_lifecycle (rd_core s) = Lc_Ready) \<and>
     (hs_alive (rd_signals s) \<longleftrightarrow> co_lifecycle (rd_core s) \<noteq> Lc_Stopped)"

definition within_limits :: "RelayResourceLimits \<Rightarrow> 'w RelayDaemon \<Rightarrow> bool" where
  "within_limits l s = core_inv l (rd_core s)"

lemmas core_updates = core_admit_peer_def core_remove_peer_def core_admit_session_def core_admit_flow_def
  core_reject_packet_def session_rejected_def core_transition_def

lemmas lifecycle_steps = on_connection_event_def on_shutdown_def on_core_def zoom_def mbind_def core_transition_def
  lifecycle_valid_def

interpretation pending: daemon_invariant pending_two_hop B for B
  by unfold_locales
     (auto simp: pending_two_hop_def keeps_def lifecycle_steps Let_def split: if_splits)

interpretation signals: daemon_invariant signals_agree B for B
  by unfold_locales
     (auto simp: signals_agree_def keeps_def lifecycle_steps core_updates Let_def split: if_splits)

interpretation limits: daemon_invariant "within_limits l" B for l B
  by unfold_locales
     (auto simp: within_limits_def core_inv_def keeps_def lifecycle_steps core_updates Let_def not_le split: if_splits
        intro: fcard_finsert_le le_trans [OF fcard_remove_le])

end
