(* ===== verification/Relay_Flows.thy ===== *)
theory Relay_Flows
  imports Relay_Runs
begin

text \<open>
  What passes through a relay. At the exit a packet is only exchanged with a destination the
  configuration allows, and only when it was decrypted on the session with the entry that its route
  names; at the entry the packet of a client is passed on unchanged, in a message that the exit
  accepts and from whose frame it recovers the payload.
\<close>

subsection \<open>The exit\<close>

lemma on_exit_context_Ok:
  "on_exit_context fid text op s = (Inr x, s') \<longleftrightarrow>
     (\<exists>c c'. fmlookup (rd_exit_forwarding s) fid = Some c \<and> op c = (Inr x, c') \<and>
       s' = s\<lparr>rd_exit_forwarding := fmupd fid c' (rd_exit_forwarding s)\<rparr>)"
  by (auto simp: on_exit_context_def split: option.splits prod.splits)

lemma with_data_plane_Ok:
  "with_data_plane sid t1 t2 t3 op s = (Inr x, s') \<longleftrightarrow>
     (\<exists>c d d'. fmlookup (rd_channels s) sid = Some c \<and> data_plane_open c DEFAULT_MAXIMUM_PAYLOAD_SIZE = Ok d \<and>
       op d = (Inr x, d') \<and> s' = s\<lparr>rd_channels := fmupd sid (dp_channel d') (rd_channels s)\<rparr>)"
  by (auto simp: with_data_plane_def split: option.splits prod.splits sum.splits)

lemma admit_flow_Ok:
  "admit_flow fid n s = (Inr x, s') \<longleftrightarrow> (\<exists>c. core_admit_flow (rd_core s) fid n = (Inr (), c) \<and> s' = s\<lparr>rd_core := c\<rparr>)"
  by (auto simp: admit_flow_def split: prod.splits sum.splits)

lemmas relay_Ok = eff_Ok gets_Ok modify_Ok if_fail_Ok on_exit_context_Ok with_data_plane_Ok admit_flow_Ok

lemma receive_on_shape:
  assumes "receive_on B envelope d = (Inr payload, d')"
  obtains n q where "d' = d\<lparr>dp_channel := (dp_channel d)\<lparr>ec_session := (ec_session (dp_channel d))\<lparr>ss_last_received_nonce := n\<rparr>,
     ec_receive_sequence := q, ec_state := Channel_Established\<rparr>\<rparr>"
  using assms that
  by (auto simp: receive_on_def data_plane_receive_def Let_def channel_receive_Ok session_decrypt_Ok
      split: if_splits prod.splits sum.splits ChannelMessage.splits)

text \<open>What one end of a session sends the other end receives.\<close>

lemma sent_received_on:
  assumes sync: "channel_synced (lb_channel B) (lb_session B) c c'" and sid: "channel_session_id c = sid"
    and sent: "send_on B payload (plane_of c) = (Ok frame, d)"
  obtains d' where "receive_on B \<lparr>de_kind = DATA_PLANE_KIND, de_session_id = sid, de_frame = frame\<rparr> (plane_of c') = (Ok payload, d')"
    "data_plane_open c' DEFAULT_MAXIMUM_PAYLOAD_SIZE = Ok (plane_of c')"
    "channel_synced (lb_channel B) (lb_session B) (dp_channel d) (dp_channel d')"
proof -
  have "data_plane_synced (lb_channel B) (lb_session B) (plane_of c) (plane_of c')"
    using sync by (simp add: data_plane_synced_def)
  moreover have "data_plane_session_id d = sid"
    using sent sid channel_send_session_id
    by (auto simp: send_on_def data_plane_send_def data_plane_session_id_def split: if_splits prod.splits)
  ultimately obtain msg d' where rcv: "data_plane_receive (lb_channel B) (lb_session B) (plane_of c')
      \<lparr>de_kind = DATA_PLANE_KIND, de_session_id = sid, de_frame = frame\<rparr> = (Ok msg, d')" "dm_payload msg = payload"
    and sync': "data_plane_synced (lb_channel B) (lb_session B) d d'"
    using data_plane_sent_received [of _ _ "plane_of c" "plane_of c'"] sent unfolding send_on_def by metis
  then have "ec_state c' = Channel_Established"
    by (auto simp: data_plane_receive_def channel_receive_Ok Let_def split: if_splits prod.splits sum.splits)
  then have "data_plane_open c' DEFAULT_MAXIMUM_PAYLOAD_SIZE = Ok (plane_of c')"
    by (simp add: data_plane_open_def DEFAULT_MAXIMUM_PAYLOAD_SIZE_def)
  with rcv sync' that show thesis
    by (simp add: receive_on_def data_plane_synced_def)
qed

text \<open>What a successful check of a message at the exit says about the flow it belongs to.\<close>

definition exit_bound :: "'w RelayLib \<Rightarrow> PeerId \<Rightarrow> ForwardingMessage \<Rightarrow> ForwardedPacket \<Rightarrow> ForwardingContext \<Rightarrow> bool" where
  "exit_bound B peer m packet c \<longleftrightarrow>
     fm_packet m = Some packet \<and> fc_state c = Fs_Forwarding \<and>
     fc_entry_peer c = peer \<and> fc_relay_session_id c = Some (de_session_id (fm_data m)) \<and>
     fc_forwarding_id c = fm_forwarding_id m \<and> fc_client_session_id c = fm_client_session_id m \<and>
     fc_route c = fm_route m \<and> peer_parse (lb_session B) (fm_client_peer m) = Some (fc_client_peer c) \<and>
     fp_flow_id packet = fm_forwarding_id m \<and> fp_session_id packet = fm_client_session_id m \<and>
     fc_last_sequence c = Some (fp_sequence packet)"

lemma fmupd_lookup: "fmlookup m k = Some v \<Longrightarrow> fmupd k v m = m"
  by (rule fmap_ext) auto

lemma on_exit_check_Ok:
  "on_exit_context fid text (check_context f) s = (Inr x, s') \<longleftrightarrow>
     (\<exists>c. fmlookup (rd_exit_forwarding s) fid = Some c \<and> f c = Ok () \<and> s' = s)"
  by (auto simp: on_exit_context_Ok check_context_def fmupd_lookup)

lemma accept_sequence_Ok:
  "accept_sequence c q = (Inr u, c') \<longleftrightarrow>
     q \<noteq> 0 \<and> (\<forall>l. fc_last_sequence c = Some l \<longrightarrow> l < q) \<and> c' = c\<lparr>fc_last_sequence := Some q\<rparr>"
  by (auto simp: accept_sequence_def not_le split: if_splits option.splits)

lemma begin_forwarding_Ok:
  "begin_forwarding c i d = (Inr u, c') \<longleftrightarrow>
     (fc_state c = Fs_Established \<or> fc_state c = Fs_Forwarding) \<and> fc_last_request c \<noteq> Some (i, d) \<and>
     c' = c\<lparr>fc_last_request := Some (i, d), fc_state := Fs_Forwarding\<rparr>"
  by (auto simp: begin_forwarding_def split: if_splits)

text \<open>The context after the checks, from the one before.\<close>

definition exit_entered :: "ForwardingMessage \<Rightarrow> ForwardedPacket \<Rightarrow> ForwardingContext \<Rightarrow> ForwardingContext" where
  "exit_entered m packet c =
     c\<lparr>fc_last_sequence := Some (fp_sequence packet), fc_last_request := Some (fm_forwarding_id m, ClientToExit),
       fc_state := Fs_Forwarding\<rparr>"

lemma exit_validate_Ok:
  assumes "exit_validate B peer m s = (Inr packet, s')"
  obtains c where "fmlookup (rd_exit_forwarding s) (fm_forwarding_id m) = Some c"
    "validate_message (lb_session B) c m = Ok ()" "exit_bound B peer m packet (exit_entered m packet c)"
    "\<And>q. fc_last_sequence c = Some q \<Longrightarrow> q < fp_sequence packet"
    "s' = s\<lparr>rd_exit_forwarding := fmupd (fm_forwarding_id m) (exit_entered m packet c) (rd_exit_forwarding s),
           rd_active_exit_session := Some (de_session_id (fm_data m))\<rparr>"
proof -
  have idem: "fmupd k v (fmupd k w mp) = fmupd k v mp" for k :: SessionId and v w :: ForwardingContext and mp
    by (rule fmap_ext) auto
  have "\<exists>c c1 c2. fmlookup (rd_exit_forwarding s) (fm_forwarding_id m) = Some c \<and>
      validate_message (lb_session B) c m = Ok () \<and> validate_entry c peer = Ok () \<and>
      validate_relay_session c (de_session_id (fm_data m)) = Ok () \<and> fm_packet m = Some packet \<and>
      accept_sequence c (fp_sequence packet) = (Inr (), c1) \<and>
      begin_forwarding c1 (fm_forwarding_id m) ClientToExit = (Inr (), c2) \<and>
      s' = s\<lparr>rd_exit_forwarding := fmupd (fm_forwarding_id m) c2 (rd_exit_forwarding s),
             rd_active_exit_session := Some (de_session_id (fm_data m))\<rparr>"
    using assms
    unfolding exit_validate_def Let_def eff_Ok gets_Ok modify_Ok on_exit_check_Ok ret_def
    by (clarsimp simp: on_exit_context_Ok idem)
  then obtain c c1 c2 where c: "fmlookup (rd_exit_forwarding s) (fm_forwarding_id m) = Some c"
    and checks: "validate_message (lb_session B) c m = Ok ()" "validate_entry c peer = Ok ()"
      "validate_relay_session c (de_session_id (fm_data m)) = Ok ()" "fm_packet m = Some packet"
    and steps: "accept_sequence c (fp_sequence packet) = (Inr (), c1)"
      "begin_forwarding c1 (fm_forwarding_id m) ClientToExit = (Inr (), c2)"
    and s': "s' = s\<lparr>rd_exit_forwarding := fmupd (fm_forwarding_id m) c2 (rd_exit_forwarding s),
             rd_active_exit_session := Some (de_session_id (fm_data m))\<rparr>"
    by blast
  have "c2 = exit_entered m packet c" "\<And>q. fc_last_sequence c = Some q \<Longrightarrow> q < fp_sequence packet"
    using steps by (simp_all add: accept_sequence_Ok begin_forwarding_Ok exit_entered_def)
  moreover have "exit_bound B peer m packet (exit_entered m packet c)"
    using checks
    by (auto simp: exit_bound_def exit_entered_def validate_message_Ok fwd_validate_packet_Ok validate_entry_def
        validate_relay_session_def split: if_splits)
  ultimately show thesis using that c checks(1) s' by blast
qed

lemma on_handler_Ok:
  "on_handler text op s = (Inr x, s') \<longleftrightarrow> (\<exists>h. op (rd_exit_handler s) = (Inr x, h) \<and> s' = s\<lparr>rd_exit_handler := h\<rparr>)"
  by (auto simp: on_handler_def zoom_Ok)

lemma on_nat_Ok:
  "on_nat text op s = (Inr x, s') \<longleftrightarrow> (\<exists>t t'. rd_nat s = Some t \<and> op t = (Inr x, t') \<and> s' = s\<lparr>rd_nat := Some t'\<rparr>)"
  by (auto simp: on_nat_def split: option.splits prod.splits)

lemma validate_bound_payload_Ok:
  "validate_bound_payload h i payload c b = (Inr x, h') \<longleftrightarrow>
     check_binding h c b = Ok () \<and> length payload \<le> eh_maximum_packet_size h \<and> i |\<notin>| eh_handled_packets h \<and>
     h' = h\<lparr>eh_handled_packets := finsert i (eh_handled_packets h)\<rparr>"
  by (auto simp: validate_bound_payload_def mark_handled_def split: sum.splits if_splits)

lemma handle_payload_Ok:
  "handle_bound_with_adapter_payload exchange h i payload c b a = (Inr r, h', a') \<Longrightarrow>
     check_binding h c b = Ok () \<and> i |\<notin>| eh_handled_packets h \<and>
     h' = h\<lparr>eh_handled_packets := finsert i (eh_handled_packets h)\<rparr>"
  by (auto simp: handle_bound_with_adapter_payload_def mark_handled_def split: sum.splits if_splits prod.splits)

lemma handle_payload_eqs:
  assumes "fst (handle_bound_with_adapter_payload exchange h i payload c b a) = Inr r"
  shows "check_binding h c b = Ok ()" "i |\<notin>| eh_handled_packets h"
    "fst (snd (handle_bound_with_adapter_payload exchange h i payload c b a)) =
       h\<lparr>eh_handled_packets := finsert i (eh_handled_packets h)\<rparr>"
  using handle_payload_Ok [of exchange h i payload c b a r "fst (snd (handle_bound_with_adapter_payload exchange h i payload c b a))"
      "snd (snd (handle_bound_with_adapter_payload exchange h i payload c b a))"] assms
  by (auto simp: prod_eq_iff)

text \<open>The destinations that the configuration lets a packet reach, by its protocol.\<close>

fun destination_served :: "NodeConfig \<Rightarrow> DestinationPolicy option \<Rightarrow> ForwardedPacket \<Rightarrow> ForwardedProtocol \<Rightarrow> bool" where
  "destination_served c policy packet Fp_Udp =
     (nc_udp_enabled c \<and> (case policy of None \<Rightarrow> False
        | Some p \<Rightarrow> is_ok (policy_validate_udp socket_parse p (socket_to_string (fp_destination packet)))))"
| "destination_served c policy packet Fp_Dns =
     (nc_dns_enabled c \<and> (case nc_dns_server c of None \<Rightarrow> False
        | Some server \<Rightarrow> socket_parse server = Some (fp_destination packet)))"
| "destination_served c policy packet Fp_Tcp =
     (case nc_external_test_destination c of None \<Rightarrow> False
      | Some d \<Rightarrow> socket_parse d = Some (fp_destination packet) \<and>
          (case policy of None \<Rightarrow> False | Some p \<Rightarrow> policy_validate socket_parse p d = Ok (fp_destination packet)))"
| "destination_served c policy packet Fp_Ip = False"

lemma udp_connect_valid:
  "udp_adapter_connect S parse d p n t = Ok u \<Longrightarrow> is_ok (policy_validate_udp parse p d)"
  by (drule udp_adapter_connect_Ok) simp

lemma tcp_connect_valid:
  "tcp_adapter_connect S parse d p cfg = Ok u \<Longrightarrow> parse d = Some a \<Longrightarrow> policy_validate parse p d = Ok a"
  by (auto simp: tcp_adapter_connect_def policy_validate_def split: sum.splits prod.splits if_splits option.splits)

definition exchange_done :: "'w RelayDaemon \<Rightarrow> 'w RelayDaemon \<Rightarrow> SessionId \<Rightarrow> ForwardingContext \<Rightarrow> ExitForwardingBinding \<Rightarrow> bool" where
  "exchange_done s s' fid c b \<longleftrightarrow>
     check_binding (rd_exit_handler s) c b = Ok () \<and> fid |\<notin>| eh_handled_packets (rd_exit_handler s) \<and>
     rd_exit_handler s' = (rd_exit_handler s)\<lparr>eh_handled_packets := finsert fid (eh_handled_packets (rd_exit_handler s))\<rparr> \<and>
     rd_exit_forwarding s' = rd_exit_forwarding s \<and> rd_node s' = rd_node s \<and> rd_channels s' = rd_channels s"

lemma udp_exchange_Ok:
  assumes "udp_exchange E B m packet payload c b s = (Inr r, s')"
  shows "destination_served (rd_config s) (rd_policy s) packet Fp_Udp \<and> exchange_done s s' (fm_forwarding_id m) c b"
  using assms
  unfolding udp_exchange_def with_state_def Let_def case_prod_beta relay_Ok on_handler_Ok on_nat_Ok validate_bound_payload_Ok
  by (clarsimp simp: exchange_done_def udp_connect_valid)

lemma dns_exchange_Ok:
  assumes "dns_exchange E m packet payload c b s = (Inr r, s')"
  shows "destination_served (rd_config s) (rd_policy s) packet Fp_Dns \<and> exchange_done s s' (fm_forwarding_id m) c b"
  using assms unfolding dns_exchange_def with_state_def Let_def relay_Ok on_handler_Ok validate_bound_payload_Ok
  by (clarsimp simp: exchange_done_def)

lemma tcp_exchange_Ok:
  assumes "tcp_exchange E m packet payload c b s = (Inr r, s')"
  shows "destination_served (rd_config s) (rd_policy s) packet Fp_Tcp \<and> exchange_done s s' (fm_forwarding_id m) c b"
proof -
  have split: "(case x of (a, h, b) \<Rightarrow> f a h b) = f (fst x) (fst (snd x)) (snd (snd x))"
    for x :: "('x + bytes) \<times> ExitPacketHandler \<times> 'y" and f :: "'x + bytes \<Rightarrow> ExitPacketHandler \<Rightarrow> 'y \<Rightarrow> ('w, bytes) relay"
    by (simp add: case_prod_beta)
  show ?thesis
    using assms unfolding tcp_exchange_def with_state_def Let_def split relay_Ok
    by (clarsimp simp: exchange_done_def tcp_connect_valid) (auto dest: handle_payload_eqs)
qed


lemma establish_context_Ok:
  "establish_context c sid = Ok c' \<longleftrightarrow>
     fc_state c = Fs_Created \<and> c' = c\<lparr>fc_state := Fs_Established, fc_relay_session_id := Some sid\<rparr>"
  by (auto simp: establish_context_def transition_connecting_def transition_established_def fwd_transition_def
      bind_relay_session_def)

lemma exit_context_Ok:
  "exit_context m client_peer s = (Inr x, s') \<Longrightarrow>
     (\<exists>f. s' = s\<lparr>rd_exit_forwarding := f\<rparr>) \<and>
     (\<forall>c. fmlookup (rd_exit_forwarding s) (fm_forwarding_id m) = Some c \<longrightarrow> s' = s)"
  by (auto simp: exit_context_def fm_contains_def eff_Ok split: if_splits dest: fmdomI)
     (metis RelayDaemon.surjective RelayDaemon.update_convs(15))

text \<open>The exchange of a packet with the outside, which an IP packet does not have.\<close>

lemma exit_exchange_Ok:
  "exit_exchange E B m packet payload c b s = (Inr (Some r), s') \<Longrightarrow>
     destination_served (rd_config s) (rd_policy s) packet (fp_protocol packet) \<and>
     exchange_done s s' (fm_forwarding_id m) c b"
  "exit_exchange E B m packet payload c b s = (Inr None, s') \<Longrightarrow>
     rd_node s' = rd_node s \<and> rd_exit_handler s' = rd_exit_handler s"
  using udp_exchange_Ok dns_exchange_Ok tcp_exchange_Ok
  by (fastforce simp: exit_exchange_def eff_Ok ip_write_def split: ForwardedProtocol.splits option.splits sum.splits)+

lemma exit_respond_Ok:
  "exit_respond B channel m r s = (Inr x, s') \<Longrightarrow>
     rd_exit_forwarding s' = rd_exit_forwarding s \<and> rd_exit_handler s' = rd_exit_handler s"
  by (auto simp: exit_respond_def respond_def json_def relay_Ok)

text \<open>
  What a relay has checked when it answers a forwarded packet: it serves as an exit and is the one
  that the route names; the message comes from the entry of a context that is bound to the session
  it names; the payload is what that session's channel decrypts the frame to; and the identifier was
  not handled before.
\<close>

definition exit_authorised :: "'w RelayLib \<Rightarrow> 'w RelayDaemon \<Rightarrow> 'w RelayDaemon \<Rightarrow> PeerId \<Rightarrow> ForwardingMessage \<Rightarrow> ForwardedPacket \<Rightarrow> bool" where
  "exit_authorised B s s' peer m packet \<longleftrightarrow>
     nc_relay_role (rd_config s) \<noteq> Role_Entry \<and>
     (\<exists>c. fmlookup (rd_exit_forwarding s') (fm_forwarding_id m) = Some c \<and>
        exit_bound B peer m packet c \<and> fc_exit_peer c = own_peer B s) \<and>
     (\<forall>c q. fmlookup (rd_exit_forwarding s) (fm_forwarding_id m) = Some c \<longrightarrow> fc_last_sequence c = Some q \<longrightarrow>
        q < fp_sequence packet) \<and>
     (\<exists>c d. fmlookup (rd_channels s) (de_session_id (fm_data m)) = Some c \<and>
        data_plane_open c DEFAULT_MAXIMUM_PAYLOAD_SIZE = Ok d \<and>
        fst (receive_on B (fm_data m) d) = Ok (fp_payload packet)) \<and>
     destination_served (rd_config s) (rd_policy s) packet (fp_protocol packet) \<and>
     fm_forwarding_id m |\<notin>| eh_handled_packets (rd_exit_handler s) \<and>
     fm_forwarding_id m |\<in>| eh_handled_packets (rd_exit_handler s')"


lemma exit_forward_authorised:
  assumes run: "on_exit_forward E B peer channel m client_peer s = (Inr (), s')"
    and answered: "rd_node s' \<noteq> rd_node s" and role: "nc_relay_role (rd_config s) \<noteq> Role_Entry"
  shows "\<exists>packet. exit_authorised B s s' peer m packet"
proof -
  obtain u s1 packet s2 payload s3 s4 s5 c response
    where ctx: "exit_context m client_peer s = (Inr u, s1)"
      and val: "exit_validate B peer m s1 = (Inr packet, s2)"
      and dec: "with_data_plane (de_session_id (fm_data m)) ''unknown exit relay session'' ''open exit data plane''
        ''decrypt exit data'' (receive_on B (fm_data m)) s2 = (Inr payload, s3)"
      and payload: "fp_payload packet = payload"
      and admit: "admit_flow (fm_forwarding_id m) (length payload) s3 = (Inr (), s4)"
      and c: "fmlookup (rd_exit_forwarding s4) (fm_forwarding_id m) = Some c"
      and exch: "exit_exchange E B m packet payload c
        \<lparr>eb_relay_session_id = de_session_id (fm_data m), eb_entry_peer = peer, eb_exit_peer = own_peer B s4\<rparr> s4 = (Inr response, s5)"
      and resp: "(case response of None \<Rightarrow> ret () | Some r \<Rightarrow> exit_respond B channel m r) s5 = (Inr (), s')"
    using run unfolding on_exit_forward_def relay_Ok by auto
  obtain f where s1: "s1 = s\<lparr>rd_exit_forwarding := f\<rparr>"
    and old: "\<And>c. fmlookup (rd_exit_forwarding s) (fm_forwarding_id m) = Some c \<Longrightarrow> s1 = s"
    using exit_context_Ok [OF ctx] by blast
  obtain c0 where c0: "fmlookup f (fm_forwarding_id m) = Some c0"
    and bound: "exit_bound B peer m packet (exit_entered m packet c0)"
    and seq: "\<And>q. fc_last_sequence c0 = Some q \<Longrightarrow> q < fp_sequence packet"
    and s2: "s2 = s\<lparr>rd_exit_forwarding := fmupd (fm_forwarding_id m) (exit_entered m packet c0) f,
        rd_active_exit_session := Some (de_session_id (fm_data m))\<rparr>"
    by (rule exit_validate_Ok [OF val]) (auto simp: s1)
  obtain ch d d' where ch: "fmlookup (rd_channels s) (de_session_id (fm_data m)) = Some ch"
      "data_plane_open ch DEFAULT_MAXIMUM_PAYLOAD_SIZE = Ok d" "receive_on B (fm_data m) d = (Inr payload, d')"
    and s3: "s3 = s2\<lparr>rd_channels := fmupd (de_session_id (fm_data m)) (dp_channel d') (rd_channels s2)\<rparr>"
    using dec by (auto simp: with_data_plane_Ok s2)
  obtain core where s4: "s4 = s3\<lparr>rd_core := core\<rparr>"
    using admit by (auto simp: admit_flow_Ok)
  note steps = s2 s3 s4
  have c': "c = exit_entered m packet c0"
    using c by (simp add: steps)
  obtain r where r: "response = Some r"
    using resp answered exit_exchange_Ok(2) [of E B m packet payload c _ s4 s5] exch
    by (cases response) (auto simp: steps)
  note served = exit_exchange_Ok(1) [OF exch [unfolded r], unfolded exchange_done_def check_binding_Ok]
  have fin: "rd_exit_forwarding s' = rd_exit_forwarding s5 \<and> rd_exit_handler s' = rd_exit_handler s5"
    using resp exit_respond_Ok [of B channel m r s5 "()" s'] by (simp add: r)
  have own: "own_peer B s4 = own_peer B s"
    by (simp add: own_peer_def steps)
  have "q < fp_sequence packet"
    if "fmlookup (rd_exit_forwarding s) (fm_forwarding_id m) = Some k" "fc_last_sequence k = Some q" for k q
  proof -
    have "f = rd_exit_forwarding s1" by (simp add: s1)
    with old [OF that(1)] that c0 seq show ?thesis by auto
  qed
  then have "exit_authorised B s s' peer m packet"
    unfolding exit_authorised_def using served role bound ch payload fin c c' own
    by (auto simp: steps)
  then show ?thesis ..
qed


text \<open>
  C10: a relay answers a forwarded packet only after it has been authorised: the packet came from the
  entry of a context that is bound to the session it was encrypted on, it decrypts on that session to
  the payload that the message names, its sequence number is larger than those before, the
  destination is one that the configuration serves, and no packet with its identifier was handled
  before. Every other message is dropped or ends the loop with an error.
\<close>

theorem exit_answers_only_authorised:
  assumes "on_forwarding E B peer channel m s = (Ok (), s')" and "rd_node s' \<noteq> rd_node s"
    and "\<not> fm_contains (rd_client_forwarding s) (de_session_id (fm_data m))"
  shows "\<exists>packet. exit_authorised B s s' peer m packet"
proof -
  obtain client_peer where "on_exit_forward E B peer channel m client_peer s = (Inr (), s')"
    and "nc_relay_role (rd_config s) \<noteq> Role_Entry"
    using assms by (auto simp: on_forwarding_def Let_def split: if_splits option.splits)
  with exit_forward_authorised assms(2) show ?thesis by blast
qed

subsection \<open>The example at the exit\<close>

definition demo_exit_daemon :: "unit RelayDaemon" where
  "demo_exit_daemon =
     \<lparr>rd_config = demo_config\<lparr>nc_external_test_destination := Some ''1.1.1.1:53''\<rparr>, rd_identity = Keypair [2],
      rd_capabilities = [], rd_thresholds = \<lparr>ht_heartbeat_freshness = from_secs 30, ht_degraded_latency = from_millis 500\<rparr>,
      rd_policy = Some (policy_new [SocketV4 0x01010101 53]),
      rd_core = projr (core_new 0 (PeerId [2]) [] [] [] (nc_resource_limits demo_config)),
      rd_node = \<lparr>nn_calls = []\<rparr>, rd_state = relay_state_new 0 (PeerId [2]) None [],
      rd_registry = \<lparr>reg_relays = fmempty\<rparr>, rd_responder = responder_new (Keypair [2]),
      rd_channels = fmupd (SessionId [9]) demo_chan_r fmempty, rd_pending_handshakes = fmempty,
      rd_client_forwarding = fmempty, rd_pending_forwards = fmempty, rd_exit_forwarding = fmempty,
      rd_active_exit_session = None, rd_tun_writer = None, rd_nat = None,
      rd_exit_handler = projr (handler_open 1500 1500 16), rd_signals = signals_new\<rparr>"

definition demo_forwarded :: ForwardedPacket where
  "demo_forwarded = \<lparr>fp_protocol = Fp_Tcp, fp_source = None, fp_destination = SocketV4 0x01010101 53,
     fp_flow_id = SessionId [7], fp_session_id = SessionId [8], fp_route_id = SessionId [7], fp_sequence = 1,
     fp_payload = [7]\<rparr>"

definition demo_forward :: ForwardingMessage where
  "demo_forward = \<lparr>fm_kind = FORWARDING_KIND, fm_forwarding_id = SessionId [7],
     fm_client_session_id = SessionId [8], fm_client_peer = [CHR ''p''],
     fm_route = TwoHop (PeerId [1]) (PeerId [2]) [],
     fm_data = \<lparr>de_kind = DATA_PLANE_KIND, de_session_id = SessionId [9],
       de_frame = projr (fst (send_on demo_relay_lib [7] (plane_of demo_chan_s)))\<rparr>,
     fm_packet = Some demo_forwarded\<rparr>"

text \<open>The channel of the session with the entry decrypts the frame and encrypts the answer.\<close>

lemma demo_exit_channel:
  obtains d f d' where "receive_on demo_relay_lib (fm_data demo_forward) (plane_of demo_chan_r) = (Ok [7], d)"
    "data_plane_open demo_chan_r DEFAULT_MAXIMUM_PAYLOAD_SIZE = Ok (plane_of demo_chan_r)"
    "data_plane_open (dp_channel d) DEFAULT_MAXIMUM_PAYLOAD_SIZE = Ok d" "send_on demo_relay_lib [] d = (Ok f, d')"
proof -
  have lib: "lb_channel demo_relay_lib = demo_json" "lb_session demo_relay_lib = demo_lib"
    by (simp_all add: demo_relay_lib_def)
  have sid: "channel_session_id demo_chan_s = SessionId [9]"
    by (simp add: demo_chan_s_def channel_session_id_def demo_session_i_def sem_simps)
  obtain f d where sent: "send_on demo_relay_lib [7] (plane_of demo_chan_s) = (Ok f, d)"
    using demo_sent_Ok by (auto simp: send_on_def lib data_plane_send_def demo_sent_def DEFAULT_MAXIMUM_PAYLOAD_SIZE_def)
  have data: "fm_data demo_forward = \<lparr>de_kind = DATA_PLANE_KIND, de_session_id = SessionId [9], de_frame = f\<rparr>"
    by (simp add: demo_forward_def sent)
  obtain d1 where d1: "receive_on demo_relay_lib (fm_data demo_forward) (plane_of demo_chan_r) = (Ok [7], d1)"
    "data_plane_open demo_chan_r DEFAULT_MAXIMUM_PAYLOAD_SIZE = Ok (plane_of demo_chan_r)"
    by (rule sent_received_on [OF _ sid sent, of demo_chan_r]) (simp_all add: lib demo_synced data)
  obtain n q where shape: "d1 = plane_of (demo_chan_r\<lparr>ec_session := demo_session_r\<lparr>ss_last_received_nonce := n\<rparr>,
      ec_receive_sequence := q, ec_state := Channel_Established\<rparr>)"
    by (rule receive_on_shape [OF d1(1)]) (simp add: demo_chan_r_def)
  have "\<exists>f d2. send_on demo_relay_lib [] d1 = (Ok f, d2)"
    by (simp add: shape send_on_def lib data_plane_send_def channel_send_def channel_ensure_established_def demo_chan_r_def demo_chan_s_def
        Let_def checked_succ_def demo_json_def demo_session_r_def session_encrypt_def sem_simps demo_lib_def
        demo_header_to_def demo_char_bytes_def channel_session_id_def derive_session_def nonce_from_counter_def DEFAULT_MAXIMUM_PAYLOAD_SIZE_def)
  moreover have "data_plane_open (dp_channel d1) DEFAULT_MAXIMUM_PAYLOAD_SIZE = Ok d1"
    by (simp add: shape data_plane_open_def DEFAULT_MAXIMUM_PAYLOAD_SIZE_def)
  ultimately show thesis using that d1 by blast
qed

lemma demo_forward_fields:
  "fm_kind demo_forward = FORWARDING_KIND" "fm_forwarding_id demo_forward = SessionId [7]"
  "fm_client_session_id demo_forward = SessionId [8]" "fm_client_peer demo_forward = [CHR ''p'']"
  "fm_route demo_forward = TwoHop (PeerId [1]) (PeerId [2]) []" "fm_packet demo_forward = Some demo_forwarded"
  "de_session_id (fm_data demo_forward) = SessionId [9]" "de_kind (fm_data demo_forward) = DATA_PLANE_KIND"
  by (simp_all add: demo_forward_def)

lemma demo_relay_lib_fields:
  "lb_session demo_relay_lib = demo_lib" "lb_codec demo_relay_lib = demo_codec" "lb_swarm demo_relay_lib = demo_swarm"
  "peer_parse demo_lib [CHR ''p''] = Some (PeerId [112])" "js_forwarding demo_codec m = Some []"
  "own_peer demo_relay_lib s = (case rd_identity s of Keypair b \<Rightarrow> PeerId b)"
  by (simp_all add: demo_relay_lib_def demo_lib_def demo_codec_def own_peer_def split: Keypair.splits)

lemmas demo_exit_fields = demo_forward_fields demo_relay_lib_fields demo_forwarded_def

definition demo_exit_bound :: ForwardingContext where
  "demo_exit_bound = \<lparr>fc_forwarding_id = SessionId [7], fc_client_session_id = SessionId [8], fc_client_peer = PeerId [112],
     fc_entry_peer = PeerId [1], fc_exit_peer = PeerId [2], fc_route = TwoHop (PeerId [1]) (PeerId [2]) [],
     fc_state = Fs_Forwarding, fc_relay_session_id = Some (SessionId [9]),
     fc_last_request = Some (SessionId [7], ClientToExit), fc_last_sequence = Some 1\<rparr>"

lemma demo_exit_state:
  "rd_exit_forwarding demo_exit_daemon = fmempty" "rd_client_forwarding demo_exit_daemon = fmempty"
  "rd_identity demo_exit_daemon = Keypair [2]" "nc_relay_role (rd_config demo_exit_daemon) = Role_Both"
  "rd_channels demo_exit_daemon = fmupd (SessionId [9]) demo_chan_r fmempty"
  "rd_policy demo_exit_daemon = Some (policy_new [SocketV4 0x01010101 53])"
  "nc_external_test_destination (rd_config demo_exit_daemon) = Some ''1.1.1.1:53''"
  "rd_exit_handler demo_exit_daemon = \<lparr>eh_maximum_packet_size = 1500, eh_mtu = 1500, eh_maximum_pending_responses = 16,
     eh_pending_responses = [], eh_handled_packets = {||}, eh_closed = False\<rparr>"
  "rd_node demo_exit_daemon = \<lparr>nn_calls = []\<rparr>"
  "adapter_config (rd_config demo_exit_daemon) = \<lparr>tc_maximum_request_size = 1500, tc_maximum_response_size = 1500,
     tc_connection_timeout = from_secs 3, tc_read_timeout = from_secs 3, tc_write_timeout = from_secs 3\<rparr>"
  by (simp_all add: demo_exit_daemon_def demo_config_def handler_open_def adapter_config_def)

lemma demo_exit_context:
  "mbind (exit_context demo_forward (PeerId [112])) (\<lambda>_. exit_validate demo_relay_lib (PeerId [1]) demo_forward) demo_exit_daemon =
     (Ok demo_forwarded, demo_exit_daemon\<lparr>rd_exit_forwarding := fmupd (SessionId [7]) demo_exit_bound fmempty,
        rd_active_exit_session := Some (SessionId [9])\<rparr>)"
proof -
  have idem: "fmupd k v (fmupd k w mp) = fmupd k v mp" for k :: SessionId and v w :: ForwardingContext and mp
    by (rule fmap_ext) auto
  show ?thesis
    by (simp add: exit_context_def demo_exit_fields demo_exit_state fm_contains_def with_forwarding_id_def
      exit_route_peers_def mbind_def establish_context_Ok transition_connecting_def transition_established_def fwd_transition_def
      bind_relay_session_def establish_context_def lift_result_def exit_validate_def on_exit_context_def check_context_def
      validate_message_def fwd_validate_packet_def DEFAULT_MAXIMUM_PAYLOAD_SIZE_def validate_entry_def
      validate_relay_session_def accept_sequence_def begin_forwarding_def demo_exit_bound_def idem Let_def)
qed

lemma demo_exit_exchange:
  "exit_exchange demo_step_env demo_relay_lib demo_forward demo_forwarded [7] demo_exit_bound
     \<lparr>eb_relay_session_id = SessionId [9], eb_entry_peer = PeerId [1], eb_exit_peer = PeerId [2]\<rparr>
     (demo_exit_daemon\<lparr>rd_exit_forwarding := x, rd_active_exit_session := y, rd_channels := z, rd_core := w\<rparr>) =
     (Ok (Some []), demo_exit_daemon\<lparr>rd_exit_forwarding := x, rd_active_exit_session := y, rd_channels := z, rd_core := w,
        rd_exit_handler := (rd_exit_handler demo_exit_daemon)\<lparr>eh_handled_packets := {|SessionId [7]|}\<rparr>\<rparr>)"
  by (simp add: exit_exchange_def demo_exit_fields tcp_exchange_def mbind_def demo_exit_state demo_address
     tcp_adapter_connect_def tcp_config_validate_def from_secs_def policy_validate_def policy_new_def v4_is_unspecified_def demo_step_env_def
     handle_bound_with_adapter_payload_def check_binding_def demo_exit_bound_def handler_ensure_open_def
     validate_entry_def validate_exit_def validate_relay_session_def mark_handled_def
     tcp_adapter_exchange_def adapter_exchange_def tcp_adapter_send_def tcp_adapter_receive_def tcp_adapter_close_def)


lemma demo_exit_run:
  "\<exists>s' b. on_forwarding demo_step_env demo_relay_lib (PeerId [1]) 0 demo_forward demo_exit_daemon = (Ok (), s') \<and>
     rd_node s' = \<lparr>nn_calls = [Call_Respond 0 b]\<rparr>"
proof -
  obtain d f d' where d: "receive_on demo_relay_lib (fm_data demo_forward) (plane_of demo_chan_r) = (Ok [7], d)"
    "data_plane_open demo_chan_r DEFAULT_MAXIMUM_PAYLOAD_SIZE = Ok (plane_of demo_chan_r)"
    "data_plane_open (dp_channel d) DEFAULT_MAXIMUM_PAYLOAD_SIZE = Ok d" "send_on demo_relay_lib [] d = (Ok f, d')"
    by (rule demo_exit_channel)
  obtain core where core: "core_admit_flow (rd_core demo_exit_daemon) (SessionId [7]) (Suc 0) = (Ok (), core)"
    by (simp add: core_admit_flow_def demo_exit_daemon_def core_new_def demo_config_def Let_def)
  obtain u s1 where ctx: "exit_context demo_forward (PeerId [112]) demo_exit_daemon = (Inr u, s1)"
    "exit_validate demo_relay_lib (PeerId [1]) demo_forward s1 =
     (Ok demo_forwarded, demo_exit_daemon\<lparr>rd_exit_forwarding := fmupd (SessionId [7]) demo_exit_bound fmempty,
        rd_active_exit_session := Some (SessionId [9])\<rparr>)"
    using demo_exit_context unfolding mbind_Ok by blast
  have payload: "fp_payload demo_forwarded = [7]" by (simp add: demo_forwarded_def)
  show ?thesis
    by (simp add: on_forwarding_def demo_forward_fields demo_relay_lib_fields demo_exit_state fm_contains_def
        on_exit_forward_def ctx with_data_plane_def d core admit_flow_def payload demo_exit_exchange mbind_def
        exit_respond_def json_def respond_def zoom_def respond_to_discovery_def node_log_def demo_swarm_def)
qed

theorem exit_answers_only_authorised_witness:
  "\<exists>s' packet. on_forwarding demo_step_env demo_relay_lib (PeerId [1]) 0 demo_forward demo_exit_daemon = (Ok (), s') \<and>
     exit_authorised demo_relay_lib demo_exit_daemon s' (PeerId [1]) demo_forward packet"
proof -
  obtain s' b where run: "on_forwarding demo_step_env demo_relay_lib (PeerId [1]) 0 demo_forward demo_exit_daemon = (Ok (), s')"
    and "rd_node s' = \<lparr>nn_calls = [Call_Respond 0 b]\<rparr>"
    using demo_exit_run by blast
  then have "rd_node s' \<noteq> rd_node demo_exit_daemon" by (simp add: demo_exit_state)
  from exit_answers_only_authorised [OF run this] run show ?thesis
    by (auto simp: demo_exit_state fm_contains_def)
qed

end
