(* ===== verification/Two_Hop.thy ===== *)
theory Two_Hop
  imports Relay_Flows
begin

text \<open>
  The two hops of a packet put together. The entry decrypts a client's packet, checks that it belongs
  to the session it came on, encrypts it again for the exit and sends it in a message of its own. The
  exit makes a context for that message, accepts it and recovers the payload.
\<close>

subsection \<open>At the entry\<close>

text \<open>The flow of a client as the handshakes leave it; \<open>complete_relay_handshake\<close> makes no other.\<close>

definition client_flow_ok :: "ClientForwarding \<Rightarrow> bool" where
  "client_flow_ok cf \<longleftrightarrow>
     cl_client_peer cf = fc_client_peer (cl_context cf) \<and>
     fc_relay_session_id (cl_context cf) = Some (cl_relay_session_id cf) \<and>
     fc_entry_peer (cl_context cf) \<noteq> fc_exit_peer (cl_context cf) \<and>
     fc_client_peer (cl_context cf) \<notin> {fc_entry_peer (cl_context cf), fc_exit_peer (cl_context cf)} \<and>
     (\<exists>address. fc_route (cl_context cf) = TwoHop (fc_entry_peer (cl_context cf)) (fc_exit_peer (cl_context cf)) address)"

lemma forwarding_new_Ok:
  "forwarding_new fid sid client entry exit route = Ok c \<longleftrightarrow>
     (\<exists>address. route = TwoHop entry exit address) \<and> entry \<noteq> exit \<and> client \<noteq> entry \<and> client \<noteq> exit \<and>
     c = \<lparr>fc_forwarding_id = fid, fc_client_session_id = sid, fc_client_peer = client, fc_entry_peer = entry,
          fc_exit_peer = exit, fc_route = route, fc_state = Fs_Created, fc_relay_session_id = None,
          fc_last_request = None, fc_last_sequence = None\<rparr>"
  by (auto simp: forwarding_new_def with_forwarding_id_def split: RouteBinding.splits)

lemma open_channel_Ok:
  "open_channel sid session text s = (Inr x, s') \<longleftrightarrow>
     (\<exists>c. channel_open session CHANNEL_PROTOCOL_VERSION 4096 8 = Ok c \<and> s' = s\<lparr>rd_channels := fmupd sid c (rd_channels s)\<rparr>)"
  by (auto simp: open_channel_def eff_Ok)

lemma complete_relay_handshake_flow:
  assumes "complete_relay_handshake E B h response s = (Inr x, s')"
  shows "\<exists>cf. fmlookup (rd_client_forwarding s') (ph_client_session_id h) = Some cf \<and> client_flow_ok cf"
  using assms
  by (cases "ph_route h")
    (auto simp: complete_relay_handshake_def Let_def eff_Ok gets_Ok modify_Ok open_channel_Ok establish_context_Ok
      forwarding_new_Ok json_def respond_def client_flow_ok_def split: option.splits)

lemma on_client_context_Ok:
  "on_client_context sid text op s = (Inr x, s') \<longleftrightarrow>
     (\<exists>cf c. fmlookup (rd_client_forwarding s) sid = Some cf \<and> op (cl_context cf) = (Inr x, c) \<and>
       s' = s\<lparr>rd_client_forwarding := fmupd sid (cf\<lparr>cl_context := c\<rparr>) (rd_client_forwarding s)\<rparr>)"
  by (auto simp: on_client_context_def split: option.splits prod.splits)

lemma send_to_exit_Ok:
  "send_to_exit B channel sid cf frame packet s = (Inr x, s') \<Longrightarrow>
     \<exists>text. js_forwarding (lb_codec B) (forward_message B cf frame packet) = Some text \<and>
       rd_node s' = node_log (rd_node s) (Call_Request (fc_exit_peer (cl_context cf)) text) \<and>
       rd_channels s' = rd_channels s"
  by (auto simp: send_to_exit_def request_def request_discovery_def json_def eff_Ok gets_Ok modify_Ok)

text \<open>What a successful request of a client leads to.\<close>

lemma on_client_request_Ok:
  assumes run: "on_client_request B peer channel m s = (Inr x, s')"
    and flow: "fmlookup (rd_client_forwarding s) (de_session_id (fm_data m)) = Some cf"
    and separate: "cl_relay_session_id cf \<noteq> de_session_id (fm_data m)"
  obtains packet c d frame body where
    "fm_packet m = Some packet" "peer = fc_client_peer (cl_context cf)" "fm_route m = fc_route (cl_context cf)"
    "fp_session_id packet = fc_client_session_id (cl_context cf)"
    "fmlookup (rd_channels s) (cl_relay_session_id cf) = Some c"
    "send_on B (fp_payload packet) (plane_of c) = (Ok frame, d)"
    "js_forwarding (lb_codec B) (forward_message B cf frame (normalize_packet (cl_context cf) packet)) = Some body"
    "rd_node s' = node_log (rd_node s) (Call_Request (fc_exit_peer (cl_context cf)) body)"
    "fmlookup (rd_channels s') (cl_relay_session_id cf) = Some (dp_channel d)"
proof -
  obtain packet payload s1 s2 s3 frame s4 where p: "fm_packet m = Some packet" "fp_payload packet = payload"
      "fp_session_id packet = fc_client_session_id (cl_context cf)"
    and v: "validate_client (cl_context cf) (de_session_id (fm_data m)) peer = Ok ()" "fm_route m = fc_route (cl_context cf)"
    and s1: "with_data_plane (de_session_id (fm_data m)) ''missing client channel'' ''open client data plane''
            ''decrypt client protocol data'' (receive_on B (fm_data m)) s = (Inr payload, s1)"
    and s2: "admit_flow (fm_forwarding_id m) (length payload) s1 = (Inr (), s2)"
    and s3: "client_begin (de_session_id (fm_data m)) ''begin client protocol forwarding'' s2 = (Inr (), s3)"
    and s4: "relay_frame B cf payload s3 = (Inr frame, s4)"
    and s': "send_to_exit B channel (de_session_id (fm_data m)) cf frame (normalize_packet (cl_context cf) packet) s4 = (Inr x, s')"
    using run flow unfolding on_client_request_def Let_def relay_Ok by auto
  obtain d1 where s1': "s1 = s\<lparr>rd_channels := fmupd (de_session_id (fm_data m)) d1 (rd_channels s)\<rparr>"
    using s1 by (auto simp: with_data_plane_Ok)
  have keep: "rd_channels s3 = rd_channels s1" "rd_node s4 = rd_node s3" "rd_node s3 = rd_node s1"
    using s2 s3 s4 by (auto simp: admit_flow_Ok client_begin_def on_client_context_Ok relay_frame_def with_data_plane_Ok)
  obtain c d where c: "fmlookup (rd_channels s) (cl_relay_session_id cf) = Some c"
    "send_on B payload (plane_of c) = (Ok frame, d)"
    "fmlookup (rd_channels s4) (cl_relay_session_id cf) = Some (dp_channel d)"
    using s4 separate by (auto simp: relay_frame_def with_data_plane_Ok keep s1' data_plane_open_def split: if_splits)
  have "rd_node s4 = rd_node s" by (simp add: keep s1')
  with that [OF p(1) _ v(2) p(3) c(1) c(2) [folded p(2)]] send_to_exit_Ok [OF s'] v(1) c(3) show thesis
    by (auto simp: validate_client_def split: if_splits)
qed

subsection \<open>At the exit\<close>

lemma exit_validate_accepts:
  assumes c: "fmlookup (rd_exit_forwarding s) (fm_forwarding_id m) = Some c"
    and checks: "validate_message (lb_session B) c m = Ok ()" "validate_entry c peer = Ok ()"
      "validate_relay_session c (de_session_id (fm_data m)) = Ok ()" "fm_packet m = Some packet"
      "fc_state c = Fs_Established" "fc_last_request c = None" "fc_last_sequence c = None"
  shows "exit_validate B peer m s = (Ok packet,
     s\<lparr>rd_exit_forwarding := fmupd (fm_forwarding_id m) (exit_entered m packet c) (rd_exit_forwarding s),
       rd_active_exit_session := Some (de_session_id (fm_data m))\<rparr>)"
proof -
  have idem: "fmupd k v (fmupd k w mp) = fmupd k v mp" for k :: SessionId and v w :: ForwardingContext and mp
    by (rule fmap_ext) auto
  have "fp_sequence packet \<noteq> 0"
    using checks(1,4) by (auto simp: validate_message_Ok fwd_validate_packet_Ok)
  then have "accept_sequence c (fp_sequence packet) = (Ok (), c\<lparr>fc_last_sequence := Some (fp_sequence packet)\<rparr>)"
    using checks(7) by (simp add: accept_sequence_def)
  moreover have "begin_forwarding (c\<lparr>fc_last_sequence := q\<rparr>) fid ClientToExit =
      (Ok (), c\<lparr>fc_last_sequence := q, fc_last_request := Some (fid, ClientToExit), fc_state := Fs_Forwarding\<rparr>)" for q fid
    using checks(5,6) by (simp add: begin_forwarding_def)
  ultimately show ?thesis
    using checks(1-4) c
    by (simp add: exit_validate_def Let_def on_exit_context_def check_context_def mbind_def idem exit_entered_def fmupd_lookup)
qed

text \<open>The exit makes a context for the entry's message and accepts the message on it.\<close>

lemma exit_accepts_forwarded:
  assumes lib: "identity_ok (lb_session B)" and flow: "client_flow_ok cf"
    and packet: "fp_sequence packet \<noteq> 0" "sock_port (fp_destination packet) \<noteq> 0"
      "fp_protocol packet = Fp_Udp \<longrightarrow> fp_source packet \<noteq> None" "length (fp_payload packet) \<le> DEFAULT_MAXIMUM_PAYLOAD_SIZE"
    and new: "\<not> fm_contains (rd_exit_forwarding x) (fc_forwarding_id (cl_context cf))"
    and m: "m = forward_message B cf frame (normalize_packet (cl_context cf) packet)"
  obtains x0 f where "exit_context m (fc_client_peer (cl_context cf)) x = (Ok (), x0)"
    "exit_validate B (fc_entry_peer (cl_context cf)) m x0 = (Ok (normalize_packet (cl_context cf) packet),
       x\<lparr>rd_exit_forwarding := f, rd_active_exit_session := Some (cl_relay_session_id cf)\<rparr>)"
proof -
  let ?k = "cl_context cf"
  let ?c = "\<lparr>fc_forwarding_id = fc_forwarding_id ?k, fc_client_session_id = fc_client_session_id ?k,
      fc_client_peer = fc_client_peer ?k, fc_entry_peer = fc_entry_peer ?k, fc_exit_peer = fc_exit_peer ?k,
      fc_route = fc_route ?k, fc_state = Fs_Established, fc_relay_session_id = Some (cl_relay_session_id cf),
      fc_last_request = None, fc_last_sequence = None\<rparr>"
  let ?x = "x\<lparr>rd_exit_forwarding := fmupd (fc_forwarding_id ?k) ?c (rd_exit_forwarding x)\<rparr>"
  obtain address where route: "fc_route ?k = TwoHop (fc_entry_peer ?k) (fc_exit_peer ?k) address"
    using flow by (auto simp: client_flow_ok_def)
  have fields: "fm_forwarding_id m = fc_forwarding_id ?k" "fm_client_session_id m = fc_client_session_id ?k"
    "fm_route m = fc_route ?k" "de_session_id (fm_data m) = cl_relay_session_id cf" "fm_packet m = Some (normalize_packet ?k packet)"
    by (simp_all add: m forward_message_def)
  have made: "exit_context m (fc_client_peer ?k) x = (Ok (), ?x)"
    using flow new
    by (simp add: exit_context_def fields exit_route_peers_def route client_flow_ok_def with_forwarding_id_def
        establish_context_def transition_connecting_def transition_established_def fwd_transition_def
        bind_relay_session_def mbind_def)
  have "validate_message (lb_session B) ?c m = Ok ()"
    using lib flow packet
    by (simp add: validate_message_Ok fwd_validate_packet_Ok m forward_message_def normalize_packet_def identity_ok_def
        client_flow_ok_def)
  then have "exit_validate B (fc_entry_peer ?k) m ?x = (Ok (normalize_packet ?k packet),
      ?x\<lparr>rd_exit_forwarding := fmupd (fm_forwarding_id m) (exit_entered m (normalize_packet ?k packet) ?c) (rd_exit_forwarding ?x),
        rd_active_exit_session := Some (de_session_id (fm_data m))\<rparr>)"
    by (intro exit_validate_accepts) (simp_all add: fields validate_entry_def validate_relay_session_def)
  with that [OF made] show thesis by (simp add: fields)
qed

subsection \<open>Both hops\<close>

text \<open>
  The session between the relays as both keep it: the channels are stored under the identifier of
  the session, and the exit's is ready for what the entry sends next.
\<close>

definition relay_session_synced :: "'w RelayLib \<Rightarrow> SessionId \<Rightarrow> 'w RelayDaemon \<Rightarrow> 'w RelayDaemon \<Rightarrow> bool" where
  "relay_session_synced B sid s x \<longleftrightarrow>
     (\<exists>c c'. fmlookup (rd_channels s) sid = Some c \<and> fmlookup (rd_channels x) sid = Some c' \<and>
        channel_session_id c = sid \<and> channel_synced (lb_channel B) (lb_session B) c c')"

text \<open>The parts of a packet that the exit checks and the entry does not.\<close>

definition packet_complete :: "ForwardedPacket \<Rightarrow> bool" where
  "packet_complete p \<longleftrightarrow> fp_sequence p \<noteq> 0 \<and> sock_port (fp_destination p) \<noteq> 0 \<and> (fp_protocol p = Fp_Udp \<longrightarrow> fp_source p \<noteq> None)"

text \<open>The steps of an exit up to the exchange with the outside.\<close>

definition exit_opens :: "'w RelayLib \<Rightarrow> PeerId \<Rightarrow> PeerId \<Rightarrow> ForwardingMessage \<Rightarrow> 'w RelayDaemon \<Rightarrow> ForwardedPacket \<Rightarrow> bytes \<Rightarrow> 'w RelayDaemon \<Rightarrow> bool" where
  "exit_opens B peer client m x packet payload x' \<longleftrightarrow>
     (\<exists>x0 x1. exit_context m client x = (Ok (), x0) \<and> exit_validate B peer m x0 = (Ok packet, x1) \<and>
        with_data_plane (de_session_id (fm_data m)) ''unknown exit relay session'' ''open exit data plane''
          ''decrypt exit data'' (receive_on B (fm_data m)) x1 = (Ok payload, x'))"

lemma relay_session_received:
  assumes sync: "channel_synced (lb_channel B) (lb_session B) c c'" and sid: "channel_session_id c = sid"
    and sent: "send_on B payload (plane_of c) = (Ok frame, d)"
    and there: "fmlookup (rd_channels x) sid = Some c'"
  obtains d' :: DataPlane where "with_data_plane sid missing unopened operation (receive_on B \<lparr>de_kind = DATA_PLANE_KIND, de_session_id = sid, de_frame = frame\<rparr>) x =
       (Ok payload, x\<lparr>rd_channels := fmupd sid (dp_channel d') (rd_channels x)\<rparr>)"
    "channel_synced (lb_channel B) (lb_session B) (dp_channel d) (dp_channel d')"
proof -
  obtain d' where "receive_on B \<lparr>de_kind = DATA_PLANE_KIND, de_session_id = sid, de_frame = frame\<rparr> (plane_of c') = (Ok payload, d')"
    "data_plane_open c' DEFAULT_MAXIMUM_PAYLOAD_SIZE = Ok (plane_of c')"
    "channel_synced (lb_channel B) (lb_session B) (dp_channel d) (dp_channel d')"
    by (rule sent_received_on [OF sync sid sent])
  with there show thesis
    by (intro that [of d']) (simp_all add: with_data_plane_def)
qed


subsection \<open>The example over both hops\<close>

text \<open>A client with a session to the entry, and the entry with a session to the exit of the other example.\<close>

definition demo_client_chan :: EncryptedChannel where
  "demo_client_chan = demo_chan_s\<lparr>ec_session :=
     derive_session demo_lib (SessionId [8]) (PeerId [1]) demo_route Initiator [11] ''1.0''\<rparr>"

definition demo_entry_chan :: EncryptedChannel where
  "demo_entry_chan = demo_chan_s\<lparr>ec_session :=
     derive_session demo_lib (SessionId [8]) (PeerId [112]) demo_route Responder [11] ''1.0''\<rparr>"

definition demo_client_flow :: ClientForwarding where
  "demo_client_flow = \<lparr>cl_client_peer = PeerId [112],
     cl_context = \<lparr>fc_forwarding_id = SessionId [7], fc_client_session_id = SessionId [8], fc_client_peer = PeerId [112],
       fc_entry_peer = PeerId [1], fc_exit_peer = PeerId [2], fc_route = TwoHop (PeerId [1]) (PeerId [2]) [],
       fc_state = Fs_Established, fc_relay_session_id = Some (SessionId [9]), fc_last_request = None, fc_last_sequence = None\<rparr>,
     cl_relay_session_id = SessionId [9]\<rparr>"

definition demo_entry_daemon :: "unit RelayDaemon" where
  "demo_entry_daemon = demo_exit_daemon\<lparr>rd_identity := Keypair [1],
     rd_channels := fmupd (SessionId [8]) demo_entry_chan (fmupd (SessionId [9]) demo_chan_s fmempty),
     rd_client_forwarding := fmupd (SessionId [8]) demo_client_flow fmempty\<rparr>"

definition demo_client_packet :: ForwardedPacket where
  "demo_client_packet = demo_forwarded\<lparr>fp_flow_id := SessionId [8], fp_route_id := SessionId [8]\<rparr>"

definition demo_client_message :: ForwardingMessage where
  "demo_client_message = \<lparr>fm_kind = FORWARDING_KIND, fm_forwarding_id = SessionId [8],
     fm_client_session_id = SessionId [8], fm_client_peer = [CHR ''p''],
     fm_route = TwoHop (PeerId [1]) (PeerId [2]) [],
     fm_data = \<lparr>de_kind = DATA_PLANE_KIND, de_session_id = SessionId [8],
       de_frame = projr (fst (send_on demo_relay_lib [7] (plane_of demo_client_chan)))\<rparr>,
     fm_packet = Some demo_client_packet\<rparr>"

lemma demo_client_message_fields:
  "fm_forwarding_id demo_client_message = SessionId [8]" "fm_client_peer demo_client_message = [CHR ''p'']"
  "fm_route demo_client_message = TwoHop (PeerId [1]) (PeerId [2]) []" "fm_packet demo_client_message = Some demo_client_packet"
  "de_session_id (fm_data demo_client_message) = SessionId [8]"
  by (simp_all add: demo_client_message_def)

lemma demo_client_synced:
  "channel_synced demo_json demo_lib demo_client_chan demo_entry_chan" "channel_session_id demo_client_chan = SessionId [8]"
proof -
  let ?i = "derive_session demo_lib (SessionId [8]) (PeerId [1]) demo_route Initiator [11] ''1.0''"
  let ?r = "derive_session demo_lib (SessionId [8]) (PeerId [112]) demo_route Responder [11] ''1.0''"
  have opened: "channel_open ?i ''1'' 4096 1 = Ok demo_client_chan" "channel_open ?r ''1'' 4096 1 = Ok demo_entry_chan"
    by (simp_all add: channel_open_def FRAME_OVERHEAD_LIMIT_def demo_client_chan_def demo_entry_chan_def demo_chan_s_def sem_simps)
  show "channel_synced demo_json demo_lib demo_client_chan demo_entry_chan"
    by (rule opened_channels_synced [OF _ derive_session_paired(1) _ opened])
       (simp_all add: channel_laws_def demo_json_ok demo_aead_ok demo_aead_limit_ok sem_simps)
  show "channel_session_id demo_client_chan = SessionId [8]"
    by (simp add: demo_client_chan_def channel_session_id_def sem_simps)
qed

lemma demo_sends:
  obtains f d f' d' where "send_on demo_relay_lib [7] (plane_of demo_client_chan) = (Ok f, d)"
    "send_on demo_relay_lib [7] (plane_of demo_chan_s) = (Ok f', d')"
proof -
  have "is_ok (fst (send_on demo_relay_lib [7] (plane_of demo_client_chan)))" by code_simp
  moreover have "is_ok (fst (send_on demo_relay_lib [7] (plane_of demo_chan_s)))" by code_simp
  ultimately show thesis
    using that by (cases "send_on demo_relay_lib [7] (plane_of demo_client_chan)",
      cases "send_on demo_relay_lib [7] (plane_of demo_chan_s)") (auto simp: is_ok_def split: sum.splits)
qed

lemma demo_entry_run:
  "\<exists>s'. on_client_request demo_relay_lib (PeerId [112]) 0 demo_client_message demo_entry_daemon = (Ok (), s')"
proof -
  obtain f d f' d' where f: "send_on demo_relay_lib [7] (plane_of demo_client_chan) = (Ok f, d)"
    "send_on demo_relay_lib [7] (plane_of demo_chan_s) = (Ok f', d')"
    by (rule demo_sends)
  have data: "fm_data demo_client_message = \<lparr>de_kind = DATA_PLANE_KIND, de_session_id = SessionId [8], de_frame = f\<rparr>"
    by (simp add: demo_client_message_def f)
  have channels: "fmlookup (rd_channels demo_entry_daemon) (SessionId [8]) = Some demo_entry_chan"
    "fmlookup (rd_channels demo_entry_daemon) (SessionId [9]) = Some demo_chan_s"
    by (simp_all add: demo_entry_daemon_def)
  obtain dr :: DataPlane where received: "with_data_plane (SessionId [8]) ''missing client channel'' ''open client data plane''
      ''decrypt client protocol data'' (receive_on demo_relay_lib (fm_data demo_client_message)) demo_entry_daemon =
      (Ok [7], demo_entry_daemon\<lparr>rd_channels := fmupd (SessionId [8]) (dp_channel dr) (rd_channels demo_entry_daemon)\<rparr>)"
    by (rule relay_session_received [OF _ demo_client_synced(2) f(1) channels(1),
          where missing = "''missing client channel''" and unopened = "''open client data plane''"
            and operation = "''decrypt client protocol data''"])
       (simp_all add: demo_relay_lib_def demo_client_synced data)
  have opened: "data_plane_open demo_chan_s DEFAULT_MAXIMUM_PAYLOAD_SIZE = Ok (plane_of demo_chan_s)"
    by (simp add: data_plane_open_def demo_chan_s_def DEFAULT_MAXIMUM_PAYLOAD_SIZE_def)
  obtain core where core: "core_admit_flow (rd_core demo_entry_daemon) (SessionId [8]) (Suc 0) = (Ok (), core)"
    by (simp add: core_admit_flow_def demo_entry_daemon_def demo_exit_daemon_def core_new_def demo_config_def Let_def)
  have peer: "peer_to_string demo_lib (PeerId [112]) = [CHR ''p'']" by code_simp
  have flow: "fmlookup (rd_client_forwarding demo_entry_daemon) (SessionId [8]) = Some demo_client_flow"
    by (simp add: demo_entry_daemon_def)
  have frame: "relay_frame demo_relay_lib demo_client_flow [7] s =
      (Ok f', s\<lparr>rd_channels := fmupd (SessionId [9]) (dp_channel d') (rd_channels s)\<rparr>)"
    if "fmlookup (rd_channels s) (SessionId [9]) = Some demo_chan_s" for s
    using that by (simp add: relay_frame_def demo_client_flow_def with_data_plane_def opened f(2))
  have started: "client_begin (SessionId [8]) t s = (Ok (), s\<lparr>rd_client_forwarding := fmupd (SessionId [8])
      (demo_client_flow\<lparr>cl_context := (cl_context demo_client_flow)\<lparr>fc_last_request := Some (SessionId [7], ClientToExit),
         fc_state := Fs_Forwarding\<rparr>\<rparr>) (rd_client_forwarding s)\<rparr>)"
    if "fmlookup (rd_client_forwarding s) (SessionId [8]) = Some demo_client_flow" for s :: "unit RelayDaemon" and t
    using that by (simp add: client_begin_def on_client_context_def begin_forwarding_def demo_client_flow_def)
  have fields: "cl_client_peer demo_client_flow = PeerId [112]" "fc_client_peer (cl_context demo_client_flow) = PeerId [112]"
    "fc_client_session_id (cl_context demo_client_flow) = SessionId [8]" "fc_exit_peer (cl_context demo_client_flow) = PeerId [2]"
    "fc_route (cl_context demo_client_flow) = TwoHop (PeerId [1]) (PeerId [2]) []"
    by (simp_all add: demo_client_flow_def)
  show ?thesis
    by (simp add: on_client_request_def Let_def demo_client_message_fields flow received peer demo_relay_lib_fields fields
        validate_client_def demo_client_packet_def demo_forwarded_def admit_flow_def core started frame channels
        send_to_exit_def json_def request_def zoom_def request_discovery_def)
qed


end
