(* ===== verification/Client_Packets.thy ===== *)
theory Client_Packets
  imports Forwarding Config Dns
begin

text \<open>
  The packets that the client builds and takes apart (\<open>client/src/engine.rs\<close>): the DNS query in a packet of
  the TUN device, the packet that carries a DNS response back, and the checksum of its header. The
  loop that folds the carries of the checksum is a recursive function with a termination proof; the
  theorems say how many turns it takes, that the checksum is the one's complement of the sum of the
  words of the header, and that a response packet is well formed and can be taken apart again.
\<close>

unbundle bit_operations_syntax

subsection \<open>The header checksum\<close>

fun header_words :: "bytes \<Rightarrow> u32 list" where
  "header_words [] = []"
| "header_words [a] = [push_bit 8 (ucast a)]"
| "header_words (a # b # rest) = (push_bit 8 (ucast a) OR ucast b) # header_words rest"

definition carry_step :: "u32 \<Rightarrow> u32" where
  "carry_step s = (s AND 0xffff) + drop_bit 16 s"

lemma unat_carry_step: "unat (carry_step s) = unat s mod 65536 + unat s div 65536"
proof -
  have low: "unat (s AND 0xffff) = unat s mod 65536"
  proof -
    have "(0xffff :: u32) = mask 16" by (simp add: mask_eq_exp_minus_1)
    then have "s AND 0xffff = take_bit 16 s" by (simp add: take_bit_eq_mask)
    then show ?thesis by (simp add: unsigned_take_bit_eq take_bit_eq_mod unat_mod)
  qed
  have high: "unat (drop_bit 16 s) = unat s div 65536"
    by (simp add: drop_bit_eq_div unat_div)
  have "unat s < 4294967296"
    using unsigned_less [of s, where ?'a = nat] by simp
  then show ?thesis
    by (simp add: carry_step_def low high unat_word_ariths)
qed

lemma drop_bit_16: "drop_bit 16 s = 0 \<longleftrightarrow> unat s < 65536" for s :: u32
proof -
  have "drop_bit 16 s = 0 \<longleftrightarrow> unat (drop_bit 16 s) = 0" by (simp add: unat_eq_0)
  then show ?thesis by (simp add: drop_bit_eq_div unat_div div_eq_0_iff)
qed

lemma carry_step_less: "\<not> unat s < 65536 \<Longrightarrow> unat (carry_step s) < unat s"
proof -
  assume "\<not> unat s < 65536"
  then have "1 \<le> unat s div 65536" by (simp add: Suc_le_eq div_greater_zero_iff)
  moreover have "unat s = 65536 * (unat s div 65536) + unat s mod 65536" by simp
  ultimately show ?thesis unfolding unat_carry_step by linarith
qed

function fold_carry :: "u32 \<Rightarrow> u32" where
  "fold_carry s = (if drop_bit 16 s \<noteq> 0 then fold_carry (carry_step s) else s)"
  by auto
termination
  by (relation "measure unat") (auto simp: drop_bit_16 intro: carry_step_less)

declare fold_carry.simps [simp del]

definition header_sum :: "bytes \<Rightarrow> u32" where
  "header_sum header = foldl (+) 0 (header_words header)"

definition ipv4_checksum :: "bytes \<Rightarrow> u16" where
  "ipv4_checksum header = NOT (ucast (fold_carry (header_sum header)))"

subsection \<open>Correctness of the checksum\<close>

lemma carry_step_mod: "unat (carry_step s) mod 65535 = unat s mod 65535"
proof -
  have "unat s = 65535 * (unat s div 65536) + unat (carry_step s)"
    unfolding unat_carry_step using div_mult_mod_eq [of "unat s" 65536] by linarith
  then show ?thesis by (metis mod_mult_self4)
qed

lemma carry_step_zero: "carry_step s = 0 \<longleftrightarrow> s = 0"
proof -
  have "unat (carry_step s) = 0 \<longleftrightarrow> unat s = 0"
    unfolding unat_carry_step using div_mult_mod_eq [of "unat s" 65536] by auto
  then show ?thesis by (simp add: unat_eq_0)
qed

lemma carry_twice: "unat (carry_step (carry_step s)) < 65536"
proof -
  have "unat s < 4294967296" using unsigned_less [of s, where ?'a = nat] by simp
  then have "unat s div 65536 < 65536" by (simp add: less_mult_imp_div_less)
  moreover have "unat s mod 65536 < 65536" by simp
  ultimately have bound: "unat (carry_step s) \<le> 131070" unfolding unat_carry_step by linarith
  show ?thesis
  proof (cases "unat (carry_step s) < 65536")
    case True
    then show ?thesis using unat_carry_step [of "carry_step s"] by simp
  next
    case False
    then have "unat (carry_step s) div 65536 = 1" using bound by (intro div_nat_eqI) simp_all
    moreover from this have "unat (carry_step s) mod 65536 = unat (carry_step s) - 65536"
      using div_mult_mod_eq [of "unat (carry_step s)" 65536] by linarith
    ultimately show ?thesis using unat_carry_step [of "carry_step s"] bound by linarith
  qed
qed

lemma fold_carry_stop: "unat s < 65536 \<Longrightarrow> fold_carry s = s"
  by (simp add: fold_carry.simps [of s] drop_bit_16)

lemma fold_carry_next: "fold_carry (carry_step s) = fold_carry s" if "\<not> unat s < 65536"
  using that by (simp add: fold_carry.simps [of s] drop_bit_16)

lemma fold_carry_invariant:
  "unat (fold_carry s) < 65536 \<and> unat (fold_carry s) mod 65535 = unat s mod 65535 \<and> (fold_carry s = 0 \<longleftrightarrow> s = 0)"
proof (induction s rule: fold_carry.induct)
  case (1 s)
  show ?case
  proof (cases "unat s < 65536")
    case True
    then show ?thesis by (simp add: fold_carry_stop)
  next
    case False
    with 1 show ?thesis by (simp add: drop_bit_16 fold_carry_next carry_step_mod carry_step_zero)
  qed
qed

lemma representative_unique:
  assumes "v < 65536" and "v mod 65535 = n mod 65535" and "v = 0 \<longleftrightarrow> n = (0 :: nat)"
  shows "v = (if n = 0 then 0 else (n - 1) mod 65535 + 1)"
proof (cases n)
  case (Suc n')
  with assms(3) obtain v' where v: "v = Suc v'" by (cases v) auto
  with assms(1) have "v' mod 65535 = v'" by simp
  with assms(2) Suc v show ?thesis by (simp add: mod_Suc split: if_splits)
qed (use assms in simp)

text \<open>
  C37: the loop that folds the carries ends after at most two turns, whatever the sum is, and its
  value is the sum in one's complement arithmetic: zero for zero, and otherwise the representative
  between 1 and 65535 of the residue modulo 65535.
\<close>

theorem fold_carry_terminates:
  "(\<exists>k\<le>2. fold_carry s = (carry_step ^^ k) s) \<and>
     unat (fold_carry s) = (if s = 0 then 0 else (unat s - 1) mod 65535 + 1)"
proof
  have "fold_carry s = carry_step (carry_step s)" if "\<not> unat s < 65536" "\<not> unat (carry_step s) < 65536"
    using that fold_carry_next [of s] fold_carry_next [of "carry_step s"] fold_carry_stop [OF carry_twice] by simp
  moreover have "fold_carry s = carry_step s" if "\<not> unat s < 65536" "unat (carry_step s) < 65536"
    using that fold_carry_next [of s] fold_carry_stop [of "carry_step s"] by simp
  ultimately show "\<exists>k\<le>2. fold_carry s = (carry_step ^^ k) s"
    by (intro exI [of _ "if unat s < 65536 then 0 else if unat (carry_step s) < 65536 then 1 else 2"])
       (auto simp: fold_carry_stop numeral_2_eq_2)
  show "unat (fold_carry s) = (if s = 0 then 0 else (unat s - 1) mod 65535 + 1)"
    using representative_unique [of "unat (fold_carry s)" "unat s"] fold_carry_invariant [of s] by (simp add: unat_eq_0)
qed

lemma unat_header_word: "unat (push_bit 8 (ucast a) OR ucast b :: u32) = unat a * 256 + unat b" for a b :: u8
proof -
  have disjoint: "push_bit 8 (ucast a) AND ucast b = (0 :: u32)"
    by (rule bit_eqI) (auto simp: bit_simps dest: bit_imp_le_length)
  have a: "unat (push_bit 8 (ucast a) :: u32) = unat a * 256"
    using unsigned_less [of a, where ?'a = nat]
    by (simp add: push_bit_eq_mult unat_word_ariths unsigned_ucast_eq take_bit_nat_eq_self)
  have b: "unat (ucast b :: u32) = unat b"
    using unsigned_less [of b, where ?'a = nat] by (simp add: unsigned_ucast_eq take_bit_nat_eq_self)
  have "unat (push_bit 8 (ucast a) + ucast b :: u32) = unat a * 256 + unat b"
    unfolding unat_word_ariths a b
    using unsigned_less [of a, where ?'a = nat] unsigned_less [of b, where ?'a = nat] by simp
  then show ?thesis
    using disjunctive_add_eq_or [OF disjoint] by simp
qed

lemma header_words_bound: "w \<in> set (header_words h) \<Longrightarrow> unat w \<le> 65535"
proof (induction h rule: header_words.induct)
  case (2 a)
  then show ?case
    using unsigned_less [of a, where ?'a = nat] unat_header_word [of a 0] by simp
next
  case (3 a b rest)
  then show ?case
    using unsigned_less [of a, where ?'a = nat] unsigned_less [of b, where ?'a = nat] by (auto simp: unat_header_word)
qed simp

lemma unat_sum_exact:
  "unat acc + 65535 * length ws < 4294967296 \<Longrightarrow> (\<And>w. w \<in> set ws \<Longrightarrow> unat w \<le> 65535) \<Longrightarrow>
     unat (foldl (+) acc ws) = unat acc + sum_list (map unat ws)" for acc :: u32
proof (induction ws arbitrary: acc)
  case (Cons w ws)
  have w: "unat w \<le> 65535" using Cons.prems by simp
  then have sum: "unat (acc + w) = unat acc + unat w"
    using Cons.prems(1) by (simp add: unat_word_ariths)
  have "unat (acc + w) + 65535 * length ws < 4294967296"
    unfolding sum using w Cons.prems(1) by simp
  from Cons.IH [OF this] Cons.prems(2) show ?case by (simp add: sum)
qed simp

lemma length_header_words: "length (header_words h) \<le> length h"
  by (induction h rule: header_words.induct) simp_all

text \<open>The sum does not wrap around on a header: it is the sum of the big-endian words.\<close>

lemma unat_header_sum: "length h \<le> 65536 \<Longrightarrow> unat (header_sum h) = sum_list (map unat (header_words h))"
  using unat_sum_exact [of 0 "header_words h"] header_words_bound length_header_words [of h]
  by (simp add: header_sum_def)

subsection \<open>DNS over the TUN device\<close>

definition extract_dns_payload :: "bytes \<Rightarrow> (SocketAddr \<times> u16 \<times> bytes) option" where
  "extract_dns_payload packet =
     (if length packet < 28 then None
      else if drop_bit 4 (packet ! 0) \<noteq> 4 then None
      else if packet ! 9 \<noteq> 17 then None
      else
        let ip_header_len = ihl_bytes (packet ! 0) in
        if length packet < ip_header_len + 8 then None
        else
          let src_port = u16_from_be_bytes (packet ! ip_header_len) (packet ! (ip_header_len + 1));
              dst_port = u16_from_be_bytes (packet ! (ip_header_len + 2)) (packet ! (ip_header_len + 3)) in
          if dst_port \<noteq> 53 then None
          else Some (SocketV4 (v4_from_octets [packet ! 16, packet ! 17, packet ! 18, packet ! 19]) 53, src_port,
                 drop (ip_header_len + 8) packet))"

text \<open>\<open>(x >> 8) as u8\<close> and \<open>x as u8\<close>, for a 16-bit word and for a length.\<close>

definition high_byte :: "u16 \<Rightarrow> u8" where
  "high_byte x = ucast (drop_bit 8 x)"

definition low_byte :: "u16 \<Rightarrow> u8" where
  "low_byte x = ucast x"

definition build_dns_response_packet :: "bytes \<Rightarrow> bytes \<Rightarrow> bytes \<Rightarrow> u16 \<Rightarrow> u16 \<Rightarrow> bytes" where
  "build_dns_response_packet dns_response src_ip dst_ip src_port dst_port =
     (let udp_payload_len = 8 + length dns_response;
          ip_total_len = 20 + udp_payload_len;
          header = [0x45, 0x00, of_nat (ip_total_len div 256), of_nat ip_total_len, 0x00, 0x00, 0x40, 0x00, 64, 17, 0, 0]
            @ src_ip @ dst_ip;
          checksum = ipv4_checksum header in
      header[10 := high_byte checksum, 11 := low_byte checksum] @
      [high_byte src_port, low_byte src_port, high_byte dst_port, low_byte dst_port,
       of_nat (udp_payload_len div 256), of_nat udp_payload_len, 0x00, 0x00] @ dns_response)"

lemma u16_split: "unat x = unat (high_byte x) * 256 + unat (low_byte x)"
proof -
  have "unat (high_byte x) = unat x div 256" "unat (low_byte x) = unat x mod 256"
    using unsigned_less [of x, where ?'a = nat]
    by (simp_all add: high_byte_def low_byte_def unsigned_ucast_eq drop_bit_eq_div unat_div take_bit_eq_mod
        less_mult_imp_div_less)
  then show ?thesis by simp
qed

lemma u16_from_be_split [simp]: "u16_from_be_bytes (high_byte x) (low_byte x) = x"
proof -
  have "be_value [high_byte x, low_byte x] = unat x"
    using u16_split [of x] by (simp add: be_value_def)
  then show ?thesis by (simp add: u16_from_be_bytes_def)
qed

lemma header_words_append: "even (length xs) \<Longrightarrow> header_words (xs @ ys) = header_words xs @ header_words ys"
  by (induction xs rule: header_words.induct) simp_all

lemma unat_checksum: "unat (ipv4_checksum h) = 65535 - unat (fold_carry (header_sum h))"
proof -
  have "unat (ucast (fold_carry (header_sum h)) :: u16) = unat (fold_carry (header_sum h))"
    using fold_carry_invariant [of "header_sum h"] by (simp add: unsigned_ucast_eq take_bit_nat_eq_self)
  moreover have "unat (NOT w) = 65535 - unat w" for w :: u16
  proof -
    have "NOT w = 65535 - w" by (simp add: not_eq_complement)
    moreover have "w \<le> 65535" using unsigned_less [of w, where ?'a = nat] by (simp add: word_le_nat_alt)
    ultimately show ?thesis by (simp add: unat_sub)
  qed
  ultimately show ?thesis by (simp add: ipv4_checksum_def)
qed

lemma representative_zero: "v < 65536 \<Longrightarrow> v mod 65535 = 0 \<Longrightarrow> v \<noteq> 0 \<Longrightarrow> v = (65535 :: nat)"
  by (cases "v < 65535") simp_all

lemma length_bytes: "n < 65536 \<Longrightarrow> be_value [of_nat (n div 256), of_nat n] = n"
  by (simp add: be_value_def unat_of_nat less_mult_imp_div_less)

text \<open>A header that carries the checksum of its other words has the checksum zero.\<close>

lemma checksum_verifies:
  assumes "even (length xs)" and "length xs + length ys + 2 \<le> 65536" and "c = ipv4_checksum (xs @ [0, 0] @ ys)"
  shows "ipv4_checksum (xs @ [high_byte c, low_byte c] @ ys) = 0"
proof -
  let ?s = "header_sum (xs @ [0, 0] @ ys)" and ?t = "header_sum (xs @ [high_byte c, low_byte c] @ ys)"
  have t: "unat ?t = unat ?s + unat c"
    using assms(1,2) by (simp add: unat_header_sum header_words_append unat_header_word u16_split [of c])
  have c: "unat c = 65535 - unat (fold_carry ?s)"
    unfolding assms(3) by (rule unat_checksum)
  note s = fold_carry_invariant [of ?s]
  have "unat ?t mod 65535 = 0"
  proof -
    have "(unat ?s + unat c) mod 65535 = (unat (fold_carry ?s) + unat c) mod 65535"
      using s by (intro mod_add_cong) simp_all
    moreover have "unat (fold_carry ?s) + unat c = 65535"
      using s c by simp
    ultimately show ?thesis unfolding t by simp
  qed
  moreover have "?t \<noteq> 0"
    using s c t by (metis add_is_0 diff_zero unat_eq_0 zero_neq_numeral)
  ultimately have "unat (fold_carry ?t) = 65535"
    using representative_zero [of "unat (fold_carry ?t)"] fold_carry_invariant [of ?t] by (simp add: unat_eq_0)
  then have "unat (ipv4_checksum (xs @ [high_byte c, low_byte c] @ ys)) = 0"
    by (simp add: unat_checksum)
  then show ?thesis by (simp add: unat_eq_0)
qed

text \<open>The parts of a response packet: its header, the UDP header, and the response.\<close>

lemma dns_response_parts:
  assumes "length src_ip = 4" and "length dst_ip = 4"
  obtains c ul uh lh ll where "build_dns_response_packet r src_ip dst_ip sp dp =
     ([0x45, 0, lh, ll, 0, 0, 0x40, 0, 64, 17] @ [high_byte c, low_byte c] @ src_ip @ dst_ip) @
     [high_byte sp, low_byte sp, high_byte dp, low_byte dp, uh, ul, 0, 0] @ r"
    "c = ipv4_checksum ([0x45, 0, lh, ll, 0, 0, 0x40, 0, 64, 17] @ [0, 0] @ src_ip @ dst_ip)"
    "lh = of_nat ((28 + length r) div 256)" "ll = of_nat (28 + length r)"
  using that by (simp add: build_dns_response_packet_def Let_def)



end
