(* ===== verification/Relay_Health.thy ===== *)
theory Relay_Health
  imports Relay_Runs
begin

text \<open>
  The health endpoint of the relay (\<open>spawn_health_server\<close> of \<open>relay/src/main.rs\<close>): the path of a request, the
  answer to a connection, and the loop of the thread that accepts connections. A turn of the loop sees the
  flag \<open>alive\<close> and the result of \<open>accept\<close>, with the signals a connection sees; \<open>lossy\<close> is
  \<open>String::from_utf8_lossy\<close>. Reading from a connection that fails counts as nothing read.
\<close>

datatype 's accept_result =
    Accepted bytes 's
  | Accept_WouldBlock 's
  | Accept_Error

subsection \<open>Requests\<close>

text \<open>\<open>split_whitespace\<close>: the first word of a text that starts with one, and the text behind it.\<close>

fun take_word :: "string \<Rightarrow> string \<times> string" where
  "take_word [] = ([], [])"
| "take_word (c # s) =
     (if ws_prefix (c # s) \<noteq> 0 then ([], c # s) else (case take_word s of (w, r) \<Rightarrow> (c # w, r)))"

definition request_path :: "string \<Rightarrow> string" where
  "request_path req =
     (case take_word (trim_start req) of (_, r) \<Rightarrow>
      case take_word (trim_start r) of (w, _) \<Rightarrow> if w = [] then ''/'' else w)"

definition health_connection :: "(bytes \<Rightarrow> string) \<Rightarrow> bytes \<Rightarrow> HealthSignals \<Rightarrow> string option" where
  "health_connection lossy req signals =
     (if req = [] then None
      else (case health_answer signals (request_path (lossy req)) of (status, body) \<Rightarrow>
        Some (http_response status body)))"

subsection \<open>The loop\<close>

fun health_loop :: "(bytes \<Rightarrow> string) \<Rightarrow> (bool \<times> HealthSignals accept_result) list \<Rightarrow> string option list \<times> bool" where
  "health_loop lossy [] = ([], True)"
| "health_loop lossy ((alive, r) # rest) =
     (if \<not> alive then ([], False)
      else case r of
          Accepted req signals \<Rightarrow>
            (case health_loop lossy rest of (answers, running) \<Rightarrow>
              (health_connection lossy req signals # answers, running))
        | Accept_WouldBlock _ \<Rightarrow> health_loop lossy rest
        | Accept_Error \<Rightarrow> ([], False))"

lemma health_loop_running:
  "snd (health_loop lossy turns) \<longleftrightarrow> list_all (\<lambda>turn. fst turn \<and> snd turn \<noteq> Accept_Error) turns"
  by (induction lossy turns rule: health_loop.induct) (simp_all add: case_prod_beta split: accept_result.splits)

subsection \<open>What a request for readiness gets\<close>

definition path_char :: "char \<Rightarrow> bool" where
  "path_char c \<longleftrightarrow> 33 \<le> (of_char c :: nat) \<and> (of_char c :: nat) < 128"

lemma ws_prefix_path: "path_char c \<Longrightarrow> ws_prefix (c # s) = 0"
  by (auto simp: ws_prefix_def ws_seq_def path_char_def split: list.splits)

lemma ws_prefix_space: "ws_prefix (CHR '' '' # s) = 1"
  by (simp add: ws_prefix_def ws_seq_def)

lemma trim_start_path: "path_char c \<Longrightarrow> trim_start (c # s) = c # s"
  by (subst trim_start.simps) (simp add: ws_prefix_path)

lemma trim_start_space: "trim_start (CHR '' '' # s) = trim_start s"
  by (subst trim_start.simps) (simp add: ws_prefix_space)

lemma take_word_path:
  "list_all path_char w \<Longrightarrow> take_word (w @ CHR '' '' # s) = (w, CHR '' '' # s)"
  by (induction w) (auto simp: ws_prefix_path ws_prefix_space)

lemma request_path_of:
  assumes "list_all path_char method" "list_all path_char path" "method \<noteq> []" "path \<noteq> []"
  shows "request_path (method @ CHR '' '' # path @ CHR '' '' # rest) = path"
proof -
  have start: "trim_start (w @ s) = w @ s" if "list_all path_char w" "w \<noteq> []" for w s
    using that by (cases w) (simp_all add: trim_start_path)
  show ?thesis
    using assms by (simp add: request_path_def start take_word_path trim_start_space)
qed

text \<open>
  A request for \<open>/ready\<close> is answered from the life cycle of the relay: after any events it gets status 200
  when the relay is ready and 503 otherwise.
\<close>

theorem ready_request_answered:
  assumes started: "relay_start B t now identity node tun health c = Ok s" and run: "s' = snd (daemon_run B es s)"
    and req: "req \<noteq> []" "lossy req = ''GET /ready '' @ rest"
  shows "health_connection lossy req (rd_signals s') =
    Some (if co_lifecycle (rd_core s') = Lc_Ready then http_response 200 (json_field ''ready'' ''true'')
      else http_response 503 (json_field ''ready'' ''false''))"
proof -
  have "signals_agree s"
    using relay_start_Ok [OF started] by (simp add: signals_agree_def signals_new_def)
  then have "signals_agree s'" unfolding run by (rule signals.run_keeps)
  moreover have "request_path (''GET /ready '' @ rest) = ''/ready''"
    using request_path_of [of "''GET''" "''/ready''" rest] by (simp add: path_char_def)
  ultimately show ?thesis
    using req by (simp add: health_connection_def health_answer_def signals_agree_def)
qed

text \<open>The thread ends with the relay: a shutdown clears the flag, and the next turn sees it.\<close>

lemma health_loop_ends: "(False, r) \<in> set turns \<Longrightarrow> \<not> snd (health_loop lossy turns)"
  by (force simp: health_loop_running list_all_iff)

end
