(* ===== verification/Client_Engine.thy ===== *)
theory Client_Engine
  imports Relay_Runs Client_Packets
begin

text \<open>
  \<open>client/src/engine.rs\<close>: the client that runs behind the Android VPN service. The local variables of
  \<open>run_client\<close> are the record \<open>ClientEngine\<close>; \<open>engine_start\<close> is the code before the loop and
  \<open>engine_step\<close> one turn of it, for a packet of the TUN device or an event of the swarm. The engine
  drops what it cannot handle: the only error of a turn is the panic of an \<open>expect\<close>. Serde's JSON,
  the swarm and the libraries of the session are parameters, as for the relay; clocks and random values
  of a turn are \<open>ClientEnv\<close>. Logging is left out; the thread of the health endpoint is in
  \<open>Client_Health\<close>.
\<close>

subsection \<open>Parameters, state and errors\<close>

record ClientCodec = RelayCodec +
  js_parse_metadata :: "bytes \<Rightarrow> RelayMetadata option"
  js_metadata_request :: "RelayMetadataRequest \<Rightarrow> bytes option"

text \<open>\<open>cb_route_debug\<close> is the text of \<open>format!("{:?}", route)\<close>.\<close>

record ClientLib =
  cb_session :: SessionLib
  cb_channel :: ChannelJson
  cb_addr :: AddrLib
  cb_codec :: ClientCodec
  cb_swarm :: SwarmLib
  cb_route_debug :: "RouteBinding \<Rightarrow> string"

record ClientEnv =
  cv_time :: system_time
  cv_time2 :: system_time
  cv_time3 :: system_time
  cv_session_id :: SessionId
  cv_secret :: bytes

record ClientState =
  cs_alive :: bool
  cs_ready :: bool
  cs_health :: string
  cs_status :: string
  cs_route :: string

definition client_state_default :: ClientState where
  "client_state_default =
     \<lparr>cs_alive = True, cs_ready = False, cs_health = ''unhealthy'', cs_status = ''disconnected'', cs_route = ''none''\<rparr>"

text \<open>\<open>ce_tun_out\<close> holds the packets handed to the sender of the TUN device, if there is one.\<close>

record ClientEngine =
  ce_config :: NodeConfig
  ce_identity :: Keypair
  ce_node :: NetworkNode
  ce_candidates :: "RelayCandidate list"
  ce_pending_session :: "SessionInitiator option"
  ce_active_channel :: "EncryptedChannel option"
  ce_active_route :: "RouteBinding option"
  ce_exit_peer :: "PeerId option"
  ce_current_session_id :: "SessionId option"
  ce_state :: ClientState
  ce_tun_out :: "bytes list option"

datatype ClientError =
    Cl_Config ConfigError
  | Cl_Node string
  | Cl_Text string
  | Cl_Json
  | Cl_Address string
  | Cl_Session SessionError
  | Cl_Channel string ChannelError
  | Cl_DataPlane string DataPlaneError
  | Cl_Pipeline string PipelineError
  | Cl_Mtu string MtuError
  | Cl_Tun string TunError
  | Cl_Bridge string TunPipelineError
  | Cl_Route string RouteError
  | Cl_Panic string

definition client_peer_id :: "ClientLib \<Rightarrow> Keypair \<Rightarrow> PeerId" where
  "client_peer_id B identity = pk_to_peer_id (cb_session B) (keypair_public (cb_session B) identity)"

subsection \<open>Before the loop\<close>

definition client_requirements :: "NodeConfig \<Rightarrow> CandidateRequirements" where
  "client_requirements c =
     \<lparr>cr_protocol_version = nc_protocol_version c, cr_required_transport = nc_discovery_required_transport c,
      cr_required_capabilities = nc_discovery_required_capabilities c,
      cr_heartbeat_freshness = nc_heartbeat_freshness c\<rparr>"

definition client_route_policy :: "NodeConfig \<Rightarrow> RouteSelectionPolicy" where
  "client_route_policy c =
     \<lparr>rp_mode = nc_route_mode c, rp_required_transport = nc_discovery_required_transport c,
      rp_required_capabilities = nc_discovery_required_capabilities c\<rparr>"

fun client_dial :: "ClientLib \<Rightarrow> NetworkNode \<Rightarrow> Multiaddr list \<Rightarrow> (string + unit) \<times> NetworkNode" where
  "client_dial B n [] = (Ok (), n)"
| "client_dial B n (address # rest) =
     (case node_dial (cb_addr B) (cb_swarm B) n (al_to_string (cb_addr B) address) of
        (Inl e, n') \<Rightarrow> (Err e, n')
      | (Inr _, n') \<Rightarrow> client_dial B n' rest)"

text \<open>
  \<open>values\<close> is the environment, \<open>identity\<close> and \<open>node\<close> the results of loading the key file and of building
  the swarm, \<open>tun\<close> says whether the caller passed a sender for packets to the TUN device.
\<close>

definition engine_start ::
  "ClientLib \<Rightarrow> string + Keypair \<Rightarrow> string + NetworkNode \<Rightarrow> bool \<Rightarrow> env_map \<Rightarrow> ClientError + ClientEngine" where
  "engine_start B identity node tun values =
     rbind (map_err Cl_Config (from_map (cb_addr B) values)) (\<lambda>c.
     rbind (map_err Cl_Text identity) (\<lambda>key.
     rbind (map_err Cl_Node node) (\<lambda>node0.
     case node_listen (cb_addr B) (cb_swarm B) node0 (nc_listen_address c) of
       (Inl e, _) \<Rightarrow> Err (Cl_Node e)
     | (Inr _, node1) \<Rightarrow>
       rbind (map_err Cl_Text (from_addresses (cb_addr B) (nc_bootstrap_peers c))) (\<lambda>discovery.
       case client_dial B node1 (cp_peers discovery) of
         (Inl e, _) \<Rightarrow> Err (Cl_Node e)
       | (Inr _, node2) \<Rightarrow>
         Ok \<lparr>ce_config = c, ce_identity = key, ce_node = node2, ce_candidates = [], ce_pending_session = None,
             ce_active_channel = None, ce_active_route = None, ce_exit_peer = None, ce_current_session_id = None,
             ce_state = client_state_default, ce_tun_out = (if tun then Some [] else None)\<rparr>))))"

subsection \<open>Packets of the TUN device\<close>

definition engine_message ::
  "string \<Rightarrow> SessionId \<Rightarrow> RouteBinding \<Rightarrow> ForwardedProtocol \<Rightarrow> SocketAddr \<Rightarrow> SocketAddr \<Rightarrow> bytes \<Rightarrow> bytes
     \<Rightarrow> ForwardingMessage" where
  "engine_message client sid route protocol source destination frame payload =
     \<lparr>fm_kind = FORWARDING_KIND, fm_forwarding_id = sid, fm_client_session_id = sid, fm_client_peer = client,
      fm_route = route, fm_data = \<lparr>de_kind = DATA_PLANE_KIND, de_session_id = sid, de_frame = frame\<rparr>,
      fm_packet = Some \<lparr>fp_protocol = protocol, fp_source = Some source, fp_destination = destination,
        fp_flow_id = sid, fp_session_id = sid, fp_route_id = sid, fp_sequence = 1, fp_payload = payload\<rparr>\<rparr>"

definition engine_request :: "ClientLib \<Rightarrow> PeerId \<Rightarrow> bytes option \<Rightarrow> ClientEngine \<Rightarrow> ClientEngine" where
  "engine_request B peer text s =
     (case text of
        None \<Rightarrow> s
      | Some payload \<Rightarrow> s\<lparr>ce_node := snd (request_discovery (cb_swarm B) (ce_node s) peer payload)\<rparr>)"

text \<open>One packet to the peer \<open>exit\<close>, over the channel \<open>c\<close> of the session.\<close>

definition engine_send ::
  "ClientLib \<Rightarrow> EncryptedChannel \<Rightarrow> SessionId \<Rightarrow> RouteBinding \<Rightarrow> PeerId \<Rightarrow> ForwardedProtocol \<Rightarrow> SocketAddr \<Rightarrow> SocketAddr
     \<Rightarrow> bytes \<Rightarrow> ClientEngine \<Rightarrow> ClientEngine" where
  "engine_send B c sid route exit protocol source destination payload s =
     (case data_plane_open c DEFAULT_MAXIMUM_PAYLOAD_SIZE of
        Inl _ \<Rightarrow> s
      | Inr d \<Rightarrow>
        (case data_plane_send (cb_channel B) (cb_session B) d payload of
           (Inl _, d') \<Rightarrow> s\<lparr>ce_active_channel := Some (dp_channel d')\<rparr>
         | (Inr frame, d') \<Rightarrow>
             engine_request B exit
               (js_forwarding (cb_codec B)
                 (engine_message (peer_to_string (cb_session B) (client_peer_id B (ce_identity s))) sid route protocol
                   source destination frame payload))
               (s\<lparr>ce_active_channel := Some (dp_channel d')\<rparr>)))"

definition TUN_ADDRESS :: "32 word" where
  "TUN_ADDRESS = v4_from_octets [10, 8, 0, 1]"

definition engine_on_tun_packet :: "ClientLib \<Rightarrow> bytes \<Rightarrow> (ClientEngine, ClientError, unit) eff" where
  "engine_on_tun_packet B packet = with_state (\<lambda>s.
     case (ce_active_channel s, ce_active_route s, ce_exit_peer s) of
       (Some c, Some route, Some exit) \<Rightarrow>
         mbind (lift_option (Cl_Panic ''session ID must be present if channel is active'') (ce_current_session_id s)) (\<lambda>sid.
         case extract_dns_payload packet of
           Some (dns_dest, src_port, dns_payload) \<Rightarrow>
             modify (engine_send B c sid route exit Fp_Dns (SocketV4 TUN_ADDRESS src_port) dns_dest dns_payload)
         | None \<Rightarrow>
             if length packet \<ge> 20 then
               modify (engine_send B c sid route exit Fp_Ip (SocketV4 TUN_ADDRESS 0)
                 (SocketV4 (v4_from_octets [packet ! 16, packet ! 17, packet ! 18, packet ! 19]) 0) packet)
             else ret ())
     | _ \<Rightarrow> ret ())"

subsection \<open>Responses of the relays\<close>

text \<open>The last hop of a route, which the engine takes as the peer to send packets to.\<close>

definition engine_exit_peer :: "RouteBinding \<Rightarrow> PeerId" where
  "engine_exit_peer route = (case route of TwoHop _ exit _ \<Rightarrow> exit | OneHop relay \<Rightarrow> relay)"

definition engine_established :: "ClientLib \<Rightarrow> SecureSession \<Rightarrow> ClientEngine \<Rightarrow> ClientEngine" where
  "engine_established B session s =
     (let route = ss_route session;
          s1 = s\<lparr>ce_current_session_id := Some (ss_session_id session), ce_exit_peer := Some (engine_exit_peer route),
                 ce_active_route := Some route\<rparr> in
      case channel_open session CHANNEL_PROTOCOL_VERSION 4096 8 of
        Inl _ \<Rightarrow> s1
      | Inr c \<Rightarrow>
        s1\<lparr>ce_active_channel := Some c,
           ce_state := (ce_state s1)\<lparr>cs_ready := True, cs_health := ''healthy'', cs_status := ''online'',
             cs_route := cb_route_debug B route\<rparr>\<rparr>)"

definition engine_on_handshake_response :: "ClientLib \<Rightarrow> HandshakeResponse \<Rightarrow> ClientEngine \<Rightarrow> ClientEngine" where
  "engine_on_handshake_response B response s =
     (if hr_kind response \<noteq> ''secure_session_response'' then s
      else case ce_pending_session s of
          None \<Rightarrow> s
        | Some initiator \<Rightarrow>
          (case initiator_complete (cb_session B) initiator response of
             Inl _ \<Rightarrow> s\<lparr>ce_pending_session := None\<rparr>
           | Inr session \<Rightarrow> engine_established B session (s\<lparr>ce_pending_session := None\<rparr>)))"

text \<open>A DNS answer is wrapped into a packet for the resolver of the device; other packets are passed on.\<close>

definition engine_tun_packet :: "ForwardedPacket option \<Rightarrow> bytes \<Rightarrow> bytes" where
  "engine_tun_packet packet received =
     (case packet of
        None \<Rightarrow> received
      | Some p \<Rightarrow>
        if fp_protocol p = Fp_Dns then
          build_dns_response_packet received
            (case sock_ip (fp_destination p) of V4 a \<Rightarrow> v4_octets a | _ \<Rightarrow> [8, 8, 8, 8])
            [10, 8, 0, 1] 53
            (case fp_source p of None \<Rightarrow> 12345 | Some source \<Rightarrow> sock_port source)
        else received)"

definition engine_on_forwarding :: "ClientLib \<Rightarrow> ForwardingMessage \<Rightarrow> ClientEngine \<Rightarrow> ClientEngine" where
  "engine_on_forwarding B m s =
     (if fm_kind m \<noteq> FORWARDING_KIND then s
      else case ce_active_channel s of
          None \<Rightarrow> s
        | Some c \<Rightarrow>
          (case data_plane_open c DEFAULT_MAXIMUM_PAYLOAD_SIZE of
             Inl _ \<Rightarrow> s
           | Inr d \<Rightarrow>
             (case data_plane_receive (cb_channel B) (cb_session B) d (fm_data m) of
                (Inl _, d') \<Rightarrow> s\<lparr>ce_active_channel := Some (dp_channel d')\<rparr>
              | (Inr received, d') \<Rightarrow>
                s\<lparr>ce_active_channel := Some (dp_channel d'),
                  ce_tun_out := map_option (\<lambda>out. out @ [engine_tun_packet (fm_packet m) (dm_payload received)])
                    (ce_tun_out s)\<rparr>)))"

subsection \<open>Discovery and session set-up\<close>

definition first_hop :: "AddrLib \<Rightarrow> Route \<Rightarrow> PeerId \<times> RouteBinding" where
  "first_hop A route =
     (case route of
        Route_OneHop relay \<Rightarrow> (hop_peer_id relay, OneHop (hop_peer_id relay))
      | Route_TwoHop entry exit \<Rightarrow>
          (hop_peer_id entry, TwoHop (hop_peer_id entry) (hop_peer_id exit) (al_to_string A (hop_address exit))))"

definition engine_start_session :: "ClientEnv \<Rightarrow> ClientLib \<Rightarrow> Route \<Rightarrow> ClientEngine \<Rightarrow> ClientEngine" where
  "engine_start_session E B route s =
     (case first_hop (cb_addr B) route of (first_peer, binding) \<Rightarrow>
      case initiator_new (ce_identity s) first_peer binding (nc_protocol_version (ce_config s))
          (cv_session_id E) (cv_secret E) of
        Inl _ \<Rightarrow> s
      | Inr initiator \<Rightarrow>
        (case build_init (cb_session B) initiator of
           Inl _ \<Rightarrow> s
         | Inr init \<Rightarrow>
           (case js_init (cb_codec B) init of
              None \<Rightarrow> s
            | Some payload \<Rightarrow>
              (engine_request B first_peer (Some payload) s)\<lparr>ce_pending_session := Some initiator\<rparr>)))"

definition engine_on_metadata :: "ClientEnv \<Rightarrow> ClientLib \<Rightarrow> RelayMetadata \<Rightarrow> ClientEngine \<Rightarrow> ClientEngine" where
  "engine_on_metadata E B metadata s =
     (case candidate_from_metadata (cb_addr B) metadata (client_requirements (ce_config s)) (cv_time E) of
        Inl _ \<Rightarrow> s
      | Inr candidate \<Rightarrow>
        (let s1 = s\<lparr>ce_candidates := ce_candidates s @ [candidate]\<rparr>;
             ranked = ranking_rank (cb_addr B) (ce_candidates s1) (cv_time2 E) in
         case route_select (cb_addr B) (client_peer_id B (ce_identity s)) ranked (client_route_policy (ce_config s))
             (cv_time3 E) of
           Inl _ \<Rightarrow> s1
         | Inr route \<Rightarrow> if ce_pending_session s1 = None then engine_start_session E B route s1 else s1))"

definition engine_on_response :: "ClientEnv \<Rightarrow> ClientLib \<Rightarrow> bytes \<Rightarrow> ClientEngine \<Rightarrow> ClientEngine" where
  "engine_on_response E B payload s =
     (case js_parse_response (cb_codec B) payload of
        Some response \<Rightarrow> engine_on_handshake_response B response s
      | None \<Rightarrow>
        (case js_parse_forwarding (cb_codec B) payload of
           Some message \<Rightarrow> engine_on_forwarding B message s
         | None \<Rightarrow>
           (case js_parse_metadata (cb_codec B) payload of
              Some metadata \<Rightarrow> engine_on_metadata E B metadata s
            | None \<Rightarrow> s)))"

definition metadata_request :: "NodeConfig \<Rightarrow> RelayMetadataRequest" where
  "metadata_request c = \<lparr>rmr_kind = ''metadata'', rmr_protocol_version = nc_protocol_version c\<rparr>"

subsection \<open>Lost connections\<close>

definition engine_uses_peer :: "PeerId \<Rightarrow> ClientEngine \<Rightarrow> bool" where
  "engine_uses_peer p s \<longleftrightarrow>
     Some p = ce_exit_peer s \<or>
     (case ce_active_route s of
        None \<Rightarrow> False
      | Some (OneHop relay) \<Rightarrow> relay = p
      | Some (TwoHop entry _ _) \<Rightarrow> entry = p)"

definition engine_disconnected :: "PeerId \<Rightarrow> ClientEngine \<Rightarrow> ClientEngine" where
  "engine_disconnected p s =
     (if engine_uses_peer p s then
        s\<lparr>ce_active_channel := None, ce_active_route := None, ce_current_session_id := None, ce_exit_peer := None,
          ce_state := (ce_state s)\<lparr>cs_ready := False, cs_health := ''unhealthy'', cs_status := ''disconnected'',
            cs_route := ''none''\<rparr>\<rparr>
      else s)"

subsection \<open>The loop\<close>

text \<open>The stream of the swarm does not end.\<close>

datatype client_event = Cv_Tun bytes | Cv_Swarm SwarmEvent

definition engine_on_network_event :: "ClientEnv \<Rightarrow> ClientLib \<Rightarrow> NetworkEvent \<Rightarrow> ClientEngine \<Rightarrow> ClientEngine" where
  "engine_on_network_event E B event s =
     (case event of
        PeerConnected p \<Rightarrow> engine_request B p (js_metadata_request (cb_codec B) (metadata_request (ce_config s))) s
      | DiscoveryResponse p _ payload \<Rightarrow> engine_on_response E B payload s
      | PeerDisconnected p \<Rightarrow> engine_disconnected p s
      | _ \<Rightarrow> s)"

definition engine_step :: "ClientEnv \<Rightarrow> ClientLib \<Rightarrow> client_event \<Rightarrow> (ClientEngine, ClientError, unit) eff" where
  "engine_step E B event =
     (case event of
        Cv_Tun packet \<Rightarrow> engine_on_tun_packet B packet
      | Cv_Swarm e \<Rightarrow>
          (case translate_event e of None \<Rightarrow> ret () | Some event \<Rightarrow> modify (engine_on_network_event E B event)))"

fun engine_run :: "ClientLib \<Rightarrow> (ClientEnv \<times> client_event) list \<Rightarrow> (ClientEngine, ClientError, unit) eff" where
  "engine_run B [] = ret ()"
| "engine_run B ((E, event) # rest) = mbind (engine_step E B event) (\<lambda>_. engine_run B rest)"


subsection \<open>What a channel keeps\<close>

definition channel_binding :: "EncryptedChannel \<Rightarrow> SessionId \<times> PeerId \<times> RouteBinding" where
  "channel_binding c = (channel_session_id c, channel_peer_id c, channel_route c)"

lemmas binding_simps = channel_binding_def channel_session_id_def channel_peer_id_def channel_route_def

lemma channel_send_binding: "channel_send J L c m = (x, c') \<Longrightarrow> channel_binding c' = channel_binding c"
  by (cases x) (auto simp: binding_simps dest!: channel_send_Err channel_send_Ok encrypt_keeps)

lemma channel_receive_binding: "channel_receive J L c f = (x, c') \<Longrightarrow> channel_binding c' = channel_binding c"
  by (cases x) (auto simp: binding_simps channel_receive_Ok Let_def dest!: channel_receive_Err decrypt_keeps)

lemma data_plane_send_channel:
  assumes "data_plane_send J L d payload = (x, d')"
  shows "channel_binding (dp_channel d') = channel_binding (dp_channel d)"
    and "channel_inv (dp_channel d) \<Longrightarrow> channel_inv (dp_channel d')"
  using assms
  by (auto simp: data_plane_send_def split: if_splits prod.splits dest: channel_send_binding channel_send_inv)

lemma data_plane_receive_channel:
  assumes "data_plane_receive J L d envelope = (x, d')"
  shows "channel_binding (dp_channel d') = channel_binding (dp_channel d)"
    and "channel_inv (dp_channel d) \<Longrightarrow> channel_inv (dp_channel d')"
  using assms
  by (auto simp: data_plane_receive_def Let_def split: if_splits prod.splits sum.splits ChannelMessage.splits
      dest: channel_receive_binding channel_receive_inv)

lemma data_plane_snd_channel [simp]:
  "channel_binding (dp_channel (snd (data_plane_send J L d payload))) = channel_binding (dp_channel d)"
  "channel_inv (dp_channel d) \<Longrightarrow> channel_inv (dp_channel (snd (data_plane_send J L d payload)))"
  "channel_binding (dp_channel (snd (data_plane_receive J L d envelope))) = channel_binding (dp_channel d)"
  "channel_inv (dp_channel d) \<Longrightarrow> channel_inv (dp_channel (snd (data_plane_receive J L d envelope)))"
  using data_plane_send_channel [of J L d payload] data_plane_receive_channel [of J L d envelope]
  by (metis prod.collapse)+

lemma data_plane_open_channel: "data_plane_open c n = Inr d \<Longrightarrow> dp_channel d = c"
  by (auto simp: data_plane_open_def split: if_splits)


subsection \<open>The state of the engine is well formed\<close>

lemma route_select_hops:
  assumes "route_select A client cs policy now = Ok route"
  shows "set (map hop_peer_id (route_hops route)) \<subseteq> rc_peer_id ` set cs - {client}"
    and "distinct (map hop_peer_id (route_hops route))"
    and "length (route_hops route) = (case rp_mode policy of Mode_OneHop \<Rightarrow> 1 | Mode_TwoHop \<Rightarrow> 2)"
proof -
  let ?ra = "ranking_rank A (filter (route_eligible A client policy) cs) now"
  have peer: "hop_peer_id (hop_from (?ra ! i)) \<in> rc_peer_id ` set cs - {client}" if "i < length ?ra" for i
  proof -
    have "?ra ! i \<in> set ?ra" using that by (rule nth_mem)
    then have "?ra ! i \<in> set cs \<and> route_eligible A client policy (?ra ! i)" by (simp add: ranking_rank_def)
    then show ?thesis by (simp add: hop_from_def route_eligible_def)
  qed
  have some: "0 < length ?ra"
    using assms by (auto simp: route_select_def ranking_rank_def filter_empty_conv Let_def split: if_splits)
  show "set (map hop_peer_id (route_hops route)) \<subseteq> rc_peer_id ` set cs - {client}"
    "distinct (map hop_peer_id (route_hops route))"
    "length (route_hops route) = (case rp_mode policy of Mode_OneHop \<Rightarrow> 1 | Mode_TwoHop \<Rightarrow> 2)"
    using assms peer [of 0] peer [of 1] some
    by (cases "rp_mode policy"; auto simp: route_select_def Let_def not_less split: if_splits)+
qed

text \<open>
  The peers of a route that a client uses are relays whose metadata it accepted, not the client itself, and
  as many different ones as the configured mode asks for.
\<close>

definition client_route_valid :: "RelayCandidate list \<Rightarrow> PeerId \<Rightarrow> RouteMode \<Rightarrow> RouteBinding \<Rightarrow> bool" where
  "client_route_valid candidates own mode route \<longleftrightarrow>
     set (route_peers route) \<subseteq> rc_peer_id ` set candidates - {own} \<and> distinct (route_peers route) \<and>
     length (route_peers route) = (case mode of Mode_OneHop \<Rightarrow> 1 | Mode_TwoHop \<Rightarrow> 2)"

lemma client_route_valid_more:
  "client_route_valid cs own mode route \<Longrightarrow> client_route_valid (cs @ [c]) own mode route"
  by (auto simp: client_route_valid_def)

lemma first_hop_valid:
  assumes sel: "route_select A own (ranking_rank A cs now) (client_route_policy config) now' = Ok route"
    and hop: "first_hop A route = (p, binding)"
  shows "client_route_valid cs own (nc_route_mode config) binding" "p = hd (route_peers binding)"
proof -
  have "route_peers binding = map hop_peer_id (route_hops route)" "p = hd (route_peers binding)"
    using hop by (auto simp: first_hop_def split: Route.splits)
  then show "client_route_valid cs own (nc_route_mode config) binding" "p = hd (route_peers binding)"
    using route_select_hops [OF sel]
    by (auto simp: client_route_valid_def ranking_rank_def client_route_policy_def length_map [of hop_peer_id, symmetric]
        simp del: length_map)
qed

definition client_route_ok :: "ClientLib \<Rightarrow> ClientEngine \<Rightarrow> RouteBinding \<Rightarrow> bool" where
  "client_route_ok B s route =
     client_route_valid (ce_candidates s) (client_peer_id B (ce_identity s)) (nc_route_mode (ce_config s)) route"

definition client_channel_ok :: "ClientLib \<Rightarrow> ClientEngine \<Rightarrow> EncryptedChannel \<Rightarrow> bool" where
  "client_channel_ok B s c \<longleftrightarrow>
     channel_inv c \<and> client_route_ok B s (channel_route c) \<and> channel_peer_id c = hd (route_peers (channel_route c)) \<and>
     ce_active_route s = Some (channel_route c) \<and> ce_current_session_id s = Some (channel_session_id c) \<and>
     ce_exit_peer s = Some (List.last (route_peers (channel_route c)))"

definition engine_ok :: "ClientLib \<Rightarrow> ClientEngine \<Rightarrow> bool" where
  "engine_ok B s \<longleftrightarrow>
     (\<forall>i. ce_pending_session s = Some i \<longrightarrow>
        si_state i = Session_Negotiating \<and> si_identity i = ce_identity s \<and> client_route_ok B s (si_route i) \<and>
        si_expected_peer i = hd (route_peers (si_route i))) \<and>
     (case ce_active_channel s of
        None \<Rightarrow> ce_active_route s = None \<and> ce_current_session_id s = None \<and> ce_exit_peer s = None
      | Some c \<Rightarrow> client_channel_ok B s c) \<and>
     cs_alive (ce_state s) \<and> (cs_ready (ce_state s) \<longleftrightarrow> ce_active_channel s \<noteq> None) \<and>
     cs_health (ce_state s) = (if cs_ready (ce_state s) then ''healthy'' else ''unhealthy'') \<and>
     cs_status (ce_state s) = (if cs_ready (ce_state s) then ''online'' else ''disconnected'')"

lemma client_route_ok_cong [simp]:
  "client_route_ok B (s\<lparr>ce_node := x1\<rparr>) route = client_route_ok B s route"
  "client_route_ok B (s\<lparr>ce_pending_session := x2\<rparr>) route = client_route_ok B s route"
  "client_route_ok B (s\<lparr>ce_active_channel := x3\<rparr>) route = client_route_ok B s route"
  "client_route_ok B (s\<lparr>ce_active_route := x4\<rparr>) route = client_route_ok B s route"
  "client_route_ok B (s\<lparr>ce_exit_peer := x5\<rparr>) route = client_route_ok B s route"
  "client_route_ok B (s\<lparr>ce_current_session_id := x6\<rparr>) route = client_route_ok B s route"
  "client_route_ok B (s\<lparr>ce_state := x7\<rparr>) route = client_route_ok B s route"
  "client_route_ok B (s\<lparr>ce_tun_out := x8\<rparr>) route = client_route_ok B s route"
  by (simp_all add: client_route_ok_def)

lemma engine_ok_node [simp]: "engine_ok B (s\<lparr>ce_node := x\<rparr>) = engine_ok B s"
  by (simp add: engine_ok_def client_channel_ok_def split: option.splits)

lemma engine_ok_tun_out [simp]: "engine_ok B (s\<lparr>ce_tun_out := x\<rparr>) = engine_ok B s"
  by (simp add: engine_ok_def client_channel_ok_def split: option.splits)

lemma engine_ok_channel:
  assumes "engine_ok B s" "ce_active_channel s = Some c" "channel_binding c' = channel_binding c" "channel_inv c'"
  shows "engine_ok B (s\<lparr>ce_active_channel := Some c'\<rparr>)"
  using assms by (auto simp: engine_ok_def client_channel_ok_def binding_simps)

lemma engine_request_ok [simp]: "engine_ok B (engine_request B' p text s) = engine_ok B s"
  by (simp add: engine_request_def split: option.splits)


lemma engine_send_ok:
  assumes ok: "engine_ok B s" and c: "ce_active_channel s = Some c"
  shows "engine_ok B (engine_send B c sid route exit protocol source destination payload s)"
proof -
  have inv: "channel_inv c" using assms by (auto simp: engine_ok_def client_channel_ok_def)
  have "engine_ok B (s\<lparr>ce_active_channel := Some (dp_channel d')\<rparr>)"
    if "data_plane_open c DEFAULT_MAXIMUM_PAYLOAD_SIZE = Inr d"
      "data_plane_send (cb_channel B) (cb_session B) d payload = (x, d')" for d x d'
    using engine_ok_channel [OF ok c] data_plane_send_channel [OF that(2)] data_plane_open_channel [OF that(1)] inv
    by simp
  with ok show ?thesis by (auto simp: engine_send_def split: sum.splits prod.splits)
qed

lemma engine_on_forwarding_ok:
  assumes ok: "engine_ok B s"
  shows "engine_ok B (engine_on_forwarding B m s)"
proof -
  have inv: "channel_inv c" if "ce_active_channel s = Some c" for c
    using that ok by (auto simp: engine_ok_def client_channel_ok_def)
  have "engine_ok B (s\<lparr>ce_active_channel := Some (dp_channel d')\<rparr>)"
    if "ce_active_channel s = Some c" "data_plane_open c DEFAULT_MAXIMUM_PAYLOAD_SIZE = Inr d"
      "data_plane_receive (cb_channel B) (cb_session B) d (fm_data m) = (x, d')" for c d x d'
    using engine_ok_channel [OF ok that(1)] data_plane_receive_channel [OF that(3)] data_plane_open_channel [OF that(2)]
      inv [OF that(1)] by simp
  with ok show ?thesis by (auto simp: engine_on_forwarding_def split: sum.splits prod.splits option.splits)
qed

text \<open>A completed handshake gives an established session with the first hop, whose channel opens.\<close>

lemma completed_session:
  assumes "initiator_complete L i response = Ok session"
  shows "ss_session_id session = si_session_id i" "ss_peer_id session = si_expected_peer i"
    "ss_route session = si_route i" "ss_state session = Session_Established"
  using assms
  by (auto simp: initiator_complete_def derive_session_def Let_def split: if_splits sum.splits)

lemma completed_channel:
  assumes "initiator_complete L i response = Ok session"
  obtains c where "channel_open session CHANNEL_PROTOCOL_VERSION 4096 8 = Ok c" "channel_inv c"
    "channel_binding c = (si_session_id i, si_expected_peer i, si_route i)"
  using that completed_session [OF assms]
  by (simp add: channel_open_def FRAME_OVERHEAD_LIMIT_def channel_inv_def binding_simps)

lemma engine_exit_peer_last: "engine_exit_peer route = List.last (route_peers route)"
  by (cases route) (simp_all add: engine_exit_peer_def)

lemma engine_on_handshake_response_ok:
  assumes ok: "engine_ok B s"
  shows "engine_ok B (engine_on_handshake_response B response s)"
proof (cases "ce_pending_session s")
  case None
  then show ?thesis using ok by (simp add: engine_on_handshake_response_def)
next
  case (Some i)
  have dropped: "engine_ok B (s\<lparr>ce_pending_session := None\<rparr>)"
    using ok by (auto simp: engine_ok_def client_channel_ok_def split: option.splits)
  have "engine_ok B (engine_established B session (s\<lparr>ce_pending_session := None\<rparr>))"
    if session: "initiator_complete (cb_session B) i response = Inr session" for session
  proof -
    have i: "client_route_ok B s (si_route i)" "si_expected_peer i = hd (route_peers (si_route i))" "cs_alive (ce_state s)"
      using ok Some by (auto simp: engine_ok_def)
    obtain c where "channel_open session CHANNEL_PROTOCOL_VERSION 4096 8 = Ok c" "channel_inv c"
      "channel_binding c = (si_session_id i, si_expected_peer i, si_route i)"
      by (rule completed_channel [OF session])
    then show ?thesis
      using i completed_session [OF session]
      by (simp add: engine_established_def Let_def engine_ok_def client_channel_ok_def channel_binding_def engine_exit_peer_last)
  qed
  with dropped Some ok show ?thesis
    by (auto simp: engine_on_handshake_response_def split: sum.splits)
qed

lemma client_route_ok_more:
  "client_route_ok B s route \<Longrightarrow> client_route_ok B (s\<lparr>ce_candidates := ce_candidates s @ [c]\<rparr>) route"
  by (simp add: client_route_ok_def client_route_valid_more)

lemma initiator_new_fields:
  "initiator_new identity expected route protocol sid secret = Inr i \<Longrightarrow>
     si_state i = Session_Negotiating \<and> si_identity i = identity \<and> si_route i = route \<and> si_expected_peer i = expected"
  by (auto simp: initiator_new_def split: sum.splits if_splits)

lemma engine_on_metadata_ok:
  assumes ok: "engine_ok B s"
  shows "engine_ok B (engine_on_metadata E B metadata s)"
proof -
  have more: "engine_ok B (s\<lparr>ce_candidates := ce_candidates s @ [c]\<rparr>)" for c
    using ok by (auto simp: engine_ok_def client_channel_ok_def client_route_ok_more split: option.splits)
  have started: "engine_ok B (engine_start_session E B route s1)"
    if s1: "s1 = s\<lparr>ce_candidates := ce_candidates s @ [c]\<rparr>"
      and sel: "route_select (cb_addr B) (client_peer_id B (ce_identity s)) (ranking_rank (cb_addr B) (ce_candidates s1) now)
         (client_route_policy (ce_config s)) now' = Inr route" for c s1 now now' route
  proof -
    obtain p binding where hop: "first_hop (cb_addr B) route = (p, binding)" by fastforce
    have "client_route_ok B s1 binding" "p = hd (route_peers binding)"
      using first_hop_valid [OF sel hop] by (simp_all add: client_route_ok_def s1)
    then show ?thesis
      using more [of c]
      by (auto simp: engine_start_session_def hop engine_request_def s1 engine_ok_def client_channel_ok_def
          dest!: initiator_new_fields split: sum.splits option.splits)
  qed
  show ?thesis
    using ok more started
    by (auto simp: engine_on_metadata_def Let_def split: sum.splits)
qed

lemma engine_disconnected_ok: "engine_ok B s \<Longrightarrow> engine_ok B (engine_disconnected p s)"
  by (auto simp: engine_disconnected_def engine_ok_def client_channel_ok_def split: option.splits)

lemma engine_on_network_event_ok: "engine_ok B s \<Longrightarrow> engine_ok B (engine_on_network_event E B event s)"
  by (auto simp: engine_on_network_event_def engine_on_response_def engine_on_handshake_response_ok
      engine_on_forwarding_ok engine_on_metadata_ok engine_disconnected_ok split: NetworkEvent.splits option.splits)

lemma engine_step_ok:
  assumes "engine_ok B s"
  shows "\<exists>s'. engine_step E B event s = (Ok (), s') \<and> engine_ok B s'"
proof -
  have "\<exists>s'. engine_on_tun_packet B packet s = (Ok (), s') \<and> engine_ok B s'" for packet
  proof (cases "ce_active_channel s")
    case None
    then show ?thesis using assms by (simp add: engine_on_tun_packet_def)
  next
    case (Some c)
    then obtain sid where "ce_current_session_id s = Some sid"
      using assms by (auto simp: engine_ok_def client_channel_ok_def)
    then show ?thesis
      using Some assms by (auto simp: engine_on_tun_packet_def engine_send_ok split: option.splits)
  qed
  with assms show ?thesis
    by (auto simp: engine_step_def engine_on_network_event_ok split: client_event.splits option.splits)
qed


lemma engine_run_from_ok:
  assumes "engine_ok B s"
  shows "\<exists>s'. engine_run B es s = (Ok (), s') \<and> engine_ok B s'"
  using assms
proof (induction es arbitrary: s)
  case (Cons e es)
  obtain E event where e: "e = (E, event)" by fastforce
  obtain s1 where "engine_step E B event s = (Ok (), s1)" "engine_ok B s1"
    using engine_step_ok [OF Cons.prems] by blast
  then show ?case using Cons.IH [of s1] by (simp add: e)
qed simp

lemma engine_start_ok: "engine_start B identity node tun values = Ok s \<Longrightarrow> engine_ok B s"
  by (auto simp: engine_start_def rbind_def engine_ok_def client_state_default_def split: prod.split_asm sum.split_asm)



end
