(* ===== verification/Client_Health.thy ===== *)
theory Client_Health
  imports Client_Engine Relay_Health
begin

text \<open>
  \<open>spawn_client_health_server\<close> of \<open>client/src/engine.rs\<close> (and its copy in \<open>client/src/main.rs\<close>): the thread
  that answers every connection with the state of the client. A turn of its loop sees the result of
  \<open>accept\<close> (as for the relay in \<open>Relay_Health\<close>); the state a connection sees is the one when its request
  has been read, and \<open>to_json\<close> is the encoding of the state.
\<close>

definition client_health_response :: "(ClientState \<Rightarrow> string option) \<Rightarrow> ClientState \<Rightarrow> string" where
  "client_health_response to_json state =
     (let body = (case to_json state of Some text \<Rightarrow> text | None \<Rightarrow> ''{}'') in
      ''HTTP/1.1 200 OK'' @ crlf @ ''Content-Type: application/json'' @ crlf @
      ''Content-Length: '' @ show_nat (length body) @ crlf @ ''Connection: close'' @ crlf @ crlf @ body)"

text \<open>A connection from which nothing can be read gets no answer.\<close>

definition client_health_connection :: "(ClientState \<Rightarrow> string option) \<Rightarrow> bytes \<Rightarrow> ClientState \<Rightarrow> string option" where
  "client_health_connection to_json req state =
     (if req = [] then None else Some (client_health_response to_json state))"

text \<open>The answers to the connections so far, and whether the thread still runs.\<close>

fun client_health_loop ::
  "(ClientState \<Rightarrow> string option) \<Rightarrow> ClientState accept_result list \<Rightarrow> string option list \<times> bool" where
  "client_health_loop to_json [] = ([], True)"
| "client_health_loop to_json (Accepted req state # rest) =
     (case client_health_loop to_json rest of (answers, running) \<Rightarrow>
        (client_health_connection to_json req state # answers, running))"
| "client_health_loop to_json (Accept_WouldBlock state # rest) =
     (if cs_alive state then client_health_loop to_json rest else ([], False))"
| "client_health_loop to_json (Accept_Error # rest) = ([], False)"

fun accept_states :: "ClientState accept_result list \<Rightarrow> ClientState list" where
  "accept_states [] = []"
| "accept_states (Accepted _ state # rest) = state # accept_states rest"
| "accept_states (Accept_WouldBlock state # rest) = state # accept_states rest"
| "accept_states (Accept_Error # rest) = accept_states rest"

lemma client_health_loop_runs:
  assumes "Accept_Error \<notin> set turns" and "\<forall>state\<in>set (accept_states turns). cs_alive state"
  shows "snd (client_health_loop to_json turns)"
  using assms by (induction to_json turns rule: client_health_loop.induct) (auto split: prod.splits)

text \<open>
  The endpoint beside the engine runs as long as no \<open>accept\<close> fails, because the engine never clears
  \<open>alive\<close>: nothing ends the thread when the client disconnects.
\<close>

theorem client_health_endpoint_stays:
  assumes started: "engine_start B identity node tun values = Ok s0" and accepts: "Accept_Error \<notin> set turns"
    and seen: "\<forall>state\<in>set (accept_states turns). \<exists>es. state = ce_state (snd (engine_run B es s0))"
  shows "snd (client_health_loop to_json turns)"
proof (rule client_health_loop_runs [OF accepts], rule ballI)
  fix state assume "state \<in> set (accept_states turns)"
  with seen obtain es where es: "state = ce_state (snd (engine_run B es s0))" by blast
  obtain s where "engine_run B es s0 = (Ok (), s)" "engine_ok B s"
    using engine_run_from_ok [OF engine_start_ok [OF started], of es] by blast
  with es show "cs_alive state" by (simp add: engine_ok_def)
qed

end
