(* ===== verification/Client_Main.thy ===== *)
theory Client_Main
  imports Client_Engine Tun_Bridge Os_Routing
begin

text \<open>
  \<open>client/src/main.rs\<close>: the desktop client, which sends one request through its session and ends with
  the answer. The local variables of \<open>main\<close> are the record \<open>ClientMain\<close>, with the TUN device and the
  route manager of the platform as parameters (\<open>TunDeviceOps\<close> and the operations of the trait
  \<open>RouteManager\<close>). \<open>main_start\<close> is the code before the loop, \<open>main_step\<close> a turn of the loop, and
  \<open>main_finish\<close> the code after it. Unlike the engine, most failures end \<open>main\<close> with an error.
\<close>

subsection \<open>State\<close>

record ('d, 'r) MainLib =
  ml_client :: ClientLib
  ml_tun :: "'d TunDeviceOps"
  ml_inspect :: "'r \<Rightarrow> OwnedRoute \<Rightarrow> (RouteError + bool) \<times> 'r"
  ml_add :: "'r \<Rightarrow> OwnedRoute \<Rightarrow> (RouteError + unit) \<times> 'r"
  ml_remove :: "'r \<Rightarrow> OwnedRoute \<Rightarrow> (RouteError + unit) \<times> 'r"
  ml_remove_owned :: "'r \<Rightarrow> (RouteError + unit) \<times> 'r"

record ('d, 'r) ClientMain =
  cm_config :: NodeConfig
  cm_identity :: Keypair
  cm_node :: NetworkNode
  cm_tun_device :: "'d option"
  cm_route_manager :: 'r
  cm_candidates :: "RelayCandidate list"
  cm_pending_session :: "SessionInitiator option"
  cm_active_channel :: "EncryptedChannel option"
  cm_active_route :: "RouteBinding option"

type_synonym ('d, 'r, 'a) client = "(('d, 'r) ClientMain, ClientError, 'a) eff"

definition main_node :: "(NetworkNode \<Rightarrow> (string + 'a) \<times> NetworkNode) \<Rightarrow> ('d, 'r, 'a) client" where
  "main_node op = zoom cm_node (\<lambda>n s. s\<lparr>cm_node := n\<rparr>) Cl_Node op"

definition main_request :: "('d, 'r) MainLib \<Rightarrow> PeerId \<Rightarrow> bytes \<Rightarrow> ('d, 'r, unit) client" where
  "main_request L p payload =
     modify (\<lambda>s. s\<lparr>cm_node := snd (request_discovery (cb_swarm (ml_client L)) (cm_node s) p payload)\<rparr>)"

definition main_json :: "bytes option \<Rightarrow> ('d, 'r, bytes) client" where
  "main_json text = lift_option Cl_Json text"

subsection \<open>Before the loop\<close>

text \<open>\<open>tun\<close> is the result of opening the device of the platform; only Windows has one.\<close>

definition open_configured_tun :: "bool \<Rightarrow> (TunConfig \<Rightarrow> TunError + 'd) \<Rightarrow> TunConfig \<Rightarrow> ClientError + 'd option" where
  "open_configured_tun windows open_device c =
     (if \<not> tu_enabled c then Ok None
      else if windows then map_sum (Cl_Tun ''open Windows TUN device'') Some (open_device c)
      else Err (Cl_Text ''Windows TUN support is unavailable on this platform''))"

definition main_install_routes :: "('d, 'r) MainLib \<Rightarrow> ('d, 'r, unit) client" where
  "main_install_routes L = with_state (\<lambda>s.
     if \<not> nc_os_routing_enabled (cm_config s) then ret ()
     else if cm_tun_device s = None
     then fail (Cl_Text ''OS routing requires an available Ghost Layer TUN device'')
     else zoom cm_route_manager (\<lambda>r s. s\<lparr>cm_route_manager := r\<rparr>) (Cl_Route ''install Ghost Layer OS route'')
       (\<lambda>r. route_install (ml_inspect L) (ml_add L) (ml_remove L) r (Policy_Explicit (nc_os_routes (cm_config s)))
          (tu_interface_name (nc_tun (cm_config s)))))"

definition main_start ::
  "('d, 'r) MainLib \<Rightarrow> bool \<Rightarrow> (TunConfig \<Rightarrow> TunError + 'd) \<Rightarrow> ('d, 'r, unit) client" where
  "main_start L windows open_device =
     mbind (gets cm_config) (\<lambda>c.
     mbind (main_node (\<lambda>n. node_listen (cb_addr (ml_client L)) (cb_swarm (ml_client L)) n (nc_listen_address c))) (\<lambda>_.
     mbind (lift_result id (open_configured_tun windows open_device (nc_tun c))) (\<lambda>device.
     mbind (modify (\<lambda>s. s\<lparr>cm_tun_device := device\<rparr>)) (\<lambda>_.
     mbind (main_install_routes L) (\<lambda>_.
     mbind (lift_result Cl_Text (from_addresses (cb_addr (ml_client L)) (nc_bootstrap_peers c))) (\<lambda>discovery.
     main_node (\<lambda>n. client_dial (ml_client L) n (cp_peers discovery))))))))"

text \<open>The variables after the configuration, the key and the swarm are there.\<close>

definition main_init :: "NodeConfig \<Rightarrow> Keypair \<Rightarrow> NetworkNode \<Rightarrow> 'r \<Rightarrow> ('d, 'r) ClientMain" where
  "main_init c identity node routes =
     \<lparr>cm_config = c, cm_identity = identity, cm_node = node, cm_tun_device = None, cm_route_manager = routes,
      cm_candidates = [], cm_pending_session = None, cm_active_channel = None, cm_active_route = None\<rparr>"

subsection \<open>The request\<close>

definition build_protocol_request ::
  "SessionLib \<Rightarrow> NodeConfig \<Rightarrow> RouteBinding \<Rightarrow> SessionId \<Rightarrow> PeerId \<Rightarrow> bytes \<Rightarrow> DataPlaneEnvelope
     \<Rightarrow> ClientError + ForwardingMessage" where
  "build_protocol_request L c route sid client payload envelope =
     (case route of
        OneHop _ \<Rightarrow> Err (Cl_Text ''protocol forwarding requires a two-hop route'')
      | TwoHop _ _ _ \<Rightarrow>
        rbind
          (if nc_udp_enabled c then
             (case nc_allowed_exit_destinations c of
                [] \<Rightarrow> Err (Cl_Text ''UDP forwarding requires an allowlisted destination'')
              | d # _ \<Rightarrow>
                (case socket_parse d of
                   None \<Rightarrow> Err (Cl_Address d)
                 | Some destination \<Rightarrow>
                     Ok (Fp_Udp, destination, Some (SocketV4 (v4_from_octets [127, 0, 0, 1]) 40000))))
           else if nc_dns_enabled c then
             (case nc_dns_server c of
                None \<Rightarrow> Err (Cl_Text ''DNS server is not configured'')
              | Some d \<Rightarrow>
                (case socket_parse d of None \<Rightarrow> Err (Cl_Address d) | Some destination \<Rightarrow> Ok (Fp_Dns, destination, None)))
           else Err (Cl_Text ''no protocol forwarding mode is enabled''))
          (\<lambda>(protocol, destination, source).
             Ok \<lparr>fm_kind = FORWARDING_KIND, fm_forwarding_id = sid, fm_client_session_id = sid,
                 fm_client_peer = peer_to_string L client, fm_route = route, fm_data = envelope,
                 fm_packet = Some \<lparr>fp_protocol = protocol, fp_source = source, fp_destination = destination,
                   fp_flow_id = sid, fp_session_id = sid, fp_route_id = sid, fp_sequence = 1, fp_payload = payload\<rparr>\<rparr>))"

text \<open>What a client without a TUN device sends.\<close>

definition test_payload :: "NodeConfig \<Rightarrow> RouteBinding \<Rightarrow> bytes" where
  "test_payload c route =
     (if nc_udp_enabled c then str_bytes ''hello ghost layer udp''
      else if nc_dns_enabled c then dns_query (str_bytes ''ghost-layer.test'')
      else if nc_external_test_destination c \<noteq> None \<and> is_two_hop route then str_bytes ''ghost-layer-external-test''
      else str_bytes ''hello ghost layer'')"

text \<open>The envelope for the payload, the payload, and the channel after the send.\<close>

definition seal_test_payload ::
  "('d, 'r) MainLib \<Rightarrow> SessionId \<Rightarrow> RouteBinding \<Rightarrow> EncryptedChannel
     \<Rightarrow> ('d, 'r, DataPlaneEnvelope \<times> bytes \<times> EncryptedChannel) client" where
  "seal_test_payload L sid route channel = with_state (\<lambda>s.
     let payload = test_payload (cm_config s) route in
     mbind (lift_result (Cl_DataPlane ''open data plane'') (data_plane_open channel DEFAULT_MAXIMUM_PAYLOAD_SIZE)) (\<lambda>d.
     case data_plane_send (cb_channel (ml_client L)) (cb_session (ml_client L)) d payload of (sent, d') \<Rightarrow>
     mbind (lift_result (Cl_DataPlane ''encrypt data-plane payload'') sent) (\<lambda>frame.
     ret (\<lparr>de_kind = DATA_PLANE_KIND, de_session_id = sid, de_frame = frame\<rparr>, payload, dp_channel d'))))"

text \<open>A packet of the device goes through the packet pipeline.\<close>

definition seal_tun_packet ::
  "('d, 'r) MainLib \<Rightarrow> EncryptedChannel \<Rightarrow> 'd \<Rightarrow> ('d, 'r, DataPlaneEnvelope \<times> bytes \<times> EncryptedChannel) client" where
  "seal_tun_packet L channel device = with_state (\<lambda>s.
     let tun = nc_tun (cm_config s) in
     mbind (lift_result (Cl_DataPlane ''open TUN data plane'') (data_plane_open channel DEFAULT_MAXIMUM_PAYLOAD_SIZE)) (\<lambda>d.
     case td_read_packet (ml_tun L) device of (found, device') \<Rightarrow>
     mbind (modify (\<lambda>s. s\<lparr>cm_tun_device := Some device'\<rparr>)) (\<lambda>_.
     mbind (lift_result (Cl_Tun ''read TUN packet'') found) (\<lambda>packet.
     mbind (lift_option (Cl_Text ''TUN device returned no packet for controlled bridge'') packet) (\<lambda>p.
     mbind (lift_result (Cl_Mtu ''configure TUN MTU policy'')
       (mtu_policy_new (tu_mtu tun) (tu_maximum_packet_size tun))) (\<lambda>mtu.
     mbind (lift_option (Cl_Panic ''classify destination'')
       (pipeline_send (cb_channel (ml_client L)) (cb_session (ml_client L)) \<lparr>pp_mtu = mtu, pp_data_plane = d\<rparr> (np_bytes p))) (\<lambda>(sent, pp).
     mbind (lift_result (Cl_Pipeline ''route TUN packet'') sent) (\<lambda>envelope.
     ret (envelope, np_bytes p, dp_channel (pp_data_plane pp))))))))))"

text \<open>The session is established: its channel carries the request to the first hop.\<close>

definition main_request_payload ::
  "('d, 'r) MainLib \<Rightarrow> RouteBinding \<Rightarrow> SessionId \<Rightarrow> bytes \<Rightarrow> DataPlaneEnvelope \<Rightarrow> ('d, 'r, bytes) client" where
  "main_request_payload L route sid payload envelope = with_state (\<lambda>s.
     let c = cm_config s; B = ml_client L in
     if is_two_hop route \<and> (nc_udp_enabled c \<or> nc_dns_enabled c) then
       mbind (lift_result id (build_protocol_request (cb_session B) c route sid (client_peer_id B (cm_identity s)) payload envelope)) (\<lambda>m.
       main_json (js_forwarding (cb_codec B) m))
     else main_json (js_envelope (cb_codec B) envelope))"

definition main_established :: "('d, 'r) MainLib \<Rightarrow> SecureSession \<Rightarrow> ('d, 'r, unit) client" where
  "main_established L session = with_state (\<lambda>s.
     let sid = ss_session_id session; peer = ss_peer_id session; route = ss_route session in
     mbind (lift_result (Cl_Channel ''open encrypted channel'') (channel_open session CHANNEL_PROTOCOL_VERSION 4096 8)) (\<lambda>channel.
     mbind (case cm_tun_device s of
         Some device \<Rightarrow> seal_tun_packet L channel device
       | None \<Rightarrow> seal_test_payload L sid route channel) (\<lambda>(envelope, payload, channel').
     mbind (main_request_payload L route sid payload envelope) (\<lambda>text.
     mbind (main_request L peer text) (\<lambda>_.
     modify (\<lambda>s. s\<lparr>cm_active_channel := Some channel', cm_active_route := Some route\<rparr>))))))"

definition main_on_handshake_response :: "('d, 'r) MainLib \<Rightarrow> HandshakeResponse \<Rightarrow> ('d, 'r, unit) client" where
  "main_on_handshake_response L response = with_state (\<lambda>s.
     if hr_kind response \<noteq> ''secure_session_response'' then ret ()
     else case cm_pending_session s of
         None \<Rightarrow> ret ()
       | Some initiator \<Rightarrow>
         mbind (modify (\<lambda>s. s\<lparr>cm_pending_session := None\<rparr>)) (\<lambda>_.
         case initiator_complete (cb_session (ml_client L)) initiator response of
           Inl _ \<Rightarrow> ret ()
         | Inr session \<Rightarrow> main_established L session))"

subsection \<open>The answer\<close>

text \<open>
  The handlers of answers say whether the loop goes on. An operation on the channel keeps what it did.
\<close>

definition main_close_channel :: "('d, 'r) MainLib \<Rightarrow> EncryptedChannel \<Rightarrow> ('d, 'r, bool) client" where
  "main_close_channel L c =
     (case channel_close c of (closed, c') \<Rightarrow>
      mbind (modify (\<lambda>s. s\<lparr>cm_active_channel := Some c'\<rparr>)) (\<lambda>_.
      mbind (lift_result (Cl_Channel ''close encrypted channel'') closed) (\<lambda>_. ret False)))"

definition main_write_tun ::
  "('d, 'r) MainLib \<Rightarrow> EncryptedChannel \<Rightarrow> 'd \<Rightarrow> DataPlaneEnvelope \<Rightarrow> ('d, 'r, bool) client" where
  "main_write_tun L c device envelope = with_state (\<lambda>s.
     let tun = nc_tun (cm_config s) in
     mbind (lift_result (Cl_DataPlane ''open TUN response data plane'') (data_plane_open c DEFAULT_MAXIMUM_PAYLOAD_SIZE)) (\<lambda>d.
     mbind (lift_result (Cl_Bridge ''open TUN response bridge'')
       (tun_data_plane_new device d (tu_maximum_packet_size tun) (tu_mtu tun))) (\<lambda>bridge.
     case write_frame (ml_tun L) (cb_channel (ml_client L)) (cb_session (ml_client L)) bridge envelope of (written, bridge') \<Rightarrow>
     mbind (modify (\<lambda>s. s\<lparr>cm_tun_device := Some (tb_device bridge'),
       cm_active_channel := Some (dp_channel (tb_data_plane bridge'))\<rparr>)) (\<lambda>_.
     mbind (lift_result (Cl_Bridge ''write packet to TUN'') written) (\<lambda>_.
     main_close_channel L (dp_channel (tb_data_plane bridge')))))))"

text \<open>\<open>DataPlane::open(\<dots>).and_then(|mut plane| plane.receive(\<dots>))\<close>, with the channel after it.\<close>

definition main_receive ::
  "ClientLib \<Rightarrow> EncryptedChannel \<Rightarrow> DataPlaneEnvelope \<Rightarrow> (DataPlaneError + DataPlaneMessage) \<times> EncryptedChannel" where
  "main_receive B c envelope =
     (case data_plane_open c DEFAULT_MAXIMUM_PAYLOAD_SIZE of
        Inl e \<Rightarrow> (Err e, c)
      | Inr d \<Rightarrow>
        (case data_plane_receive (cb_channel B) (cb_session B) d envelope of (r, d') \<Rightarrow> (r, dp_channel d')))"

definition contains_window :: "bytes \<Rightarrow> bytes \<Rightarrow> bool" where
  "contains_window w bs = list_ex (\<lambda>i. take (length w) (drop i bs) = w) [0..<length bs]"

definition main_protocol_response ::
  "('d, 'r) MainLib \<Rightarrow> EncryptedChannel \<Rightarrow> ForwardedProtocol \<Rightarrow> bytes \<Rightarrow> ('d, 'r, bool) client" where
  "main_protocol_response L c protocol payload =
     (if protocol = Fp_Udp \<and> payload \<noteq> str_bytes ''ack: hello ghost layer udp''
      then fail (Cl_Text ''unexpected UDP response payload'')
      else if protocol = Fp_Dns \<and> \<not> contains_window [127, 0, 0, 1] payload
      then fail (Cl_Text ''unexpected DNS response payload'')
      else main_close_channel L c)"

definition main_test_response ::
  "('d, 'r) MainLib \<Rightarrow> EncryptedChannel \<Rightarrow> ForwardingMessage \<Rightarrow> ('d, 'r, bool) client" where
  "main_test_response L c m =
     (case main_receive (ml_client L) c (fm_data m) of (received, c') \<Rightarrow>
      mbind (modify (\<lambda>s. s\<lparr>cm_active_channel := Some c'\<rparr>)) (\<lambda>_.
      case received of
        Inl _ \<Rightarrow> ret True
      | Inr message \<Rightarrow>
        if dm_payload message = str_bytes ''ghost-layer-external-test'' then main_close_channel L c'
        else case fm_packet m of
            None \<Rightarrow> ret True
          | Some packet \<Rightarrow>
            if fp_protocol packet = Fp_Udp \<or> fp_protocol packet = Fp_Dns
            then main_protocol_response L c' (fp_protocol packet) (dm_payload message)
            else ret True))"

definition main_on_forwarding :: "('d, 'r) MainLib \<Rightarrow> ForwardingMessage \<Rightarrow> ('d, 'r, bool) client" where
  "main_on_forwarding L m = with_state (\<lambda>s.
     if fm_kind m \<noteq> FORWARDING_KIND then ret True
     else case (cm_active_channel s, cm_active_route s) of
         (Some c, Some route) \<Rightarrow>
           if fm_client_session_id m = channel_session_id c
             \<and> fm_client_peer m = peer_to_string (cb_session (ml_client L)) (client_peer_id (ml_client L) (cm_identity s))
             \<and> fm_route m = route \<and> de_session_id (fm_data m) = channel_session_id c
           then (case cm_tun_device s of
               Some device \<Rightarrow> main_write_tun L c device (fm_data m)
             | None \<Rightarrow> main_test_response L c m)
           else ret True
       | _ \<Rightarrow> ret True)"

definition starts_with :: "bytes \<Rightarrow> bytes \<Rightarrow> bool" where
  "starts_with needle bs = (take (length needle) bs = needle)"

definition main_on_envelope :: "('d, 'r) MainLib \<Rightarrow> DataPlaneEnvelope \<Rightarrow> ('d, 'r, bool) client" where
  "main_on_envelope L envelope = with_state (\<lambda>s.
     if de_kind envelope \<noteq> DATA_PLANE_KIND then ret True
     else case cm_active_channel s of
         None \<Rightarrow> ret True
       | Some c \<Rightarrow>
         (case main_receive (ml_client L) c envelope of (received, c') \<Rightarrow>
          mbind (modify (\<lambda>s. s\<lparr>cm_active_channel := Some c'\<rparr>)) (\<lambda>_.
          case received of
            Inl _ \<Rightarrow> ret True
          | Inr message \<Rightarrow>
            if dm_message_type message = Data \<and> starts_with (str_bytes ''ack: '') (dm_payload message)
            then main_close_channel L c' else ret True)))"

subsection \<open>Discovery\<close>

definition main_start_session :: "ClientEnv \<Rightarrow> ('d, 'r) MainLib \<Rightarrow> Route \<Rightarrow> ('d, 'r, unit) client" where
  "main_start_session E L route = with_state (\<lambda>s.
     case first_hop (cb_addr (ml_client L)) route of (first_peer, binding) \<Rightarrow>
     mbind (lift_result Cl_Session (initiator_new (cm_identity s) first_peer binding (nc_protocol_version (cm_config s))
       (cv_session_id E) (cv_secret E))) (\<lambda>initiator.
     mbind (lift_result Cl_Session (build_init (cb_session (ml_client L)) initiator)) (\<lambda>init.
     mbind (main_json (js_init (cb_codec (ml_client L)) init)) (\<lambda>payload.
     mbind (main_request L first_peer payload) (\<lambda>_.
     modify (\<lambda>s. s\<lparr>cm_pending_session := Some initiator\<rparr>))))))"

definition main_on_metadata :: "ClientEnv \<Rightarrow> ('d, 'r) MainLib \<Rightarrow> RelayMetadata \<Rightarrow> ('d, 'r, unit) client" where
  "main_on_metadata E L metadata = with_state (\<lambda>s.
     let A = cb_addr (ml_client L) in
     case candidate_from_metadata A metadata (client_requirements (cm_config s)) (cv_time E) of
       Inl _ \<Rightarrow> ret ()
     | Inr candidate \<Rightarrow>
       (let candidates = cm_candidates s @ [candidate] in
        mbind (modify (\<lambda>s. s\<lparr>cm_candidates := candidates\<rparr>)) (\<lambda>_.
        case route_select A (client_peer_id (ml_client L) (cm_identity s)) (ranking_rank A candidates (cv_time2 E))
            (client_route_policy (cm_config s)) (cv_time3 E) of
          Inl _ \<Rightarrow> ret ()
        | Inr route \<Rightarrow> if cm_pending_session s = None then main_start_session E L route else ret ())))"

subsection \<open>The loop and the end of the program\<close>

definition main_on_response :: "ClientEnv \<Rightarrow> ('d, 'r) MainLib \<Rightarrow> bytes \<Rightarrow> ('d, 'r, bool) client" where
  "main_on_response E L payload =
     (let C = cb_codec (ml_client L) in
      case js_parse_response C payload of
        Some response \<Rightarrow> mbind (main_on_handshake_response L response) (\<lambda>_. ret True)
      | None \<Rightarrow>
        (case js_parse_forwarding C payload of
           Some m \<Rightarrow> main_on_forwarding L m
         | None \<Rightarrow>
           (case js_parse_envelope C payload of
              Some envelope \<Rightarrow> main_on_envelope L envelope
            | None \<Rightarrow>
              (case js_parse_metadata C payload of
                 Some metadata \<Rightarrow> mbind (main_on_metadata E L metadata) (\<lambda>_. ret True)
               | None \<Rightarrow> ret True))))"

definition main_step :: "ClientEnv \<Rightarrow> ('d, 'r) MainLib \<Rightarrow> SwarmEvent \<Rightarrow> ('d, 'r, bool) client" where
  "main_step E L e = with_state (\<lambda>s.
     case translate_event e of
       Some (PeerConnected p) \<Rightarrow>
         mbind (main_json (js_metadata_request (cb_codec (ml_client L)) (metadata_request (cm_config s)))) (\<lambda>payload.
         mbind (main_request L p payload) (\<lambda>_. ret True))
     | Some (DiscoveryResponse p _ payload) \<Rightarrow> main_on_response E L payload
     | _ \<Rightarrow> ret True)"

text \<open>The loop over the events so far: \<open>True\<close> when it waits for the next one, \<open>False\<close> when it is left.\<close>

fun main_loop :: "('d, 'r) MainLib \<Rightarrow> (ClientEnv \<times> SwarmEvent) list \<Rightarrow> ('d, 'r, bool) client" where
  "main_loop L [] = ret True"
| "main_loop L ((E, e) # rest) = mbind (main_step E L e) (\<lambda>again. if again then main_loop L rest else ret False)"

definition main_finish :: "('d, 'r) MainLib \<Rightarrow> ('d, 'r, unit) client" where
  "main_finish L = with_state (\<lambda>s.
     mbind (if nc_os_routing_enabled (cm_config s)
       then zoom cm_route_manager (\<lambda>r s. s\<lparr>cm_route_manager := r\<rparr>) (Cl_Route ''remove Ghost Layer OS routes'') (ml_remove_owned L)
       else ret ()) (\<lambda>_.
     case cm_tun_device s of
       None \<Rightarrow> ret ()
     | Some device \<Rightarrow>
       (case td_close (ml_tun L) device of (closed, device') \<Rightarrow>
        mbind (modify (\<lambda>s. s\<lparr>cm_tun_device := Some device'\<rparr>)) (\<lambda>_.
        mbind (lift_result (Cl_Tun ''close TUN device'') closed) (\<lambda>_. ret ())))))"

text \<open>The whole program on the events up to some time; the result says whether it has ended.\<close>

definition client_main ::
  "('d, 'r) MainLib \<Rightarrow> bool \<Rightarrow> (TunConfig \<Rightarrow> TunError + 'd) \<Rightarrow> (ClientEnv \<times> SwarmEvent) list \<Rightarrow> ('d, 'r, bool) client" where
  "client_main L windows open_device events =
     mbind (main_start L windows open_device) (\<lambda>_.
     mbind (main_loop L events) (\<lambda>waiting.
     if waiting then ret False else mbind (main_finish L) (\<lambda>_. ret True)))"

subsection \<open>Normal ends\<close>

definition main_route_ok :: "('d, 'r) MainLib \<Rightarrow> ('d, 'r) ClientMain \<Rightarrow> RouteBinding \<Rightarrow> bool" where
  "main_route_ok L s route =
     client_route_valid (cm_candidates s) (client_peer_id (ml_client L) (cm_identity s)) (nc_route_mode (cm_config s)) route"

definition main_inv :: "('d, 'r) MainLib \<Rightarrow> ('d, 'r) ClientMain \<Rightarrow> bool" where
  "main_inv L s \<longleftrightarrow>
     (\<forall>i. cm_pending_session s = Some i \<longrightarrow>
        main_route_ok L s (si_route i) \<and> si_expected_peer i = hd (route_peers (si_route i))) \<and>
     (case cm_active_channel s of
        None \<Rightarrow> cm_active_route s = None
      | Some c \<Rightarrow> channel_inv c \<and> main_route_ok L s (channel_route c) \<and>
          channel_peer_id c = hd (route_peers (channel_route c)) \<and> cm_active_route s = Some (channel_route c))"

text \<open>The channel is closed, and a message of the peer was received on it.\<close>

definition main_answered :: "('d, 'r) ClientMain \<Rightarrow> bool" where
  "main_answered s \<longleftrightarrow> (\<exists>c. cm_active_channel s = Some c \<and> ec_state c = Channel_Closed \<and>
     ss_state (ec_session c) = Session_Closed \<and> 0 < ec_receive_sequence c)"

lemma main_route_ok_cong [simp]:
  "main_route_ok L (s\<lparr>cm_node := x1\<rparr>) route = main_route_ok L s route"
  "main_route_ok L (s\<lparr>cm_tun_device := x2\<rparr>) route = main_route_ok L s route"
  "main_route_ok L (s\<lparr>cm_route_manager := x3\<rparr>) route = main_route_ok L s route"
  "main_route_ok L (s\<lparr>cm_pending_session := x4\<rparr>) route = main_route_ok L s route"
  "main_route_ok L (s\<lparr>cm_active_channel := x5\<rparr>) route = main_route_ok L s route"
  "main_route_ok L (s\<lparr>cm_active_route := x6\<rparr>) route = main_route_ok L s route"
  by (simp_all add: main_route_ok_def)

lemma main_inv_cong [simp]:
  "main_inv L (s\<lparr>cm_node := x1\<rparr>) = main_inv L s" "main_inv L (s\<lparr>cm_tun_device := x2\<rparr>) = main_inv L s"
  "main_inv L (s\<lparr>cm_route_manager := x3\<rparr>) = main_inv L s"
  by (simp_all add: main_inv_def split: option.splits)

lemma main_inv_channel:
  assumes "main_inv L s" "cm_active_channel s = Some c" "channel_binding c' = channel_binding c" "channel_inv c'"
  shows "main_inv L (s\<lparr>cm_active_channel := Some c'\<rparr>)"
  using assms by (auto simp: main_inv_def binding_simps)

lemmas client_Ok = eff_Ok gets_Ok modify_Ok if_fail_Ok

lemma seal_test_payload_Ok:
  assumes "seal_test_payload L sid route channel s = (Inr (envelope, payload, channel'), s')"
  shows "s' = s" "channel_binding channel' = channel_binding channel" "channel_inv channel \<Longrightarrow> channel_inv channel'"
    "envelope = \<lparr>de_kind = DATA_PLANE_KIND, de_session_id = sid, de_frame = de_frame envelope\<rparr>"
    "payload = test_payload (cm_config s) route"
    "\<exists>d d'. data_plane_open channel DEFAULT_MAXIMUM_PAYLOAD_SIZE = Ok d \<and> dp_channel d' = channel' \<and>
       data_plane_send (cb_channel (ml_client L)) (cb_session (ml_client L)) d payload = (Ok (de_frame envelope), d')"
  using assms
  by (auto simp: seal_test_payload_def Let_def case_prod_beta client_Ok data_plane_open_channel)
     (metis prod.collapse)

lemma pipeline_send_channel:
  assumes "pipeline_send J K pp bs = Some (x, pp')"
  shows "channel_binding (dp_channel (pp_data_plane pp')) = channel_binding (dp_channel (pp_data_plane pp))"
    and "channel_inv (dp_channel (pp_data_plane pp)) \<Longrightarrow> channel_inv (dp_channel (pp_data_plane pp'))"
  using assms
  by (auto simp: pipeline_send_def split: option.splits sum.splits prod.splits if_splits dest: data_plane_send_channel)

lemma seal_tun_packet_Ok:
  assumes "seal_tun_packet L channel device s = (Inr (envelope, payload, channel'), s')"
  shows "\<exists>device'. s' = s\<lparr>cm_tun_device := Some device'\<rparr>" "channel_binding channel' = channel_binding channel"
    "channel_inv channel \<Longrightarrow> channel_inv channel'"
  using assms
  by (auto simp: seal_tun_packet_def Let_def case_prod_beta client_Ok data_plane_open_channel
      dest: pipeline_send_channel)


lemma main_request_payload_Ok: "main_request_payload L route sid payload envelope s = (Inr text, s') \<Longrightarrow> s' = s"
  by (auto simp: main_request_payload_def Let_def main_json_def client_Ok split: if_splits)

lemma main_established_inv:
  assumes inv: "main_inv L s" and run: "main_established L session s = (Inr u, s')"
    and session: "main_route_ok L s (ss_route session)" "ss_peer_id session = hd (route_peers (ss_route session))"
  shows "main_inv L s'"
proof -
  obtain channel envelope payload channel' s1 req where
    opened: "channel_open session CHANNEL_PROTOCOL_VERSION 4096 8 = Inr channel"
    and sealed: "(case cm_tun_device s of Some device \<Rightarrow> seal_tun_packet L channel device
        | None \<Rightarrow> seal_test_payload L (ss_session_id session) (ss_route session) channel) s = (Inr (envelope, payload, channel'), s1)"
    and s': "s' = s1\<lparr>cm_node := snd (request_discovery (cb_swarm (ml_client L)) (cm_node s1) (ss_peer_id session) req),
        cm_active_channel := Some channel', cm_active_route := Some (ss_route session)\<rparr>"
    using run by (auto simp: main_established_def Let_def client_Ok main_request_def dest!: main_request_payload_Ok)
  have channel: "channel_inv channel" "channel_binding channel = (ss_session_id session, ss_peer_id session, ss_route session)"
    using opened by (auto simp: channel_open_def channel_inv_def binding_simps split: if_splits)
  have "channel_binding channel' = channel_binding channel \<and> channel_inv channel' \<and>
      (s1 = s \<or> (\<exists>device. s1 = s\<lparr>cm_tun_device := device\<rparr>))"
    using sealed channel(1) by (cases "cm_tun_device s") (auto dest: seal_tun_packet_Ok seal_test_payload_Ok)
  with channel session inv show ?thesis
    by (auto simp: main_inv_def s' binding_simps)
qed

lemma main_on_handshake_response_inv:
  assumes inv: "main_inv L s" and run: "main_on_handshake_response L response s = (Inr u, s')"
  shows "main_inv L s'"
proof (cases "cm_pending_session s")
  case None
  then show ?thesis using run inv by (auto simp: main_on_handshake_response_def split: if_splits)
next
  case (Some i)
  let ?s = "s\<lparr>cm_pending_session := None\<rparr>"
  have dropped: "main_inv L ?s"
    using inv by (auto simp: main_inv_def split: option.splits)
  have "main_inv L s'"
    if session: "initiator_complete (cb_session (ml_client L)) i response = Inr session" "main_established L session ?s = (Inr u, s')"
    for session
    using inv Some completed_session [OF session(1)]
    by (intro main_established_inv [OF dropped session(2)]) (auto simp: main_inv_def)
  with run inv dropped show ?thesis
    by (auto simp: main_on_handshake_response_def Some client_Ok split: if_splits sum.splits)
qed

text \<open>Closing keeps the session of the channel and ends it.\<close>

lemma channel_close_Ok:
  assumes "channel_close c = (Inr u, c')" "channel_inv c"
  shows "channel_binding c' = channel_binding c" "channel_inv c'" "ec_state c' = Channel_Closed"
    "ss_state (ec_session c') = Session_Closed" "ec_receive_sequence c' = ec_receive_sequence c"
  using assms channel_close_inv [OF assms(2)]
  by (auto simp: channel_close_def session_close_def binding_simps split: ChannelState.splits if_splits)

text \<open>What a handler of answers has done when it ends the loop, and when it does not.\<close>

definition main_turn_ok :: "('d, 'r) MainLib \<Rightarrow> bool \<Rightarrow> ('d, 'r) ClientMain \<Rightarrow> bool" where
  "main_turn_ok L again s \<longleftrightarrow> main_inv L s \<and> (again \<or> main_answered s)"

lemma main_close_channel_ok:
  assumes inv: "main_inv L s" and run: "main_close_channel L c s = (Inr again, s')"
    and c: "cm_active_channel s = Some c" "channel_inv c" "0 < ec_receive_sequence c"
  shows "main_turn_ok L again s'"
proof -
  obtain c' where "channel_close c = (Inr (), c')" "s' = s\<lparr>cm_active_channel := Some c'\<rparr>" "\<not> again"
    using run by (auto simp: main_close_channel_def client_Ok split: prod.splits)
  with inv c channel_close_Ok [of c "()" c'] show ?thesis
    by (auto simp: main_turn_ok_def main_answered_def intro: main_inv_channel)
qed

lemma checked_succ_pos: "checked_succ w = Some n \<Longrightarrow> 0 < n"
  by (auto simp: checked_succ_def word_gt_0 eq_neg_iff_add_eq_0 split: if_splits)

lemma channel_receive_sequence:
  "channel_receive J K c f = (Inr m, c') \<Longrightarrow> 0 < ec_receive_sequence c'"
  by (auto simp: channel_receive_Ok Let_def dest: checked_succ_pos)

lemma data_plane_receive_sequence:
  "data_plane_receive J K d envelope = (Inr m, d') \<Longrightarrow> 0 < ec_receive_sequence (dp_channel d')"
  by (auto simp: data_plane_receive_def Let_def split: if_splits prod.splits sum.splits ChannelMessage.splits
      dest: channel_receive_sequence)


lemma main_receive_channel:
  assumes "main_receive B c envelope = (x, c')" "channel_inv c"
  shows "channel_binding c' = channel_binding c" "channel_inv c'" "x = Inr m \<Longrightarrow> 0 < ec_receive_sequence c'"
  using assms
  by (auto simp: main_receive_def data_plane_open_channel split: sum.splits prod.splits
      dest: data_plane_receive_channel data_plane_receive_sequence)

lemma main_inv_active: "main_inv L s \<Longrightarrow> cm_active_channel s = Some c \<Longrightarrow> channel_inv c"
  by (simp add: main_inv_def)

lemma main_turn_again [simp]: "main_turn_ok L True s \<longleftrightarrow> main_inv L s"
  by (simp add: main_turn_ok_def)

text \<open>A message was received on the active channel; then the channel may be closed.\<close>

lemma main_received_inv:
  assumes inv: "main_inv L s" and c: "cm_active_channel s = Some c" and rcv: "main_receive B c envelope = (x, c')"
  shows "main_inv L (s\<lparr>cm_active_channel := Some c'\<rparr>)"
  by (rule main_inv_channel [OF inv c main_receive_channel(1,2) [OF rcv main_inv_active [OF inv c]]])

lemma main_received_close:
  assumes inv: "main_inv L s" and c: "cm_active_channel s = Some c" and rcv: "main_receive B c envelope = (Inr m, c')"
    and run: "main_close_channel L c' (s\<lparr>cm_active_channel := Some c'\<rparr>) = (Inr again, s')"
  shows "main_turn_ok L again s'"
  using main_receive_channel [OF rcv main_inv_active [OF inv c]]
  by (intro main_close_channel_ok [OF main_received_inv [OF inv c rcv] run]) auto

lemma main_on_envelope_ok:
  assumes inv: "main_inv L s" and run: "main_on_envelope L envelope s = (Inr again, s')"
  shows "main_turn_ok L again s'"
  using run inv
  by (auto simp: main_on_envelope_def client_Ok split: if_splits sum.splits option.splits prod.splits
      intro: main_received_inv main_received_close)

lemma main_test_response_ok:
  assumes inv: "main_inv L s" and c: "cm_active_channel s = Some c" and run: "main_test_response L c m s = (Inr again, s')"
  shows "main_turn_ok L again s'"
  using run
  by (auto simp: main_test_response_def main_protocol_response_def client_Ok split: if_splits sum.splits option.splits prod.splits
      intro: main_received_inv [OF inv c] main_received_close [OF inv c])

lemma write_frame_channel:
  assumes "write_frame T J K b envelope = (x, b')" "channel_inv (dp_channel (tb_data_plane b))"
  shows "channel_binding (dp_channel (tb_data_plane b')) = channel_binding (dp_channel (tb_data_plane b))"
    "channel_inv (dp_channel (tb_data_plane b'))" "x = Inr p \<Longrightarrow> 0 < ec_receive_sequence (dp_channel (tb_data_plane b'))"
  using assms
  by (auto simp: write_frame_def split: sum.splits prod.splits dest: data_plane_receive_channel data_plane_receive_sequence)

lemma main_write_tun_ok:
  assumes inv: "main_inv L s" and c: "cm_active_channel s = Some c" and run: "main_write_tun L c device envelope s = (Inr again, s')"
  shows "main_turn_ok L again s'"
proof -
  obtain d bridge p bridge' where opened: "data_plane_open c DEFAULT_MAXIMUM_PAYLOAD_SIZE = Inr d"
    and bridge: "tun_data_plane_new device d (tu_maximum_packet_size (nc_tun (cm_config s))) (tu_mtu (nc_tun (cm_config s))) = Inr bridge"
    and written: "write_frame (ml_tun L) (cb_channel (ml_client L)) (cb_session (ml_client L)) bridge envelope = (Inr p, bridge')"
    and closed: "main_close_channel L (dp_channel (tb_data_plane bridge')) (s\<lparr>cm_tun_device := Some (tb_device bridge'),
      cm_active_channel := Some (dp_channel (tb_data_plane bridge'))\<rparr>) = (Inr again, s')"
    using run by (auto simp: main_write_tun_def Let_def client_Ok case_prod_beta) (metis prod.collapse)
  have "dp_channel (tb_data_plane bridge) = c"
    using bridge opened by (auto simp: tun_data_plane_new_def data_plane_open_channel split: if_splits)
  then have w: "channel_binding (dp_channel (tb_data_plane bridge')) = channel_binding c" "channel_inv (dp_channel (tb_data_plane bridge'))"
    "0 < ec_receive_sequence (dp_channel (tb_data_plane bridge'))"
    using write_frame_channel [OF written] main_inv_active [OF inv c] by auto
  have "main_inv L (s\<lparr>cm_tun_device := Some (tb_device bridge'), cm_active_channel := Some (dp_channel (tb_data_plane bridge'))\<rparr>)"
    using main_inv_channel [of L "s\<lparr>cm_tun_device := Some (tb_device bridge')\<rparr>" c] inv c w by simp
  then show ?thesis by (rule main_close_channel_ok [OF _ closed]) (simp_all add: w)
qed

lemma main_on_forwarding_ok:
  assumes inv: "main_inv L s" and run: "main_on_forwarding L m s = (Inr again, s')"
  shows "main_turn_ok L again s'"
  using run inv
  by (auto simp: main_on_forwarding_def split: if_splits option.splits
      intro: main_test_response_ok main_write_tun_ok)


lemma main_inv_more: "main_inv L s \<Longrightarrow> main_inv L (s\<lparr>cm_candidates := cm_candidates s @ [c]\<rparr>)"
  by (auto simp: main_inv_def main_route_ok_def client_route_valid_more split: option.splits)

lemma main_start_session_inv:
  assumes inv: "main_inv L s" and run: "main_start_session E L route s = (Inr u, s')"
    and sel: "route_select (cb_addr (ml_client L)) (client_peer_id (ml_client L) (cm_identity s))
      (ranking_rank (cb_addr (ml_client L)) (cm_candidates s) now) (client_route_policy (cm_config s)) now' = Inr route"
  shows "main_inv L s'"
proof -
  obtain p binding where hop: "first_hop (cb_addr (ml_client L)) route = (p, binding)" by fastforce
  have "main_route_ok L s binding" "p = hd (route_peers binding)"
    using first_hop_valid [OF sel hop] by (simp_all add: main_route_ok_def)
  then show ?thesis
    using run inv
    by (auto simp: main_start_session_def hop client_Ok main_json_def main_request_def main_inv_def
        dest!: initiator_new_fields split: option.splits)
qed

lemma main_on_metadata_inv:
  assumes inv: "main_inv L s" and run: "main_on_metadata E L metadata s = (Inr u, s')"
  shows "main_inv L s'"
  using run inv main_inv_more [OF inv]
  by (auto simp: main_on_metadata_def Let_def client_Ok split: sum.splits if_splits
      intro: main_start_session_inv [where s = "s\<lparr>cm_candidates := cm_candidates s @ [c]\<rparr>" for c])

lemma main_step_ok:
  assumes inv: "main_inv L s" and run: "main_step E L e s = (Inr again, s')"
  shows "main_turn_ok L again s'"
  using run inv
  by (auto simp: main_step_def main_on_response_def Let_def client_Ok main_json_def main_request_def
      split: option.splits NetworkEvent.splits
      intro: main_on_handshake_response_inv main_on_metadata_inv main_on_forwarding_ok main_on_envelope_ok)

lemma main_loop_ok:
  assumes "main_inv L s" "main_loop L es s = (Inr waiting, s')"
  shows "main_turn_ok L waiting s'"
  using assms
proof (induction es arbitrary: s)
  case Nil
  then show ?case by simp
next
  case (Cons e es)
  obtain E event where e: "e = (E, event)" by fastforce
  obtain again s1 where step: "main_step E L event s = (Inr again, s1)"
    "(if again then main_loop L es else ret False) s1 = (Inr waiting, s')"
    using Cons.prems(2) by (auto simp: e client_Ok)
  then have "main_turn_ok L again s1" using main_step_ok Cons.prems(1) by blast
  with step(2) Cons.IH [of s1] show ?case by (cases again) (auto simp: main_turn_ok_def)
qed

text \<open>What no part of the program changes after the start.\<close>

definition main_static :: "NodeConfig \<Rightarrow> Keypair \<Rightarrow> bool \<Rightarrow> ('d, 'r) ClientMain \<Rightarrow> bool" where
  "main_static c identity device s \<longleftrightarrow>
     cm_config s = c \<and> cm_identity s = identity \<and> (cm_tun_device s \<noteq> None \<longleftrightarrow> device)"

lemma main_static_cong [simp]:
  "main_static c k b (s\<lparr>cm_node := x1\<rparr>) = main_static c k b s"
  "main_static c k b (s\<lparr>cm_route_manager := x3\<rparr>) = main_static c k b s"
  "main_static c k b (s\<lparr>cm_candidates := x4\<rparr>) = main_static c k b s"
  "main_static c k b (s\<lparr>cm_pending_session := x5\<rparr>) = main_static c k b s"
  "main_static c k b (s\<lparr>cm_active_channel := x6\<rparr>) = main_static c k b s"
  "main_static c k b (s\<lparr>cm_active_route := x7\<rparr>) = main_static c k b s"
  by (simp_all add: main_static_def)


lemma keeps_static [eff_intros]:
  "keeps (main_static c k b) (main_request L p payload)" "keeps (main_static c k b) (main_json j)"
  "keeps (main_static c k b) (main_close_channel L ch)"
  unfolding main_request_def main_json_def main_close_channel_def
  by (intro eff_intros keeps_modify; simp)+

lemma keeps_static_response [eff_intros]: "keeps (main_static c k b) (main_on_response E L payload)"
  unfolding main_on_response_def main_on_handshake_response_def main_established_def main_request_payload_def
    main_on_forwarding_def main_write_tun_def main_test_response_def main_protocol_response_def main_on_envelope_def
    main_on_metadata_def main_start_session_def seal_tun_packet_def seal_test_payload_def Let_def
  by (intro eff_intros keeps_modify; simp add: main_static_def)


lemma keeps_static_step [eff_intros]: "keeps (main_static c k b) (main_step E L e)"
  unfolding main_step_def
  by (rule keeps_with_state, cases "translate_event e") (auto split: NetworkEvent.splits intro!: eff_intros)

lemma keeps_static_loop: "keeps (main_static c k b) (main_loop L es)"
proof (induction es)
  case (Cons e es)
  then show ?case by (cases e) (auto intro!: eff_intros)
qed (simp add: keeps_def)

lemma open_configured_tun_Ok: "open_configured_tun windows open_device c = Inr d \<Longrightarrow> d \<noteq> None \<longleftrightarrow> tu_enabled c"
  by (cases "open_device c") (auto simp: open_configured_tun_def split: if_splits)

lemma main_start_Ok:
  assumes "main_start L windows open_device s = (Inr u, s')"
  shows "main_static (cm_config s) (cm_identity s) (tu_enabled (nc_tun (cm_config s))) s'"
    "cm_candidates s' = cm_candidates s" "cm_pending_session s' = cm_pending_session s"
    "cm_active_channel s' = cm_active_channel s" "cm_active_route s' = cm_active_route s"
  using assms
  by (auto simp: main_start_def main_node_def client_Ok main_install_routes_def main_static_def
      split: if_splits dest!: open_configured_tun_Ok)

lemma main_finish_Ok:
  assumes "main_finish L s = (Inr u, s')"
  shows "nc_os_routing_enabled (cm_config s) \<Longrightarrow> \<exists>r. ml_remove_owned L r = (Ok (), cm_route_manager s')"
    "case cm_tun_device s of None \<Rightarrow> cm_tun_device s' = None
     | Some d \<Rightarrow> \<exists>d'. td_close (ml_tun L) d = (Ok (), d') \<and> cm_tun_device s' = Some d'"
    "cm_candidates s' = cm_candidates s" "cm_active_channel s' = cm_active_channel s" "cm_active_route s' = cm_active_route s"
    "cm_config s' = cm_config s" "cm_identity s' = cm_identity s"
  using assms
  by (auto simp: main_finish_def client_Ok split: if_splits option.splits prod.splits)

text \<open>
  C17: the client ends normally only after an answer that was authenticated, and then cleans up. When
  \<open>main\<close> returns without an error, a message was received and decrypted on the channel of its session, the
  session was with the first hop of a route of relays with accepted metadata, the channel and its session
  are closed, the routes that the client owned were removed if it had installed any, and the TUN device was
  closed if the configuration enables one.
\<close>

theorem client_main_ends_answered:
  assumes run: "client_main L windows open_device events (main_init c identity node routes) = (Ok True, s)"
  shows "(\<exists>ch. cm_active_channel s = Some ch \<and> 0 < ec_receive_sequence ch \<and>
       ec_state ch = Channel_Closed \<and> ss_state (ec_session ch) = Session_Closed \<and>
       channel_peer_id ch = hd (route_peers (channel_route ch)) \<and>
       client_route_valid (cm_candidates s) (client_peer_id (ml_client L) identity) (nc_route_mode c) (channel_route ch)) \<and>
     (nc_os_routing_enabled c \<longrightarrow> (\<exists>r. ml_remove_owned L r = (Ok (), cm_route_manager s))) \<and>
     (if tu_enabled (nc_tun c) then \<exists>d d'. td_close (ml_tun L) d = (Ok (), d') \<and> cm_tun_device s = Some d'
      else cm_tun_device s = None)"
proof -
  obtain s0 s1 where start: "main_start L windows open_device (main_init c identity node routes) = (Inr (), s0)"
    and loop: "main_loop L events s0 = (Inr False, s1)" and finish: "main_finish L s1 = (Inr (), s)"
    using run by (auto simp: client_main_def client_Ok split: if_splits)
  have static: "main_static c identity (tu_enabled (nc_tun c)) s1"
    using keepsD [OF keeps_static_loop main_start_Ok(1) [OF start], of L events] loop by (simp add: main_init_def)
  have "main_inv L s0"
    using main_start_Ok [OF start] by (simp add: main_inv_def main_init_def)
  then have "main_inv L s1" "main_answered s1"
    using main_loop_ok [OF _ loop] by (auto simp: main_turn_ok_def)
  then show ?thesis
    using main_finish_Ok [OF finish] static
    by (auto simp: main_answered_def main_inv_def main_route_ok_def main_static_def split: option.splits)
qed


subsection \<open>A client that gets its answer\<close>

abbreviation demo_hop :: RouteBinding where
  "demo_hop \<equiv> OneHop (PeerId [2])"

definition demo_main_config :: NodeConfig where
  "demo_main_config = demo_config\<lparr>nc_dns_enabled := False\<rparr>"

definition demo_main_initiator :: SessionInitiator where
  "demo_main_initiator = \<lparr>si_identity = Keypair [1], si_expected_peer = PeerId [2], si_route = demo_hop,
     si_protocol_version = ''1.0'', si_session_id = SessionId [9], si_secret = [5], si_state = Session_Negotiating\<rparr>"

definition demo_main_response :: HandshakeResponse where
  "demo_main_response = response_of demo_lib demo_responder (projr (build_init demo_lib demo_main_initiator)) ''1.0'' [6]"

definition demo_main_session :: SecureSession where
  "demo_main_session = derive_session demo_lib (SessionId [9]) (PeerId [2]) demo_hop Initiator [11] ''1.0''"

definition demo_main_chan :: EncryptedChannel where
  "demo_main_chan = projr (channel_open demo_main_session CHANNEL_PROTOCOL_VERSION 4096 8)"

definition demo_relay_chan :: EncryptedChannel where
  "demo_relay_chan = demo_main_chan\<lparr>ec_session :=
     derive_session demo_lib (SessionId [9]) (PeerId [1]) demo_hop Responder [11] ''1.0''\<rparr>"

definition demo_main_sent :: "(DataPlaneError + bytes) \<times> DataPlane" where
  "demo_main_sent = data_plane_send demo_json demo_lib (plane_of demo_main_chan) (str_bytes ''hello ghost layer'')"

text \<open>The acknowledgement of the relay.\<close>

definition demo_main_ack :: DataPlaneEnvelope where
  "demo_main_ack = \<lparr>de_kind = DATA_PLANE_KIND, de_session_id = SessionId [9],
     de_frame = projr (fst (data_plane_send demo_json demo_lib (plane_of demo_relay_chan) (str_bytes ''ack: hello'')))\<rparr>"

lemma demo_main_complete: "initiator_complete demo_lib demo_main_initiator demo_main_response = Ok demo_main_session"
  unfolding initiator_complete_Ok validate_response_Ok
  by (simp add: build_init_def demo_main_initiator_def demo_responder_def responder_new_def demo_lib_def all_zero_def
      demo_main_response_def response_of_def Let_def of_char_of demo_main_session_def)

lemma demo_main_opened: "channel_open demo_main_session CHANNEL_PROTOCOL_VERSION 4096 8 = Ok demo_main_chan"
  by (simp add: demo_main_chan_def channel_open_def FRAME_OVERHEAD_LIMIT_def demo_main_session_def sem_simps)

lemma synced_own_send:
  assumes "channel_synced J K s r" "channel_send J K r m = (Ok f, r')" "m \<noteq> Close"
  shows "channel_synced J K s r'"
  using assms
  by (auto simp: channel_synced_def session_paired_def channel_session_id_def dest!: channel_send_Ok encrypt_keeps)

lemmas demo_send_simps = data_plane_send_def channel_send_def channel_ensure_established_def Let_def
  checked_succ_def demo_json_def session_encrypt_def sem_simps demo_lib_def demo_header_to_def demo_char_bytes_def
  channel_session_id_def derive_session_def nonce_from_counter_def DEFAULT_MAXIMUM_PAYLOAD_SIZE_def

lemma demo_main_sends:
  "is_ok (fst demo_main_sent)"
  "is_ok (fst (data_plane_send demo_json demo_lib (plane_of demo_relay_chan) (str_bytes ''ack: hello'')))"
  by (simp_all add: demo_main_sent_def demo_relay_chan_def demo_main_chan_def channel_open_def FRAME_OVERHEAD_LIMIT_def
    demo_main_session_def str_bytes_def CHANNEL_PROTOCOL_VERSION_def demo_send_simps)

lemma demo_main_synced: "channel_synced demo_json demo_lib demo_relay_chan demo_main_chan"
proof (rule opened_channels_synced [OF _ _ _ _ demo_main_opened])
  let ?r = "derive_session demo_lib (SessionId [9]) (PeerId [1]) demo_hop Responder [11] ''1.0''"
  show "channel_open ?r CHANNEL_PROTOCOL_VERSION 4096 8 = Ok demo_relay_chan"
    by (simp add: demo_relay_chan_def demo_main_chan_def channel_open_def FRAME_OVERHEAD_LIMIT_def demo_main_session_def sem_simps)
  show "session_paired ?r demo_main_session"
    unfolding demo_main_session_def by (rule derive_session_paired)
qed (simp_all add: channel_laws_def demo_json_ok demo_aead_ok demo_aead_limit_ok demo_main_session_def sem_simps)

lemma demo_main_acked:
  assumes "cb_channel B = demo_json" "cb_session B = demo_lib"
  shows "\<exists>m c. main_receive B (dp_channel (snd demo_main_sent)) demo_main_ack = (Ok m, c) \<and>
    dm_payload m = str_bytes ''ack: hello'' \<and> ec_state c = Channel_Established \<and> ss_state (ec_session c) = Session_Established"
proof -
  obtain f d where sent: "demo_main_sent = (Ok f, d)"
    using is_ok_fst [OF demo_main_sends(1)] by blast
  obtain g e where ack: "data_plane_send demo_json demo_lib (plane_of demo_relay_chan) (str_bytes ''ack: hello'') = (Ok g, e)"
    using is_ok_fst [OF demo_main_sends(2)] by blast
  obtain c where c: "channel_send demo_json demo_lib demo_main_chan (DataPlane (str_bytes ''hello ghost layer'')) = (Ok f, c)"
    "d = plane_of c"
    using sent by (auto simp: demo_main_sent_def data_plane_send_def split: if_splits prod.splits)
  then have open': "data_plane_open c DEFAULT_MAXIMUM_PAYLOAD_SIZE = Ok d"
    by (auto simp: data_plane_open_def DEFAULT_MAXIMUM_PAYLOAD_SIZE_def dest!: channel_send_Ok)
  have "data_plane_synced demo_json demo_lib (plane_of demo_relay_chan) d"
    using synced_own_send [OF demo_main_synced c(1)] by (simp add: data_plane_synced_def c(2))
  moreover have "data_plane_session_id e = SessionId [9]"
    using ack channel_send_session_id
    by (auto simp: data_plane_send_def data_plane_session_id_def demo_relay_chan_def channel_session_id_def sem_simps
        split: if_splits prod.splits)
  ultimately obtain m d' where rcv: "data_plane_receive demo_json demo_lib d demo_main_ack = (Ok m, d')"
    "dm_payload m = str_bytes ''ack: hello''" "data_plane_synced demo_json demo_lib e d'"
    using data_plane_sent_received [OF _ ack, of d] by (auto simp: demo_main_ack_def ack)
  then have "ec_state (dp_channel d') = Channel_Established" "ss_state (ec_session (dp_channel d')) = Session_Established"
    by (auto simp: data_plane_receive_def channel_receive_Ok Let_def data_plane_synced_def channel_synced_def
        split: if_splits prod.splits sum.splits ChannelMessage.splits)
  with rcv show ?thesis
    using assms c(2) by (simp add: main_receive_def sent open')
qed

definition demo_main_codec :: ClientCodec where
  "demo_main_codec = RelayCodec.extend
     (demo_codec\<lparr>js_parse_response := \<lambda>b. if b = [2] then Some demo_main_response else None,
       js_parse_forwarding := \<lambda>_. None, js_parse_envelope := \<lambda>b. if b = [3] then Some demo_main_ack else None\<rparr>)
     \<lparr>js_parse_metadata = (\<lambda>_. Some demo_metadata), js_metadata_request = (\<lambda>_. Some [])\<rparr>"

definition demo_main_lib :: "(MockTunDevice, MockRouteManager) MainLib" where
  "demo_main_lib = \<lparr>ml_client = \<lparr>cb_session = demo_lib, cb_channel = demo_json, cb_addr = demo_addr_lib,
       cb_codec = demo_main_codec, cb_swarm = demo_swarm, cb_route_debug = (\<lambda>_. [])\<rparr>,
     ml_tun = mock_tun, ml_inspect = mock_inspect, ml_add = mock_add, ml_remove = mock_remove,
     ml_remove_owned = mock_remove_owned\<rparr>"

definition demo_main_env :: ClientEnv where
  "demo_main_env = \<lparr>cv_time = 5, cv_time2 = 5, cv_time3 = 5, cv_session_id = SessionId [9], cv_secret = [5]\<rparr>"

abbreviation demo_answer :: "u8 \<Rightarrow> ClientEnv \<times> SwarmEvent" where
  "demo_answer b \<equiv> (demo_main_env, Sw_Behaviour (Be_Discovery (Discovery_Message (PeerId [2]) (Rr_Response 0 [b]))))"

definition demo_main_start :: "(MockTunDevice, MockRouteManager) ClientMain" where
  "demo_main_start = main_init demo_main_config (Keypair [1]) \<lparr>nn_calls = []\<rparr> mock_routes_new"

lemma demo_main_lib_fields:
  "cb_session (ml_client demo_main_lib) = demo_lib" "cb_channel (ml_client demo_main_lib) = demo_json"
  "cb_addr (ml_client demo_main_lib) = demo_addr_lib" "cb_swarm (ml_client demo_main_lib) = demo_swarm"
  "js_parse_response (cb_codec (ml_client demo_main_lib)) b = (if b = [2] then Some demo_main_response else None)"
  "js_parse_forwarding (cb_codec (ml_client demo_main_lib)) b = None"
  "js_parse_envelope (cb_codec (ml_client demo_main_lib)) b = (if b = [3] then Some demo_main_ack else None)"
  "js_parse_metadata (cb_codec (ml_client demo_main_lib)) b = Some demo_metadata"
  "js_init (cb_codec (ml_client demo_main_lib)) i = Some []" "js_envelope (cb_codec (ml_client demo_main_lib)) v = Some []"
  by (simp_all add: demo_main_lib_def demo_main_codec_def RelayCodec.extend_def demo_codec_def)

lemma demo_main_started:
  obtains s where "main_start demo_main_lib False open_device demo_main_start = (Ok (), s)"
    "cm_config s = demo_main_config" "cm_identity s = Keypair [1]" "cm_candidates s = []" "cm_pending_session s = None"
    "cm_tun_device s = None"
  by (simp add: main_start_def main_node_def zoom_def demo_main_start_def main_init_def node_listen_def demo_main_lib_fields
      demo_addr_lib_def demo_swarm_def result_of_def open_configured_tun_def demo_main_config_def demo_config_def
      main_install_routes_def from_addresses_def)

lemma demo_main_selected:
  obtains cand hop where "candidate_from_metadata demo_addr_lib demo_metadata (client_requirements demo_main_config) 5 = Ok cand"
    "route_select demo_addr_lib (PeerId [1]) (ranking_rank demo_addr_lib [cand] 5) (client_route_policy demo_main_config) 5 =
      Ok (Route_OneHop hop)" "hop_peer_id hop = PeerId [2]"
proof -
  have valid: "metadata_validate demo_addr_lib demo_metadata ''1.0'' 5 (from_secs 30) = Ok ()"
    by (simp add: metadata_validate_Ok demo_metadata_def metadata_new_def metadata_address_def
        demo_addr_lib_def known_capabilities_def from_secs_def)
  then obtain cand where cand: "candidate_from_metadata demo_addr_lib demo_metadata (client_requirements demo_main_config) 5 = Ok cand"
    "rc_peer_id cand = PeerId [2]" "rc_capabilities cand = [''quic'', ''relay'']" "rc_status cand = Status_Online" "rc_health cand = Healthy"
    by (simp add: candidate_from_metadata_def client_requirements_def demo_main_config_def demo_config_def)
       (simp add: demo_metadata_def metadata_new_def metadata_address_def demo_addr_lib_def)
  then have "route_eligible demo_addr_lib (PeerId [1]) (client_route_policy demo_main_config) cand"
    by (simp add: route_eligible_def client_route_policy_def demo_main_config_def demo_config_def demo_addr_lib_def
        str_contains_def upt_rec of_char_of)
  then show thesis
    using that [OF cand(1)] cand
    by (simp add: route_select_def ranking_rank_def client_route_policy_def demo_main_config_def demo_config_def hop_from_def)
qed

lemma demo_main_facts:
  "client_peer_id (ml_client demo_main_lib) (Keypair [1]) = PeerId [1]"
  "cv_time demo_main_env = 5" "cv_time2 demo_main_env = 5" "cv_time3 demo_main_env = 5"
  "cv_session_id demo_main_env = SessionId [9]" "cv_secret demo_main_env = [5]"
  "nc_protocol_version demo_main_config = ''1.0''" "\<not> nc_udp_enabled demo_main_config" "\<not> nc_dns_enabled demo_main_config"
  "nc_external_test_destination demo_main_config = None" "\<not> nc_os_routing_enabled demo_main_config"
  "initiator_new (Keypair [1]) (PeerId [2]) demo_hop ''1.0'' (SessionId [9]) [5] = Ok demo_main_initiator"
  "hr_kind demo_main_response = ''secure_session_response''" "de_kind demo_main_ack = DATA_PLANE_KIND"
  "ss_session_id demo_main_session = SessionId [9]" "ss_peer_id demo_main_session = PeerId [2]" "ss_route demo_main_session = demo_hop"
  "data_plane_open demo_main_chan DEFAULT_MAXIMUM_PAYLOAD_SIZE = Ok (plane_of demo_main_chan)"
  by (simp_all add: client_peer_id_def demo_main_lib_fields demo_lib_def demo_main_env_def demo_main_config_def demo_config_def
      initiator_new_Ok route_contains_def demo_main_initiator_def demo_main_response_def response_of_def Let_def demo_main_ack_def
      demo_main_session_def derive_session_def data_plane_open_def demo_main_chan_def channel_open_def FRAME_OVERHEAD_LIMIT_def
      DEFAULT_MAXIMUM_PAYLOAD_SIZE_def)

text \<open>The three answers: metadata, the response of the handshake, and the acknowledgement.\<close>

lemma demo_main_metadata_step:
  assumes "cm_config s = demo_main_config" "cm_identity s = Keypair [1]" "cm_candidates s = []" "cm_pending_session s = None"
  shows "\<exists>s'. main_on_response demo_main_env demo_main_lib [1] s = (Ok True, s') \<and> cm_config s' = demo_main_config \<and>
    cm_identity s' = Keypair [1] \<and> cm_pending_session s' = Some demo_main_initiator \<and> cm_tun_device s' = cm_tun_device s"
proof -
  obtain cand hop where sel: "candidate_from_metadata demo_addr_lib demo_metadata (client_requirements demo_main_config) 5 = Ok cand"
    "route_select demo_addr_lib (PeerId [1]) (ranking_rank demo_addr_lib [cand] 5) (client_route_policy demo_main_config) 5 =
      Ok (Route_OneHop hop)" "hop_peer_id hop = PeerId [2]"
    by (rule demo_main_selected)
  obtain init where init: "build_init demo_lib demo_main_initiator = Ok init"
    by (simp add: build_init_def demo_main_initiator_def Let_def)
  show ?thesis
    by (simp add: main_on_response_def Let_def demo_main_lib_fields main_on_metadata_def assms demo_main_facts sel
        main_start_session_def first_hop_def init main_json_def main_request_def)
qed

lemma demo_main_handshake_step:
  assumes "cm_config s = demo_main_config" "cm_pending_session s = Some demo_main_initiator" "cm_tun_device s = None"
  shows "\<exists>s'. main_on_response demo_main_env demo_main_lib [2] s = (Ok True, s') \<and> cm_config s' = demo_main_config \<and>
    cm_active_channel s' = Some (dp_channel (snd demo_main_sent)) \<and> cm_tun_device s' = None"
proof -
  obtain f d where sent: "data_plane_send demo_json demo_lib (plane_of demo_main_chan) (str_bytes ''hello ghost layer'') = (Ok f, d)"
    "demo_main_sent = (Ok f, d)"
    using is_ok_fst [OF demo_main_sends(1)] by (auto simp: demo_main_sent_def)
  show ?thesis
    by (simp add: main_on_response_def Let_def demo_main_lib_fields main_on_handshake_response_def assms demo_main_facts
        demo_main_complete main_established_def demo_main_opened seal_test_payload_def test_payload_def sent
        main_request_payload_def main_json_def main_request_def)
qed

lemma demo_main_ack_step:
  assumes "cm_config s = demo_main_config" "cm_active_channel s = Some (dp_channel (snd demo_main_sent))" "cm_tun_device s = None"
  shows "\<exists>s'. main_on_response demo_main_env demo_main_lib [3] s = (Ok False, s') \<and> cm_config s' = demo_main_config \<and>
    cm_tun_device s' = None"
proof -
  obtain m c where ack: "main_receive (ml_client demo_main_lib) (dp_channel (snd demo_main_sent)) demo_main_ack = (Ok m, c)"
    "dm_payload m = str_bytes ''ack: hello''" "ec_state c = Channel_Established" "ss_state (ec_session c) = Session_Established"
    using demo_main_acked [of "ml_client demo_main_lib"] demo_main_lib_fields by blast
  have "dm_message_type m = Data" by (cases "dm_message_type m")
  then show ?thesis
    by (simp add: main_on_response_def Let_def demo_main_lib_fields main_on_envelope_def assms demo_main_facts ack
        starts_with_def str_bytes_def main_close_channel_def channel_close_def session_close_def)
qed

lemma demo_main_run:
  "\<exists>s. client_main demo_main_lib False open_device [demo_answer 1, demo_answer 2, demo_answer 3] demo_main_start = (Ok True, s)"
proof -
  obtain s where s: "main_start demo_main_lib False open_device demo_main_start = (Ok (), s)"
    "cm_config s = demo_main_config" "cm_identity s = Keypair [1]" "cm_candidates s = []" "cm_pending_session s = None"
    "cm_tun_device s = None"
    by (rule demo_main_started)
  obtain s1 where s1: "main_on_response demo_main_env demo_main_lib [1] s = (Ok True, s1)" "cm_config s1 = demo_main_config"
    "cm_pending_session s1 = Some demo_main_initiator" "cm_tun_device s1 = None"
    using demo_main_metadata_step [OF s(2-5)] s(6) by auto
  obtain s2 where s2: "main_on_response demo_main_env demo_main_lib [2] s1 = (Ok True, s2)" "cm_config s2 = demo_main_config"
    "cm_active_channel s2 = Some (dp_channel (snd demo_main_sent))" "cm_tun_device s2 = None"
    using demo_main_handshake_step [OF s1(2-4)] by blast
  obtain s3 where s3: "main_on_response demo_main_env demo_main_lib [3] s2 = (Ok False, s3)" "cm_config s3 = demo_main_config"
    "cm_tun_device s3 = None"
    using demo_main_ack_step [OF s2(2-4)] by blast
  have "main_loop demo_main_lib [demo_answer 1, demo_answer 2, demo_answer 3] s = (Ok False, s3)"
    by (simp add: mbind_def main_step_def s1(1) s2(1) s3(1))
  then show ?thesis
    by (simp add: client_main_def s(1) mbind_def main_finish_def s3 demo_main_facts del: main_loop.simps)
qed

theorem client_main_ends_answered_witness:
  "\<exists>s ch. client_main demo_main_lib False (\<lambda>_. Err DeviceUnavailable) [demo_answer 1, demo_answer 2, demo_answer 3] demo_main_start
       = (Ok True, s) \<and> cm_active_channel s = Some ch \<and> ec_state ch = Channel_Closed"
proof -
  obtain s where "client_main demo_main_lib False (\<lambda>_. Err DeviceUnavailable) [demo_answer 1, demo_answer 2, demo_answer 3]
      demo_main_start = (Ok True, s)"
    using demo_main_run by blast
  with client_main_ends_answered [OF this [unfolded demo_main_start_def]] show ?thesis by blast
qed


end
