(* ===== verification/Client_Relay.thy ===== *)
theory Client_Relay
  imports Client_Main Two_Hop
begin

text \<open>
  The clients and the event loop of the relay together: what happens to a relay that receives the
  messages the engine sends for the packets of the TUN device, and how the entry takes the request of the
  desktop client.
\<close>

subsection \<open>What the engine sends\<close>

text \<open>The message for a packet, as the handler of TUN packets builds it.\<close>

fun engine_packet :: "bytes \<Rightarrow> (ForwardedProtocol \<times> SocketAddr \<times> SocketAddr \<times> bytes) option" where
  "engine_packet packet =
     (case extract_dns_payload packet of
        Some (dns_dest, src_port, dns_payload) \<Rightarrow> Some (Fp_Dns, SocketV4 TUN_ADDRESS src_port, dns_dest, dns_payload)
      | None \<Rightarrow>
        if length packet \<ge> 20 then
          Some (Fp_Ip, SocketV4 TUN_ADDRESS 0,
            SocketV4 (v4_from_octets [packet ! 16, packet ! 17, packet ! 18, packet ! 19]) 0, packet)
        else None)"

lemma engine_sends:
  assumes ok: "engine_ok B s" and sent: "engine_step E B (Cv_Tun packet) s = (Ok (), s')"
    and call: "nn_calls (ce_node s') = nn_calls (ce_node s) @ [Call_Request p text]"
  obtains route sid protocol source destination payload frame where
    "ce_active_route s = Some route" "p = List.last (route_peers route)" "client_route_ok B s route"
    "ce_current_session_id s = Some sid"
    "engine_packet packet = Some (protocol, source, destination, payload)"
    "length payload \<le> DEFAULT_MAXIMUM_PAYLOAD_SIZE"
    "js_forwarding (cb_codec B) (engine_message (peer_to_string (cb_session B) (client_peer_id B (ce_identity s))) sid route
       protocol source destination frame payload) = Some text"
proof (cases "ce_active_channel s")
  case None
  then show thesis using sent call by (simp add: engine_step_def engine_on_tun_packet_def)
next
  case (Some c)
  then have c: "ce_active_route s = Some (channel_route c)" "client_route_ok B s (channel_route c)"
    "ce_current_session_id s = Some (channel_session_id c)" "ce_exit_peer s = Some (List.last (route_peers (channel_route c)))"
    using ok by (auto simp: engine_ok_def client_channel_ok_def)
  have send: "length payload \<le> DEFAULT_MAXIMUM_PAYLOAD_SIZE \<and> p = exit \<and>
      (\<exists>frame. js_forwarding (cb_codec B) (engine_message (peer_to_string (cb_session B) (client_peer_id B (ce_identity s))) sid route
        protocol source destination frame payload) = Some text)"
    if "s' = engine_send B c sid route exit protocol source destination payload s"
    for sid route exit protocol source destination payload
    using call that
    by (auto simp: engine_send_def engine_request_def request_discovery_def node_log_def data_plane_open_def data_plane_send_def
        split: sum.splits prod.splits option.splits if_splits)
  have "\<exists>protocol source destination payload. engine_packet packet = Some (protocol, source, destination, payload) \<and>
      s' = engine_send B c (channel_session_id c) (channel_route c) (List.last (route_peers (channel_route c)))
        protocol source destination payload s"
    using sent call
    by (auto simp: engine_step_def engine_on_tun_packet_def Some c split: option.splits if_splits)
  then show thesis using that c send by blast
qed

subsection \<open>At the relay\<close>

text \<open>What serde promises of the messages: they decode to what was encoded, and as no other request.\<close>

definition forwarding_codec_ok :: "ClientCodec \<Rightarrow> RelayCodec \<Rightarrow> bool" where
  "forwarding_codec_ok C R \<longleftrightarrow>
     (\<forall>m text. js_forwarding C m = Some text \<longrightarrow>
        js_parse_init R text = None \<and> js_parse_metadata_request R text = None \<and> js_parse_forwarding R text = Some m)"

text \<open>A request from a peer, as the swarm of the relay reports it.\<close>

abbreviation request_event :: "PeerId \<Rightarrow> nat \<Rightarrow> bytes \<Rightarrow> nat \<Rightarrow> relay_event" where
  "request_event peer i text channel \<equiv>
     Rv_Swarm (Some (Sw_Behaviour (Be_Discovery (Discovery_Message peer (Rr_Request i text channel)))))"

lemma forwarding_request_run:
  assumes codec: "forwarding_codec_ok C (lb_codec R)" "js_forwarding C m = Some text"
    and run: "\<And>x'. rd_config x' = rd_config x \<Longrightarrow> rd_identity x' = rd_identity x \<Longrightarrow>
      rd_client_forwarding x' = rd_client_forwarding x \<Longrightarrow> rd_exit_forwarding x' = rd_exit_forwarding x \<Longrightarrow>
      fst (on_forwarding E R peer channel m x') = Err e"
  shows "fst (daemon_run R ((E, request_event peer i text channel) # es) x) = Err e"
proof -
  have parse: "js_parse_init (lb_codec R) text = None" "js_parse_metadata_request (lb_codec R) text = None"
    "js_parse_forwarding (lb_codec R) text = Some m"
    using codec by (auto simp: forwarding_codec_ok_def)
  let ?x = "x\<lparr>rd_state := apply_network_event (lb_addr R) (rd_state x) (DiscoveryRequest peer i text channel) (se_time E)\<rparr>"
  have "fst (on_forwarding E R peer channel m ?x) = Err e" by (rule run) simp_all
  then have "\<exists>x'. on_forwarding E R peer channel m ?x = (Err e, x')"
    by (metis prod.collapse)
  then show ?thesis
    by (auto simp: daemon_step_def on_network_event_def on_connection_event_def on_discovery_request_def parse)
qed

lemma exit_forward_refused:
  assumes forwarding: "\<not> fm_contains (rd_exit_forwarding x) sid" and peer: "client \<notin> {entry, exit}" "entry \<noteq> exit"
    and identity: "identity_ok (lb_session R)" and size: "length payload \<le> DEFAULT_MAXIMUM_PAYLOAD_SIZE"
    and m: "m = engine_message (peer_to_string (lb_session R) client) sid (TwoHop entry exit a) protocol source destination frame payload"
  shows "fst (on_exit_forward E R client channel m client x) =
    (if sock_port destination = 0
     then Err (Re_Forwarding ''validate forwarding message'' MalformedForwardingMessage)
     else Err (Re_Forwarding ''validate entry peer'' WrongEntryRelay))"
proof -
  let ?c = "\<lparr>fc_forwarding_id = sid, fc_client_session_id = sid, fc_client_peer = client, fc_entry_peer = entry,
    fc_exit_peer = exit, fc_route = TwoHop entry exit a, fc_state = Fs_Established, fc_relay_session_id = Some sid,
    fc_last_request = None, fc_last_sequence = None\<rparr>"
  have made: "exit_context m client x = (Ok (), x\<lparr>rd_exit_forwarding := fmupd sid ?c (rd_exit_forwarding x)\<rparr>)"
    using forwarding peer
    by (simp add: exit_context_def m engine_message_def with_forwarding_id_def exit_route_peers_def establish_context_def
        transition_connecting_def transition_established_def fwd_transition_def bind_relay_session_def)
  have parsed: "peer_parse (lb_session R) (peer_to_string (lb_session R) client) = Some client"
    using identity by (simp add: identity_ok_def)
  have valid: "validate_message (lb_session R) ?c m =
      (if sock_port destination = 0 then Err MalformedForwardingMessage else Ok ())"
    using size by (simp add: m engine_message_def validate_message_def parsed fwd_validate_packet_def)
  have "validate_entry ?c client = Err WrongEntryRelay"
    using peer by (simp add: validate_entry_def)
  moreover have "fm_forwarding_id m = sid" by (simp add: m engine_message_def)
  ultimately show ?thesis
    using valid
    by (simp add: on_exit_forward_def made exit_validate_def Let_def on_exit_context_def check_context_def
        mbind_def)
qed

text \<open>The answer of the relay at the end of the route to a message of the engine.\<close>

definition engine_refusal :: "RouteMode \<Rightarrow> bytes \<Rightarrow> RelayError" where
  "engine_refusal mode packet =
     (case mode of
        Mode_OneHop \<Rightarrow> Re_Forwarding [] Fwd_InvalidRoute
      | Mode_TwoHop \<Rightarrow>
          if extract_dns_payload packet = None
          then Re_Forwarding ''validate forwarding message'' MalformedForwardingMessage
          else Re_Forwarding ''validate entry peer'' WrongEntryRelay)"

lemma engine_message_refused:
  assumes packet: "engine_packet packet = Some (protocol, source, destination, payload)"
      "length payload \<le> DEFAULT_MAXIMUM_PAYLOAD_SIZE"
    and route: "client_route_ok B s route" "own_peer R x = List.last (route_peers route)"
    and relay: "nc_relay_role (rd_config x) \<noteq> Role_Entry" "\<not> fm_contains (rd_exit_forwarding x) sid"
      "identity_ok (lb_session R)"
    and m: "client = client_peer_id B (ce_identity s)"
      "m = engine_message (peer_to_string (lb_session R) client) sid route protocol source destination frame payload"
  shows "fst (on_forwarding E R client channel m x) = Err (engine_refusal (nc_route_mode (ce_config s)) packet)"
proof -
  have parsed: "peer_parse (lb_session R) (peer_to_string (lb_session R) client) = Some client"
    using relay(3) by (simp add: identity_ok_def)
  have fields: "fm_kind m = FORWARDING_KIND" "fm_route m = route" "fm_client_peer m = peer_to_string (lb_session R) client"
    "fm_forwarding_id m = sid" by (simp_all add: m engine_message_def)
  show ?thesis
  proof (cases route)
    case (OneHop relay')
    moreover from this have "nc_route_mode (ce_config s) = Mode_OneHop"
      using route(1) by (simp add: client_route_ok_def client_route_valid_def split: RouteMode.splits)
    ultimately show ?thesis
      using relay(1,2) route(2)
      by (simp add: on_forwarding_def fields parsed on_exit_forward_def exit_context_def exit_route_peers_def
          with_forwarding_id_def mbind_def lift_result_def engine_refusal_def)
  next
    case (TwoHop entry exit a)
    then have mode: "nc_route_mode (ce_config s) = Mode_TwoHop" and peers: "client \<notin> {entry, exit}" "entry \<noteq> exit"
      using route(1) m(1) by (auto simp: client_route_ok_def client_route_valid_def split: RouteMode.splits)
    have "sock_port destination = 0 \<longleftrightarrow> extract_dns_payload packet = None"
      using packet(1) by (auto simp: extract_dns_payload_def Let_def split: if_splits)
    then show ?thesis
      using exit_forward_refused [OF relay(2) peers relay(3) packet(2) m(2) [unfolded TwoHop], of E channel] relay(1) route(2)
        TwoHop mode peers
      by (simp add: on_forwarding_def fields parsed engine_refusal_def)
  qed
qed

text \<open>
  C19: what the engine sends for a packet of the TUN device ends the relay it is sent to. The engine
  addresses the last hop of its route, and the relay there, unless it serves as an entry only, refuses the
  message with an error that ends its process: for a one-hop route because forwarding contexts exist for
  two-hop routes only; for a two-hop route because an IP packet has destination port 0, and because a DNS
  query does not come from the entry of the route.
\<close>

theorem engine_packet_ends_relay:
  assumes engine: "engine_ok B s" "engine_step E B (Cv_Tun packet) s = (Ok (), s')"
      "nn_calls (ce_node s') = nn_calls (ce_node s) @ [Call_Request p text]"
    and libs: "lb_session R = cb_session B" "identity_ok (cb_session B)" "forwarding_codec_ok (cb_codec B) (lb_codec R)"
    and relay: "own_peer R x = p" "nc_relay_role (rd_config x) \<noteq> Role_Entry"
      "\<forall>sid. ce_current_session_id s = Some sid \<longrightarrow> \<not> fm_contains (rd_exit_forwarding x) sid"
  shows "fst (daemon_run R ((F, request_event (client_peer_id B (ce_identity s)) i text channel) # es) x) =
    Err (engine_refusal (nc_route_mode (ce_config s)) packet)"
proof -
  obtain route sid protocol source destination payload frame where
    route: "p = List.last (route_peers route)" "client_route_ok B s route" and sid: "ce_current_session_id s = Some sid"
    and packet: "engine_packet packet = Some (protocol, source, destination, payload)"
      "length payload \<le> DEFAULT_MAXIMUM_PAYLOAD_SIZE"
    and encoded: "js_forwarding (cb_codec B) (engine_message (peer_to_string (cb_session B) (client_peer_id B (ce_identity s)))
       sid route protocol source destination frame payload) = Some text"
    by (rule engine_sends [OF engine])
  show ?thesis
  proof (rule forwarding_request_run [OF libs(3) encoded])
    fix x' :: "'a RelayDaemon"
    assume x': "rd_config x' = rd_config x" "rd_identity x' = rd_identity x"
      "rd_client_forwarding x' = rd_client_forwarding x" "rd_exit_forwarding x' = rd_exit_forwarding x"
    then have "own_peer R x' = List.last (route_peers route)" using relay(1) route(1) by (simp add: own_peer_def)
    then show "fst (on_forwarding F R (client_peer_id B (ce_identity s)) channel
        (engine_message (peer_to_string (cb_session B) (client_peer_id B (ce_identity s)))
          sid route protocol source destination frame payload) x') =
      Err (engine_refusal (nc_route_mode (ce_config s)) packet)"
      using relay sid libs x' by (intro engine_message_refused [OF packet route(2)]) simp_all
  qed
qed

subsection \<open>An example of both\<close>

definition demo_engine_chan :: EncryptedChannel where
  "demo_engine_chan = demo_chan_s\<lparr>ec_session :=
     derive_session demo_lib (SessionId [8]) (PeerId [2]) (OneHop (PeerId [2])) Initiator [11] ''1.0''\<rparr>"

definition demo_tun_packet :: bytes where
  "demo_tun_packet = replicate 20 0"

definition demo_engine_message :: ForwardingMessage where
  "demo_engine_message = engine_message [CHR ''p''] (SessionId [8]) (OneHop (PeerId [2])) Fp_Ip (SocketV4 TUN_ADDRESS 0)
     (SocketV4 (v4_from_octets [0, 0, 0, 0]) 0)
     (projr (fst (data_plane_send demo_json demo_lib (plane_of demo_engine_chan) demo_tun_packet))) demo_tun_packet"

definition demo_client_codec :: ClientCodec where
  "demo_client_codec = RelayCodec.extend
     (demo_codec\<lparr>js_forwarding := \<lambda>m. if m = demo_engine_message then Some [] else None\<rparr>)
     \<lparr>js_parse_metadata = (\<lambda>_. None), js_metadata_request = (\<lambda>_. Some [])\<rparr>"

definition demo_client_lib :: ClientLib where
  "demo_client_lib = \<lparr>cb_session = demo_lib, cb_channel = demo_json, cb_addr = demo_addr_lib, cb_codec = demo_client_codec,
     cb_swarm = demo_swarm, cb_route_debug = (\<lambda>_. [])\<rparr>"

definition demo_client_env :: ClientEnv where
  "demo_client_env = \<lparr>cv_time = 0, cv_time2 = 0, cv_time3 = 0, cv_session_id = SessionId [8], cv_secret = [1]\<rparr>"

definition demo_engine :: ClientEngine where
  "demo_engine = \<lparr>ce_config = demo_config, ce_identity = Keypair [112], ce_node = \<lparr>nn_calls = []\<rparr>,
     ce_candidates = [demo_candidate 2], ce_pending_session = None, ce_active_channel = Some demo_engine_chan,
     ce_active_route = Some (OneHop (PeerId [2])), ce_exit_peer = Some (PeerId [2]),
     ce_current_session_id = Some (SessionId [8]),
     ce_state = \<lparr>cs_alive = True, cs_ready = True, cs_health = ''healthy'', cs_status = ''online'', cs_route = []\<rparr>,
     ce_tun_out = Some []\<rparr>"

lemma demo_engine_ok: "engine_ok demo_client_lib demo_engine"
  by (simp add: engine_ok_def client_channel_ok_def client_route_ok_def client_route_valid_def demo_engine_def demo_engine_chan_def demo_chan_s_def
      channel_inv_def binding_simps sem_simps demo_candidate_def demo_client_lib_def client_peer_id_def demo_lib_def demo_config_def)

lemma demo_engine_sent:
  obtains d where "data_plane_send demo_json demo_lib (plane_of demo_engine_chan) demo_tun_packet =
    (Ok (projr (fst (data_plane_send demo_json demo_lib (plane_of demo_engine_chan) demo_tun_packet))), d)"
proof -
  have "is_ok (fst (data_plane_send demo_json demo_lib (plane_of demo_engine_chan) demo_tun_packet))" by code_simp
  then show thesis
    using that by (cases "data_plane_send demo_json demo_lib (plane_of demo_engine_chan) demo_tun_packet")
      (auto simp: is_ok_def split: sum.splits)
qed


lemma demo_engine_step:
  "\<exists>s'. engine_step E demo_client_lib (Cv_Tun demo_tun_packet) demo_engine = (Ok (), s') \<and>
     nn_calls (ce_node s') = [Call_Request (PeerId [2]) []]"
proof -
  obtain d where sent: "data_plane_send demo_json demo_lib (plane_of demo_engine_chan) demo_tun_packet =
    (Ok (projr (fst (data_plane_send demo_json demo_lib (plane_of demo_engine_chan) demo_tun_packet))), d)"
    by (rule demo_engine_sent)
  have opened: "data_plane_open demo_engine_chan DEFAULT_MAXIMUM_PAYLOAD_SIZE = Ok (plane_of demo_engine_chan)"
    by (simp add: data_plane_open_def demo_engine_chan_def demo_chan_s_def DEFAULT_MAXIMUM_PAYLOAD_SIZE_def)
  have packet: "extract_dns_payload demo_tun_packet = None" "length demo_tun_packet = 20"
    "demo_tun_packet ! 16 = 0" "demo_tun_packet ! 17 = 0" "demo_tun_packet ! 18 = 0" "demo_tun_packet ! 19 = 0"
    by (simp_all add: demo_tun_packet_def extract_dns_payload_def)
  have peer: "peer_to_string demo_lib (client_peer_id demo_client_lib (Keypair [112])) = [CHR ''p'']"
  proof -
    have "peer_to_string demo_lib (PeerId [112]) = [CHR ''p'']" by code_simp
    then show ?thesis by (simp add: client_peer_id_def demo_client_lib_def demo_lib_def)
  qed
  have lib: "cb_session demo_client_lib = demo_lib" "cb_channel demo_client_lib = demo_json"
    "js_forwarding (cb_codec demo_client_lib) demo_engine_message = Some []"
    by (simp_all add: demo_client_lib_def demo_client_codec_def RelayCodec.extend_def)
  have engine: "ce_active_channel demo_engine = Some demo_engine_chan" "ce_active_route demo_engine = Some (OneHop (PeerId [2]))"
    "ce_exit_peer demo_engine = Some (PeerId [2])" "ce_current_session_id demo_engine = Some (SessionId [8])"
    "ce_identity demo_engine = Keypair [112]" "nn_calls (ce_node demo_engine) = []"
    by (simp_all add: demo_engine_def)
  have "engine_on_tun_packet demo_client_lib demo_tun_packet demo_engine =
      (Ok (), engine_request demo_client_lib (PeerId [2]) (Some [])
        (demo_engine\<lparr>ce_active_channel := Some (dp_channel d)\<rparr>))"
    using lib(3) by (simp add: engine_on_tun_packet_def engine packet engine_send_def opened lib(1,2) peer
        demo_engine_message_def, subst sent, simp add: engine lib(1) peer)
  then show ?thesis
    by (simp add: engine_step_def engine_request_def request_discovery_def node_log_def engine)
qed

theorem engine_packet_ends_relay_witness:
  "fst (daemon_run (demo_relay_lib\<lparr>lb_codec := demo_codec\<lparr>js_parse_forwarding := \<lambda>_. Some demo_engine_message\<rparr>\<rparr>)
      [(demo_step_env, request_event (PeerId [112]) 0 [] 0)] demo_daemon) = Err (Re_Forwarding [] Fwd_InvalidRoute)"
proof -
  let ?R = "demo_relay_lib\<lparr>lb_codec := demo_codec\<lparr>js_parse_forwarding := \<lambda>_. Some demo_engine_message\<rparr>\<rparr>"
  obtain s' where s': "engine_step demo_client_env demo_client_lib (Cv_Tun demo_tun_packet) demo_engine = (Ok (), s')"
    "nn_calls (ce_node s') = nn_calls (ce_node demo_engine) @ [Call_Request (PeerId [2]) []]"
    using demo_engine_step [of demo_client_env] by (auto simp: demo_engine_def)
  have "client_peer_id demo_client_lib (ce_identity demo_engine) = PeerId [112]"
    by (simp add: client_peer_id_def demo_client_lib_def demo_lib_def demo_engine_def)
  moreover have "engine_refusal (nc_route_mode (ce_config demo_engine)) demo_tun_packet = Re_Forwarding [] Fwd_InvalidRoute"
    by (simp add: engine_refusal_def demo_engine_def demo_config_def)
  moreover have "own_peer ?R demo_daemon = PeerId [2]"
    by (simp add: own_peer_def demo_relay_lib_def demo_lib_def demo_daemon_fields)
  ultimately show ?thesis
    using engine_packet_ends_relay [OF demo_engine_ok s', of ?R demo_daemon demo_step_env 0 0 "[]"] demo_identity_ok
    by (simp add: demo_relay_lib_def demo_client_lib_def forwarding_codec_ok_def demo_client_codec_def RelayCodec.extend_def
        demo_codec_def demo_daemon_fields demo_config_def fm_contains_def split: if_splits)
qed


subsection \<open>The request of the desktop client at the entry\<close>

text \<open>With an accepted configuration the request is complete, as soon as it has a destination.\<close>

lemma build_protocol_request_complete:
  assumes config: "from_map A values = Ok c" and two_hop: "is_two_hop route"
    and mode: "nc_udp_enabled c \<or> nc_dns_enabled c" "nc_udp_enabled c \<longrightarrow> nc_allowed_exit_destinations c \<noteq> []"
  obtains m packet where "build_protocol_request K c route sid client payload envelope = Ok m"
    "fm_forwarding_id m = sid" "fm_client_peer m = peer_to_string K client" "fm_route m = route" "fm_data m = envelope"
    "fm_packet m = Some packet" "packet_complete packet" "fp_payload packet = payload"
    "fp_session_id packet = sid" "fp_flow_id packet = sid" "fp_route_id packet = sid"
proof -
  have valid: "list_all canonical_destination (nc_allowed_exit_destinations c)" "exit_valid c"
    using config config_check_Ok [of A c] config_read_Ok(2) parse_allowed_destinations_Ok
    by (auto simp: from_map_def rbind_Ok)
  have destination: "\<exists>a. socket_parse d = Some a \<and> sock_port a \<noteq> 0" if "d \<in> set (nc_allowed_exit_destinations c)" for d
    using valid(1) that by (auto simp: list_all_iff canonical_destination_def split: option.splits)
  obtain en ex ad where route: "route = TwoHop en ex ad" using two_hop by (cases route) auto
  show thesis
  proof (cases "nc_udp_enabled c")
    case True
    then obtain d ds where "nc_allowed_exit_destinations c = d # ds" using mode(2) by (cases "nc_allowed_exit_destinations c") auto
    with True destination [of d] show thesis
      using that by (auto simp: build_protocol_request_def route packet_complete_def)
  next
    case False
    then obtain d where "nc_dns_server c = Some d" "d \<in> set (nc_allowed_exit_destinations c)" "nc_dns_enabled c"
      using mode valid(2) by (auto simp: exit_valid_def)
    with False destination [of d] show thesis
      using that by (auto simp: build_protocol_request_def route packet_complete_def)
  qed
qed



end
