(* ===== verification/Client_Android.thy ===== *)
theory Client_Android
  imports Client_Engine
begin

text \<open>
  \<open>client/src/lib.rs\<close> and \<open>client/src/android_tun.rs\<close>: the core behind the Android VPN service. The flag
  \<open>RUNNING\<close> is a boolean of the state; \<open>start_core\<close> is the thread that the service starts up to the loop of
  the engine, with the results of \<open>dup\<close> as arguments, \<open>tun_read_loop\<close> the thread that reads the TUN
  descriptor, over the results of its reads, and \<open>tun_write_loop\<close> the one that writes to it. The file
  behind a device is a parameter. The lines that \<open>log_tun_packet\<close> prints are its result; \<open>None\<close> is the panic
  of an index out of bounds.
\<close>

unbundle bit_operations_syntax

subsection \<open>The log of packets\<close>

definition format_ipv4 :: "bytes \<Rightarrow> string" where
  "format_ipv4 bs =
     (if length bs < 4 then ''invalid''
      else show_nat (unat (bs ! 0)) @ ''.'' @ show_nat (unat (bs ! 1)) @ ''.'' @ show_nat (unat (bs ! 2)) @ ''.'' @
        show_nat (unat (bs ! 3)))"

fun ipv6_groups :: "bytes \<Rightarrow> string list option" where
  "ipv6_groups [] = Some []"
| "ipv6_groups [a] = None"
| "ipv6_groups (a # b # rest) = map_option (\<lambda>groups. hex [a, b] # groups) (ipv6_groups rest)"

definition format_ipv6 :: "bytes \<Rightarrow> string option" where
  "format_ipv6 bs = (if length bs < 16 then Some ''invalid'' else map_option (join (CHR '':'')) (ipv6_groups bs))"

definition packet_slice :: "nat \<Rightarrow> nat \<Rightarrow> bytes \<Rightarrow> bytes" where
  "packet_slice from until packet = take (until - from) (drop from packet)"

definition logged_protocol :: "bytes \<Rightarrow> u16 option" where
  "logged_protocol packet =
     (let version = drop_bit 4 (packet ! 0) in
      if version = 4 then Some (if length packet \<ge> 10 then ucast (packet ! 9) else 0)
      else if version = 6 then
        (if length packet \<ge> 6 then
           (if length packet > 7 then Some (push_bit 8 (ucast (packet ! 6)) OR ucast (packet ! 7)) else None)
         else Some 0)
      else Some 0)"

definition logged_addresses :: "bytes \<Rightarrow> (string \<times> string) option" where
  "logged_addresses packet =
     (let version = drop_bit 4 (packet ! 0) in
      if version = 4 \<and> length packet \<ge> 20
      then Some (format_ipv4 (packet_slice 12 16 packet), format_ipv4 (packet_slice 16 20 packet))
      else if version = 6 \<and> length packet \<ge> 40 then
        (case (format_ipv6 (packet_slice 8 24 packet), format_ipv6 (packet_slice 24 40 packet)) of
           (Some src, Some dst) \<Rightarrow> Some (src, dst)
         | _ \<Rightarrow> None)
      else Some (''unknown'', ''unknown''))"

definition log_tun_packet :: "string \<Rightarrow> bytes \<Rightarrow> string list option" where
  "log_tun_packet direction packet =
     (if packet = [] then Some [''VPN_TUN_PACKET_RX length=0'']
      else case logged_protocol packet of
          None \<Rightarrow> None
        | Some protocol \<Rightarrow>
          (case logged_addresses packet of
             None \<Rightarrow> None
           | Some (src, dst) \<Rightarrow>
             Some
               [''VPN_TUN_PACKET_RX length='' @ show_nat (length packet) @ '' direction='' @ direction,
                ''TUN_PACKET '' @ direction @ '' len='' @ show_nat (length packet) @ '' version='' @
                  show_nat (unat (drop_bit 4 (packet ! 0))) @ '' protocol='' @ show_nat (unat protocol) @
                  '' src='' @ src @ '' dst='' @ dst]))"

subsection \<open>The thread that reads the device\<close>

datatype tun_read = Read_Bytes bytes | Read_WouldBlock | Read_Error

datatype reader_end = Reader_Waiting | Reader_Stopped | Reader_Closed | Reader_Panicked

text \<open>
  A turn sees the flag and then the result of the read. The result is the packets handed to the engine
  and what the thread does after the given turns.
\<close>

fun tun_read_loop :: "(bool \<times> tun_read) list \<Rightarrow> bytes list \<times> reader_end" where
  "tun_read_loop [] = ([], Reader_Waiting)"
| "tun_read_loop ((running, r) # rest) =
     (if \<not> running then ([], Reader_Stopped)
      else case r of
          Read_Bytes packet \<Rightarrow>
            if packet = [] then tun_read_loop rest
            else (case log_tun_packet ''INBOUND'' packet of
                None \<Rightarrow> ([], Reader_Panicked)
              | Some _ \<Rightarrow> (case tun_read_loop rest of (packets, e) \<Rightarrow> (packet # packets, e)))
        | Read_WouldBlock \<Rightarrow> tun_read_loop rest
        | Read_Error \<Rightarrow> ([], Reader_Closed))"

text \<open>
  The thread that writes: \<open>write\<close> is \<open>write_all\<close> on the file, whose result is ignored; a turn is a packet of
  the engine and the flag the thread sees when it has received it.
\<close>

fun tun_write_loop :: "('f \<Rightarrow> bytes \<Rightarrow> (string + unit) \<times> 'f) \<Rightarrow> (bytes \<times> bool) list \<Rightarrow> 'f \<Rightarrow> 'f" where
  "tun_write_loop write [] file = file"
| "tun_write_loop write ((packet, running) # rest) file =
     (if \<not> running then file else tun_write_loop write rest (snd (write file packet)))"

lemma tun_write_loop_writes:
  "tun_write_loop w turns f = foldl (\<lambda>f packet. snd (w f packet)) f (map fst (takeWhile snd turns))"
  by (induction w turns f rule: tun_write_loop.induct) auto

subsection \<open>The device over a file\<close>

record 'f TunFile =
  tf_read :: "'f \<Rightarrow> nat \<Rightarrow> (string + bytes) \<times> 'f"
  tf_write_all :: "'f \<Rightarrow> bytes \<Rightarrow> (string + unit) \<times> 'f"

record 'f AndroidTunDevice =
  at_file :: 'f
  at_config :: TunConfig

definition android_from_file :: "'f \<Rightarrow> TunConfig \<Rightarrow> 'f AndroidTunDevice" where
  "android_from_file file c = \<lparr>at_file = file, at_config = c\<rparr>"

definition android_read_packet ::
  "'f TunFile \<Rightarrow> 'f AndroidTunDevice \<Rightarrow> (TunError + NetworkPacket option) \<times> 'f AndroidTunDevice" where
  "android_read_packet F d =
     (case tf_read F (at_file d) 65535 of
        (Inl e, file) \<Rightarrow> (Err (Tun_ReadFailed e), d\<lparr>at_file := file\<rparr>)
      | (Inr bs, file) \<Rightarrow>
          (if bs = [] then Ok None
           else case network_packet_new bs (tu_maximum_packet_size (at_config d)) (tu_mtu (at_config d)) of
               Inl e \<Rightarrow> Err (Tun_InvalidPacket e)
             | Inr p \<Rightarrow> Ok (Some p),
           d\<lparr>at_file := file\<rparr>))"

definition android_write_packet ::
  "'f TunFile \<Rightarrow> 'f AndroidTunDevice \<Rightarrow> NetworkPacket \<Rightarrow> (TunError + unit) \<times> 'f AndroidTunDevice" where
  "android_write_packet F d packet =
     (case tf_write_all F (at_file d) (np_bytes packet) of
        (Inl e, file) \<Rightarrow> (Err (Tun_WriteFailed e), d\<lparr>at_file := file\<rparr>)
      | (Inr _, file) \<Rightarrow> (Ok (), d\<lparr>at_file := file\<rparr>))"

definition android_tun_close :: "'f AndroidTunDevice \<Rightarrow> (TunError + unit) \<times> 'f AndroidTunDevice" where
  "android_tun_close d = (Ok (), d)"

definition android_tun :: "'f TunFile \<Rightarrow> 'f AndroidTunDevice TunDeviceOps" where
  "android_tun F = \<lparr>td_read_packet = android_read_packet F, td_write_packet = android_write_packet F,
     td_close = android_tun_close\<rparr>"

text \<open>The device satisfies the contract of a source; it does not bound what is written to it.\<close>

interpretation android_device: tun_source "android_tun F" "\<lambda>_. True"
  "\<lambda>d. min (tu_mtu (at_config d)) (tu_maximum_packet_size (at_config d))" for F
proof (standard, goal_cases)
  case (2 d p d')
  then show ?case
    by (auto simp: android_tun_def android_read_packet_def dest!: network_packet_new_Ok
        split: if_splits prod.splits sum.splits)
qed (auto simp: android_tun_def android_read_packet_def android_write_packet_def android_tun_close_def
      split: if_splits prod.splits sum.splits)

text \<open>
  So a frame that the bridge reads from it carries a well-formed packet within the configured limits.
\<close>

theorem android_frame_well_formed:
  assumes "read_frame (android_tun F) J L b = (Ok (Some frame), b')"
  shows "\<exists>p f. packet_wf p \<and>
    packet_len p \<le> min (tu_mtu (at_config (tb_device b))) (tu_maximum_packet_size (at_config (tb_device b))) \<and>
    data_plane_send J L (tb_data_plane b) (np_bytes p) = (Ok f, tb_data_plane b')"
  using android_device.read_frame_Some [OF TrueI assms] by blast

subsection \<open>Start and stop\<close>

definition android_settings :: "(string \<times> string) list" where
  "android_settings =
     [(''GHOST_NODE_ID'', ''android-client-1''),
      (''GHOST_LISTEN_ADDRESS'', ''/ip4/0.0.0.0/udp/0/quic-v1''),
      (''GHOST_ADVERTISED_ADDRESS'', ''/ip4/10.0.2.2/udp/0/quic-v1''),
      (''GHOST_NETWORK_ENVIRONMENT'', ''development''),
      (''GHOST_RELAY_ROLE'', ''client''),
      (''GHOST_LOG_LEVEL'', ''info''),
      (''GHOST_IDENTITY_PATH'', ''/data/data/com.example.magicblock_app/files/ghost-layer.key''),
      (''GHOST_BOOTSTRAP_PEERS'',
       ''/ip4/10.0.2.2/udp/7000/quic-v1/p2p/12D3KooWF9mfD7d2VEabciAStgdfiSA1pXi5rcyYmpSne2aXyDN6''),
      (''GHOST_CONNECTION_TIMEOUT_SECS'', ''30''),
      (''GHOST_HEARTBEAT_INTERVAL_SECS'', ''10''),
      (''GHOST_HEARTBEAT_FRESHNESS_SECS'', ''60''),
      (''GHOST_DEGRADED_LATENCY_MS'', ''500''),
      (''GHOST_SOFTWARE_VERSION'', ''0.1.0''),
      (''GHOST_PROTOCOL_VERSION'', ''1.0''),
      (''GHOST_DISCOVERY_REQUIRED_TRANSPORT'', ''quic''),
      (''GHOST_DISCOVERY_REQUIRED_CAPABILITIES'', ''relay''),
      (''GHOST_ROUTE_MODE'', ''one-hop'')]"

definition android_env :: "env_map \<Rightarrow> env_map" where
  "android_env values = foldl (\<lambda>m (k, v). fmupd k v m) values android_settings"

datatype core_outcome =
    Core_AlreadyRunning
  | Core_DupFailed
  | Core_EngineFailed ClientError
  | Core_EngineRunning ClientEngine

text \<open>\<open>fd_read\<close> and \<open>fd_write\<close> are the results of \<open>dup\<close>; the second component is the flag afterwards.\<close>

definition start_core ::
  "ClientLib \<Rightarrow> string + Keypair \<Rightarrow> string + NetworkNode \<Rightarrow> env_map \<Rightarrow> int \<Rightarrow> int \<Rightarrow> bool \<Rightarrow> core_outcome \<times> bool" where
  "start_core B identity node values fd_read fd_write running =
     (if running then (Core_AlreadyRunning, running)
      else if fd_read < 0 \<or> fd_write < 0 then (Core_DupFailed, True)
      else case engine_start B identity node True (android_env values) of
          Inl e \<Rightarrow> (Core_EngineFailed e, True)
        | Inr s \<Rightarrow> (Core_EngineRunning s, True))"

definition stop_core :: "bool \<Rightarrow> bool" where
  "stop_core running = False"

subsection \<open>When the log panics\<close>

text \<open>A packet of version 6 with six or seven bytes.\<close>

definition short_ipv6 :: "bytes \<Rightarrow> bool" where
  "short_ipv6 packet \<longleftrightarrow> length packet \<in> {6, 7} \<and> drop_bit 4 (packet ! 0) = 6"

lemma ipv6_groups_even: "ipv6_groups bs = None \<longleftrightarrow> odd (length bs)"
  by (induction bs rule: ipv6_groups.induct) auto

lemma format_ipv6_slice: "format_ipv6 (packet_slice a (a + 16) packet) \<noteq> None"
proof (cases "length (packet_slice a (a + 16) packet) < 16")
  case False
  then have "length (packet_slice a (a + 16) packet) = 16" by (simp add: packet_slice_def)
  then have "ipv6_groups (packet_slice a (a + 16) packet) \<noteq> None" by (simp add: ipv6_groups_even)
  then show ?thesis by (simp add: format_ipv6_def)
qed (simp add: format_ipv6_def)

lemma logged_addresses_total: "logged_addresses packet \<noteq> None"
  using format_ipv6_slice [of 8 packet] format_ipv6_slice [of 24 packet]
  by (auto simp: logged_addresses_def Let_def)

lemma log_tun_packet_None: "log_tun_packet direction packet = None \<longleftrightarrow> short_ipv6 packet"
proof -
  have "logged_protocol packet = None \<longleftrightarrow> short_ipv6 packet"
    by (auto simp: logged_protocol_def short_ipv6_def Let_def)
  moreover have "packet \<noteq> []" if "short_ipv6 packet" using that by (auto simp: short_ipv6_def)
  ultimately show ?thesis
    using logged_addresses_total [of packet] by (auto simp: log_tun_packet_def split: option.splits)
qed

lemma log_tun_packet_Some: "log_tun_packet direction packet = Some lines \<Longrightarrow> \<not> short_ipv6 packet"
  using log_tun_packet_None [of direction packet] by simp

definition reader_continues :: "bool \<times> tun_read \<Rightarrow> bool" where
  "reader_continues turn =
     (fst turn \<and> (case snd turn of Read_Bytes packet \<Rightarrow> \<not> short_ipv6 packet | Read_WouldBlock \<Rightarrow> True | Read_Error \<Rightarrow> False))"

fun read_packet :: "tun_read \<Rightarrow> bytes" where
  "read_packet (Read_Bytes packet) = packet"
| "read_packet _ = []"

text \<open>
  C20: the thread that reads the TUN device hands every packet to the engine, unchanged and in order, until
  the flag is cleared or a read fails, except that it panics on a packet of version 6 with six or seven
  bytes, which the log indexes beyond its end.
\<close>

theorem tun_reader_passes_packets:
  "tun_read_loop turns =
     (filter (\<lambda>p. p \<noteq> []) (map (read_packet \<circ> snd) (takeWhile reader_continues turns)),
      (case dropWhile reader_continues turns of
         [] \<Rightarrow> Reader_Waiting
       | (False, _) # _ \<Rightarrow> Reader_Stopped
       | (True, Read_Error) # _ \<Rightarrow> Reader_Closed
       | (True, _) # _ \<Rightarrow> Reader_Panicked))"
proof (induction turns rule: tun_read_loop.induct)
  case (2 running r rest)
  have "\<not> short_ipv6 []" by (simp add: short_ipv6_def)
  with 2 show ?case
    by (cases r) (auto simp: reader_continues_def log_tun_packet_None split: option.splits prod.splits
        dest: log_tun_packet_Some)
qed simp

subsection \<open>The configuration of the core\<close>

lemma android_role: "env_get (android_env values) RELAY_ROLE = Some ''client''"
  by (simp add: env_get_def android_env_def android_settings_def)

lemma config_read_role: "config_read values = Ok c \<Longrightarrow> is_ok (parse_or_default relay_role_from_str values RELAY_ROLE ''both'')"
  by (auto simp: config_read_def rbind_Ok)

text \<open>
  C21: the core of the Android client does not start. Whatever the environment, the settings that
  \<open>startCore\<close> injects give the relay role \<open>client\<close>, which the configuration refuses, so the engine ends with
  an error of the configuration before it loads its key or listens; and the flag stays set, so that the
  next start is ignored until the service stops the core.
\<close>

theorem android_core_fails:
  "fst (start_core B identity node values fd_read fd_write running) \<noteq> Core_EngineRunning s \<and>
   (\<not> running \<and> 0 \<le> fd_read \<and> 0 \<le> fd_write \<longrightarrow>
      (\<exists>e. start_core B identity node values fd_read fd_write running = (Core_EngineFailed (Cl_Config e), True))) \<and>
   start_core B identity node values fd_read' fd_write' (snd (start_core B identity node values fd_read fd_write running)) =
     (Core_AlreadyRunning, True)"
proof -
  have "\<not> is_ok (parse_or_default relay_role_from_str (android_env values) RELAY_ROLE ''both'')"
    by (simp add: parse_or_default_def android_role unwrap_or_def relay_role_from_str_def text_eval)
  then obtain e where "config_read (android_env values) = Err e"
    using config_read_role [of "android_env values"] by (cases "config_read (android_env values)") auto
  then have "engine_start B identity node True (android_env values) = Err (Cl_Config e)"
    by (simp add: engine_start_def from_map_def)
  then show ?thesis by (auto simp: start_core_def)
qed


definition demo_android_lib :: ClientLib where
  "demo_android_lib = \<lparr>cb_session = demo_lib, cb_channel = demo_json, cb_addr = demo_addr_lib,
     cb_codec = RelayCodec.extend demo_codec \<lparr>js_parse_metadata = (\<lambda>_. None), js_metadata_request = (\<lambda>_. Some [])\<rparr>,
     cb_swarm = demo_swarm, cb_route_debug = (\<lambda>_. [])\<rparr>"

theorem android_core_fails_witness:
  "\<exists>e. start_core demo_android_lib (Ok (Keypair [1])) (Ok \<lparr>nn_calls = []\<rparr>) fmempty 7 8 False = (Core_EngineFailed (Cl_Config e), True)"
  using android_core_fails [of demo_android_lib "Ok (Keypair [1])" "Ok \<lparr>nn_calls = []\<rparr>" fmempty 7 8 False] by auto

end
