(* ===== verification/Node_Platform.thy ===== *)
theory Node_Platform
  imports Config Effects
begin

text \<open>
  The edges of a node towards its platform: the file that keeps its key (\<open>network/src/peer.rs\<close>), the codec
  that carries requests and responses over a stream (\<open>network/src/discovery.rs\<close>), and the opening of the TUN
  device on Windows (\<open>network/src/tun/windows.rs\<close>). File systems, streams, the TUN library and the encoding
  of keys are parameters.
\<close>

subsection \<open>The key of a node\<close>

text \<open>\<open>fs_parent\<close> is the parent directory unless it is empty; \<open>fs_set_private\<close> sets the mode \<open>0o600\<close>.\<close>

record 'f FileSystem =
  fs_exists :: "'f \<Rightarrow> string \<Rightarrow> bool"
  fs_read :: "'f \<Rightarrow> string \<Rightarrow> string + bytes"
  fs_parent :: "string \<Rightarrow> string option"
  fs_create_dir_all :: "'f \<Rightarrow> string \<Rightarrow> (string + unit) \<times> 'f"
  fs_create_new :: "'f \<Rightarrow> string \<Rightarrow> (string + unit) \<times> 'f"
  fs_write_all :: "'f \<Rightarrow> string \<Rightarrow> bytes \<Rightarrow> (string + unit) \<times> 'f"
  fs_set_private :: "'f \<Rightarrow> string \<Rightarrow> (string + unit) \<times> 'f"

record KeyCodec =
  kc_encode :: "Keypair \<Rightarrow> bytes option"
  kc_decode :: "bytes \<Rightarrow> Keypair option"

text \<open>\<open>generated\<close> is the key that \<open>generate_ed25519\<close> would return; \<open>unix\<close> is the platform.\<close>

definition load_or_generate ::
  "'f FileSystem \<Rightarrow> KeyCodec \<Rightarrow> bool \<Rightarrow> string \<Rightarrow> Keypair \<Rightarrow> ('f, string, Keypair) eff" where
  "load_or_generate F K unix path generated = with_state (\<lambda>f.
     if fs_exists F f path then
       mbind (lift_result (\<lambda>e. ''read identity from '' @ path) (fs_read F f path)) (\<lambda>bytes.
       lift_option ''decode persisted libp2p identity'' (kc_decode K bytes))
     else
       mbind (case fs_parent F path of
           None \<Rightarrow> ret ()
         | Some parent \<Rightarrow>
           zoom id (\<lambda>x _. x) (\<lambda>e. ''create identity directory '' @ parent) (\<lambda>f. fs_create_dir_all F f parent)) (\<lambda>_.
       mbind (lift_option ''encode libp2p identity'' (kc_encode K generated)) (\<lambda>bytes.
       mbind (zoom id (\<lambda>x _. x) (\<lambda>e. ''create identity at '' @ path) (\<lambda>f. fs_create_new F f path)) (\<lambda>_.
       mbind (zoom id (\<lambda>x _. x) (\<lambda>e. ''write persisted libp2p identity'') (\<lambda>f. fs_write_all F f path bytes)) (\<lambda>_.
       mbind (if unix then zoom id (\<lambda>x _. x) id (\<lambda>f. fs_set_private F f path) else ret ()) (\<lambda>_.
       ret generated))))))"

text \<open>
  What the code relies on: a file that was created and then written holds what was written, also after its
  mode was changed, and the library decodes the keys it encoded.
\<close>

definition file_system_ok :: "'f FileSystem \<Rightarrow> bool" where
  "file_system_ok F \<longleftrightarrow>
     (\<forall>f path f1 bytes f2. fs_create_new F f path = (Ok (), f1) \<longrightarrow> fs_write_all F f1 path bytes = (Ok (), f2) \<longrightarrow>
        fs_exists F f2 path \<and> fs_read F f2 path = Ok bytes) \<and>
     (\<forall>f path r f'. fs_set_private F f path = (r, f') \<longrightarrow>
        fs_exists F f' path = fs_exists F f path \<and> fs_read F f' path = fs_read F f path)"

definition key_codec_ok :: "KeyCodec \<Rightarrow> bool" where
  "key_codec_ok K \<longleftrightarrow> (\<forall>k b. kc_encode K k = Some b \<longrightarrow> kc_decode K b = Some k)"

text \<open>
  A node keeps its identity: once a start has returned a key, later starts return the same key, whatever
  key they would generate, and leave the file alone.
\<close>

theorem identity_persists:
  assumes laws: "file_system_ok F" "key_codec_ok K"
    and first: "load_or_generate F K unix path generated f = (Ok key, f')"
  shows "load_or_generate F K unix' path generated' f' = (Ok key, f')"
proof (cases "fs_exists F f path")
  case True
  with first have "f' = f" by (auto simp: load_or_generate_def eff_Ok)
  with first True show ?thesis by (simp add: load_or_generate_def)
next
  case False
  then obtain f1 bytes f2 f3 where steps: "kc_encode K generated = Some bytes" "fs_create_new F f1 path = (Ok (), f2)"
    "fs_write_all F f2 path bytes = (Ok (), f3)" "key = generated"
    "f' = f3 \<or> (\<exists>r. fs_set_private F f3 path = (r, f'))"
    using first by (auto simp: load_or_generate_def eff_Ok split: if_splits)
  then have "fs_exists F f' path" "fs_read F f' path = Ok bytes" "kc_decode K bytes = Some key"
    using laws unfolding file_system_ok_def key_codec_ok_def by metis+
  then show ?thesis by (simp add: load_or_generate_def)
qed

text \<open>Files in memory.\<close>

definition demo_files :: "(string, bytes) fmap FileSystem" where
  "demo_files = \<lparr>fs_exists = (\<lambda>f p. p |\<in>| fmdom f),
     fs_read = (\<lambda>f p. case fmlookup f p of None \<Rightarrow> Err ''not found'' | Some b \<Rightarrow> Ok b),
     fs_parent = (\<lambda>_. None), fs_create_dir_all = (\<lambda>f _. (Ok (), f)),
     fs_create_new = (\<lambda>f p. if p |\<in>| fmdom f then (Err ''exists'', f) else (Ok (), fmupd p [] f)),
     fs_write_all = (\<lambda>f p b. (Ok (), fmupd p (the (fmlookup f p) @ b) f)),
     fs_set_private = (\<lambda>f _. (Ok (), f))\<rparr>"

definition demo_key_codec :: KeyCodec where
  "demo_key_codec = \<lparr>kc_encode = (\<lambda>k. case k of Keypair b \<Rightarrow> Some b), kc_decode = (\<lambda>b. Some (Keypair b))\<rparr>"

theorem identity_persists_witness:
  "\<exists>f. load_or_generate demo_files demo_key_codec True ''k'' (Keypair [1]) fmempty = (Ok (Keypair [1]), f) \<and>
     load_or_generate demo_files demo_key_codec True ''k'' (Keypair [2]) f = (Ok (Keypair [1]), f)"
proof -
  have laws: "file_system_ok demo_files" "key_codec_ok demo_key_codec"
    by (auto simp: file_system_ok_def demo_files_def key_codec_ok_def demo_key_codec_def split: if_splits Keypair.splits)
  obtain f where f: "load_or_generate demo_files demo_key_codec True ''k'' (Keypair [1]) fmempty = (Ok (Keypair [1]), f)"
    by (simp add: load_or_generate_def demo_files_def demo_key_codec_def zoom_def)
  show ?thesis using f identity_persists [OF laws f] by blast
qed

subsection \<open>The codec of requests and responses\<close>

record 's AsyncStream =
  as_read_to_end :: "'s \<Rightarrow> (string + bytes) \<times> 's"
  as_write_all :: "'s \<Rightarrow> bytes \<Rightarrow> (string + unit) \<times> 's"
  as_close :: "'s \<Rightarrow> (string + unit) \<times> 's"

definition codec_read_request :: "'s AsyncStream \<Rightarrow> ('s, string, bytes) eff" where
  "codec_read_request S = as_read_to_end S"

definition codec_read_response :: "'s AsyncStream \<Rightarrow> ('s, string, bytes) eff" where
  "codec_read_response S = as_read_to_end S"

definition codec_write_request :: "'s AsyncStream \<Rightarrow> bytes \<Rightarrow> ('s, string, unit) eff" where
  "codec_write_request S request = mbind (\<lambda>io. as_write_all S io request) (\<lambda>_. as_close S)"

definition codec_write_response :: "'s AsyncStream \<Rightarrow> bytes \<Rightarrow> ('s, string, unit) eff" where
  "codec_write_response S response = mbind (\<lambda>io. as_write_all S io response) (\<lambda>_. as_close S)"

subsection \<open>Opening the Windows device\<close>

text \<open>The values given to the driver; the layer is always L3 and the interface is always brought up.\<close>

record TunSettings =
  ts_tun_name :: string
  ts_mtu :: u16
  ts_address :: "32 word"
  ts_destination :: "32 word"
  ts_netmask :: "32 word"

definition windows_tun_settings :: "TunConfig \<Rightarrow> TunSettings" where
  "windows_tun_settings c =
     \<lparr>ts_tun_name = tu_interface_name c, ts_mtu = of_nat (tu_mtu c), ts_address = v4_from_octets [10, 8, 0, 2],
      ts_destination = v4_from_octets [10, 8, 0, 0], ts_netmask = v4_from_octets [255, 255, 255, 0]\<rparr>"

definition windows_tun_open :: "(TunSettings \<Rightarrow> string + 'w) \<Rightarrow> TunConfig \<Rightarrow> TunError + 'w WindowsTunDevice" where
  "windows_tun_open create c =
     (case tun_config_validate c of
        Inl e \<Rightarrow> Err (InvalidConfiguration (config_error_to_string e))
      | Inr _ \<Rightarrow>
        if \<not> tu_enabled c then Err DeviceUnavailable
        else case create (windows_tun_settings c) of
            Inl e \<Rightarrow> Err (DeviceInitializationFailed
              (''Wintun driver or interface '' @ [CHR 0x27] @ tu_interface_name c @ [CHR 0x27] @ '' is unavailable: '' @ e))
          | Inr device \<Rightarrow> Ok \<lparr>wt_device = device, wt_config = c, wt_closed = False\<rparr>)"

text \<open>
  A device that opens has a valid configuration, is open, and the driver was given the configured MTU: it
  fits into 16 bits.
\<close>

theorem windows_tun_opens_valid:
  assumes "windows_tun_open create c = Ok d"
  shows "tun_valid c \<and> tu_enabled c \<and> wt_config d = c \<and> \<not> wt_closed d \<and>
    (\<exists>settings. create settings = Ok (wt_device d) \<and> unat (ts_mtu settings) = tu_mtu c)"
proof -
  have valid: "tun_valid c" and opened: "tu_enabled c" "create (windows_tun_settings c) = Ok (wt_device d)" "wt_config d = c" "\<not> wt_closed d"
    using assms tun_config_validate_Ok [of c]
    by (auto simp: windows_tun_open_def split: sum.splits if_splits)
  have "unat (ts_mtu (windows_tun_settings c)) = tu_mtu c"
    using valid by (simp add: tun_valid_def windows_tun_settings_def unsigned_of_nat take_bit_eq_mod)
  with valid opened show ?thesis by blast
qed

end
