(* ===== verification/Spec2Isabelle.thy ===== *)
theory Spec2Isabelle
  imports Tun_Bridge Nat_Table Return_Path Dns Os_Routing Candidate_Routing Relay_Managers Exit Config
    Relay_Daemon Two_Hop Client_Packets Relay_Health Client_Health Client_Main Client_Relay Client_Android Node_Platform
begin

text \<open>
  \<^bold>\<open>Ghost Layer: clients and relays of a two-hop privacy network.\<close>

  The program is three Rust crates under \<open>src/\<close>. \<open>network\<close> holds what every node uses: identities, the
  handshake and the encrypted session, the channel and the data plane over it, packets, routing decisions,
  address translation, DNS, TUN devices, routes of the operating system, the configuration and the wrapper
  around libp2p. \<open>relay\<close> is the daemon that serves as an entry or as an exit. \<open>client\<close> is the engine behind
  the Android service and the desktop client. A client learns the metadata of relays, selects a route of one
  or two of them, runs a handshake with the first hop and sends packets over the channel of that session;
  an entry runs a handshake of its own with the exit, decrypts the client's packets and encrypts them
  again for the exit; the exit checks them against a forwarding context and an allow-list, exchanges them
  with the outside and answers on the same way back.

  \<^bold>\<open>How the code is represented.\<close> A struct is a record and an enum a datatype, with the names of the source
  (the fields with a prefix per record, constructors with one where they would clash). \<open>HashMap\<close> and
  \<open>HashSet\<close> are finite maps and finite sets, \<open>Vec<u8>\<close> is a list of 8-bit words, counters are words of their
  width with the checked addition of the source written out. \<open>Result\<close> is a sum with \<open>Inl\<close> as \<open>Err\<close>. An operation on
  \<open>&mut self\<close> returns its result together with the new state, also when the result is an error
  (\<open>Effects\<close> has the combinators). A panic is \<open>None\<close> or an error of its own kind, and theorems say when
  there is none. Clock readings and random values are arguments. The local variables of an event loop are
  a record; an event is a step; a run is a finite list of events, each with the values the environment
  supplies, so a statement about all lists covers every prefix of an endless loop.

  \<^bold>\<open>Code outside of the repository is a parameter.\<close> Cryptography, libp2p identities and serde's JSON are the
  records \<open>SessionLib\<close>, \<open>ChannelJson\<close>, \<open>RelayCodec\<close> and \<open>ClientCodec\<close>; multiaddresses are \<open>AddrLib\<close>; the swarm
  is \<open>SwarmLib\<close>, which answers a call from the calls so far; sockets, TUN drivers, files, streams, the netsh
  program and the encoding of keys are records of operations on a state. Where a theorem needs documented
  behaviour of them it is a hypothesis: \<open>identity_ok\<close> (signatures and identities), \<open>dh_ok\<close> (key agreement is
  symmetric), \<open>aead_ok\<close> (what was sealed opens under the same key, nonce and data), \<open>channel_json_ok\<close> (what was
  written reads back), \<open>aead_limit_ok\<close> (the size of a ciphertext), \<open>forwarding_codec_ok\<close>, \<open>file_system_ok\<close> and
  \<open>key_codec_ok\<close>. The instances \<open>demo_\<dots>\<close> satisfy these laws and are used in the theorems named
  \<open>\<dots>_witness\<close>, which apply a theorem to a concrete run.

  \<^bold>\<open>The shared theories.\<close>
  \<^item> \<open>Ghost_Prelude\<close>: machine integers, byte encodings, lemmas on finite maps, the stable sort, and the
    interfaces that several components implement: \<open>event_machine\<close>, \<open>bounded_store\<close>, \<open>monotone_guard\<close>,
    \<open>once_guard\<close>, \<open>framed_channel\<close>, \<open>lossy_channel\<close>, \<open>total_comparator\<close>. Each is interpreted on the model of
    every component that fulfils it, and its lemmas carry the properties of that component.
  \<^item> \<open>Net_Types\<close>: session identifiers and the addresses of the standard library. \<open>Rust_Text\<close>: the parsers and
    printers of numbers, addresses and strings that the sources use. \<open>Effects\<close>: state with early returns, and
    the rules for computations that keep an invariant or avoid an error.

  \<^bold>\<open>The network crate.\<close>
  \<^item> \<open>Packet_Routing\<close> (\<open>packet.rs\<close>, \<open>mtu.rs\<close>, \<open>routing.rs\<close>): validation of packets, classification of addresses.
  \<^item> \<open>Session\<close> (\<open>session.rs\<close>): the handshake of two peers establishes sessions with crossed keys, either side
    accepts only what the other one signed for this route, session and version, nonces never repeat.
  \<^item> \<open>Channel\<close> (\<open>channel.rs\<close>): frames arrive completely and in order, replays are refused, the queue is bounded.
  \<^item> \<open>Data_Plane\<close> (\<open>data_plane.rs\<close>, \<open>pipeline.rs\<close>): the pipeline sends exactly valid packets to public addresses.
  \<^item> \<open>Tun_Bridge\<close> (\<open>tun/\<close>): devices under the contracts \<open>tun_source\<close> and \<open>tun_device\<close>; a packet crosses two devices
    unchanged. \<open>Node_Platform\<close> (\<open>tun/windows.rs\<close>, \<open>peer.rs\<close>, \<open>discovery.rs\<close>): opening the Windows device, the
    file of the key, the codec of requests.
  \<^item> \<open>Nat_Table\<close> (\<open>nat.rs\<close>): both directions of the translation are inverse to each other in every reachable
    table. \<open>Return_Path\<close> (\<open>return_path.rs\<close>): an entry is consumed once.
  \<^item> \<open>Dns\<close> (\<open>dns.rs\<close>): an accepted response belongs to the query. \<open>Os_Routing\<close> (\<open>os_routing.rs\<close>): a policy is
    installed completely or not at all, prefixes are printed and parsed.
  \<^item> \<open>Config\<close> (\<open>config.rs\<close>, \<open>error.rs\<close>): \<open>from_map\<close> accepts exactly the valid configurations.
  \<^item> \<open>Transport\<close> (\<open>transport.rs\<close>, \<open>discovery.rs\<close>, \<open>health.rs\<close>): the calls to the swarm and its events.

  \<^bold>\<open>The relay crate.\<close>
  \<^item> \<open>Relay_State\<close> (\<open>state.rs\<close>, \<open>health.rs\<close>, \<open>heartbeat.rs\<close>, \<open>metadata.rs\<close>, \<open>registry.rs\<close>): status and health.
  \<^item> \<open>Candidate_Routing\<close> (\<open>candidate.rs\<close>, \<open>routing.rs\<close>): a selected route is eligible, distinct and best.
  \<^item> \<open>Relay_Managers\<close> (\<open>core.rs\<close>, \<open>connection.rs\<close>, \<open>session_manager.rs\<close>): the life cycle and the limits.
  \<^item> \<open>Forwarding\<close> (\<open>forwarding.rs\<close>, \<open>forwarding_manager.rs\<close>): the context of a flow refines an abstract state
    machine; \<open>Exit\<close> (\<open>exit_network.rs\<close>, \<open>udp.rs\<close>, \<open>exit_handler.rs\<close>): the allow-list, the adapters and the handler
    of packets.
  \<^item> \<open>Relay_Daemon\<close> (\<open>main.rs\<close>): the start of the daemon and a definition per handler of its loop.
    \<open>Relay_Invariants\<close>: what every handler keeps, under the contract \<open>daemon_invariant\<close>. \<open>Relay_Runs\<close>: runs never
    panic, readiness, shutdown, and the configurations that start an exit. \<open>Relay_Flows\<close>: what an exit answers.
    \<open>Two_Hop\<close>: a packet that an entry accepts reaches the exit with the same payload. \<open>Relay_Health\<close>: the thread
    of the health endpoint, from the bytes of a request to the answer.

  \<^bold>\<open>The client crate.\<close>
  \<^item> \<open>Client_Packets\<close> (\<open>engine.rs\<close>): DNS packets and their checksum. \<open>fold_carry\<close> is total: its measure is the
    sum, and two turns are enough for any 32-bit sum.
  \<^item> \<open>Client_Engine\<close> (\<open>run_client\<close> of \<open>engine.rs\<close>): the engine never panics and its variables stay consistent.
    \<open>Client_Health\<close>: the endpoint that reports its state.
  \<^item> \<open>Client_Main\<close> (\<open>main.rs\<close>): the desktop client ends normally only with an authenticated answer and cleans up.
  \<^item> \<open>Client_Relay\<close>: a client against the relay's event loop, for the request of the desktop client and for the
    packets of the engine.
  \<^item> \<open>Client_Android\<close> (\<open>lib.rs\<close>, \<open>android_tun.rs\<close>): the threads around the engine, the settings, the device.

  \<^bold>\<open>Bounds.\<close> No definition uses fuel: loops are structural recursion, or functions with a termination proof
  (\<open>fold_carry\<close>, the scan of a DNS name, the search for a free port, which tries each port of the range at most
  once). Limits are the ones of the code, as numbers or as fields of the configuration.

  \<^bold>\<open>Not modelled.\<close> Logging and the JNI calls that only log; the construction of libp2p's swarm and of the
  behaviours (\<open>NetworkNode::new\<close>), which are calls of that library with fixed settings; the ownership of file
  descriptors; binding and time limits of the sockets of the health endpoints; the
  timing of \<open>tokio::select!\<close>, which is the order of the events; the source's unit and integration tests; the
  mobile application in Dart and Kotlin, the deployment files and the documents, which are not Rust.
  Threads share no state but flags, which are inputs of the loops that read them.
\<close>

end
